(* ===== verification/Prelude.thy ===== *)
theory Prelude
  imports Main "HOL-Library.Word" "HOL-Library.State_Monad"
begin

text \<open>
  The fragments of Go's standard library the sources use that are pure: the loops that update or
  remove the first match of a list, machine integers and \<open>time.Duration\<close> (64-bit words),
  \<open>time.Time\<close> with its saturating subtraction, decimal formatting, \<open>strings.ToLower\<close>,
  \<open>strings.Contains\<close>, \<open>strings.Join\<close>; and the collections \<open>go_const\<close> (constants to unfold) and
  \<open>emits_intro\<close> (the rules of the calculus of theory GoRuntime).
\<close>

named_theorems go_const "string and duration constants of the sources, to be unfolded"
named_theorems emits_intro "introduction rules of the emits calculus"

section \<open>Lists\<close>

text \<open>The recurring loop shape \<open>for i := range xs { if p(xs[i]) { xs[i] = f(xs[i]); break } }\<close>.\<close>

fun update_first :: "('a \<Rightarrow> bool) \<Rightarrow> ('a \<Rightarrow> 'a) \<Rightarrow> 'a list \<Rightarrow> 'a list" where
  "update_first p f [] = []"
| "update_first p f (x # xs) = (if p x then f x # xs else x # update_first p f xs)"

text \<open>The loop \<open>for i := range xs { if p(xs[i]) { xs = append(xs[:i], xs[i+1:]...); break } }\<close>.\<close>

fun remove_first :: "('a \<Rightarrow> bool) \<Rightarrow> 'a list \<Rightarrow> 'a list" where
  "remove_first p [] = []"
| "remove_first p (x # xs) = (if p x then xs else x # remove_first p xs)"

lemma length_update_first [simp]: "length (update_first p f xs) = length xs"
  by (induction xs) auto

lemma update_first_id: "\<not> list_ex p xs \<Longrightarrow> update_first p f xs = xs"
  by (induction xs) auto

lemma map_update_first:
  "(\<And>x. p x \<Longrightarrow> g (f x) = g x) \<Longrightarrow> map g (update_first p f xs) = map g xs"
  by (induction xs) auto

lemma find_update_first:
  "(\<And>x. p x \<Longrightarrow> p (f x)) \<Longrightarrow> find p (update_first p f xs) = map_option f (find p xs)"
  by (induction xs) auto

lemma find_update_first_other:
  "(\<And>x. p x \<Longrightarrow> \<not> q x) \<Longrightarrow> (\<And>x. p x \<Longrightarrow> \<not> q (f x)) \<Longrightarrow>
     find q (update_first p f xs) = find q xs"
  by (induction xs) auto

lemma filter_update_first_other:
  "(\<And>x. p x \<Longrightarrow> p (f x)) \<Longrightarrow> filter (\<lambda>x. \<not> p x) (update_first p f xs) = filter (\<lambda>x. \<not> p x) xs"
  by (induction xs) auto

lemma filter_remove_first_other:
  "filter (\<lambda>x. \<not> p x) (remove_first p xs) = filter (\<lambda>x. \<not> p x) xs"
  by (induction xs) auto

lemma length_remove_first:
  "length (remove_first p xs) = (if list_ex p xs then length xs - 1 else length xs)"
  by (induction xs) (auto simp: list_ex_iff Suc_diff_le elim: in_set_conv_nth [THEN iffD1, THEN exE])

lemma remove_first_split: "\<forall>y\<in>set ys. \<not> p y \<Longrightarrow> p x \<Longrightarrow> remove_first p (ys @ x # zs) = ys @ zs"
  by (induction ys) auto

lemma find_Some_split: "find p xs = Some x \<Longrightarrow> \<exists>ys zs. xs = ys @ x # zs \<and> p x \<and> (\<forall>y\<in>set ys. \<not> p y)"
proof (induction xs)
  case (Cons a xs)
  show ?case
  proof (cases "p a")
    case True
    then show ?thesis using Cons.prems by (intro exI [of _ "[]"] exI [of _ xs]) simp
  next
    case False
    then obtain ys zs where "xs = ys @ x # zs" "p x" "\<forall>y\<in>set ys. \<not> p y"
      using Cons by auto
    then show ?thesis using False by (intro exI [of _ "a # ys"] exI [of _ zs]) simp
  qed
qed simp

lemma find_split_Some: "\<forall>y\<in>set ys. \<not> p y \<Longrightarrow> p x \<Longrightarrow> find p (ys @ x # zs) = Some x"
  by (induction ys) auto

lemma find_append: "find p (xs @ ys) = (case find p xs of None \<Rightarrow> find p ys | Some x \<Rightarrow> Some x)"
  by (induction xs) auto

lemma find_None_list_ex: "find p xs = None \<longleftrightarrow> \<not> list_ex p xs"
  by (induction xs) auto

section \<open>Integers, durations and instants\<close>

text \<open>
  Go's \<open>int\<close> and \<open>int64\<close> are 64 bits wide and wrap around; a \<open>time.Duration\<close> is an \<open>int64\<close>
  count of nanoseconds. A \<open>time.Time\<close> is an instant; the model counts nanoseconds from the Unix
  epoch, unbounded, as the type covers every year the programs can meet.
\<close>

type_synonym int64 = "64 word"
type_synonym duration = "64 word"
type_synonym time = int

definition nanosecond :: duration where "nanosecond = 1"
definition millisecond :: duration where "millisecond = 1000000"
definition second :: duration where "second = 1000000000"
definition minute :: duration where "minute = 60 * second"
definition hour :: duration where "hour = 60 * minute"

lemmas time_units = nanosecond_def millisecond_def second_def minute_def hour_def

definition max_duration :: int where "max_duration = 2 ^ 63 - 1"
definition min_duration :: int where "min_duration = - (2 ^ 63)"

text \<open>\<open>t.Sub(u)\<close>: the distance, saturated to the range of a \<open>Duration\<close>.\<close>

definition time_sub :: "time \<Rightarrow> time \<Rightarrow> int" where
  "time_sub t u = max min_duration (min max_duration (t - u))"

definition time_add :: "time \<Rightarrow> duration \<Rightarrow> time" where
  "time_add t d = t + sint d"

text \<open>The zero \<open>time.Time\<close> is midnight, January 1st of year 1.\<close>

definition zero_time :: time where "zero_time = - 62135596800000000000"

lemma sint64_bounds: "min_duration \<le> sint (d :: 64 word)" "sint d \<le> max_duration"
  using sint_range_size [of d] by (simp_all add: size_word.rep_eq min_duration_def max_duration_def)

lemma time_sub_gt: "sint (d :: 64 word) < time_sub t u \<longleftrightarrow> sint d < max_duration \<and> sint d < t - u"
  using sint64_bounds [of d] by (auto simp: time_sub_def min_duration_def max_duration_def)

lemma time_sub_ge:
  "sint (d :: 64 word) \<le> time_sub t u \<longleftrightarrow> sint d = min_duration \<or> sint d \<le> t - u"
  using sint64_bounds [of d] by (auto simp: time_sub_def min_duration_def max_duration_def)

lemma time_sub_mono: "t \<le> t' \<Longrightarrow> time_sub t u \<le> time_sub t' u"
  by (auto simp: time_sub_def)

lemma sint_small:
  assumes "- (2 ^ 63) \<le> i" and "i < 2 ^ 63"
  shows "sint (word_of_int i :: 64 word) = i"
  using assms by (simp add: sint_sbintrunc' signed_take_bit_int_eq_self)

lemma sint_hours [simp]: "sint second = 1000000000" "sint minute = 60000000000"
  "sint hour = 3600000000000"
  by (simp_all add: time_units)

section \<open>Strings\<close>

text \<open>
  A Go string is a sequence of bytes and so is HOL's \<open>string\<close>; \<open>len\<close> and slicing count bytes in
  both. Lower-casing is modelled on ASCII letters, the alphabet of Kubernetes names; on other
  bytes it is the identity.
\<close>

definition to_lower_char :: "char \<Rightarrow> char" where
  "to_lower_char c =
     (let n = of_char c :: nat in if 65 \<le> n \<and> n \<le> 90 then char_of (n + 32) else c)"

definition to_lower :: "string \<Rightarrow> string" where
  "to_lower s = map to_lower_char s"

lemma length_to_lower [simp]: "length (to_lower s) = length s"
  by (simp add: to_lower_def)

lemma to_lower_append [simp]: "to_lower (s @ t) = to_lower s @ to_lower t"
  by (simp add: to_lower_def)

lemma to_lower_char_idem [simp]: "to_lower_char (to_lower_char c) = to_lower_char c"
  by (auto simp: to_lower_char_def Let_def)

lemma to_lower_idem [simp]: "to_lower (to_lower s) = to_lower s"
  by (simp add: to_lower_def)

fun has_prefix :: "string \<Rightarrow> string \<Rightarrow> bool" where
  "has_prefix [] t = True"
| "has_prefix (c # s) [] = False"
| "has_prefix (c # s) (d # t) = (c = d \<and> has_prefix s t)"

text \<open>\<open>strings.Contains(t, s)\<close>.\<close>

fun contains :: "string \<Rightarrow> string \<Rightarrow> bool" where
  "contains s [] = (s = [])"
| "contains s (c # t) = (has_prefix s (c # t) \<or> contains s t)"

lemma has_prefix_iff: "has_prefix s t \<longleftrightarrow> (\<exists>u. t = s @ u)"
  by (induction s t rule: has_prefix.induct) auto

lemma contains_iff: "contains s t \<longleftrightarrow> (\<exists>u v. t = u @ s @ v)"
proof (induction t)
  case Nil
  then show ?case by auto
next
  case (Cons c t)
  note IH = Cons.IH
  show ?case
  proof
    assume "contains s (c # t)"
    then consider "has_prefix s (c # t)" | "contains s t" by auto
    then show "\<exists>u v. c # t = u @ s @ v"
    proof cases
      case 1
      then obtain u where "c # t = s @ u" by (auto simp: has_prefix_iff)
      then have "c # t = [] @ s @ u" by simp
      then show ?thesis by blast
    next
      case 2
      then obtain u v where "t = u @ s @ v" using Cons.IH by blast
      then have "c # t = (c # u) @ s @ v" by simp
      then show ?thesis by blast
    qed
  next
    assume "\<exists>u v. c # t = u @ s @ v"
    then obtain u v where uv: "c # t = u @ s @ v" by blast
    show "contains s (c # t)"
    proof (cases u)
      case Nil
      with uv have "has_prefix s (c # t)" by (auto simp: has_prefix_iff)
      then show ?thesis by simp
    next
      case (Cons d u')
      with uv have "t = u' @ s @ v" by simp
      then have "contains s t" using IH by blast
      then show ?thesis by simp
    qed
  qed
qed

fun join :: "string \<Rightarrow> string list \<Rightarrow> string" where
  "join sep [] = []"
| "join sep [s] = s"
| "join sep (s # t # ss) = s @ sep @ join sep (t # ss)"

text \<open>Quoting (\<open>%q\<close>), on printable ASCII: double quotes around, double quotes and backslashes escaped.\<close>

definition quoted :: "string \<Rightarrow> string" where
  "quoted s = [CHR 0x22] @
     concat (map (\<lambda>c. if c = CHR 0x22 \<or> c = CHR 0x5C then [CHR 0x5C, c] else [c]) s) @ [CHR 0x22]"

text \<open>Decimal formatting (\<open>%d\<close>).\<close>

definition digit_char :: "nat \<Rightarrow> char" where
  "digit_char d = char_of (48 + d)"

fun show_nat :: "nat \<Rightarrow> string" where
  "show_nat n = (if n < 10 then [digit_char n] else show_nat (n div 10) @ [digit_char (n mod 10)])"

declare show_nat.simps [simp del]

definition show_int :: "int \<Rightarrow> string" where
  "show_int i = (if i < 0 then CHR ''-'' # show_nat (nat (- i)) else show_nat (nat i))"

fun read_nat_acc :: "nat \<Rightarrow> string \<Rightarrow> nat" where
  "read_nat_acc a [] = a"
| "read_nat_acc a (c # s) = read_nat_acc (10 * a + (of_char c - 48)) s"

lemma of_digit_char: "d < 10 \<Longrightarrow> (of_char (digit_char d) :: nat) = 48 + d"
  by (simp add: digit_char_def)

lemma read_nat_acc_append: "read_nat_acc a (s @ t) = read_nat_acc (read_nat_acc a s) t"
  by (induction s arbitrary: a) auto

lemma read_show_nat: "read_nat_acc 0 (show_nat n) = n"
proof (induction n rule: show_nat.induct)
  case (1 n)
  show ?case
  proof (cases "n < 10")
    case True
    then show ?thesis by (subst show_nat.simps) (simp add: of_digit_char)
  next
    case False
    then show ?thesis using "1.IH" by (subst show_nat.simps) (simp add: read_nat_acc_append of_digit_char)
  qed
qed

lemma show_nat_inject [simp]: "show_nat m = show_nat n \<longleftrightarrow> m = n"
  using read_show_nat by metis

lemma show_nat_no_minus: "CHR ''-'' \<notin> set (show_nat n)"
proof (induction n rule: show_nat.induct)
  case (1 n)
  have d: "CHR ''-'' \<noteq> digit_char d" if "d < 10" for d
  proof
    assume "CHR ''-'' = digit_char d"
    then have "(of_char CHR ''-'' :: nat) = of_char (digit_char d)" by simp
    then show False using that by (simp add: of_digit_char)
  qed
  show ?case
    using "1.IH" d [of n] d [of "n mod 10"] by (subst show_nat.simps) auto
qed

lemma show_nat_nonempty [simp]: "show_nat n \<noteq> []"
  by (subst show_nat.simps) simp

lemma show_int_inject [simp]: "show_int i = show_int j \<longleftrightarrow> i = j"
proof
  assume eq: "show_int i = show_int j"
  have neg: "CHR ''-'' # show_nat m \<noteq> show_nat n" for m n
    using show_nat_no_minus [of n] by (metis list.set_intros(1))
  show "i = j"
    using eq neg neg [symmetric] by (auto simp: show_int_def split: if_splits)
qed simp

section \<open>Host and port\<close>

fun last_index :: "char \<Rightarrow> string \<Rightarrow> nat option" where
  "last_index c [] = None"
| "last_index c (d # s) =
     (case last_index c s of Some i \<Rightarrow> Some (Suc i) | None \<Rightarrow> if d = c then Some 0 else None)"

fun first_index :: "char \<Rightarrow> string \<Rightarrow> nat option" where
  "first_index c [] = None"
| "first_index c (d # s) = (if d = c then Some 0 else map_option Suc (first_index c s))"

text \<open>\<open>SplitHostPort\<close> succeeds when the last colon splits the port off: the host in brackets that end
  right before it, or without a colon of its own; no other bracket.\<close>

definition split_host_port_ok :: "string \<Rightarrow> bool" where
  "split_host_port_ok hostport =
     (case last_index CHR '':'' hostport of
        None \<Rightarrow> False
      | Some i \<Rightarrow>
          if hd hostport = CHR ''['' then
            (case first_index CHR '']'' hostport of
               None \<Rightarrow> False
             | Some e \<Rightarrow> e + 1 = i \<and> CHR ''['' \<notin> set (drop 1 hostport) \<and> CHR '']'' \<notin> set (drop (e + 1) hostport))
          else CHR '':'' \<notin> set (take i hostport) \<and> CHR ''['' \<notin> set hostport \<and> CHR '']'' \<notin> set hostport)"

definition join_host_port :: "string \<Rightarrow> string \<Rightarrow> string" where
  "join_host_port host port =
     (if CHR '':'' \<in> set host then ''['' @ host @ '']:'' @ port else host @ '':'' @ port)"

lemma last_index_snoc: "c \<notin> set t \<Longrightarrow> last_index c (s @ c # t) = Some (length s)"
proof (induction s)
  case Nil
  have "c \<notin> set t \<Longrightarrow> last_index c t = None" by (induction t) auto
  then show ?case using Nil by simp
qed simp

lemma first_index_at: "c \<notin> set s \<Longrightarrow> first_index c (s @ c # t) = Some (length s)"
  by (induction s) auto

end
