(* ===== verification/GoRuntime.thy ===== *)
theory GoRuntime
  imports Prelude
begin

text \<open>
  Errors and effects. An \<open>error\<close> made by a library (the API client, a dialer, a resolver) is
  represented by what the sources observe of it: its API status reason, whether it is one of the
  sentinel values they compare with, and its text. An effectful function is a program of the
  state monad over \<open>rt\<close>: the outside world, of any type, and the log of the calls made.
\<close>

section \<open>Errors\<close>

datatype sentinel =
    DeadlineExceeded      \<comment> \<open>\<open>context.DeadlineExceeded\<close>\<close>
  | Canceled              \<comment> \<open>\<open>context.Canceled\<close>\<close>
  | ErrSkipChecker        \<comment> \<open>pkg/checker/errors.go\<close>
  | ErrServiceNotReady    \<comment> \<open>pkg/checker/dnscheck/errors.go\<close>
  | ErrPodsNotReady       \<comment> \<open>pkg/checker/dnscheck/errors.go\<close>

datatype api_reason = NotFound | AlreadyExists | OtherReason string

datatype go_error =
    Sentinel sentinel                    \<comment> \<open>a value made by \<open>errors.New\<close> and compared by identity\<close>
  | ApiError api_reason string           \<comment> \<open>an API status error: its reason and text\<close>
  | Msg string                           \<comment> \<open>\<open>fmt.Errorf\<close> without a wrapped error\<close>
  | Wrap string go_error                 \<comment> \<open>\<open>fmt.Errorf\<close> with the wrapped error as the suffix of its text\<close>
  | Joined "go_error list"               \<comment> \<open>\<open>errors.Join\<close>\<close>
  | RetryErrors string "go_error list"   \<comment> \<open>the error list of \<open>retry.Do\<close>: its text and elements\<close>

fun sentinel_text :: "sentinel \<Rightarrow> string" where
  "sentinel_text DeadlineExceeded = ''context deadline exceeded''"
| "sentinel_text Canceled = ''context canceled''"
| "sentinel_text ErrSkipChecker = ''skip checker''"
| "sentinel_text ErrServiceNotReady = ''service not ready''"
| "sentinel_text ErrPodsNotReady = ''pods not ready''"

text \<open>\<open>err.Error()\<close>.\<close>

fun err_text :: "go_error \<Rightarrow> string" where
  "err_text (Sentinel t) = sentinel_text t"
| "err_text (ApiError r m) = m"
| "err_text (Msg m) = m"
| "err_text (Wrap p e) = p @ err_text e"
| "err_text (Joined es) = join [CHR 0x0A] (map err_text es)"
| "err_text (RetryErrors m es) = m"

text \<open>\<open>errors.Is(e, t)\<close> for a sentinel \<open>t\<close>: some error of the tree under \<open>e\<close> is \<open>t\<close>.\<close>

fun errors_is :: "sentinel \<Rightarrow> go_error \<Rightarrow> bool" where
  "errors_is t (Sentinel u) = (u = t)"
| "errors_is t (ApiError r m) = False"
| "errors_is t (Msg m) = False"
| "errors_is t (Wrap p e) = errors_is t e"
| "errors_is t (Joined es) = list_ex (errors_is t) es"
| "errors_is t (RetryErrors m es) = list_ex (errors_is t) es"

text \<open>
  The status reason \<open>errors.As\<close> finds: that of the first API status in a depth-first walk of the
  tree. \<open>apierrors.IsNotFound\<close> and \<open>apierrors.IsAlreadyExists\<close> compare it.
\<close>

fun first_some :: "'a option list \<Rightarrow> 'a option" where
  "first_some [] = None"
| "first_some (None # xs) = first_some xs"
| "first_some (Some x # xs) = Some x"

fun api_status :: "go_error \<Rightarrow> api_reason option" where
  "api_status (ApiError r m) = Some r"
| "api_status (Wrap p e) = api_status e"
| "api_status (Joined es) = first_some (map api_status es)"
| "api_status (RetryErrors m es) = first_some (map api_status es)"
| "api_status (Sentinel t) = None"
| "api_status (Msg m) = None"

definition is_not_found :: "go_error \<Rightarrow> bool" where
  "is_not_found e \<longleftrightarrow> api_status e = Some NotFound"

definition is_already_exists :: "go_error \<Rightarrow> bool" where
  "is_already_exists e \<longleftrightarrow> api_status e = Some AlreadyExists"

lemma is_not_found_simps [simp]:
  "is_not_found (ApiError r m) = (r = NotFound)"
  "is_not_found (Wrap p e) = is_not_found e"
  "is_not_found (Msg m) = False"
  "is_not_found (Sentinel t) = False"
  by (simp_all add: is_not_found_def)

lemma is_already_exists_simps [simp]:
  "is_already_exists (ApiError r m) = (r = AlreadyExists)"
  "is_already_exists (Wrap p e) = is_already_exists e"
  "is_already_exists (Msg m) = False"
  "is_already_exists (Sentinel t) = False"
  by (simp_all add: is_already_exists_def)

text \<open>\<open>client.IgnoreNotFound\<close>, on a result that is \<open>nil\<close> or an error.\<close>

definition ignore_not_found :: "go_error option \<Rightarrow> go_error option" where
  "ignore_not_found r = (case r of None \<Rightarrow> None | Some e \<Rightarrow> if is_not_found e then None else Some e)"

lemma ignore_not_found_simps [simp]:
  "ignore_not_found None = None"
  "ignore_not_found (Some e) = (if is_not_found e then None else Some e)"
  by (simp_all add: ignore_not_found_def)

lemma ignore_not_found_Some:
  "ignore_not_found r = Some e \<longleftrightarrow> r = Some e \<and> \<not> is_not_found e"
  by (cases r) auto

text \<open>\<open>errors.Join(errs...)\<close>: \<open>nil\<close> for no errors.\<close>

definition errors_join :: "go_error list \<Rightarrow> go_error option" where
  "errors_join es = (if es = [] then None else Some (Joined es))"

lemma errors_join_None [simp]: "errors_join es = None \<longleftrightarrow> es = []"
  by (simp add: errors_join_def)

section \<open>Programs: calls on an outside world\<close>

record ('w, 'e) rt =
  world :: 'w
  log :: "'e list"

text \<open>
  \<open>perform ev f\<close> makes one call: the world answers and changes by \<open>f\<close>, and the log gains the
  event \<open>ev\<close> builds from the answer. \<open>observe f\<close> is an unlogged read, used for the clock.
\<close>

definition perform ::
  "('a \<Rightarrow> 'e) \<Rightarrow> ('w \<Rightarrow> 'a \<times> 'w) \<Rightarrow> (('w, 'e, 'z) rt_scheme, 'a) state" where
  "perform ev f = State (\<lambda>s. case f (world s) of (a, w) \<Rightarrow> (a, s\<lparr>world := w, log := log s @ [ev a]\<rparr>))"

definition observe :: "('w \<Rightarrow> 'a \<times> 'w) \<Rightarrow> (('w, 'e, 'z) rt_scheme, 'a) state" where
  "observe f = State (\<lambda>s. case f (world s) of (a, w) \<Rightarrow> (a, s\<lparr>world := w\<rparr>))"

abbreviation return :: "'a \<Rightarrow> ('s, 'a) state" where
  "return \<equiv> State_Monad.return"

lemma run_perform [simp]:
  "run_state (perform ev f) s =
     (case f (world s) of (a, w) \<Rightarrow> (a, s\<lparr>world := w, log := log s @ [ev a]\<rparr>))"
  by (simp add: perform_def)

lemma run_observe [simp]:
  "run_state (observe f) s = (case f (world s) of (a, w) \<Rightarrow> (a, s\<lparr>world := w\<rparr>))"
  by (simp add: observe_def)

lemma run_if: "run_state (if b then m else n) s = (if b then run_state m s else run_state n s)"
  by simp

section \<open>The emits calculus\<close>

text \<open>
  \<open>emits m Q s\<close>: run from \<open>s\<close>, the program \<open>m\<close> only appends to the log, and its result \<open>a\<close>, the
  events \<open>es\<close> it appends and its final state satisfy \<open>Q\<close>. The rules below follow the program
  text, and leave the world's answers universally quantified.
\<close>

definition emits ::
  "(('w, 'e, 'z) rt_scheme, 'a) state \<Rightarrow> ('a \<Rightarrow> 'e list \<Rightarrow> ('w, 'e, 'z) rt_scheme \<Rightarrow> bool)
     \<Rightarrow> ('w, 'e, 'z) rt_scheme \<Rightarrow> bool" where
  "emits m Q s \<longleftrightarrow>
     (\<exists>es. log (snd (run_state m s)) = log s @ es \<and>
           Q (fst (run_state m s)) es (snd (run_state m s)))"

lemma emitsI:
  "run_state m s = (a, s') \<Longrightarrow> log s' = log s @ es \<Longrightarrow> Q a es s' \<Longrightarrow> emits m Q s"
  by (auto simp: emits_def)

lemma emitsD:
  assumes "emits m Q s" and "run_state m s = (a, s')"
  obtains es where "log s' = log s @ es" and "Q a es s'"
  using assms by (auto simp: emits_def)

lemma emits_events:
  "emits m Q s \<Longrightarrow> run_state m s = (a, s') \<Longrightarrow> log s' = log s @ es \<Longrightarrow> Q a es s'"
  by (auto simp: emits_def)

lemma emits_mono:
  "emits m R s \<Longrightarrow> (\<And>a es s'. R a es s' \<Longrightarrow> Q a es s') \<Longrightarrow> emits m Q s"
  by (auto simp: emits_def)

lemma emits_conj: "emits m Q s \<Longrightarrow> emits m R s \<Longrightarrow> emits m (\<lambda>a es s'. Q a es s' \<and> R a es s') s"
  by (auto simp: emits_def)

lemma emits_return [emits_intro]: "Q a [] s \<Longrightarrow> emits (return a) Q s"
  by (simp add: emits_def)

lemma emits_bind [emits_intro]:
  assumes "emits m (\<lambda>a es s'. emits (g a) (\<lambda>b es'. Q b (es @ es')) s') s"
  shows "emits (State_Monad.bind m g) Q s"
  using assms by (cases "run_state m s") (auto simp: emits_def)

lemma emits_bind_via:
  assumes "emits m R s"
    and "\<And>a es s'. R a es s' \<Longrightarrow> emits (g a) (\<lambda>b es'. Q b (es @ es')) s'"
  shows "emits (State_Monad.bind m g) Q s"
  by (rule emits_bind, rule emits_mono, rule assms(1), rule assms(2))

lemma emits_perform [emits_intro]:
  assumes "\<And>a w. f (world s) = (a, w) \<Longrightarrow> Q a [ev a] (s\<lparr>world := w, log := log s @ [ev a]\<rparr>)"
  shows "emits (perform ev f) Q s"
  using assms by (cases "f (world s)") (auto simp: emits_def)

lemma emits_observe [emits_intro]:
  assumes "\<And>a w. f (world s) = (a, w) \<Longrightarrow> Q a [] (s\<lparr>world := w\<rparr>)"
  shows "emits (observe f) Q s"
  using assms by (cases "f (world s)") (auto simp: emits_def)

lemma emits_if [emits_intro]:
  "(b \<Longrightarrow> emits m Q s) \<Longrightarrow> (\<not> b \<Longrightarrow> emits n Q s) \<Longrightarrow> emits (if b then m else n) Q s"
  by simp

lemma emits_case_sum [emits_intro]:
  "(\<And>x. r = Inl x \<Longrightarrow> emits (f x) Q s) \<Longrightarrow> (\<And>y. r = Inr y \<Longrightarrow> emits (g y) Q s) \<Longrightarrow>
     emits (case r of Inl x \<Rightarrow> f x | Inr y \<Rightarrow> g y) Q s"
  by (cases r) auto

lemma emits_case_option [emits_intro]:
  "(r = None \<Longrightarrow> emits m Q s) \<Longrightarrow> (\<And>y. r = Some y \<Longrightarrow> emits (g y) Q s) \<Longrightarrow>
     emits (case r of None \<Rightarrow> m | Some y \<Rightarrow> g y) Q s"
  by (cases r) auto

lemma emits_case_list [emits_intro]:
  "(r = [] \<Longrightarrow> emits m Q s) \<Longrightarrow> (\<And>y ys. r = y # ys \<Longrightarrow> emits (g y ys) Q s) \<Longrightarrow>
     emits (case r of [] \<Rightarrow> m | y # ys \<Rightarrow> g y ys) Q s"
  by (cases r) auto

lemma emits_case_prod [emits_intro]:
  "(\<And>x y. r = (x, y) \<Longrightarrow> emits (g x y) Q s) \<Longrightarrow> emits (case r of (x, y) \<Rightarrow> g x y) Q s"
  by (cases r) auto

section \<open>Programs of a component inside a larger one\<close>

text \<open>\<open>embed f m\<close> runs \<open>m\<close> on the same world and renames the events it logs.\<close>

definition embed :: "('e \<Rightarrow> 'f) \<Rightarrow> (('w, 'e) rt, 'a) state \<Rightarrow> (('w, 'f, 'z) rt_scheme, 'a) state" where
  "embed f m = State (\<lambda>s. case run_state m \<lparr>world = world s, log = []\<rparr> of
     (a, s') \<Rightarrow> (a, s\<lparr>world := world s', log := log s @ map f (log s')\<rparr>))"

lemma emits_embed:
  assumes "emits m (\<lambda>a es _. Q a es) \<lparr>world = world s, log = []\<rparr>"
  shows "emits (embed f m) (\<lambda>a es s'. rt.more s' = rt.more s \<and> (\<exists>es0. es = map f es0 \<and> Q a es0)) s"
  using assms by (cases "run_state m \<lparr>world = world s, log = []\<rparr>") (auto simp: emits_def embed_def)

end
