(* ===== verification/KubeObjects.thy ===== *)
theory KubeObjects
  imports GoRuntime
begin

text \<open>
  The objects the programs exchange with the API server: the custom resource of
  \<open>apis/chm/v1alpha1/types.go\<close>, and of the Kubernetes types the fields the sources read or write.
  As in Go every object embeds \<open>ObjectMeta\<close>: the records extend it, so one accessor such as
  \<open>Name\<close> serves all of them. String-valued enumerations stay strings, because the API server may
  return any string.
\<close>

section \<open>Metadata and conditions\<close>

record OwnerReference =
  ownerAPIVersion :: string
  ownerKind :: string
  ownerName :: string
  ownerUID :: string
  ownerController :: "bool option"
  ownerBlockDeletion :: "bool option"

record ObjectMeta =
  Name :: string
  Namespace :: string
  UID :: string
  Labels :: "string \<rightharpoonup> string"
  Annotations :: "string \<rightharpoonup> string"
  CreationTimestamp :: time
  DeletionTimestamp :: "time option"
  Finalizers :: "string list"
  OwnerReferences :: "OwnerReference list"

definition meta :: "string \<Rightarrow> ObjectMeta" where
  "meta n = \<lparr>Name = n, Namespace = '''', UID = '''', Labels = Map.empty, Annotations = Map.empty,
     CreationTimestamp = zero_time, DeletionTimestamp = None, Finalizers = [], OwnerReferences = []\<rparr>"

definition ConditionTrue :: string where [go_const]: "ConditionTrue = ''True''"
definition ConditionFalse :: string where [go_const]: "ConditionFalse = ''False''"
definition ConditionUnknown :: string where [go_const]: "ConditionUnknown = ''Unknown''"

record Condition =
  condType :: string
  condStatus :: string
  condReason :: string
  condMessage :: string
  condTransition :: time

record NodeCondition =
  ncType :: string
  ncStatus :: string
  ncReason :: string
  ncMessage :: string
  ncTransition :: time
  ncHeartbeat :: time

section \<open>CheckNodeHealth\<close>

definition CheckStatusHealthy :: string where [go_const]: "CheckStatusHealthy = ''Healthy''"
definition CheckStatusUnhealthy :: string where [go_const]: "CheckStatusUnhealthy = ''Unhealthy''"
definition CheckStatusUnknown :: string where [go_const]: "CheckStatusUnknown = ''Unknown''"

record NodeReference =
  refName :: string

record CheckNodeHealthSpec =
  NodeRef :: NodeReference

record CheckResult =
  crName :: string
  crStatus :: string
  crMessage :: string
  crErrorCode :: string

record CheckNodeHealthStatus =
  StartedAt :: "time option"
  FinishedAt :: "time option"
  Conditions :: "Condition list"
  Results :: "CheckResult list"

record CheckNodeHealth = ObjectMeta +
  cnhSpec :: CheckNodeHealthSpec
  cnhStatus :: CheckNodeHealthStatus

definition empty_status :: CheckNodeHealthStatus where
  "empty_status = \<lparr>StartedAt = None, FinishedAt = None, Conditions = [], Results = []\<rparr>"

section \<open>Pods\<close>

definition PodPending :: string where [go_const]: "PodPending = ''Pending''"
definition PodRunning :: string where [go_const]: "PodRunning = ''Running''"
definition PodSucceeded :: string where [go_const]: "PodSucceeded = ''Succeeded''"
definition PodFailed :: string where [go_const]: "PodFailed = ''Failed''"

record Toleration =
  tolKey :: string
  tolOperator :: string
  tolValue :: string
  tolEffect :: string

record VolumeMount =
  vmName :: string
  vmMountPath :: string

record Volume =
  volName :: string
  volClaimName :: string

record Container =
  ctName :: string
  ctImage :: string
  ctCommand :: "string list"
  ctArgs :: "string list"
  ctPorts :: "(int \<times> string) list"
  ctVolumeMounts :: "VolumeMount list"

record NodeSelectorRequirement =
  nsrKey :: string
  nsrOperator :: string
  nsrValues :: "string list"

record PodSpec =
  ServiceAccountName :: string
  RestartPolicy :: string
  NodeName :: string
  Tolerations :: "Toleration list"
  Containers :: "Container list"
  Volumes :: "Volume list"
  NodeSelector :: "string \<rightharpoonup> string"
  RequiredNodeAffinity :: "NodeSelectorRequirement list list"

text \<open>
  A container's state: \<open>Running\<close> and \<open>Terminated\<close> are the optional states, each with its
  \<open>StartedAt\<close>.
\<close>

record ContainerStatus =
  Running :: "time option"
  Terminated :: "time option"

record PodCondition =
  pcType :: string
  pcStatus :: string

record PodStatus =
  Phase :: string
  PodIP :: string
  ContainerStatuses :: "ContainerStatus list"
  PodConditions :: "PodCondition list"

record Pod = ObjectMeta +
  podSpec :: PodSpec
  podStatus :: PodStatus

definition empty_pod_spec :: PodSpec where
  "empty_pod_spec = \<lparr>ServiceAccountName = '''', RestartPolicy = '''', NodeName = '''',
     Tolerations = [], Containers = [], Volumes = [], NodeSelector = Map.empty,
     RequiredNodeAffinity = []\<rparr>"

definition empty_pod_status :: PodStatus where
  "empty_pod_status = \<lparr>Phase = '''', PodIP = '''', ContainerStatuses = [], PodConditions = []\<rparr>"

section \<open>Nodes, Deployments and the health-signal resources\<close>

record Node = ObjectMeta +
  BootID :: string
  NodeConditions :: "NodeCondition list"

record Deployment = ObjectMeta +
  SpecReplicas :: "int option"
  ReadyReplicas :: int

record HealthCheckRequest = ObjectMeta +
  hcrTargetName :: string

record HealthSignal = ObjectMeta +
  hsType :: string
  hsTargetKind :: string
  hsTargetName :: string
  hsConditions :: "Condition list"

text \<open>The reply of a reconciler: \<open>RequeueAfter\<close>, zero for none.\<close>

record ctrl_result =
  RequeueAfter :: duration

definition no_requeue :: ctrl_result where
  "no_requeue = \<lparr>RequeueAfter = 0\<rparr>"

end
