(* ===== verification/CircuitBreaker.thy ===== *)
theory CircuitBreaker
  imports KubeObjects
begin

text \<open>
  \<open>pkg/controller/checknodehealth/circuit_breaker.go\<close>: the circuit breaker in front of node
  condition updates. The mutex makes every method atomic, so a method is a function of the state
  and of the clock reading it takes.
\<close>

section \<open>State and operations\<close>

record circuit_breaker =
  threshold :: int
  window :: duration
  cooldown :: duration
  consecutiveUnhealthy :: "time list"
  openedAt :: "time option"

definition DefaultCircuitBreakerThreshold :: int where
  "DefaultCircuitBreakerThreshold = 3"
definition DefaultCircuitBreakerWindow :: duration where
  "DefaultCircuitBreakerWindow = 15 * minute"
definition DefaultCircuitBreakerCooldown :: duration where
  "DefaultCircuitBreakerCooldown = 10 * minute"

definition NewNodeConditionCircuitBreaker :: "int \<Rightarrow> duration \<Rightarrow> duration \<Rightarrow> circuit_breaker" where
  "NewNodeConditionCircuitBreaker th win cool =
     \<lparr>threshold = th, window = win, cooldown = cool, consecutiveUnhealthy = [], openedAt = None\<rparr>"

definition Allow :: "circuit_breaker \<Rightarrow> time \<Rightarrow> bool \<times> circuit_breaker" where
  "Allow cb now =
     (case openedAt cb of
        Some opened \<Rightarrow>
          if time_sub now opened \<ge> sint (cooldown cb)
          then (True, cb\<lparr>openedAt := None, consecutiveUnhealthy := []\<rparr>)
          else (False, cb)
      | None \<Rightarrow> (True, cb))"

fun drop_before :: "time \<Rightarrow> time list \<Rightarrow> time list" where
  "drop_before cutoff [] = []"
| "drop_before cutoff (e # es) = (if e < cutoff then drop_before cutoff es else e # es)"

definition pruneExpiredEvents :: "time list \<Rightarrow> duration \<Rightarrow> time \<Rightarrow> time list" where
  "pruneExpiredEvents events win now = drop_before (time_add now (- win)) events"

definition RecordUnhealthyNode :: "circuit_breaker \<Rightarrow> time \<Rightarrow> circuit_breaker" where
  "RecordUnhealthyNode cb now =
     (let cb1 = cb\<lparr>consecutiveUnhealthy := consecutiveUnhealthy cb @ [now]\<rparr>;
          cb2 = cb1\<lparr>consecutiveUnhealthy :=
                     pruneExpiredEvents (consecutiveUnhealthy cb1) (window cb1) now\<rparr>
      in if int (length (consecutiveUnhealthy cb2)) \<ge> threshold cb2
         then cb2\<lparr>openedAt := Some now\<rparr>
         else cb2)"

definition RecordHealthyNode :: "circuit_breaker \<Rightarrow> circuit_breaker" where
  "RecordHealthyNode cb =
     (if length (consecutiveUnhealthy cb) > 0 then cb\<lparr>consecutiveUnhealthy := []\<rparr> else cb)"

section \<open>Pruning\<close>

lemma drop_before_sorted: "sorted es \<Longrightarrow> drop_before c es = filter (\<lambda>e. c \<le> e) es"
proof (induction es)
  case Nil
  then show ?case by simp
next
  case (Cons e es)
  show ?case
  proof (cases "e < c")
    case True
    then show ?thesis using Cons by simp
  next
    case False
    then have "filter (\<lambda>x. c \<le> x) es = es" using Cons.prems by (intro filter_True) auto
    then show ?thesis using False by simp
  qed
qed

lemma pruneExpiredEvents_sorted:
  "sorted es \<Longrightarrow> pruneExpiredEvents es win now = filter (\<lambda>e. time_add now (- win) \<le> e) es"
  by (simp add: pruneExpiredEvents_def drop_before_sorted)

lemma length_drop_before: "length (drop_before c es) \<le> length es"
  by (induction es) auto

lemma RecordUnhealthyNode_fields [simp]:
  "threshold (RecordUnhealthyNode cb t) = threshold cb"
  "window (RecordUnhealthyNode cb t) = window cb"
  "cooldown (RecordUnhealthyNode cb t) = cooldown cb"
  "consecutiveUnhealthy (RecordUnhealthyNode cb t) =
     pruneExpiredEvents (consecutiveUnhealthy cb @ [t]) (window cb) t"
  "openedAt (RecordUnhealthyNode cb t) =
     (if threshold cb \<le> int (length (pruneExpiredEvents (consecutiveUnhealthy cb @ [t]) (window cb) t))
      then Some t else openedAt cb)"
  by (simp_all add: RecordUnhealthyNode_def Let_def)

lemma RecordHealthyNode_fields [simp]:
  "threshold (RecordHealthyNode cb) = threshold cb"
  "window (RecordHealthyNode cb) = window cb"
  "cooldown (RecordHealthyNode cb) = cooldown cb"
  "consecutiveUnhealthy (RecordHealthyNode cb) = []"
  "openedAt (RecordHealthyNode cb) = openedAt cb"
  by (simp_all add: RecordHealthyNode_def)

section \<open>The contract a client relies on\<close>

text \<open>
  A step is one call at an instant, and its observation is the verdict of \<open>Allow\<close>.
  \<open>blocked b t\<close>: an update asked for at time \<open>t\<close> is refused. \<open>cb_inv b c\<close>: the state is one that
  calls made up to time \<open>c\<close> can have produced.
\<close>

datatype cb_op = AskAt time | UnhealthyAt time | HealthyAt time

fun op_time :: "cb_op \<Rightarrow> time" where
  "op_time (AskAt t) = t"
| "op_time (UnhealthyAt t) = t"
| "op_time (HealthyAt t) = t"

definition blocked :: "circuit_breaker \<Rightarrow> time \<Rightarrow> bool" where
  "blocked cb t = (case openedAt cb of None \<Rightarrow> False | Some u \<Rightarrow> time_sub t u < sint (cooldown cb))"

definition cb_inv :: "circuit_breaker \<Rightarrow> time \<Rightarrow> bool" where
  "cb_inv cb c \<longleftrightarrow> sorted (consecutiveUnhealthy cb) \<and> (\<forall>e \<in> set (consecutiveUnhealthy cb). e \<le> c) \<and>
     (case openedAt cb of None \<Rightarrow> True | Some u \<Rightarrow> u \<le> c)"

locale node_breaker =
  fixes allow :: "'b \<Rightarrow> time \<Rightarrow> bool \<times> 'b"
    and unhealthy :: "'b \<Rightarrow> time \<Rightarrow> 'b"
    and healthy :: "'b \<Rightarrow> 'b"
    and blk :: "'b \<Rightarrow> time \<Rightarrow> bool"
    and inv :: "'b \<Rightarrow> time \<Rightarrow> bool"
  assumes allow_iff: "fst (allow b t) \<longleftrightarrow> \<not> blk b t"
    and allow_blocked: "blk b t \<Longrightarrow> snd (allow b t) = b"
    and healthy_blocked: "blk (healthy b) t = blk b t"
    and unhealthy_blocked: "inv b c \<Longrightarrow> c \<le> u \<Longrightarrow> u \<le> t \<Longrightarrow> blk b t \<Longrightarrow> blk (unhealthy b u) t"
    and blocked_earlier: "inv b c \<Longrightarrow> c \<le> u \<Longrightarrow> u \<le> t \<Longrightarrow> blk b t \<Longrightarrow> blk b u"
    and inv_later: "inv b c \<Longrightarrow> c \<le> t \<Longrightarrow> inv b t"
    and inv_allow: "inv b c \<Longrightarrow> c \<le> t \<Longrightarrow> inv (snd (allow b t)) t"
    and inv_unhealthy: "inv b c \<Longrightarrow> c \<le> t \<Longrightarrow> inv (unhealthy b t) t"
    and inv_healthy: "inv b c \<Longrightarrow> inv (healthy b) c"
begin

fun one :: "'b \<Rightarrow> cb_op \<Rightarrow> bool option \<times> 'b" where
  "one b (AskAt t) = (case allow b t of (ok, b') \<Rightarrow> (Some ok, b'))"
| "one b (UnhealthyAt t) = (None, unhealthy b t)"
| "one b (HealthyAt t) = (None, healthy b)"

fun run :: "'b \<Rightarrow> cb_op list \<Rightarrow> bool option list" where
  "run b [] = []"
| "run b (x # xs) = (case one b x of (r, b') \<Rightarrow> r # run b' xs)"

lemma inv_one: "inv b c \<Longrightarrow> inv b (op_time x) \<Longrightarrow> c \<le> op_time x \<Longrightarrow> inv (snd (one b x)) (op_time x)"
  using inv_allow [of b c "op_time x"] inv_unhealthy inv_healthy
  by (cases x) (auto split: prod.splits)

lemma blocked_one:
  assumes "inv b c" "c \<le> op_time x" "op_time x \<le> t" "blk b t"
  shows "fst (one b x) \<noteq> Some True" and "blk (snd (one b x)) t"
proof -
  have bu: "blk b (op_time x)" using blocked_earlier [OF assms] .
  then have a: "allow b (op_time x) = (False, b)"
    using allow_iff [of b "op_time x"] allow_blocked [OF bu] by (cases "allow b (op_time x)") auto
  show "fst (one b x) \<noteq> Some True" using a by (cases x) auto
  show "blk (snd (one b x)) t"
    using a unhealthy_blocked [OF assms] assms(4) by (cases x) (auto simp: healthy_blocked)
qed

text \<open>While the breaker is blocked up to \<open>t\<close>, no request up to \<open>t\<close> is let through.\<close>

lemma blocked_run:
  "inv b c \<Longrightarrow> sorted (map op_time xs) \<Longrightarrow> (\<forall>x \<in> set xs. c \<le> op_time x \<and> op_time x \<le> t) \<Longrightarrow>
     blk b t \<Longrightarrow> Some True \<notin> set (run b xs)"
proof (induction xs arbitrary: b c)
  case Nil
  then show ?case by simp
next
  case (Cons x xs)
  have x: "c \<le> op_time x" "op_time x \<le> t" using Cons.prems(3) by auto
  note step = blocked_one [OF Cons.prems(1) x Cons.prems(4)]
  have "inv (snd (one b x)) (op_time x)"
    using inv_one [OF Cons.prems(1) inv_later [OF Cons.prems(1) x(1)] x(1)] .
  moreover have "\<forall>y \<in> set xs. op_time x \<le> op_time y \<and> op_time y \<le> t" using Cons.prems(2,3) by auto
  ultimately have "Some True \<notin> set (run (snd (one b x)) xs)"
    using Cons.IH [OF _ _ _ step(2)] Cons.prems(2) by auto
  then show ?case using step(1) by (cases "one b x") auto
qed

end

lemma blocked_iff: "blocked cb t \<longleftrightarrow> (\<exists>u. openedAt cb = Some u \<and> time_sub t u < sint (cooldown cb))"
  by (auto simp: blocked_def split: option.splits)

lemma Allow_blocked: "Allow cb t = (if blocked cb t then (False, cb)
    else (True, cb\<lparr>openedAt := None,
       consecutiveUnhealthy := (if openedAt cb = None then consecutiveUnhealthy cb else [])\<rparr>))"
  by (auto simp: Allow_def blocked_def split: option.splits)

lemma time_sub_antimono: "u \<le> u' \<Longrightarrow> time_sub t u' \<le> time_sub t u"
  by (auto simp: time_sub_def)

lemma blocked_antimono: "u \<le> t \<Longrightarrow> blocked cb t \<Longrightarrow> blocked cb u"
  by (auto simp: blocked_iff intro: order.strict_trans1 [OF time_sub_mono])

lemma cb_inv_snoc: "cb_inv cb c \<Longrightarrow> c \<le> t \<Longrightarrow> sorted (consecutiveUnhealthy cb @ [t])"
  by (auto simp: cb_inv_def sorted_append)

lemma cb_inv_unhealthy: "cb_inv cb c \<Longrightarrow> c \<le> t \<Longrightarrow> cb_inv (RecordUnhealthyNode cb t) t"
  using cb_inv_snoc [of cb c t] sorted_wrt_filter [OF cb_inv_snoc [of cb c t]]
  by (auto simp: cb_inv_def pruneExpiredEvents_sorted simp del: filter_append split: option.splits)

lemma cb_inv_later: "cb_inv cb c \<Longrightarrow> c \<le> t \<Longrightarrow> cb_inv cb t"
  by (fastforce simp: cb_inv_def split: option.splits)

lemma cb_inv_healthy: "cb_inv cb c \<Longrightarrow> cb_inv (RecordHealthyNode cb) c"
  by (auto simp: cb_inv_def)

lemma cb_inv_allow: "cb_inv cb c \<Longrightarrow> c \<le> t \<Longrightarrow> cb_inv (snd (Allow cb t)) t"
  by (fastforce simp: cb_inv_def Allow_def split: option.splits if_splits)

lemma blocked_unhealthy:
  assumes "cb_inv cb c" "c \<le> u" "blocked cb t"
  shows "blocked (RecordUnhealthyNode cb u) t"
proof -
  obtain v where v: "openedAt cb = Some v" "time_sub t v < sint (cooldown cb)"
    using assms(3) by (auto simp: blocked_iff)
  have "v \<le> u" using assms(1,2) v(1) by (auto simp: cb_inv_def)
  then have "time_sub t u \<le> time_sub t v" by (rule time_sub_antimono)
  then show ?thesis using v by (simp add: blocked_iff)
qed

interpretation breaker: node_breaker Allow RecordUnhealthyNode RecordHealthyNode blocked cb_inv
proof unfold_locales
  show "fst (Allow b t) \<longleftrightarrow> \<not> blocked b t" for b t by (simp add: Allow_blocked)
  show "blocked b t \<Longrightarrow> snd (Allow b t) = b" for b t by (simp add: Allow_blocked)
  show "blocked (RecordHealthyNode b) t = blocked b t" for b t by (simp add: blocked_iff)
  show "blocked (RecordUnhealthyNode b u) t"
    if "cb_inv b c" "c \<le> u" "u \<le> t" "blocked b t" for b c u t
    using that by (blast intro: blocked_unhealthy)
  show "blocked b u" if "cb_inv b c" "c \<le> u" "u \<le> t" "blocked b t" for b c u t
    using that by (blast intro: blocked_antimono)
  show "cb_inv b t" if "cb_inv b c" "c \<le> t" for b c t
    using that by (rule cb_inv_later)
  show "cb_inv (snd (Allow b t)) t" if "cb_inv b c" "c \<le> t" for b c t
    using that by (rule cb_inv_allow)
  show "cb_inv (RecordUnhealthyNode b t) t" if "cb_inv b c" "c \<le> t" for b c t
    using that by (rule cb_inv_unhealthy)
  show "cb_inv (RecordHealthyNode b) c" if "cb_inv b c" for b c
    using that by (rule cb_inv_healthy)
qed

section \<open>Refinement: pruning is unobservable\<close>

text \<open>
  The specification keeps every unhealthy instant since the last reset and counts, at each
  record, those inside the window. The code keeps a pruned list.
\<close>

fun cb_step :: "circuit_breaker \<Rightarrow> cb_op \<Rightarrow> bool option \<times> circuit_breaker" where
  "cb_step cb (AskAt t) = (case Allow cb t of (ok, cb') \<Rightarrow> (Some ok, cb'))"
| "cb_step cb (UnhealthyAt t) = (None, RecordUnhealthyNode cb t)"
| "cb_step cb (HealthyAt t) = (None, RecordHealthyNode cb)"

record spec_breaker =
  streak :: "time list"
  opened :: "time option"

fun spec_step :: "int \<Rightarrow> duration \<Rightarrow> duration \<Rightarrow> spec_breaker \<Rightarrow> cb_op \<Rightarrow> bool option \<times> spec_breaker" where
  "spec_step th win cool a (AskAt t) =
     (case opened a of
        None \<Rightarrow> (Some True, a)
      | Some u \<Rightarrow> if time_sub t u < sint cool then (Some False, a)
                  else (Some True, \<lparr>streak = [], opened = None\<rparr>))"
| "spec_step th win cool a (UnhealthyAt t) =
     (let st = streak a @ [t]
      in (None, \<lparr>streak = st,
            opened = (if th \<le> int (length (filter (\<lambda>e. time_add t (- win) \<le> e) st)) then Some t
                      else opened a)\<rparr>))"
| "spec_step th win cool a (HealthyAt t) = (None, a\<lparr>streak := []\<rparr>)"

fun cb_run :: "circuit_breaker \<Rightarrow> cb_op list \<Rightarrow> bool option list" where
  "cb_run cb [] = []"
| "cb_run cb (x # xs) = (case cb_step cb x of (o1, cb') \<Rightarrow> o1 # cb_run cb' xs)"

fun spec_run :: "int \<Rightarrow> duration \<Rightarrow> duration \<Rightarrow> spec_breaker \<Rightarrow> cb_op list \<Rightarrow> bool option list" where
  "spec_run th win cool a [] = []"
| "spec_run th win cool a (x # xs) =
     (case spec_step th win cool a x of (o1, a') \<Rightarrow> o1 # spec_run th win cool a' xs)"

text \<open>The simulation relation at time \<open>c\<close>, for a breaker with the parameters of the specification.\<close>

definition sim :: "int \<Rightarrow> duration \<Rightarrow> duration \<Rightarrow> time \<Rightarrow> spec_breaker \<Rightarrow> circuit_breaker \<Rightarrow> bool" where
  "sim th win cool c a cb \<longleftrightarrow>
     threshold cb = th \<and> window cb = win \<and> cooldown cb = cool \<and> openedAt cb = opened a \<and>
     cb_inv cb c \<and>
     (\<exists>cut \<le> time_add c (- win). consecutiveUnhealthy cb = filter (\<lambda>e. cut \<le> e) (streak a))"

lemma time_add_mono: "t \<le> t' \<Longrightarrow> time_add t d \<le> time_add t' d"
  by (simp add: time_add_def)

lemma sim_later: "sim th win cool c a cb \<Longrightarrow> c \<le> t \<Longrightarrow> sim th win cool t a cb"
  unfolding sim_def cb_inv_def
  by (elim conjE exE, intro conjI exI) (auto intro: order.trans time_add_mono split: option.splits)

lemma filter_le_filter_le:
  "(c :: int) \<le> d \<Longrightarrow> filter (\<lambda>e. d \<le> e) (filter (\<lambda>e. c \<le> e) xs) = filter (\<lambda>e. d \<le> e) xs"
  by (auto intro: filter_cong)

lemma sim_unhealthy:
  assumes s: "sim th win cool c a cb" and t: "c \<le> t"
  shows "sim th win cool t (snd (spec_step th win cool a (UnhealthyAt t))) (RecordUnhealthyNode cb t)"
proof -
  let ?new = "time_add t (- win)"
  obtain cut where cut: "cut \<le> time_add c (- win)"
    "consecutiveUnhealthy cb = filter (\<lambda>e. cut \<le> e) (streak a)"
    using s by (auto simp: sim_def)
  have le: "cut \<le> ?new" using cut(1) time_add_mono [OF t, of "- win"] by simp
  have inv: "cb_inv cb c" using s by (simp add: sim_def)
  have "pruneExpiredEvents (consecutiveUnhealthy cb @ [t]) win t =
      filter (\<lambda>e. ?new \<le> e) (consecutiveUnhealthy cb @ [t])"
    by (rule pruneExpiredEvents_sorted, rule cb_inv_snoc [OF inv t])
  also have "\<dots> = filter (\<lambda>e. ?new \<le> e) (streak a @ [t])"
    using filter_le_filter_le [OF le, of "streak a"] by (simp add: cut(2))
  finally have prune: "pruneExpiredEvents (consecutiveUnhealthy cb @ [t]) win t =
      filter (\<lambda>e. ?new \<le> e) (streak a @ [t])" .
  show ?thesis
    using s cb_inv_unhealthy [OF inv t] prune by (auto simp: sim_def Let_def)
qed

lemma sim_step:
  assumes s: "sim th win cool c a cb" and t: "c \<le> op_time x"
  shows "fst (cb_step cb x) = fst (spec_step th win cool a x) \<and>
         sim th win cool (op_time x) (snd (spec_step th win cool a x)) (snd (cb_step cb x))"
proof (cases x)
  case (UnhealthyAt t)
  then show ?thesis using sim_unhealthy [OF s] t by (simp add: Let_def)
next
  case (HealthyAt t)
  then show ?thesis using sim_later [OF s] t cb_inv_healthy [of cb t]
    by (auto simp: sim_def intro: exI [of _ "time_add t (- win)"])
next
  case (AskAt t)
  then have st: "sim th win cool t a cb" using sim_later [OF s] t by simp
  moreover have "cb_inv (snd (Allow cb t)) t"
    using cb_inv_allow [of cb t t] st by (simp add: sim_def)
  ultimately show ?thesis using AskAt
    by (auto simp: sim_def Allow_def not_less intro: exI [of _ "time_add t (- win)"]
        split: option.splits)
qed

lemma sim_run:
  "sim th win cool c a cb \<Longrightarrow> sorted (map op_time xs) \<Longrightarrow> (\<forall>x \<in> set xs. c \<le> op_time x) \<Longrightarrow>
     cb_run cb xs = spec_run th win cool a xs"
proof (induction xs arbitrary: c a cb)
  case Nil
  then show ?case by simp
next
  case (Cons x xs)
  have "c \<le> op_time x" using Cons.prems(3) by simp
  note step = sim_step [OF Cons.prems(1) this]
  have "cb_run (snd (cb_step cb x)) xs = spec_run th win cool (snd (spec_step th win cool a x)) xs"
    using Cons.prems(2) step by (intro Cons.IH) auto
  then show ?case using step by (auto split: prod.splits)
qed

lemma sim_new:
  "sim th win cool c \<lparr>streak = [], opened = None\<rparr> (NewNodeConditionCircuitBreaker th win cool)"
  by (auto simp: sim_def NewNodeConditionCircuitBreaker_def cb_inv_def)

section \<open>Properties\<close>

lemmas default_breaker = DefaultCircuitBreakerThreshold_def DefaultCircuitBreakerWindow_def
  DefaultCircuitBreakerCooldown_def NewNodeConditionCircuitBreaker_def

text \<open>C13: every sequence of operations at non-decreasing instants gives, on a new breaker, the
  verdicts of the specification that never prunes: dropping old events from the list loses no
  trip and causes none.\<close>

theorem breaker_refines_spec:
  assumes "sorted (map op_time xs)"
  shows "cb_run (NewNodeConditionCircuitBreaker th win cool) xs =
         spec_run th win cool \<lparr>streak = [], opened = None\<rparr> xs"
proof (cases xs)
  case Nil
  then show ?thesis by simp
next
  case (Cons x xs')
  then have "\<forall>y \<in> set xs. op_time x \<le> op_time y" using assms by auto
  with sim_run [OF sim_new assms] show ?thesis by blast
qed

theorem breaker_refines_spec_witness:
  "cb_run (NewNodeConditionCircuitBreaker 2 10 5)
     [UnhealthyAt 0, UnhealthyAt 20, UnhealthyAt 25, AskAt 26, AskAt 30] =
   [None, None, None, Some False, Some True]"
  using breaker_refines_spec [of "[UnhealthyAt 0, UnhealthyAt 20, UnhealthyAt 25, AskAt 26, AskAt 30]" 2 10 5]
  by (simp add: time_add_def time_sub_def max_duration_def min_duration_def)

lemma cb_run_breaker: "cb_run cb xs = breaker.run cb xs"
proof (induction xs arbitrary: cb)
  case Nil
  then show ?case by simp
next
  case (Cons x xs)
  have "cb_step cb x = breaker.one cb x" by (cases x) auto
  then show ?case using Cons.IH by (simp split: prod.splits)
qed

text \<open>While the cooldown of an open breaker has not passed at \<open>t\<close>, no update asked for up to \<open>t\<close>
  is let through, whatever results are recorded in between.\<close>

theorem breaker_blocks_during_cooldown:
  assumes "cb_inv cb c" and "openedAt cb = Some u" and "time_sub t u < sint (cooldown cb)"
    and "sorted (map op_time xs)" and "\<forall>x \<in> set xs. c \<le> op_time x \<and> op_time x \<le> t"
  shows "Some True \<notin> set (cb_run cb xs)"
proof -
  have "blocked cb t" using assms(2,3) by (simp add: blocked_iff)
  with breaker.blocked_run [OF assms(1,4,5)] show ?thesis by (simp add: cb_run_breaker)
qed

theorem breaker_blocks_during_cooldown_witness:
  "Some True \<notin> set (cb_run \<lparr>threshold = 1, window = 10, cooldown = 5,
     consecutiveUnhealthy = [0], openedAt = Some 0\<rparr> [AskAt 1, HealthyAt 2, AskAt 3, UnhealthyAt 3, AskAt 4])"
  by (rule breaker_blocks_during_cooldown [of _ 0 0 4])
     (simp_all add: cb_inv_def time_sub_def max_duration_def min_duration_def)

text \<open>A record that completes \<open>threshold\<close> unhealthy results within the window opens the breaker;
  it is then shut exactly until the cooldown has passed, and the first request after that finds it
  as new.\<close>

theorem breaker_trips_and_recovers:
  assumes "sorted (consecutiveUnhealthy cb @ [u])"
    and "threshold cb \<le>
           int (length (filter (\<lambda>e. time_add u (- window cb) \<le> e) (consecutiveUnhealthy cb @ [u])))"
  shows "Allow (RecordUnhealthyNode cb u) t =
    (if sint (cooldown cb) \<le> time_sub t u
     then (True, NewNodeConditionCircuitBreaker (threshold cb) (window cb) (cooldown cb))
     else (False, RecordUnhealthyNode cb u))"
  using assms pruneExpiredEvents_sorted [OF assms(1), of "window cb" u]
  by (simp add: Allow_def NewNodeConditionCircuitBreaker_def del: filter_append)

theorem breaker_trips_and_recovers_witness:
  "Allow (RecordUnhealthyNode \<lparr>threshold = 2, window = 10, cooldown = 5,
     consecutiveUnhealthy = [0], openedAt = None\<rparr> 7) 12 = (True, NewNodeConditionCircuitBreaker 2 10 5)"
  using breaker_trips_and_recovers [of "\<lparr>threshold = 2, window = 10, cooldown = 5,
     consecutiveUnhealthy = [0], openedAt = None\<rparr>" 7 12]
  by (simp add: time_add_def time_sub_def max_duration_def min_duration_def)

text \<open>
  One finished check every five minutes, each unhealthy: ask, then record. After three of them
  the default breaker is open, and every further record moves the opening forward.
\<close>

definition five_minutes :: int where "five_minutes = 300000000000"

fun every_five_minutes :: "time \<Rightarrow> nat \<Rightarrow> cb_op list" where
  "every_five_minutes t 0 = []"
| "every_five_minutes t (Suc n) =
     AskAt t # UnhealthyAt t # every_five_minutes (t + five_minutes) n"

definition kept_open :: "time \<Rightarrow> circuit_breaker" where
  "kept_open t = \<lparr>threshold = DefaultCircuitBreakerThreshold, window = DefaultCircuitBreakerWindow,
     cooldown = DefaultCircuitBreakerCooldown,
     consecutiveUnhealthy =
       [t - 3 * five_minutes, t - 2 * five_minutes, t - five_minutes, t], openedAt = Some t\<rparr>"

lemma kept_open_step:
  "Allow (kept_open t) (t + five_minutes) = (False, kept_open t)"
  "RecordUnhealthyNode (kept_open t) (t + five_minutes) = kept_open (t + five_minutes)"
  by (simp_all add: kept_open_def Allow_def RecordUnhealthyNode_def pruneExpiredEvents_def Let_def
      default_breaker time_units five_minutes_def time_sub_def time_add_def max_duration_def min_duration_def)

lemma kept_open_run:
  "u = t + five_minutes \<Longrightarrow> cb_run (kept_open t) (every_five_minutes u n) =
     concat (replicate n [Some False, None])"
proof (induction n arbitrary: t u)
  case 0
  then show ?case by simp
next
  case (Suc n)
  have "cb_run (kept_open u) (every_five_minutes (u + five_minutes) n) = concat (replicate n [Some False, None])"
    by (rule Suc.IH) (rule refl)
  then show ?case using kept_open_step [of t] Suc.prems by simp
qed

lemma first_four:
  "cb_run (NewNodeConditionCircuitBreaker DefaultCircuitBreakerThreshold DefaultCircuitBreakerWindow
      DefaultCircuitBreakerCooldown) (every_five_minutes t (4 + n)) =
   [Some True, None, Some True, None, Some True, None, Some False, None] @
     cb_run (kept_open (t + 3 * five_minutes)) (every_five_minutes (t + 3 * five_minutes + five_minutes) n)"
proof -
  have eq: "every_five_minutes t (4 + n) =
     [AskAt t, UnhealthyAt t, AskAt (t + five_minutes), UnhealthyAt (t + five_minutes),
      AskAt (t + 2 * five_minutes), UnhealthyAt (t + 2 * five_minutes),
      AskAt (t + 3 * five_minutes), UnhealthyAt (t + 3 * five_minutes)] @
     every_five_minutes (t + 3 * five_minutes + five_minutes) n"
    by (simp add: eval_nat_numeral five_minutes_def)
  show ?thesis unfolding eq
    by (simp add: kept_open_def Allow_def RecordUnhealthyNode_def pruneExpiredEvents_def Let_def
      default_breaker time_units five_minutes_def time_sub_def time_add_def max_duration_def min_duration_def add.commute)
qed

text \<open>C14: with the default parameters and an unhealthy result every five minutes, the first three
  updates are let through and no later one ever is: the cooldown of ten minutes does not bound
  the time the breaker stays open, because results recorded while it is open reopen it.\<close>

theorem breaker_can_stay_open_forever:
  "cb_run (NewNodeConditionCircuitBreaker DefaultCircuitBreakerThreshold DefaultCircuitBreakerWindow
      DefaultCircuitBreakerCooldown) (every_five_minutes t (3 + n)) =
   [Some True, None, Some True, None, Some True, None] @ concat (replicate n [Some False, None])"
proof (cases n)
  case 0
  then show ?thesis
    by (simp add: eval_nat_numeral Allow_def RecordUnhealthyNode_def pruneExpiredEvents_def Let_def
      default_breaker time_units five_minutes_def time_sub_def time_add_def max_duration_def min_duration_def)
next
  case (Suc k)
  then show ?thesis using first_four [of t k] kept_open_run [OF refl, of "t + 3 * five_minutes" k] by simp
qed

end
