(* ===== verification/CheckResults.thy ===== *)
theory CheckResults
  imports KubeObjects "HOL-Library.Multiset"
begin

text \<open>
  The check results of a CheckNodeHealth and the verdict drawn from them
  (\<open>pkg/controller/checknodehealth/controller.go\<close>, \<open>determineHealthyCondition\<close> and its helpers;
  \<open>pod.go\<close>, \<open>updateCheckResult\<close>). The abstract specification of the verdict is a maximum over
  severities.
\<close>

section \<open>Constants\<close>

definition ConditionTypeHealthy :: string where [go_const]: "ConditionTypeHealthy = ''Healthy''"
definition ReasonCheckStarted :: string where [go_const]: "ReasonCheckStarted = ''CheckStarted''"
definition ReasonCheckPassed :: string where [go_const]: "ReasonCheckPassed = ''CheckPassed''"
definition ReasonCheckFailed :: string where [go_const]: "ReasonCheckFailed = ''CheckFailed''"
definition ReasonCheckUnknown :: string where [go_const]: "ReasonCheckUnknown = ''CheckUnknown''"

definition RequiredCheckResults :: "string list" where
  "RequiredCheckResults = [''PodStartup'', ''PodNetwork'']"

section \<open>The verdict as the controller computes it\<close>

abbreviation results_of :: "CheckNodeHealth \<Rightarrow> CheckResult list" where
  "results_of cnh \<equiv> Results (cnhStatus cnh)"

definition empty_result :: CheckResult where
  "empty_result = \<lparr>crName = '''', crStatus = '''', crMessage = '''', crErrorCode = ''''\<rparr>"

fun find_result_in :: "CheckResult list \<Rightarrow> string \<Rightarrow> bool \<times> CheckResult" where
  "find_result_in [] name = (False, empty_result)"
| "find_result_in (r # rs) name = (if crName r = name then (True, r) else find_result_in rs name)"

definition findResult :: "CheckNodeHealth \<Rightarrow> string \<Rightarrow> bool \<times> CheckResult" where
  "findResult cnh name = find_result_in (results_of cnh) name"

definition findMissingResult :: "CheckNodeHealth \<Rightarrow> string list" where
  "findMissingResult cnh = filter (\<lambda>name. \<not> fst (findResult cnh name)) RequiredCheckResults"

definition hasUnknownResult :: "CheckNodeHealth \<Rightarrow> bool" where
  "hasUnknownResult cnh = list_ex (\<lambda>r. crStatus r = CheckStatusUnknown) (results_of cnh)"

definition hasUnhealthyResult :: "CheckNodeHealth \<Rightarrow> bool" where
  "hasUnhealthyResult cnh = list_ex (\<lambda>r. crStatus r = CheckStatusUnhealthy) (results_of cnh)"

definition allResultsHealthy :: "CheckNodeHealth \<Rightarrow> bool" where
  "allResultsHealthy cnh = list_all (\<lambda>r. crStatus r = CheckStatusHealthy) (results_of cnh)"

definition formatResultsMessage :: "CheckNodeHealth \<Rightarrow> string" where
  "formatResultsMessage cnh =
     join [CHR 0x0A]
       (map (\<lambda>r. crName r @ '': '' @ crStatus r) (results_of cnh) @
        map (\<lambda>missing. missing @ '': Missing'') (findMissingResult cnh))"

definition determineHealthyCondition :: "CheckNodeHealth \<Rightarrow> string \<times> string \<times> string" where
  "determineHealthyCondition cnh =
     (let message = formatResultsMessage cnh
      in if hasUnhealthyResult cnh then (ConditionFalse, ReasonCheckFailed, message)
         else if hasUnknownResult cnh then (ConditionUnknown, ReasonCheckUnknown, message)
         else if length (findMissingResult cnh) > 0 then (ConditionUnknown, ReasonCheckUnknown, message)
         else if allResultsHealthy cnh then (ConditionTrue, ReasonCheckPassed, message)
         else (ConditionUnknown, ReasonCheckUnknown, message))"

fun upsert_result :: "CheckResult \<Rightarrow> CheckResult list \<Rightarrow> CheckResult list" where
  "upsert_result new [] = [new]"
| "upsert_result new (r # rs) =
     (if crName r = crName new then new # rs else r # upsert_result new rs)"

definition updateCheckResult :: "CheckNodeHealth \<Rightarrow> CheckResult \<Rightarrow> CheckNodeHealth" where
  "updateCheckResult cnh newResult =
     cnh\<lparr>cnhStatus := (cnhStatus cnh)\<lparr>Results := upsert_result newResult (results_of cnh)\<rparr>\<rparr>"

section \<open>Tables updated by key\<close>

text \<open>
  The check results are a table by name, updated by a loop that rewrites the first entry with the
  key or appends one; \<open>merge\<close> says what the new entry takes over from the old.
\<close>

locale keyed_upsert =
  fixes key :: "'a \<Rightarrow> 'k"
    and merge :: "'a option \<Rightarrow> 'a \<Rightarrow> 'a"
    and put :: "'a \<Rightarrow> 'a list \<Rightarrow> 'a list"
  assumes put_same: "find (\<lambda>x. key x = key a) (put a xs) = Some (merge (find (\<lambda>x. key x = key a) xs) a)"
    and put_other: "k \<noteq> key a \<Longrightarrow> find (\<lambda>x. key x = k) (put a xs) = find (\<lambda>x. key x = k) xs"
    and put_keys: "map key (put a xs) =
      (if key a \<in> set (map key xs) then map key xs else map key xs @ [key a])"
begin

lemma distinct_put: "distinct (map key xs) \<Longrightarrow> distinct (map key (put a xs))"
  by (simp add: put_keys)

lemma put_keys_set: "key ` set (put a xs) = insert (key a) (key ` set xs)"
proof -
  have "key ` set (put a xs) = set (map key (put a xs))" by simp
  also have "\<dots> = insert (key a) (key ` set xs)" by (subst put_keys) auto
  finally show ?thesis .
qed

lemma length_put: "length (put a xs) = (if key a \<in> key ` set xs then length xs else Suc (length xs))"
proof -
  have "length (put a xs) = length (map key (put a xs))" by simp
  also have "\<dots> = (if key a \<in> key ` set xs then length xs else Suc (length xs))"
    by (subst put_keys) simp
  finally show ?thesis .
qed

lemma put_commute:
  "key a \<noteq> key b \<Longrightarrow>
     find (\<lambda>x. key x = k) (put a (put b xs)) = find (\<lambda>x. key x = k) (put b (put a xs))"
  using put_same [of a] put_same [of b] put_other [of k a] put_other [of k b]
    put_other [of "key a" b] put_other [of "key b" a]
  by (cases "k = key a"; cases "k = key b") auto

end

lemma upsert_result_keys:
  "map crName (upsert_result new rs) =
     (if crName new \<in> set (map crName rs) then map crName rs else map crName rs @ [crName new])"
  by (induction rs) auto

interpretation results: keyed_upsert crName "\<lambda>_ r. r" upsert_result
proof unfold_locales
  show "find (\<lambda>x. crName x = crName a) (upsert_result a xs) = Some a" for a xs
    by (induction xs) auto
  show "k \<noteq> crName a \<Longrightarrow> find (\<lambda>x. crName x = k) (upsert_result a xs) = find (\<lambda>x. crName x = k) xs"
    for k a xs by (induction xs) auto
qed (rule upsert_result_keys)

section \<open>The specification: a maximum over severities\<close>

datatype severity = SevHealthy | SevUnknown | SevUnhealthy

fun rank :: "severity \<Rightarrow> nat" where
  "rank SevHealthy = 0"
| "rank SevUnknown = 1"
| "rank SevUnhealthy = 2"

lemma rank_inject [simp]: "rank a = rank b \<longleftrightarrow> a = b"
  by (cases a; cases b) auto

instantiation severity :: linorder
begin
definition less_eq_severity :: "severity \<Rightarrow> severity \<Rightarrow> bool" where
  "less_eq_severity a b \<longleftrightarrow> rank a \<le> rank b"
definition less_severity :: "severity \<Rightarrow> severity \<Rightarrow> bool" where
  "less_severity a b \<longleftrightarrow> rank a < rank b"
instance
  by standard (auto simp: less_eq_severity_def less_severity_def)
end

lemma SevHealthy_least [simp]: "SevHealthy \<le> a"
  by (cases a) (simp_all add: less_eq_severity_def)

lemma max_SevHealthy [simp]: "max SevHealthy a = a" "max a SevHealthy = a"
  by (simp_all add: max_absorb1 max_absorb2)

fun severity_of_status :: "string \<Rightarrow> severity" where
  "severity_of_status st =
     (if st = CheckStatusHealthy then SevHealthy
      else if st = CheckStatusUnhealthy then SevUnhealthy
      else SevUnknown)"

lemma severity_Healthy [simp]: "severity_of_status st = SevHealthy \<longleftrightarrow> st = CheckStatusHealthy"
  by simp

definition severities :: "CheckResult list \<Rightarrow> severity list" where
  "severities rs = map (severity_of_status \<circ> crStatus) rs @
     map (\<lambda>n. if n \<in> crName ` set rs then SevHealthy else SevUnknown) RequiredCheckResults"

definition verdict :: "CheckResult list \<Rightarrow> severity" where
  "verdict rs = foldr max (severities rs) SevHealthy"

fun condition_of :: "severity \<Rightarrow> string \<times> string" where
  "condition_of SevHealthy = (ConditionTrue, ReasonCheckPassed)"
| "condition_of SevUnknown = (ConditionUnknown, ReasonCheckUnknown)"
| "condition_of SevUnhealthy = (ConditionFalse, ReasonCheckFailed)"

lemma max_Unhealthy: "max a b = SevUnhealthy \<longleftrightarrow> a = SevUnhealthy \<or> b = SevUnhealthy"
  by (cases a; cases b) (simp_all add: max_def less_eq_severity_def)

lemma max_Healthy: "max a b = SevHealthy \<longleftrightarrow> a = SevHealthy \<and> b = SevHealthy"
  by (cases a; cases b) (simp_all add: max_def less_eq_severity_def)

lemma foldr_max_Unhealthy: "foldr max xs SevHealthy = SevUnhealthy \<longleftrightarrow> SevUnhealthy \<in> set xs"
  by (induction xs) (auto simp: max_Unhealthy)

lemma foldr_max_Healthy: "foldr max xs SevHealthy = SevHealthy \<longleftrightarrow> list_all (\<lambda>x. x = SevHealthy) xs"
  by (induction xs) (auto simp: max_Healthy)

lemma find_result_in_fst: "fst (find_result_in rs name) \<longleftrightarrow> name \<in> crName ` set rs"
  by (induction rs) auto

lemma findMissingResult_iff: "findMissingResult cnh = [] \<longleftrightarrow> set RequiredCheckResults \<subseteq> crName ` set (results_of cnh)"
  by (auto simp: findMissingResult_def findResult_def find_result_in_fst filter_empty_conv)

lemma status_distinct [simp]:
  "CheckStatusHealthy \<noteq> CheckStatusUnhealthy" "CheckStatusUnhealthy \<noteq> CheckStatusHealthy"
  "CheckStatusHealthy \<noteq> CheckStatusUnknown" "CheckStatusUnknown \<noteq> CheckStatusHealthy"
  "CheckStatusUnhealthy \<noteq> CheckStatusUnknown" "CheckStatusUnknown \<noteq> CheckStatusUnhealthy"
  by (simp_all add: go_const)

lemma condition_distinct [simp]:
  "ConditionTrue \<noteq> ConditionFalse" "ConditionFalse \<noteq> ConditionTrue"
  "ConditionTrue \<noteq> ConditionUnknown" "ConditionUnknown \<noteq> ConditionTrue"
  "ConditionFalse \<noteq> ConditionUnknown" "ConditionUnknown \<noteq> ConditionFalse"
  by (simp_all add: go_const)

lemma verdict_Unhealthy: "verdict (results_of cnh) = SevUnhealthy \<longleftrightarrow> hasUnhealthyResult cnh"
  unfolding verdict_def foldr_max_Unhealthy hasUnhealthyResult_def severities_def
  by (force simp: list_ex_iff)

lemma verdict_Healthy:
  "verdict (results_of cnh) = SevHealthy \<longleftrightarrow> findMissingResult cnh = [] \<and> allResultsHealthy cnh"
proof -
  have req: "list_all (\<lambda>n. (if n \<in> N then SevHealthy else SevUnknown) = SevHealthy) ns \<longleftrightarrow> set ns \<subseteq> N"
    for N and ns :: "string list"
    by (induction ns) auto
  show ?thesis
    unfolding verdict_def foldr_max_Healthy findMissingResult_iff allResultsHealthy_def severities_def
    by (simp add: list.pred_map comp_def req conj_commute del: severity_of_status.simps)
qed

lemma verdict_fst: "fst (condition_of v) = ConditionTrue \<longleftrightarrow> v = SevHealthy"
  "fst (condition_of v) = ConditionFalse \<longleftrightarrow> v = SevUnhealthy"
  by (cases v; simp)+

lemma allResultsHealthy_no:
  "allResultsHealthy cnh \<Longrightarrow> \<not> hasUnhealthyResult cnh \<and> \<not> hasUnknownResult cnh"
  by (auto simp: allResultsHealthy_def hasUnhealthyResult_def hasUnknownResult_def list_all_iff list_ex_iff)

lemma determineHealthyCondition_verdict:
  "determineHealthyCondition cnh =
     (fst (condition_of (verdict (results_of cnh))), snd (condition_of (verdict (results_of cnh))),
      formatResultsMessage cnh)"
proof (cases "verdict (results_of cnh)")
  case SevHealthy
  then show ?thesis using verdict_Healthy [of cnh] allResultsHealthy_no [of cnh]
    by (auto simp: determineHealthyCondition_def Let_def)
next
  case SevUnhealthy
  then show ?thesis using verdict_Unhealthy [of cnh] by (auto simp: determineHealthyCondition_def Let_def)
next
  case SevUnknown
  then show ?thesis using verdict_Unhealthy [of cnh] verdict_Healthy [of cnh]
    by (auto simp: determineHealthyCondition_def Let_def)
qed

section \<open>Properties\<close>

text \<open>C15: the verdict is the worst severity over the reported results and the required results that
  are missing, which count as Unknown, as does any status other than Healthy and Unhealthy; the
  message is the summary of the results whichever rule decided. This holds of every list of
  results, so the last branch of the code is its Unknown verdict for an unexpected status.\<close>

theorem determineHealthyCondition_is_worst_severity:
  "determineHealthyCondition cnh =
     (fst (condition_of (verdict (results_of cnh))), snd (condition_of (verdict (results_of cnh))),
      formatResultsMessage cnh)"
  by (rule determineHealthyCondition_verdict)

text \<open>A node is declared healthy exactly when every required check has reported and every reported
  result is Healthy.\<close>

theorem healthy_iff_required_present_and_all_healthy:
  "fst (determineHealthyCondition cnh) = ConditionTrue \<longleftrightarrow>
     set RequiredCheckResults \<subseteq> crName ` set (results_of cnh) \<and>
     list_all (\<lambda>r. crStatus r = CheckStatusHealthy) (results_of cnh)"
  by (simp add: determineHealthyCondition_verdict verdict_fst verdict_Healthy
      findMissingResult_iff allResultsHealthy_def)

text \<open>The order of the results does not matter: the node checker writes them in map order.\<close>

lemma verdict_mset:
  assumes "mset rs = mset rs'"
  shows "verdict rs = verdict rs'"
proof -
  have "set rs = set rs'" using assms by (rule mset_eq_setD)
  then have "set (severities rs) = set (severities rs')" by (auto simp: severities_def)
  then have "verdict rs = SevUnhealthy \<longleftrightarrow> verdict rs' = SevUnhealthy"
    and "verdict rs = SevHealthy \<longleftrightarrow> verdict rs' = SevHealthy"
    by (simp_all add: verdict_def foldr_max_Unhealthy foldr_max_Healthy list_all_iff)
  then show ?thesis by (cases "verdict rs"; cases "verdict rs'") simp_all
qed

text \<open>\<open>updateCheckResult\<close> is an update of the table of results: the new result is found under its
  name, every other name keeps its result, names stay unique, and nothing but the results of the
  status changes.\<close>

theorem updateCheckResult_is_table_update:
  "find (\<lambda>r. crName r = n) (results_of (updateCheckResult cnh new)) =
     (if n = crName new then Some new else find (\<lambda>r. crName r = n) (results_of cnh)) \<and>
   distinct (map crName (results_of (updateCheckResult cnh new))) =
     distinct (map crName (results_of cnh)) \<and>
   updateCheckResult cnh new =
     cnh\<lparr>cnhStatus := (cnhStatus cnh)\<lparr>Results := results_of (updateCheckResult cnh new)\<rparr>\<rparr>"
  using results.put_same [of new "results_of cnh"] results.put_other [of n new "results_of cnh"]
    results.put_keys [of new "results_of cnh"]
  by (auto simp: updateCheckResult_def)

end
