(* ===== verification/CnhApi.thy ===== *)
theory CnhApi
  imports CircuitBreaker CheckResults
begin

text \<open>
  What the CheckNodeHealth controller runs on. The Kubernetes client, the clock and the helpers of
  controller-runtime are not part of the repository: they are the fields of \<open>cnh_env\<close>, arbitrary
  functions on an arbitrary world. Every client call is logged with its request and its answer.
  The laws some properties need of them are named predicates on \<open>cnh_env\<close>.
\<close>

section \<open>The client, as a parameter\<close>

record 'w cnh_env =
  env_now :: "'w \<Rightarrow> time \<times> 'w"
  env_get_cnh :: "string \<Rightarrow> 'w \<Rightarrow> (go_error + CheckNodeHealth) \<times> 'w"
  env_update_cnh :: "CheckNodeHealth \<Rightarrow> 'w \<Rightarrow> (go_error + CheckNodeHealth) \<times> 'w"
  env_status_update :: "CheckNodeHealth \<Rightarrow> 'w \<Rightarrow> (go_error + CheckNodeHealth) \<times> 'w"
  env_delete_cnh :: "CheckNodeHealth \<Rightarrow> 'w \<Rightarrow> go_error option \<times> 'w"
  env_list_pods :: "string \<Rightarrow> string \<Rightarrow> string \<Rightarrow> 'w \<Rightarrow> (go_error + Pod list) \<times> 'w"
  env_create_pod :: "Pod \<Rightarrow> 'w \<Rightarrow> (go_error + Pod) \<times> 'w"
  env_get_pod :: "string \<Rightarrow> string \<Rightarrow> 'w \<Rightarrow> (go_error + Pod) \<times> 'w"
  env_delete_pod :: "Pod \<Rightarrow> 'w \<Rightarrow> go_error option \<times> 'w"
  env_get_node :: "string \<Rightarrow> 'w \<Rightarrow> (go_error + Node) \<times> 'w"
  env_patch_node_status :: "Node \<Rightarrow> Node \<Rightarrow> 'w \<Rightarrow> go_error option \<times> 'w"
  env_contains_finalizer :: "string list \<Rightarrow> string \<Rightarrow> bool"
  env_add_finalizer :: "string list \<Rightarrow> string \<Rightarrow> string list"
  env_remove_finalizer :: "string list \<Rightarrow> string \<Rightarrow> string list"
  env_set_controller :: "CheckNodeHealth \<Rightarrow> Pod \<Rightarrow> go_error + Pod"

text \<open>The calls, each with its request and its answer (\<open>Inl\<close> or \<open>Some\<close> an error).\<close>

datatype cnh_event =
    GetCNH string "go_error + CheckNodeHealth"
  | UpdateCNH CheckNodeHealth "go_error + CheckNodeHealth"
  | StatusUpdateCNH CheckNodeHealth "go_error + CheckNodeHealth"
  | DeleteCNH CheckNodeHealth "go_error option"
  | ListPods string string string "go_error + Pod list"
  | CreatePod Pod "go_error + Pod"
  | GetPod string string "go_error + Pod"
  | DeletePod Pod "go_error option"
  | GetNode string "go_error + Node"
  | PatchNodeStatus Node Node "go_error option"

text \<open>A call that was answered with an error.\<close>

fun failed_call :: "cnh_event \<Rightarrow> bool" where
  "failed_call (GetCNH _ x) = (case x of Inl _ \<Rightarrow> True | Inr _ \<Rightarrow> False)"
| "failed_call (UpdateCNH _ x) = (case x of Inl _ \<Rightarrow> True | Inr _ \<Rightarrow> False)"
| "failed_call (StatusUpdateCNH _ x) = (case x of Inl _ \<Rightarrow> True | Inr _ \<Rightarrow> False)"
| "failed_call (DeleteCNH _ x) = (x \<noteq> None)"
| "failed_call (ListPods _ _ _ x) = (case x of Inl _ \<Rightarrow> True | Inr _ \<Rightarrow> False)"
| "failed_call (CreatePod _ x) = (case x of Inl _ \<Rightarrow> True | Inr _ \<Rightarrow> False)"
| "failed_call (GetPod _ _ x) = (case x of Inl _ \<Rightarrow> True | Inr _ \<Rightarrow> False)"
| "failed_call (DeletePod _ x) = (x \<noteq> None)"
| "failed_call (GetNode _ x) = (case x of Inl _ \<Rightarrow> True | Inr _ \<Rightarrow> False)"
| "failed_call (PatchNodeStatus _ _ x) = (x \<noteq> None)"

text \<open>The reconciler's own state is the circuit breaker; the rest of the struct is configuration.\<close>

record 'w cnh_rt = "('w, cnh_event) rt" +
  breaker :: circuit_breaker

type_synonym ('w, 'a) cnh_prog = "('w cnh_rt, 'a) state"

record CheckNodeHealthReconciler =
  CheckerPodLabel :: string
  CheckerPodImage :: string
  CheckerPodNamespace :: string
  EnableNodeCondition :: bool

section \<open>The calls as programs\<close>

definition clock :: "'w cnh_env \<Rightarrow> ('w, time) cnh_prog" where
  "clock env = observe (env_now env)"

definition get_cnh :: "'w cnh_env \<Rightarrow> string \<Rightarrow> ('w, go_error + CheckNodeHealth) cnh_prog" where
  "get_cnh env n = perform (GetCNH n) (env_get_cnh env n)"

definition update_cnh :: "'w cnh_env \<Rightarrow> CheckNodeHealth \<Rightarrow> ('w, go_error + CheckNodeHealth) cnh_prog" where
  "update_cnh env c = perform (UpdateCNH c) (env_update_cnh env c)"

definition status_update :: "'w cnh_env \<Rightarrow> CheckNodeHealth \<Rightarrow> ('w, go_error + CheckNodeHealth) cnh_prog" where
  "status_update env c = perform (StatusUpdateCNH c) (env_status_update env c)"

definition delete_cnh :: "'w cnh_env \<Rightarrow> CheckNodeHealth \<Rightarrow> ('w, go_error option) cnh_prog" where
  "delete_cnh env c = perform (DeleteCNH c) (env_delete_cnh env c)"

definition list_pods :: "'w cnh_env \<Rightarrow> string \<Rightarrow> string \<Rightarrow> string \<Rightarrow> ('w, go_error + Pod list) cnh_prog" where
  "list_pods env ns k v = perform (ListPods ns k v) (env_list_pods env ns k v)"

definition create_pod :: "'w cnh_env \<Rightarrow> Pod \<Rightarrow> ('w, go_error + Pod) cnh_prog" where
  "create_pod env p = perform (CreatePod p) (env_create_pod env p)"

definition get_pod :: "'w cnh_env \<Rightarrow> string \<Rightarrow> string \<Rightarrow> ('w, go_error + Pod) cnh_prog" where
  "get_pod env n ns = perform (GetPod n ns) (env_get_pod env n ns)"

definition delete_pod :: "'w cnh_env \<Rightarrow> Pod \<Rightarrow> ('w, go_error option) cnh_prog" where
  "delete_pod env p = perform (DeletePod p) (env_delete_pod env p)"

definition get_node :: "'w cnh_env \<Rightarrow> string \<Rightarrow> ('w, go_error + Node) cnh_prog" where
  "get_node env n = perform (GetNode n) (env_get_node env n)"

definition patch_node_status :: "'w cnh_env \<Rightarrow> Node \<Rightarrow> Node \<Rightarrow> ('w, go_error option) cnh_prog" where
  "patch_node_status env base n = perform (PatchNodeStatus base n) (env_patch_node_status env base n)"

text \<open>The breaker's methods read the clock themselves.\<close>

definition breaker_allow :: "'w cnh_env \<Rightarrow> ('w, bool) cnh_prog" where
  "breaker_allow env = do {
     now \<leftarrow> clock env;
     State (\<lambda>s. case Allow (breaker s) now of (ok, cb) \<Rightarrow> (ok, s\<lparr>breaker := cb\<rparr>)) }"

definition breaker_unhealthy :: "'w cnh_env \<Rightarrow> ('w, unit) cnh_prog" where
  "breaker_unhealthy env = do {
     now \<leftarrow> clock env;
     State (\<lambda>s. ((), s\<lparr>breaker := RecordUnhealthyNode (breaker s) now\<rparr>)) }"

definition breaker_healthy :: "('w, unit) cnh_prog" where
  "breaker_healthy = State (\<lambda>s. ((), s\<lparr>breaker := RecordHealthyNode (breaker s)\<rparr>))"

lemmas call_defs = clock_def get_cnh_def update_cnh_def status_update_def delete_cnh_def list_pods_def
  create_pod_def get_pod_def delete_pod_def get_node_def patch_node_status_def

section \<open>Laws\<close>

text \<open>\<open>controllerutil\<close>: finalizers are a list without repetition of the one in question.\<close>

definition finalizer_laws :: "'w cnh_env \<Rightarrow> bool" where
  "finalizer_laws env \<longleftrightarrow>
     (\<forall>fs f. env_contains_finalizer env fs f = (f \<in> set fs)) \<and>
     (\<forall>fs f. set (env_add_finalizer env fs f) = insert f (set fs)) \<and>
     (\<forall>fs f. set (env_remove_finalizer env fs f) = set fs - {f})"

text \<open>
  A successful write returns the stored object. Its report is the one that was sent: instants
  may lose precision in the wire format, nothing else of the status changes; the identity of the
  object, its spec and (for a plain update) its finalizers are those sent.
\<close>

definition condition_report :: "Condition \<Rightarrow> string \<times> string \<times> string \<times> string" where
  "condition_report c = (condType c, condStatus c, condReason c, condMessage c)"

definition same_report :: "CheckNodeHealth \<Rightarrow> CheckNodeHealth \<Rightarrow> bool" where
  "same_report c c' \<longleftrightarrow>
     Name c' = Name c \<and> cnhSpec c' = cnhSpec c \<and>
     (StartedAt (cnhStatus c') = None \<longleftrightarrow> StartedAt (cnhStatus c) = None) \<and>
     (FinishedAt (cnhStatus c') = None \<longleftrightarrow> FinishedAt (cnhStatus c) = None) \<and>
     map condition_report (Conditions (cnhStatus c')) = map condition_report (Conditions (cnhStatus c)) \<and>
     Results (cnhStatus c') = Results (cnhStatus c)"

definition echoes :: "'w cnh_env \<Rightarrow> bool" where
  "echoes env \<longleftrightarrow>
     (\<forall>c w c' w'. env_update_cnh env c w = (Inr c', w') \<longrightarrow> same_report c c') \<and>
     (\<forall>c w c' w'. env_status_update env c w = (Inr c', w') \<longrightarrow> same_report c c')"

lemma same_report_refl [simp]: "same_report c c"
  by (simp add: same_report_def)

section \<open>Rules of the calculus for the breaker\<close>

lemma emits_breaker_allow [emits_intro]:
  assumes "\<And>now w. env_now env (world s) = (now, w) \<Longrightarrow>
     Q (fst (Allow (breaker s) now)) [] (s\<lparr>world := w, breaker := snd (Allow (breaker s) now)\<rparr>)"
  shows "emits (breaker_allow env) Q s"
  using assms
  by (cases "env_now env (world s)")
     (auto simp: emits_def breaker_allow_def clock_def split: prod.splits)

lemma emits_breaker_unhealthy [emits_intro]:
  assumes "\<And>now w. env_now env (world s) = (now, w) \<Longrightarrow>
     Q () [] (s\<lparr>world := w, breaker := RecordUnhealthyNode (breaker s) now\<rparr>)"
  shows "emits (breaker_unhealthy env) Q s"
  using assms
  by (cases "env_now env (world s)") (auto simp: emits_def breaker_unhealthy_def clock_def)

lemma emits_breaker_healthy [emits_intro]:
  assumes "Q () [] (s\<lparr>breaker := RecordHealthyNode (breaker s)\<rparr>)"
  shows "emits breaker_healthy Q s"
  using assms by (auto simp: emits_def breaker_healthy_def)

end
