(* ===== verification/CnhPod.thy ===== *)
theory CnhPod
  imports CnhApi
begin

text \<open>
  \<open>pkg/controller/checknodehealth/pod.go\<close>: the checker pod of a CheckNodeHealth, its creation and
  cleanup, and the PodStartup result the controller derives from it. Functions that mutate the
  object through its pointer return the new object beside their result.
\<close>

section \<open>Constants\<close>

definition maxPodNameLength :: nat where "maxPodNameLength = 253"
definition podNamePrefix :: string where "podNamePrefix = ''check-node-health-''"
definition PodTimeout :: duration where "PodTimeout = 2 * minute"
definition CheckNodeHealthLabel :: string where
  "CheckNodeHealthLabel = ''clusterhealthmonitor.azure.com/checknodehealth''"
definition DefaultCheckerServiceAccount :: string where
  "DefaultCheckerServiceAccount = ''checknodehealth-checker''"
definition AnnotationCheckerServiceAccount :: string where
  "AnnotationCheckerServiceAccount = ''checknodehealth.azure.com/checker-service-account''"

section \<open>Operations\<close>

fun delete_pods :: "'w cnh_env \<Rightarrow> Pod list \<Rightarrow> ('w, go_error option) cnh_prog" where
  "delete_pods env [] = return None"
| "delete_pods env (pod # pods) = do {
     r \<leftarrow> delete_pod env pod;
     case ignore_not_found r of
       Some err \<Rightarrow> return (Some (Wrap (''failed to delete pod '' @ Name pod @ '': '') err))
     | None \<Rightarrow> delete_pods env pods }"

definition cleanupPod ::
  "'w cnh_env \<Rightarrow> CheckNodeHealthReconciler \<Rightarrow> CheckNodeHealth \<Rightarrow> ('w, go_error option) cnh_prog" where
  "cleanupPod env r cnh = do {
     podList \<leftarrow> list_pods env (CheckerPodNamespace r) CheckNodeHealthLabel (Name cnh);
     case podList of
       Inl err \<Rightarrow> return (Some (Wrap ''failed to list pods: '' err))
     | Inr items \<Rightarrow> delete_pods env items }"

definition generateHealthCheckPodName :: "CheckNodeHealth \<Rightarrow> string" where
  "generateHealthCheckPodName cnh =
     (let desiredName = podNamePrefix @ Name cnh
      in if length desiredName > maxPodNameLength then take maxPodNameLength desiredName
         else desiredName)"

definition checker_service_account :: "CheckNodeHealth \<Rightarrow> string" where
  "checker_service_account cnh =
     (case Annotations cnh AnnotationCheckerServiceAccount of
        Some sa \<Rightarrow> if sa \<noteq> '''' then sa else DefaultCheckerServiceAccount
      | None \<Rightarrow> DefaultCheckerServiceAccount)"

definition buildHealthCheckPod ::
  "'w cnh_env \<Rightarrow> CheckNodeHealthReconciler \<Rightarrow> CheckNodeHealth \<Rightarrow> go_error + Pod" where
  "buildHealthCheckPod env r cnh =
     (let podName = generateHealthCheckPodName cnh;
          labels = [CheckNodeHealthLabel \<mapsto> Name cnh];
          pod = ObjectMeta.extend
            ((meta podName)\<lparr>Namespace := CheckerPodNamespace r, Labels := labels\<rparr>)
            \<lparr>podSpec = empty_pod_spec
               \<lparr>ServiceAccountName := checker_service_account cnh,
                RestartPolicy := ''Never'',
                NodeName := refName (NodeRef (cnhSpec cnh)),
                Tolerations := [\<lparr>tolKey = ''CriticalAddonsOnly'', tolOperator = ''Equal'',
                                 tolValue = ''true'', tolEffect = ''NoExecute''\<rparr>],
                Containers := [\<lparr>ctName = ''node-health-checker'', ctImage = CheckerPodImage r,
                                ctCommand = [''/nodechecker''], ctArgs = [''--name='' @ Name cnh],
                                ctPorts = [], ctVolumeMounts = []\<rparr>]\<rparr>,
             podStatus = empty_pod_status\<rparr>
      in env_set_controller env cnh pod)"

definition ensureHealthCheckPod ::
  "'w cnh_env \<Rightarrow> CheckNodeHealthReconciler \<Rightarrow> CheckNodeHealth \<Rightarrow> ('w, go_error + Pod) cnh_prog" where
  "ensureHealthCheckPod env r cnh = do {
     podList \<leftarrow> list_pods env (CheckerPodNamespace r) CheckNodeHealthLabel (Name cnh);
     case podList of
       Inl err \<Rightarrow> return (Inl (Wrap ''failed to list existing pods: '' err))
     | Inr items \<Rightarrow>
         (case items of
            pod # _ \<Rightarrow> return (Inr pod)
          | [] \<Rightarrow>
              (case buildHealthCheckPod env r cnh of
                 Inl err \<Rightarrow> return (Inl (Wrap ''failed to build health check pod: '' err))
               | Inr pod \<Rightarrow> do {
                   created \<leftarrow> create_pod env pod;
                   case created of
                     Inl err \<Rightarrow> return (Inl (Wrap ''failed to create pod: '' err))
                   | Inr pod' \<Rightarrow> do {
                       got \<leftarrow> get_pod env (Name pod') (Namespace pod');
                       case got of
                         Inl err \<Rightarrow> return (Inl (Wrap ''failed to get created pod: '' err))
                       | Inr createdPod \<Rightarrow> return (Inr createdPod) } })) }"

definition container_started :: "ContainerStatus \<Rightarrow> bool" where
  "container_started c \<longleftrightarrow>
     Running c \<noteq> None \<or> (case Terminated c of None \<Rightarrow> False | Some startedAt \<Rightarrow> startedAt \<noteq> zero_time)"

definition areAllContainersStarted :: "Pod \<Rightarrow> bool" where
  "areAllContainersStarted pod =
     (if length (ContainerStatuses (podStatus pod)) = 0 then False
      else list_all container_started (ContainerStatuses (podStatus pod)))"

definition markPodStartupResult ::
  "'w cnh_env \<Rightarrow> CheckNodeHealth \<Rightarrow> string \<Rightarrow> string \<Rightarrow> ('w, go_error option \<times> CheckNodeHealth) cnh_prog" where
  "markPodStartupResult env cnh status message =
     (let result = \<lparr>crName = ''PodStartup'', crStatus = status, crMessage = message, crErrorCode = ''''\<rparr>;
          cnh1 = updateCheckResult cnh result
      in do {
        r \<leftarrow> status_update env cnh1;
        case r of
          Inl err \<Rightarrow> return (Some (Wrap ''failed to update CheckNodeHealth status: '' err), cnh1)
        | Inr cnh2 \<Rightarrow> return (None, cnh2) })"

definition timed_out :: "Pod \<Rightarrow> time \<Rightarrow> bool" where
  "timed_out pod now \<longleftrightarrow> time_sub now (CreationTimestamp pod) > sint PodTimeout"

definition isPodTimeout :: "'w cnh_env \<Rightarrow> Pod \<Rightarrow> ('w, bool) cnh_prog" where
  "isPodTimeout env pod = do { now \<leftarrow> clock env; return (timed_out pod now) }"

definition updatePodstartCheckerResult ::
  "'w cnh_env \<Rightarrow> CheckNodeHealth \<Rightarrow> Pod \<Rightarrow> ('w, go_error option \<times> CheckNodeHealth) cnh_prog" where
  "updatePodstartCheckerResult env cnh pod =
     (if areAllContainersStarted pod then
        markPodStartupResult env cnh CheckStatusHealthy ''All containers started successfully''
      else if Phase (podStatus pod) = PodPending then do {
        timeout \<leftarrow> isPodTimeout env pod;
        if timeout then
          markPodStartupResult env cnh CheckStatusUnhealthy
            ''Pod stuck in Pending state - timeout exceeded''
        else return (None, cnh) }
      else return (None, cnh))"

section \<open>What each operation emits\<close>

text \<open>\<open>cleaned r cnh es\<close>: the calls \<open>es\<close> listed the pods of the resource and deleted every one of them,
  or found it gone.\<close>

definition pod_gone :: "cnh_event \<Rightarrow> bool" where
  "pod_gone e = (case e of DeletePod p r \<Rightarrow> ignore_not_found r = None | _ \<Rightarrow> False)"

fun deleted_pod :: "cnh_event \<Rightarrow> Pod list" where
  "deleted_pod (DeletePod p r) = [p]"
| "deleted_pod _ = []"

definition cleaned :: "CheckNodeHealthReconciler \<Rightarrow> CheckNodeHealth \<Rightarrow> cnh_event list \<Rightarrow> bool" where
  "cleaned r cnh es \<longleftrightarrow>
     (\<exists>pods ds. es = ListPods (CheckerPodNamespace r) CheckNodeHealthLabel (Name cnh) (Inr pods) # ds \<and>
        list_all pod_gone ds \<and> concat (map deleted_pod ds) = pods)"

fun cleanup_call :: "cnh_event \<Rightarrow> bool" where
  "cleanup_call (ListPods _ _ _ _) = True"
| "cleanup_call (DeletePod _ _) = True"
| "cleanup_call _ = False"

lemma delete_pods_emits:
  "emits (delete_pods env pods) (\<lambda>res es s'. breaker s' = breaker s \<and>
     list_all (\<lambda>e. cleanup_call e \<and> \<not> (\<exists>ns k v r. e = ListPods ns k v r)) es \<and>
     list_all pod_gone (butlast es) \<and>
     (res = None \<longleftrightarrow> list_all pod_gone es) \<and>
     (res = None \<longrightarrow> concat (map deleted_pod es) = pods) \<and>
     (res \<noteq> None \<longrightarrow> list_ex failed_call es)) s"
proof (induction pods arbitrary: s)
  case Nil
  show ?case by (auto intro!: emits_intro)
next
  case (Cons pod pods)
  show ?case
    unfolding delete_pods.simps delete_pod_def
    apply (intro emits_bind emits_perform emits_case_option)
    subgoal for r w
      by (rule emits_mono [OF Cons.IH])
         (auto simp: pod_gone_def)
    subgoal for r w err
      by (auto intro!: emits_return simp: pod_gone_def dest: ignore_not_found_Some [THEN iffD1])
    done
qed

lemma cleanupPod_emits:
  "emits (cleanupPod env r cnh) (\<lambda>res es s'. breaker s' = breaker s \<and> list_all cleanup_call es \<and>
     (res = None \<longleftrightarrow> cleaned r cnh es) \<and> (res \<noteq> None \<longrightarrow> list_ex failed_call es)) s"
  unfolding cleanupPod_def list_pods_def
  apply (intro emits_bind emits_perform emits_case_sum)
  subgoal by (auto intro!: emits_return simp: cleaned_def)
  subgoal for a w y
    by (rule emits_mono [OF delete_pods_emits]) (auto simp: cleaned_def list_all_iff)
  done

end
