(* ===== verification/CnhController.thy ===== *)
theory CnhController
  imports CnhPod
begin

text \<open>
  \<open>pkg/controller/checknodehealth/controller.go\<close>: the reconciler of CheckNodeHealth resources.
  One call of \<open>Reconcile_cnh\<close> is one reconciliation; its outside world is arbitrary, so other
  clients and the controller itself may change the cluster between any two calls. After a
  successful write the code goes on with the object the server returned, and so does the model.
\<close>

section \<open>Constants and predicates\<close>

definition CRTTL :: duration where "CRTTL = 6 * hour"
definition SyncPeriod :: duration where "SyncPeriod = 1 * hour"
definition CheckNodeHealthFinalizer :: string where
  "CheckNodeHealthFinalizer = ''checknodehealth.clusterhealthmonitor.azure.com/finalizer''"
definition NodeConditionNodeHealthy :: string where
  "NodeConditionNodeHealthy = ''kubernetes.azure.com/NodeHealthy''"

definition isCompleted :: "CheckNodeHealth \<Rightarrow> bool" where
  "isCompleted cnh \<longleftrightarrow> FinishedAt (cnhStatus cnh) \<noteq> None"

definition expired_at :: "CheckNodeHealth \<Rightarrow> time \<Rightarrow> bool" where
  "expired_at cnh now \<longleftrightarrow> time_sub now (CreationTimestamp cnh) > sint CRTTL"

definition isExpired :: "'w cnh_env \<Rightarrow> CheckNodeHealth \<Rightarrow> ('w, bool) cnh_prog" where
  "isExpired env cnh = do { now \<leftarrow> clock env; return (expired_at cnh now) }"

section \<open>Status updates\<close>

definition started :: "CheckNodeHealth \<Rightarrow> time \<Rightarrow> CheckNodeHealth" where
  "started cnh now = cnh\<lparr>cnhStatus := (cnhStatus cnh)\<lparr>StartedAt := Some now,
     Conditions := [\<lparr>condType = ConditionTypeHealthy, condStatus = ConditionUnknown,
                     condReason = ReasonCheckStarted, condMessage = '''', condTransition = now\<rparr>]\<rparr>\<rparr>"

definition markStarted ::
  "'w cnh_env \<Rightarrow> CheckNodeHealth \<Rightarrow> ('w, go_error option \<times> CheckNodeHealth) cnh_prog" where
  "markStarted env cnh =
     (if StartedAt (cnhStatus cnh) \<noteq> None then return (None, cnh)
      else do {
        now \<leftarrow> clock env;
        r \<leftarrow> status_update env (started cnh now);
        case r of
          Inl err \<Rightarrow> return (Some (Wrap ''failed to update status: '' err), started cnh now)
        | Inr cnh' \<Rightarrow> return (None, cnh') })"

definition completed :: "CheckNodeHealth \<Rightarrow> time \<Rightarrow> CheckNodeHealth" where
  "completed cnh now =
     (let cnh1 = cnh\<lparr>cnhStatus := (cnhStatus cnh)\<lparr>FinishedAt := Some now\<rparr>\<rparr>
      in case determineHealthyCondition cnh1 of (healthyStatus, reason, message) \<Rightarrow>
           cnh1\<lparr>cnhStatus := (cnhStatus cnh1)\<lparr>Conditions :=
             [\<lparr>condType = ConditionTypeHealthy, condStatus = healthyStatus, condReason = reason,
               condMessage = message, condTransition = now\<rparr>]\<rparr>\<rparr>)"

definition markCompleted ::
  "'w cnh_env \<Rightarrow> CheckNodeHealth \<Rightarrow> ('w, (string \<times> go_error option) \<times> CheckNodeHealth) cnh_prog" where
  "markCompleted env cnh = do {
     now \<leftarrow> clock env;
     let healthyStatus = fst (determineHealthyCondition
           (cnh\<lparr>cnhStatus := (cnhStatus cnh)\<lparr>FinishedAt := Some now\<rparr>\<rparr>));
     r \<leftarrow> status_update env (completed cnh now);
     case r of
       Inl err \<Rightarrow>
         return ((healthyStatus, Some (Wrap ''failed to update status: '' err)), completed cnh now)
     | Inr cnh' \<Rightarrow> return ((healthyStatus, None), cnh') }"

section \<open>The node condition\<close>

definition healthy_condition :: "CheckNodeHealth \<Rightarrow> Condition option" where
  "healthy_condition cnh = find (\<lambda>c. condType c = ConditionTypeHealthy) (Conditions (cnhStatus cnh))"

definition refresh :: "Condition \<Rightarrow> time \<Rightarrow> NodeCondition \<Rightarrow> NodeCondition" where
  "refresh h now c =
     (let c1 = (if ncStatus c \<noteq> condStatus h then c\<lparr>ncTransition := now\<rparr> else c)
      in c1\<lparr>ncStatus := condStatus h, ncHeartbeat := now, ncMessage := condMessage h,
            ncReason := condReason h\<rparr>)"

fun set_node_condition :: "Condition \<Rightarrow> time \<Rightarrow> NodeCondition list \<Rightarrow> NodeCondition list" where
  "set_node_condition h now [] =
     [\<lparr>ncType = NodeConditionNodeHealthy, ncStatus = condStatus h, ncReason = condReason h,
       ncMessage = condMessage h, ncTransition = now, ncHeartbeat = now\<rparr>]"
| "set_node_condition h now (c # cs) =
     (if ncType c = NodeConditionNodeHealthy then refresh h now c # cs
      else c # set_node_condition h now cs)"

definition updateNodeCondition ::
  "'w cnh_env \<Rightarrow> CheckNodeHealth \<Rightarrow> ('w, go_error option) cnh_prog" where
  "updateNodeCondition env cnh =
     (case healthy_condition cnh of
        None \<Rightarrow> return None
      | Some h \<Rightarrow> do {
          allowed \<leftarrow> breaker_allow env;
          if \<not> allowed then return None
          else (let nodeName = refName (NodeRef (cnhSpec cnh)) in do {
            got \<leftarrow> get_node env nodeName;
            case got of
              Inl err \<Rightarrow> return (Some (Wrap (''failed to get node '' @ nodeName @ '': '') err))
            | Inr node \<Rightarrow> do {
                now \<leftarrow> clock env;
                r \<leftarrow> patch_node_status env node
                       (node\<lparr>NodeConditions := set_node_condition h now (NodeConditions node)\<rparr>);
                case r of
                  Some err \<Rightarrow>
                    return (Some (Wrap (''failed to update node '' @ nodeName @ '' condition: '') err))
                | None \<Rightarrow> return None } }) })"

section \<open>Reconciliation\<close>

definition pod_completed :: "Pod \<Rightarrow> bool" where
  "pod_completed pod \<longleftrightarrow> Phase (podStatus pod) = PodSucceeded \<or> Phase (podStatus pod) = PodFailed"

definition finish ::
  "'w cnh_env \<Rightarrow> CheckNodeHealthReconciler \<Rightarrow> CheckNodeHealth \<Rightarrow>
     ('w, ctrl_result \<times> go_error option) cnh_prog" where
  "finish env r cnh = do {
     m \<leftarrow> markCompleted env cnh;
     case m of ((healthyStatus, err), cnh1) \<Rightarrow>
       (case err of
          Some e \<Rightarrow> return (no_requeue, Some e)
        | None \<Rightarrow> do {
            _ \<leftarrow> (if EnableNodeCondition r then do {
                   _ \<leftarrow> updateNodeCondition env cnh1;
                   if healthyStatus = ConditionFalse then breaker_unhealthy env
                   else breaker_healthy }
                 else return ());
            c \<leftarrow> cleanupPod env r cnh1;
            case c of
              Some _ \<Rightarrow> return (no_requeue, None)
            | None \<Rightarrow> return (no_requeue, None) }) }"

definition determineCheckResult ::
  "'w cnh_env \<Rightarrow> CheckNodeHealthReconciler \<Rightarrow> CheckNodeHealth \<Rightarrow> Pod \<Rightarrow>
     ('w, ctrl_result \<times> go_error option) cnh_prog" where
  "determineCheckResult env r cnh pod = do {
     done \<leftarrow> (if pod_completed pod then return True else isPodTimeout env pod);
     if done then finish env r cnh
     else return (\<lparr>RequeueAfter = 30 * second\<rparr>, None) }"

definition handleCompletion ::
  "'w cnh_env \<Rightarrow> CheckNodeHealthReconciler \<Rightarrow> CheckNodeHealth \<Rightarrow>
     ('w, ctrl_result \<times> go_error option) cnh_prog" where
  "handleCompletion env r cnh = do { err \<leftarrow> cleanupPod env r cnh; return (no_requeue, err) }"

definition handleDeletion ::
  "'w cnh_env \<Rightarrow> CheckNodeHealthReconciler \<Rightarrow> CheckNodeHealth \<Rightarrow>
     ('w, ctrl_result \<times> go_error option) cnh_prog" where
  "handleDeletion env r cnh = do {
     err \<leftarrow> cleanupPod env r cnh;
     case err of
       Some e \<Rightarrow> return (no_requeue, Some e)
     | None \<Rightarrow> do {
         u \<leftarrow> update_cnh env
                (cnh\<lparr>Finalizers := env_remove_finalizer env (Finalizers cnh) CheckNodeHealthFinalizer\<rparr>);
         case u of
           Inl e \<Rightarrow> return (no_requeue, Some e)
         | Inr _ \<Rightarrow> return (no_requeue, None) } }"

text \<open>The part of \<open>Reconcile\<close> after the finalizer is in place.\<close>

definition run_check ::
  "'w cnh_env \<Rightarrow> CheckNodeHealthReconciler \<Rightarrow> CheckNodeHealth \<Rightarrow>
     ('w, ctrl_result \<times> go_error option) cnh_prog" where
  "run_check env r cnh = do {
     p \<leftarrow> ensureHealthCheckPod env r cnh;
     case p of
       Inl err \<Rightarrow> return (no_requeue, Some err)
     | Inr pod \<Rightarrow> do {
         m \<leftarrow> markStarted env cnh;
         case m of (err, cnh1) \<Rightarrow>
           (case err of
              Some e \<Rightarrow> return (no_requeue, Some e)
            | None \<Rightarrow> do {
                u \<leftarrow> updatePodstartCheckerResult env cnh1 pod;
                case u of (err2, cnh2) \<Rightarrow>
                  (case err2 of
                     Some e \<Rightarrow> return (no_requeue, Some e)
                   | None \<Rightarrow> determineCheckResult env r cnh2 pod) }) } }"

definition with_finalizer :: "'w cnh_env \<Rightarrow> CheckNodeHealth \<Rightarrow> CheckNodeHealth" where
  "with_finalizer env cnh =
     cnh\<lparr>Finalizers := env_add_finalizer env (Finalizers cnh) CheckNodeHealthFinalizer\<rparr>"

definition ensure_finalizer ::
  "'w cnh_env \<Rightarrow> CheckNodeHealth \<Rightarrow> ('w, go_error + CheckNodeHealth) cnh_prog" where
  "ensure_finalizer env cnh =
     (if env_contains_finalizer env (Finalizers cnh) CheckNodeHealthFinalizer then return (Inr cnh)
      else update_cnh env (with_finalizer env cnh))"

definition Reconcile_cnh ::
  "'w cnh_env \<Rightarrow> CheckNodeHealthReconciler \<Rightarrow> string \<Rightarrow> ('w, ctrl_result \<times> go_error option) cnh_prog" where
  "Reconcile_cnh env r req = do {
     got \<leftarrow> get_cnh env req;
     case got of
       Inl err \<Rightarrow> return (no_requeue, ignore_not_found (Some err))
     | Inr cnh \<Rightarrow>
         if DeletionTimestamp cnh \<noteq> None then handleDeletion env r cnh
         else do {
           expired \<leftarrow> isExpired env cnh;
           if expired then do {
             d \<leftarrow> delete_cnh env cnh;
             case ignore_not_found d of
               Some err \<Rightarrow> return (no_requeue, Some err)
             | None \<Rightarrow> return (no_requeue, None) }
           else do {
             f \<leftarrow> ensure_finalizer env cnh;
             case f of
               Inl err \<Rightarrow> return (no_requeue, Some err)
             | Inr cnh1 \<Rightarrow>
                 if isCompleted cnh1 then handleCompletion env r cnh1
                 else run_check env r cnh1 } } }"

end
