(* ===== verification/CnhTraces.thy ===== *)
theory CnhTraces
  imports CnhController
begin

text \<open>
  The protocol of the CheckNodeHealth controller: for each function of the reconciler the calls
  it may make and the result that goes with them, as an inductive relation between its arguments,
  the events it logs and its result. The lemmas of the second section show that every run, against
  any API server, is a run of the protocol; the properties of the third section are read off it by
  case analysis.
\<close>

section \<open>The protocol\<close>

inductive ensured ::
  "'w cnh_env \<Rightarrow> CheckNodeHealthReconciler \<Rightarrow> CheckNodeHealth \<Rightarrow> cnh_event list \<Rightarrow> go_error + Pod \<Rightarrow> bool"
  for env r cnh where
  list_failed: "ensured env r cnh
     [ListPods (CheckerPodNamespace r) CheckNodeHealthLabel (Name cnh) (Inl e)]
     (Inl (Wrap ''failed to list existing pods: '' e))"
| existing: "ensured env r cnh
     [ListPods (CheckerPodNamespace r) CheckNodeHealthLabel (Name cnh) (Inr (pod # pods))] (Inr pod)"
| not_built: "buildHealthCheckPod env r cnh = Inl e \<Longrightarrow> ensured env r cnh
     [ListPods (CheckerPodNamespace r) CheckNodeHealthLabel (Name cnh) (Inr [])]
     (Inl (Wrap ''failed to build health check pod: '' e))"
| not_created: "buildHealthCheckPod env r cnh = Inr pod \<Longrightarrow> ensured env r cnh
     [ListPods (CheckerPodNamespace r) CheckNodeHealthLabel (Name cnh) (Inr []), CreatePod pod (Inl e)]
     (Inl (Wrap ''failed to create pod: '' e))"
| not_read_back: "buildHealthCheckPod env r cnh = Inr pod \<Longrightarrow> ensured env r cnh
     [ListPods (CheckerPodNamespace r) CheckNodeHealthLabel (Name cnh) (Inr []), CreatePod pod (Inr p),
      GetPod (Name p) (Namespace p) (Inl e)]
     (Inl (Wrap ''failed to get created pod: '' e))"
| created: "buildHealthCheckPod env r cnh = Inr pod \<Longrightarrow> ensured env r cnh
     [ListPods (CheckerPodNamespace r) CheckNodeHealthLabel (Name cnh) (Inr []), CreatePod pod (Inr p),
      GetPod (Name p) (Namespace p) (Inr q)]
     (Inr q)"

text \<open>An answer the server may give to a request.\<close>

definition could_answer :: "('a \<Rightarrow> 'w \<Rightarrow> 'b \<times> 'w) \<Rightarrow> 'a \<Rightarrow> 'b \<Rightarrow> bool" where
  "could_answer f q a \<longleftrightarrow> (\<exists>w w'. f q w = (a, w'))"

lemma could_answerI: "f q w = (a, w') \<Longrightarrow> could_answer f q a"
  by (auto simp: could_answer_def)

definition clock_reads :: "'w cnh_env \<Rightarrow> time \<Rightarrow> bool" where
  "clock_reads env now \<longleftrightarrow> (\<exists>w w'. env_now env w = (now, w'))"

lemma clock_readsI: "env_now env w = (now, w') \<Longrightarrow> clock_reads env now"
  by (auto simp: clock_reads_def)

text \<open>A status write: the payload, the answer, and what the caller goes on with.\<close>

inductive status_written ::
  "'w cnh_env \<Rightarrow> CheckNodeHealth \<Rightarrow> string \<Rightarrow> cnh_event list \<Rightarrow> go_error option \<times> CheckNodeHealth \<Rightarrow> bool"
  for env c prefix where
  write_failed: "status_written env c prefix [StatusUpdateCNH c (Inl e)] (Some (Wrap prefix e), c)"
| written: "could_answer (env_status_update env) c (Inr c') \<Longrightarrow>
     status_written env c prefix [StatusUpdateCNH c (Inr c')] (None, c')"

inductive marked_started ::
  "'w cnh_env \<Rightarrow> CheckNodeHealth \<Rightarrow> cnh_event list \<Rightarrow> go_error option \<times> CheckNodeHealth \<Rightarrow> bool"
  for env cnh where
  already: "StartedAt (cnhStatus cnh) \<noteq> None \<Longrightarrow> marked_started env cnh [] (None, cnh)"
| starting: "StartedAt (cnhStatus cnh) = None \<Longrightarrow>
     status_written env (started cnh now) ''failed to update status: '' es res \<Longrightarrow> marked_started env cnh es res"

definition startup_result :: "string \<Rightarrow> string \<Rightarrow> CheckResult" where
  "startup_result st msg = \<lparr>crName = ''PodStartup'', crStatus = st, crMessage = msg, crErrorCode = ''''\<rparr>"

inductive startup_reported ::
  "'w cnh_env \<Rightarrow> CheckNodeHealth \<Rightarrow> Pod \<Rightarrow> cnh_event list \<Rightarrow> go_error option \<times> CheckNodeHealth \<Rightarrow> bool"
  for env cnh pod where
  all_started: "areAllContainersStarted pod \<Longrightarrow>
     status_written env (updateCheckResult cnh
         (startup_result CheckStatusHealthy ''All containers started successfully''))
       ''failed to update CheckNodeHealth status: '' es res \<Longrightarrow> startup_reported env cnh pod es res"
| stuck: "\<not> areAllContainersStarted pod \<Longrightarrow> Phase (podStatus pod) = PodPending \<Longrightarrow> timed_out pod now \<Longrightarrow>
     status_written env (updateCheckResult cnh
         (startup_result CheckStatusUnhealthy ''Pod stuck in Pending state - timeout exceeded''))
       ''failed to update CheckNodeHealth status: '' es res \<Longrightarrow> startup_reported env cnh pod es res"
| undecided: "\<not> areAllContainersStarted pod \<Longrightarrow>
     Phase (podStatus pod) = PodPending \<Longrightarrow>
     clock_reads env now \<Longrightarrow> \<not> timed_out pod now \<Longrightarrow> startup_reported env cnh pod [] (None, cnh)"
| other_phase: "\<not> areAllContainersStarted pod \<Longrightarrow> Phase (podStatus pod) \<noteq> PodPending \<Longrightarrow>
     startup_reported env cnh pod [] (None, cnh)"

inductive node_reported :: "CheckNodeHealth \<Rightarrow> cnh_event list \<Rightarrow> bool" for cnh where
  skipped: "node_reported cnh []"
| node_unread: "node_reported cnh [GetNode (refName (NodeRef (cnhSpec cnh))) (Inl e)]"
| patched: "healthy_condition cnh = Some h \<Longrightarrow> node_reported cnh
     [GetNode (refName (NodeRef (cnhSpec cnh))) (Inr node),
      PatchNodeStatus node (node\<lparr>NodeConditions := set_node_condition h now (NodeConditions node)\<rparr>) x]"

inductive cleanup_tried ::
  "CheckNodeHealthReconciler \<Rightarrow> CheckNodeHealth \<Rightarrow> cnh_event list \<Rightarrow> go_error option \<Rightarrow> bool" for r cnh where
  cleaned_up: "cleaned r cnh es \<Longrightarrow> cleanup_tried r cnh es None"
| cleanup_failed: "list_all cleanup_call es \<Longrightarrow> \<not> cleaned r cnh es \<Longrightarrow> list_ex failed_call es \<Longrightarrow>
     cleanup_tried r cnh es (Some e)"

inductive finished ::
  "'w cnh_env \<Rightarrow> CheckNodeHealthReconciler \<Rightarrow> CheckNodeHealth \<Rightarrow> cnh_event list \<Rightarrow>
     ctrl_result \<times> go_error option \<Rightarrow> bool" for env r cnh where
  verdict_lost: "status_written env (completed cnh now) ''failed to update status: '' es (Some e, c') \<Longrightarrow>
     finished env r cnh es (no_requeue, Some e)"
| verdict_kept: "status_written env (completed cnh now) ''failed to update status: '' es (None, c') \<Longrightarrow>
     node_reported c' ns \<Longrightarrow> (\<not> EnableNodeCondition r \<Longrightarrow> ns = []) \<Longrightarrow> cleanup_tried r c' ds err \<Longrightarrow>
     finished env r cnh (es @ ns @ ds) (no_requeue, None)"

inductive determined ::
  "'w cnh_env \<Rightarrow> CheckNodeHealthReconciler \<Rightarrow> CheckNodeHealth \<Rightarrow> Pod \<Rightarrow> cnh_event list \<Rightarrow>
     ctrl_result \<times> go_error option \<Rightarrow> bool" for env r cnh pod where
  pod_done: "pod_completed pod \<or> clock_reads env now \<and> timed_out pod now \<Longrightarrow> finished env r cnh es res \<Longrightarrow> determined env r cnh pod es res"
| pod_busy: "\<not> pod_completed pod \<Longrightarrow> clock_reads env now \<Longrightarrow> \<not> timed_out pod now \<Longrightarrow>
     determined env r cnh pod [] (\<lparr>RequeueAfter = 30 * second\<rparr>, None)"

inductive checked ::
  "'w cnh_env \<Rightarrow> CheckNodeHealthReconciler \<Rightarrow> CheckNodeHealth \<Rightarrow> cnh_event list \<Rightarrow>
     ctrl_result \<times> go_error option \<Rightarrow> bool" for env r cnh where
  no_pod: "ensured env r cnh es (Inl e) \<Longrightarrow> checked env r cnh es (no_requeue, Some e)"
| start_failed: "ensured env r cnh es (Inr pod) \<Longrightarrow> marked_started env cnh es1 (Some e, c1) \<Longrightarrow>
     checked env r cnh (es @ es1) (no_requeue, Some e)"
| report_failed: "ensured env r cnh es (Inr pod) \<Longrightarrow> marked_started env cnh es1 (None, c1) \<Longrightarrow>
     startup_reported env c1 pod es2 (Some e, c2) \<Longrightarrow>
     checked env r cnh (es @ es1 @ es2) (no_requeue, Some e)"
| observed: "ensured env r cnh es (Inr pod) \<Longrightarrow> marked_started env cnh es1 (None, c1) \<Longrightarrow>
     startup_reported env c1 pod es2 (None, c2) \<Longrightarrow> determined env r c2 pod es3 res \<Longrightarrow>
     checked env r cnh (es @ es1 @ es2 @ es3) res"

inductive finalizer_ensured ::
  "'w cnh_env \<Rightarrow> CheckNodeHealth \<Rightarrow> cnh_event list \<Rightarrow> go_error + CheckNodeHealth \<Rightarrow> bool" for env cnh where
  has_finalizer: "env_contains_finalizer env (Finalizers cnh) CheckNodeHealthFinalizer \<Longrightarrow>
     finalizer_ensured env cnh [] (Inr cnh)"
| add_finalizer: "\<not> env_contains_finalizer env (Finalizers cnh) CheckNodeHealthFinalizer \<Longrightarrow>
     could_answer (env_update_cnh env) (with_finalizer env cnh) x \<Longrightarrow>
     finalizer_ensured env cnh [UpdateCNH (with_finalizer env cnh) x] x"

definition without_finalizer :: "'w cnh_env \<Rightarrow> CheckNodeHealth \<Rightarrow> CheckNodeHealth" where
  "without_finalizer env cnh =
     cnh\<lparr>Finalizers := env_remove_finalizer env (Finalizers cnh) CheckNodeHealthFinalizer\<rparr>"

inductive reconciled ::
  "'w cnh_env \<Rightarrow> CheckNodeHealthReconciler \<Rightarrow> string \<Rightarrow> cnh_event list \<Rightarrow>
     ctrl_result \<times> go_error option \<Rightarrow> bool" for env r req where
  not_read: "reconciled env r req [GetCNH req (Inl e)] (no_requeue, ignore_not_found (Some e))"
| delete_blocked: "DeletionTimestamp cnh \<noteq> None \<Longrightarrow> cleanup_tried r cnh es (Some e) \<Longrightarrow>
     reconciled env r req (GetCNH req (Inr cnh) # es) (no_requeue, Some e)"
| released: "DeletionTimestamp cnh \<noteq> None \<Longrightarrow> cleaned r cnh es \<Longrightarrow>
     reconciled env r req (GetCNH req (Inr cnh) # es @ [UpdateCNH (without_finalizer env cnh) x])
       (no_requeue, case x of Inl e \<Rightarrow> Some e | Inr _ \<Rightarrow> None)"
| expired: "DeletionTimestamp cnh = None \<Longrightarrow> clock_reads env now \<and> expired_at cnh now \<Longrightarrow>
     reconciled env r req [GetCNH req (Inr cnh), DeleteCNH cnh x] (no_requeue, ignore_not_found x)"
| finalizer_failed: "DeletionTimestamp cnh = None \<Longrightarrow> \<not> expired_at cnh now \<Longrightarrow>
     finalizer_ensured env cnh es (Inl e) \<Longrightarrow>
     reconciled env r req (GetCNH req (Inr cnh) # es) (no_requeue, Some e)"
| completed_before: "DeletionTimestamp cnh = None \<Longrightarrow> \<not> expired_at cnh now \<Longrightarrow>
     finalizer_ensured env cnh es (Inr c1) \<Longrightarrow> isCompleted c1 \<Longrightarrow> cleanup_tried r c1 es1 err \<Longrightarrow>
     reconciled env r req (GetCNH req (Inr cnh) # es @ es1) (no_requeue, err)"
| running: "DeletionTimestamp cnh = None \<Longrightarrow> \<not> expired_at cnh now \<Longrightarrow>
     finalizer_ensured env cnh es (Inr c1) \<Longrightarrow> \<not> isCompleted c1 \<Longrightarrow> checked env r c1 es1 res \<Longrightarrow>
     reconciled env r req (GetCNH req (Inr cnh) # es @ es1) res"

inductive_cases ensuredE: "ensured env r cnh es res"
inductive_cases status_writtenE: "status_written env c p es res"
inductive_cases marked_startedE: "marked_started env cnh es res"
inductive_cases startup_reportedE: "startup_reported env cnh pod es res"
inductive_cases node_reportedE: "node_reported cnh es"
inductive_cases cleanup_triedE: "cleanup_tried r cnh es res"
inductive_cases finishedE: "finished env r cnh es res"
inductive_cases determinedE: "determined env r cnh pod es res"
inductive_cases checkedE: "checked env r cnh es res"
inductive_cases finalizer_ensuredE: "finalizer_ensured env cnh es res"
inductive_cases reconciledE: "reconciled env r req es res"

section \<open>Every run is a run of the protocol\<close>

lemma ensureHealthCheckPod_protocol:
  "emits (ensureHealthCheckPod env r cnh) (\<lambda>res es s'. ensured env r cnh es res) s"
  unfolding ensureHealthCheckPod_def call_defs
  by (auto intro!: emits_intro ensured.intros)

lemma status_update_protocol:
  "emits (do { x \<leftarrow> status_update env c;
      case x of Inl err \<Rightarrow> return (Some (Wrap p err), c) | Inr c' \<Rightarrow> return (None, c') })
    (\<lambda>res es s'. status_written env c p es res) s"
  unfolding status_update_def by (auto intro!: emits_intro status_written.intros dest: could_answerI)

lemma markStarted_protocol:
  "emits (markStarted env cnh) (\<lambda>res es s'. marked_started env cnh es res) s"
  unfolding markStarted_def clock_def
  apply (intro emits_if)
   apply (auto intro!: emits_return marked_started.intros)[1]
  apply (intro emits_bind [of "observe _"] emits_observe)
  apply (rule emits_mono [OF status_update_protocol])
  apply (auto intro: marked_started.intros)
  done

lemma markPodStartupResult_protocol:
  "emits (markPodStartupResult env cnh st msg) (\<lambda>res es s'.
     status_written env (updateCheckResult cnh (startup_result st msg))
       ''failed to update CheckNodeHealth status: '' es res) s"
  unfolding markPodStartupResult_def startup_result_def Let_def by (rule status_update_protocol)

lemma updatePodstartCheckerResult_protocol:
  "emits (updatePodstartCheckerResult env cnh pod) (\<lambda>res es s'. startup_reported env cnh pod es res) s"
  unfolding updatePodstartCheckerResult_def isPodTimeout_def clock_def
  apply (intro emits_if emits_bind emits_observe emits_return;
         (rule emits_mono [OF markPodStartupResult_protocol])?)
  apply (auto intro: startup_reported.intros intro!: emits_intro dest: clock_readsI)
  done

lemma updateNodeCondition_protocol:
  "emits (updateNodeCondition env cnh) (\<lambda>res es s'. node_reported cnh es) s"
  unfolding updateNodeCondition_def call_defs Let_def
  by (intro emits_intro) (auto intro!: emits_return intro: node_reported.intros)

lemma cleanupPod_protocol:
  "emits (cleanupPod env r cnh) (\<lambda>res es s'. cleanup_tried r cnh es res) s"
proof (rule emits_mono [OF cleanupPod_emits], elim conjE)
  fix res :: "go_error option" and es s'
  assume "list_all cleanup_call es" "(res = None) = cleaned r cnh es" "res \<noteq> None \<longrightarrow> list_ex failed_call es"
  then show "cleanup_tried r cnh es res" by (cases res) (auto intro: cleanup_tried.intros)
qed

lemma markCompleted_protocol:
  "emits (markCompleted env cnh) (\<lambda>res es s'. \<exists>now.
     status_written env (completed cnh now) ''failed to update status: '' es (snd (fst res), snd res)) s"
  unfolding markCompleted_def call_defs Let_def
  by (intro emits_intro) (auto intro!: emits_return intro: status_written.intros could_answerI)

lemma report_protocol:
  "emits (if EnableNodeCondition r then do {
       _ \<leftarrow> updateNodeCondition env cnh;
       if st = ConditionFalse then breaker_unhealthy env else breaker_healthy }
     else return ()) (\<lambda>_ ns s'. node_reported cnh ns \<and> (EnableNodeCondition r \<or> ns = [])) s"
  apply (intro emits_if emits_bind_via [OF updateNodeCondition_protocol])
    apply (auto intro!: emits_intro intro: node_reported.intros)
  done

lemma finish_protocol:
  "emits (finish env r cnh) (\<lambda>res es s'. finished env r cnh es res) s"
  unfolding finish_def
  apply (rule emits_bind_via [OF markCompleted_protocol])
  apply (intro emits_case_prod emits_case_option)
   prefer 2
   apply (auto intro!: emits_return intro: finished.verdict_lost)[1]
  apply (rule emits_bind_via [OF report_protocol])
  apply (rule emits_bind_via [OF cleanupPod_protocol])
  apply (intro emits_case_option; rule emits_return; auto intro: finished.verdict_kept)
  done

lemma determineCheckResult_protocol:
  "emits (determineCheckResult env r cnh pod) (\<lambda>res es s'. determined env r cnh pod es res) s"
  unfolding determineCheckResult_def isPodTimeout_def clock_def
  apply (intro emits_bind emits_if emits_observe emits_return;
         (rule emits_mono [OF finish_protocol])?)
  apply (auto intro: determined.intros dest: clock_readsI intro!: emits_intro emits_mono [OF finish_protocol])
  done

lemma run_check_protocol:
  "emits (run_check env r cnh) (\<lambda>res es s'. checked env r cnh es res) s"
  unfolding run_check_def
  apply (rule emits_bind_via [OF ensureHealthCheckPod_protocol])
  apply (intro emits_case_sum)
   apply (auto intro!: emits_return intro: checked.no_pod)[1]
  apply (rule emits_bind_via [OF markStarted_protocol])
  apply (intro emits_case_prod emits_case_option)
   prefer 2
   apply (auto intro!: emits_return intro: checked.start_failed)[1]
  apply (rule emits_bind_via [OF updatePodstartCheckerResult_protocol])
  apply (intro emits_case_prod emits_case_option)
   prefer 2
   apply (auto intro!: emits_return intro: checked.report_failed)[1]
  apply (rule emits_mono [OF determineCheckResult_protocol])
  apply (auto intro: checked.observed)
  done

lemma ensure_finalizer_protocol:
  "emits (ensure_finalizer env cnh) (\<lambda>res es s'. finalizer_ensured env cnh es res) s"
  unfolding ensure_finalizer_def call_defs
  by (auto intro!: emits_intro intro: finalizer_ensured.intros could_answerI)

lemma handleDeletion_protocol:
  "emits (handleDeletion env r cnh) (\<lambda>res es s'.
     (\<exists>e. cleanup_tried r cnh es (Some e) \<and> res = (no_requeue, Some e)) \<or>
     (\<exists>ds x. es = ds @ [UpdateCNH (without_finalizer env cnh) x] \<and> cleaned r cnh ds \<and>
        res = (no_requeue, case x of Inl e \<Rightarrow> Some e | Inr _ \<Rightarrow> None))) s"
  unfolding handleDeletion_def call_defs without_finalizer_def
  apply (rule emits_bind_via [OF cleanupPod_protocol])
  apply (auto intro!: emits_intro elim: cleanup_triedE)
  done

lemma handleCompletion_protocol:
  "emits (handleCompletion env r cnh) (\<lambda>res es s'. \<exists>err. cleanup_tried r cnh es err \<and>
     res = (no_requeue, err)) s"
  unfolding handleCompletion_def
  by (rule emits_bind_via [OF cleanupPod_protocol]) (auto intro!: emits_intro)

lemma Reconcile_protocol:
  "emits (Reconcile_cnh env r req) (\<lambda>res es s'. reconciled env r req es res) s"
  unfolding Reconcile_cnh_def get_cnh_def delete_cnh_def isExpired_def clock_def
  apply (intro emits_bind [of "perform _ _"] emits_bind [of "observe _"]
      emits_bind [of "State_Monad.bind _ _"] emits_perform emits_observe emits_return emits_if emits_case_sum
      emits_case_option emits_bind_via [OF ensure_finalizer_protocol]
      emits_mono [OF handleDeletion_protocol] emits_mono [OF run_check_protocol]
      emits_mono [OF handleCompletion_protocol])
        apply (auto intro: reconciled.intros dest: clock_readsI simp del: ignore_not_found_simps)
   apply (metis reconciled.expired clock_readsI)+
  done

end
