(* ===== verification/CnhSafety.thy ===== *)
theory CnhSafety
  imports CnhTraces
begin

text \<open>
  The properties of one reconciliation of a CheckNodeHealth, read off the protocol of
  \<open>CnhTraces\<close>. Each first gets its specification as a predicate on the calls of a run, then a
  lemma on the protocol, then the theorem on \<open>Reconcile_cnh\<close> for an arbitrary API server.
\<close>

section \<open>What can be seen in a run\<close>

fun status_payload :: "cnh_event \<Rightarrow> CheckNodeHealth list" where
  "status_payload (StatusUpdateCNH c x) = [c]"
| "status_payload _ = []"

definition status_payloads :: "cnh_event list \<Rightarrow> CheckNodeHealth list" where
  "status_payloads es = concat (map status_payload es)"

fun pod_creation :: "cnh_event \<Rightarrow> Pod list" where
  "pod_creation (CreatePod p x) = [p]"
| "pod_creation _ = []"

definition pod_creations :: "cnh_event list \<Rightarrow> Pod list" where
  "pod_creations es = concat (map pod_creation es)"

lemma status_payloads_simps [simp]:
  "status_payloads [] = []"
  "status_payloads (e # es) = status_payload e @ status_payloads es"
  "status_payloads (es @ fs) = status_payloads es @ status_payloads fs"
  by (simp_all add: status_payloads_def)

lemma pod_creations_simps [simp]:
  "pod_creations [] = []"
  "pod_creations (e # es) = pod_creation e @ pod_creations es"
  "pod_creations (es @ fs) = pod_creations es @ pod_creations fs"
  by (simp_all add: pod_creations_def)

lemma cleanup_quiet:
  "list_all cleanup_call es \<Longrightarrow> status_payloads es = [] \<and> pod_creations es = []"
proof (induction es)
  case (Cons e es)
  then show ?case by (cases e) auto
qed simp

lemma pod_gone_cleanup: "pod_gone e \<Longrightarrow> cleanup_call e"
  by (cases e) (simp_all add: pod_gone_def)

lemma cleaned_calls: "cleaned r cnh es \<Longrightarrow> list_all cleanup_call es"
  by (auto simp: cleaned_def list_all_iff intro: pod_gone_cleanup)

lemma cleanup_tried_calls: "cleanup_tried r cnh es res \<Longrightarrow> list_all cleanup_call es"
  by (auto elim: cleanup_triedE dest: cleaned_calls)

text \<open>What a cleanup cannot contain, for every kind of call the specifications speak of.\<close>

lemma not_cleanup:
  assumes "cleanup_tried r cnh es res"
  shows "StatusUpdateCNH c x \<notin> set es" "UpdateCNH c x \<notin> set es" "CreatePod p y \<notin> set es"
    "PatchNodeStatus n n' z \<notin> set es" "GetCNH m x \<notin> set es"
  using cleanup_tried_calls [OF assms] by (auto simp: list_all_iff)

lemma cleanup_tried_payloads [simp]:
  "cleanup_tried r cnh es res \<Longrightarrow> status_payloads es = []"
  "cleanup_tried r cnh es res \<Longrightarrow> pod_creations es = []"
  by (simp_all add: cleanup_quiet cleanup_tried_calls)

lemma cleanup_failure: "cleanup_tried r cnh es (Some e) \<Longrightarrow> list_ex failed_call es"
  by (auto elim: cleanup_triedE)

section \<open>Outcomes\<close>

text \<open>A state of the resource the run has read, from the lookup or from the answer to an update.\<close>

definition read_cnh :: "cnh_event list \<Rightarrow> CheckNodeHealth \<Rightarrow> bool" where
  "read_cnh es c \<longleftrightarrow> (\<exists>n. GetCNH n (Inr c) \<in> set es) \<or> (\<exists>d. UpdateCNH d (Inr c) \<in> set es)"

lemma finalizer_ensured_read:
  "finalizer_ensured env cnh fs (Inr c) \<Longrightarrow> read_cnh (GetCNH req (Inr cnh) # fs) c"
  by (erule finalizer_ensuredE) (auto simp: read_cnh_def)

text \<open>
  A pod the run was shown, by the listing or when it was read back; \<open>pod_over\<close> and \<open>pod_pending\<close>
  are the two cases of \<open>determineCheckResult\<close>: the pod has ended or the clock reads more than two
  minutes after its creation; or it has not ended and the clock reads at most that.
\<close>

definition pod_seen :: "cnh_event list \<Rightarrow> Pod \<Rightarrow> bool" where
  "pod_seen es pod \<longleftrightarrow> (\<exists>ns k v pods. ListPods ns k v (Inr (pod # pods)) \<in> set es) \<or>
     (\<exists>n ns. GetPod n ns (Inr pod) \<in> set es)"

definition pod_over :: "'w cnh_env \<Rightarrow> Pod \<Rightarrow> bool" where
  "pod_over env pod \<longleftrightarrow> Phase (podStatus pod) \<in> {PodSucceeded, PodFailed} \<or>
     (\<exists>now. clock_reads env now \<and> time_sub now (CreationTimestamp pod) > 2 * 60 * 10 ^ 9)"

definition pod_pending :: "'w cnh_env \<Rightarrow> Pod \<Rightarrow> bool" where
  "pod_pending env pod \<longleftrightarrow> Phase (podStatus pod) \<notin> {PodSucceeded, PodFailed} \<and>
     (\<exists>now. clock_reads env now \<and> time_sub now (CreationTimestamp pod) \<le> 2 * 60 * 10 ^ 9)"

lemma timed_out_two_minutes:
  "timed_out pod now \<longleftrightarrow> time_sub now (CreationTimestamp pod) > 2 * 60 * 10 ^ 9"
  by (simp add: timed_out_def PodTimeout_def time_units)

text \<open>
  \<open>settled env r es\<close>: the run left nothing to do for the resource: it was gone, it was over six hours
  old and deleted, its finalizer was released after cleanup, it had completed and was cleaned up,
  or this run completed it, its pod being over.
  \<open>unbuildable env r es e\<close>: the resource had no pod and none could be built for it, for the
  reason that is the error.
\<close>

definition settled :: "'w cnh_env \<Rightarrow> CheckNodeHealthReconciler \<Rightarrow> cnh_event list \<Rightarrow> bool" where
  "settled env r es \<longleftrightarrow>
     (\<exists>n e. es = [GetCNH n (Inl e)] \<and> is_not_found e) \<or>
     (\<exists>n c x now. es = [GetCNH n (Inr c), DeleteCNH c x] \<and> ignore_not_found x = None \<and>
        clock_reads env now \<and> time_sub now (CreationTimestamp c) > 6 * 3600 * 10 ^ 9) \<or>
     (\<exists>n c ds c' x. es = GetCNH n (Inr c) # ds @ [UpdateCNH c' (Inr x)] \<and>
        DeletionTimestamp c \<noteq> None \<and> cleaned r c ds) \<or>
     (\<exists>c pre ds. es = pre @ ds \<and> read_cnh pre c \<and> isCompleted c \<and> cleaned r c ds) \<or>
     (\<exists>c c' pod. StatusUpdateCNH c (Inr c') \<in> set es \<and> isCompleted c \<and> pod_seen es pod \<and> pod_over env pod)"

definition waiting :: "'w cnh_env \<Rightarrow> cnh_event list \<Rightarrow> bool" where
  "waiting env es \<longleftrightarrow> (\<exists>pod. pod_seen es pod \<and> pod_pending env pod)"

definition unbuildable :: "'w cnh_env \<Rightarrow> CheckNodeHealthReconciler \<Rightarrow> cnh_event list \<Rightarrow> go_error \<Rightarrow> bool" where
  "unbuildable env r es e \<longleftrightarrow> (\<exists>c e'. read_cnh es c \<and> \<not> isCompleted c \<and>
     ListPods (CheckerPodNamespace r) CheckNodeHealthLabel (Name c) (Inr []) \<in> set es \<and>
     buildHealthCheckPod env r c = Inl e' \<and> e = Wrap ''failed to build health check pod: '' e')"

definition explained ::
  "'w cnh_env \<Rightarrow> CheckNodeHealthReconciler \<Rightarrow> cnh_event list \<Rightarrow> ctrl_result \<times> go_error option \<Rightarrow> bool" where
  "explained env r es res \<longleftrightarrow>
     (case res of
        (q, Some e) \<Rightarrow> q = no_requeue \<and> (list_ex failed_call es \<or> unbuildable env r es e)
      | (q, None) \<Rightarrow>
          q = no_requeue \<and> settled env r es \<or> q = \<lparr>RequeueAfter = 30 * second\<rparr> \<and> waiting env es)"

lemma read_cnh_append [intro]: "read_cnh pre c \<Longrightarrow> read_cnh (pre @ es) c"
  by (auto simp: read_cnh_def)

lemma pod_seen_append: "pod_seen (es @ fs) pod \<longleftrightarrow> pod_seen es pod \<or> pod_seen fs pod"
  by (auto simp: pod_seen_def)

lemma isCompleted_completed [simp]: "isCompleted (completed c now)"
  by (simp add: completed_def isCompleted_def Let_def split: prod.splits)

lemma status_written_failed: "status_written env c p es (Some e, c') \<Longrightarrow> list_ex failed_call es"
  by (auto elim: status_writtenE)

lemma ensured_pod_seen: "ensured env r cnh es (Inr pod) \<Longrightarrow>
   pod_seen es pod"
  by (erule ensuredE) (auto simp: pod_seen_def)

lemma finished_settles: "finished env r cnh es (q, None) \<Longrightarrow>
   q = no_requeue \<and> (\<exists>c c'. StatusUpdateCNH c (Inr c') \<in> set es \<and> isCompleted c)"
  by (erule finishedE) (fastforce elim!: status_writtenE)+

lemma finished_fails: "finished env r cnh es (q, Some e) \<Longrightarrow> q = no_requeue \<and> list_ex failed_call es"
  by (erule finishedE) (auto dest: status_written_failed)

lemma checked_explained:
  assumes "checked env r cnh es res" and read: "read_cnh pre cnh" "\<not> isCompleted cnh"
  shows "explained env r (pre @ es) res"
  using assms(1)
proof (cases rule: checked.cases)
  case (no_pod e)
  from no_pod(2) show ?thesis
  proof (cases rule: ensured.cases)
    case (not_built e')
    then have "unbuildable env r (pre @ es) e"
      unfolding unbuildable_def using read by (intro exI [of _ cnh] exI [of _ e']) auto
    then show ?thesis using no_pod by (simp add: explained_def)
  qed (use no_pod in \<open>auto simp: explained_def\<close>)
next
  case (start_failed es0 pod es1 e c1)
  then show ?thesis
    by (auto elim!: marked_startedE dest: status_written_failed simp: explained_def)
next
  case (report_failed es0 pod es1 c1 es2 e c2)
  then show ?thesis
    by (auto elim!: startup_reportedE dest: status_written_failed simp: explained_def)
next
  case (observed es0 pod es1 c1 es2 c2 es3)
  have seen: "pod_seen (pre @ es) pod"
    using ensured_pod_seen [OF observed(2)] observed(1) by (simp add: pod_seen_append)
  from observed(5) show ?thesis
  proof (cases rule: determined.cases)
    case (pod_done now)
    have over: "pod_over env pod"
      using pod_done(1) by (auto simp: pod_over_def pod_completed_def timed_out_two_minutes)
    obtain q e where res: "res = (q, e)" by (cases res)
    show ?thesis
    proof (cases e)
      case None
      then obtain c c' where c: "q = no_requeue" "StatusUpdateCNH c (Inr c') \<in> set es3" "isCompleted c"
        using res pod_done finished_settles [of env r c2 es3 q] by auto
      then have "settled env r (pre @ es)" unfolding settled_def using observed(1) seen over by auto
      then show ?thesis using None res c by (simp add: explained_def)
    next
      case (Some x)
      with res pod_done finished_fails [of env r c2 es3 q x] observed(1) show ?thesis
        by (auto simp: explained_def)
    qed
  next
    case (pod_busy now)
    then have "waiting env (pre @ es)" unfolding waiting_def pod_pending_def
      using seen by (auto simp: pod_completed_def timed_out_two_minutes not_less)
    then show ?thesis using pod_busy by (simp add: explained_def)
  qed
qed

lemma reconciled_explained:
  assumes "reconciled env r req es res"
  shows "explained env r es res"
  using assms
proof (cases rule: reconciled.cases)
  case (not_read e)
  then show ?thesis by (auto simp: explained_def settled_def)
next
  case (delete_blocked cnh es' e)
  then show ?thesis using cleanup_failure by (auto simp: explained_def)
next
  case (released cnh es' x)
  then show ?thesis by (cases x) (auto simp: explained_def settled_def)
next
  case (expired cnh now x)
  then show ?thesis by (cases x; cases "ignore_not_found x")
      (auto simp: explained_def settled_def expired_at_def CRTTL_def time_units ignore_not_found_def)
next
  case (finalizer_failed cnh now es' e)
  then show ?thesis by (auto simp: explained_def elim: finalizer_ensuredE)
next
  case (completed_before cnh now es1 c1 es2 err)
  have read: "read_cnh (GetCNH req (Inr cnh) # es1) c1"
    using completed_before finalizer_ensured_read by blast
  show ?thesis
  proof (cases err)
    case None
    then have "cleaned r c1 es2" using completed_before by (auto elim: cleanup_triedE)
    then have "settled env r es" unfolding settled_def using completed_before read
      by (metis append_Cons)
    then show ?thesis using None completed_before by (simp add: explained_def)
  next
    case (Some e)
    then show ?thesis using completed_before cleanup_failure by (auto simp: explained_def)
  qed
next
  case (running cnh now es1 c1 es2)
  then show ?thesis
    using checked_explained [of env r c1 es2 res "GetCNH req (Inr cnh) # es1"]
      finalizer_ensured_read [OF running(4)] by simp
qed

text \<open>C8: no reconciliation ends silently. Against any API server, a run that returns an error has
  met a failed call, or it had read an unfinished resource without a pod and its error says that
  no pod could be built for that resource; a run that asks to be called again in 30 seconds was
  shown a checker pod that has not ended and, on the clock, is at most two minutes old; and a run
  that ends without either has settled the resource: it was gone, deleted for being over six hours
  old, released, already completed and cleaned up, or completed by this run, whose pod had ended
  or was over two minutes old on the clock.\<close>

theorem reconcile_outcomes_explained:
  "emits (Reconcile_cnh env r req) (\<lambda>res es s'. explained env r es res) s"
  by (rule emits_mono [OF Reconcile_protocol]) (rule reconciled_explained)

section \<open>The finalizer\<close>

text \<open>Every write that takes the controller's finalizer off a resource comes after a cleanup of
  its pods, in a run that saw the resource marked for deletion, and ends the run.\<close>

definition finalizer_safe :: "CheckNodeHealthReconciler \<Rightarrow> cnh_event list \<Rightarrow> bool" where
  "finalizer_safe r es \<longleftrightarrow>
     (\<forall>pre c x post. es = pre @ UpdateCNH c x # post \<longrightarrow>
        CheckNodeHealthFinalizer \<in> set (Finalizers c) \<or>
        post = [] \<and> (\<exists>n c0 ds. pre = GetCNH n (Inr c0) # ds \<and> DeletionTimestamp c0 \<noteq> None \<and>
          Name c0 = Name c \<and> cleaned r c0 ds))"

fun is_update :: "cnh_event \<Rightarrow> bool" where
  "is_update (UpdateCNH c x) = True"
| "is_update _ = False"

lemma one_update_split:
  "ds @ UpdateCNH c x # fs = pre @ UpdateCNH c' x' # post \<Longrightarrow>
   list_all (\<lambda>e. \<not> is_update e) ds \<Longrightarrow> list_all (\<lambda>e. \<not> is_update e) fs \<Longrightarrow>
   pre = ds \<and> c' = c \<and> x' = x \<and> post = fs"
proof (induction ds arbitrary: pre)
  case Nil
  then show ?case by (cases pre) auto
next
  case (Cons d ds)
  then show ?case by (cases pre) auto
qed

lemma cleanup_no_update: "list_all cleanup_call es \<Longrightarrow> list_all (\<lambda>e. \<not> is_update e) es"
proof (induction es)
  case (Cons e es)
  then show ?case by (cases e) auto
qed simp

lemma status_written_no_update: "status_written env c p es res \<Longrightarrow> list_all (\<lambda>e. \<not> is_update e) es"
  by (auto elim: status_writtenE)

lemma finished_no_update: "finished env r c es res \<Longrightarrow> list_all (\<lambda>e. \<not> is_update e) es"
  by (erule finishedE)
     (auto elim!: node_reportedE dest!: status_written_no_update cleanup_tried_calls cleanup_no_update)

lemma checked_no_update: "checked env r cnh es res \<Longrightarrow> list_all (\<lambda>e. \<not> is_update e) es"
  by (erule checkedE)
     (auto elim!: ensuredE marked_startedE startup_reportedE determinedE
        dest!: status_written_no_update finished_no_update)

lemma finalizer_safe_none: "list_all (\<lambda>e. \<not> is_update e) es \<Longrightarrow> finalizer_safe r es"
  unfolding finalizer_safe_def by auto

lemma finalizer_safe_one:
  assumes "list_all (\<lambda>e. \<not> is_update e) ds" "list_all (\<lambda>e. \<not> is_update e) fs"
    and "CheckNodeHealthFinalizer \<in> set (Finalizers c) \<or>
        fs = [] \<and> (\<exists>n c0 ds'. ds = GetCNH n (Inr c0) # ds' \<and> DeletionTimestamp c0 \<noteq> None \<and>
          Name c0 = Name c \<and> cleaned r c0 ds')"
  shows "finalizer_safe r (ds @ UpdateCNH c x # fs)"
  unfolding finalizer_safe_def using assms(3) one_update_split [OF _ assms(1,2)] by blast

lemma finalizer_ensured_safe:
  assumes "finalizer_laws env" "finalizer_ensured env c fs y" "list_all (\<lambda>e. \<not> is_update e) gs"
  shows "finalizer_safe r (GetCNH n x # fs @ gs)"
proof -
  have add: "CheckNodeHealthFinalizer \<in> set (Finalizers (with_finalizer env c))"
    using assms(1) by (auto simp: finalizer_laws_def with_finalizer_def)
  from assms(2) show ?thesis
  proof (cases rule: finalizer_ensured.cases)
    case has_finalizer
    then show ?thesis using finalizer_safe_none [of "GetCNH n x # gs"] assms(3) by simp
  next
    case add_finalizer
    then show ?thesis
      using finalizer_safe_one [of "[GetCNH n x]" gs "with_finalizer env c" r y] assms(3) add by simp
  qed
qed

lemma reconciled_finalizer_safe:
  assumes laws: "finalizer_laws env" and run: "reconciled env r req es res"
  shows "finalizer_safe r es"
  using run
proof (cases rule: reconciled.cases)
  case (released cnh ds x)
  then have "list_all (\<lambda>e. \<not> is_update e) ds" using cleaned_calls cleanup_no_update by blast
  then show ?thesis
    using released finalizer_safe_one [of "GetCNH req (Inr cnh) # ds" "[]" "without_finalizer env cnh" r x]
    by (simp add: without_finalizer_def)
next
  case (finalizer_failed cnh now fs e)
  then show ?thesis using finalizer_ensured_safe [OF laws, of cnh fs _ "[]"] by simp
qed (auto intro: finalizer_safe_none finalizer_ensured_safe [OF laws]
       simp: checked_no_update cleanup_no_update cleanup_tried_calls)

text \<open>C6: the finalizer that holds a deleted resource back is only taken off after every checker pod
  of the resource was deleted or found gone, against any API server.\<close>

theorem finalizer_removed_only_after_cleanup:
  assumes "finalizer_laws env"
  shows "emits (Reconcile_cnh env r req) (\<lambda>res es s'. finalizer_safe r es) s"
  by (rule emits_mono [OF Reconcile_protocol]) (rule reconciled_finalizer_safe [OF assms])

section \<open>Creating the pod\<close>

text \<open>A run creates at most one pod: the one built for the resource, after a listing of the
  resource's pods in the controller's namespace came back empty.\<close>

definition created_when_absent :: "'w cnh_env \<Rightarrow> CheckNodeHealthReconciler \<Rightarrow> cnh_event list \<Rightarrow> bool" where
  "created_when_absent env r es \<longleftrightarrow> pod_creations es = [] \<or>
     (\<exists>c pod pre x post. read_cnh pre c \<and> buildHealthCheckPod env r c = Inr pod \<and> \<not> isCompleted c \<and>
        pod_creations es = [pod] \<and>
        es = pre @ [ListPods (CheckerPodNamespace r) CheckNodeHealthLabel (Name c) (Inr []), CreatePod pod x] @ post)"

lemma status_written_no_pod: "status_written env c p es res \<Longrightarrow> pod_creations es = []"
  by (auto elim: status_writtenE)

lemma finished_no_pod: "finished env r c es res \<Longrightarrow> pod_creations es = []"
  by (erule finishedE) (auto elim!: node_reportedE dest!: status_written_no_pod)

lemma after_ensured_no_pod:
  "marked_started env cnh es st \<Longrightarrow> pod_creations es = []"
  "startup_reported env cnh pod es st \<Longrightarrow> pod_creations es = []"
  "determined env r cnh pod es res \<Longrightarrow> pod_creations es = []"
  by (auto elim!: marked_startedE startup_reportedE determinedE
      dest: status_written_no_pod finished_no_pod)

lemma ensured_created_when_absent:
  assumes "ensured env r c es res" "\<not> isCompleted c" "pod_creations pre = []" "read_cnh pre c"
    "pod_creations post = []"
  shows "created_when_absent env r (pre @ es @ post)"
  using assms
proof (cases rule: ensured.cases)
  case (not_created pod e)
  then show ?thesis using assms unfolding created_when_absent_def
    by (intro disjI2 exI [of _ c] exI [of _ pod] exI [of _ pre] exI [of _ "Inl e"] exI [of _ post]) simp
next
  case (not_read_back pod p e)
  then show ?thesis using assms unfolding created_when_absent_def
    by (intro disjI2 exI [of _ c] exI [of _ pod] exI [of _ pre] exI [of _ "Inr p"]
        exI [of _ "GetPod (Name p) (Namespace p) (Inl e) # post"]) simp
next
  case (created pod p q)
  then show ?thesis using assms unfolding created_when_absent_def
    by (intro disjI2 exI [of _ c] exI [of _ pod] exI [of _ pre] exI [of _ "Inr p"]
        exI [of _ "GetPod (Name p) (Namespace p) (Inr q) # post"]) simp
qed (auto simp: created_when_absent_def)

lemma checked_created_when_absent:
  assumes "checked env r c es res" "\<not> isCompleted c" "pod_creations pre = []" "read_cnh pre c"
  shows "created_when_absent env r (pre @ es)"
  using assms(1)
  by (rule checkedE)
     (use assms ensured_created_when_absent [of env r c _ _ pre] ensured_created_when_absent [of env r c _ _ pre "[]"]
      in \<open>auto simp: after_ensured_no_pod\<close>)

lemma reconciled_created_when_absent:
  assumes "reconciled env r req es res"
  shows "created_when_absent env r es"
  using assms
proof (cases rule: reconciled.cases)
  case (running cnh now es1 c1 es2)
  have "pod_creations (GetCNH req (Inr cnh) # es1) = []"
    using running(4) by (auto elim!: finalizer_ensuredE)
  from checked_created_when_absent [OF running(6,5) this finalizer_ensured_read [OF running(4)]] running(1)
  show ?thesis by simp
qed (auto simp: created_when_absent_def cleanup_quiet cleaned_calls elim!: finalizer_ensuredE)

text \<open>C9: a reconciliation creates at most one checker pod, only for a resource it has not seen
  completed, and only right after the API server listed none for it.\<close>

theorem pod_created_at_most_once_when_absent:
  "emits (Reconcile_cnh env r req) (\<lambda>res es s'. created_when_absent env r es) s"
  by (rule emits_mono [OF Reconcile_protocol]) (rule reconciled_created_when_absent)

section \<open>The verdict\<close>

text \<open>What a write of the status keeps when the server echoes the report.\<close>

lemma echo_status: "echoes env \<Longrightarrow> could_answer (env_status_update env) c (Inr c') \<Longrightarrow> same_report c c'"
  unfolding echoes_def could_answer_def by blast

lemma echo_update: "echoes env \<Longrightarrow> could_answer (env_update_cnh env) c (Inr c') \<Longrightarrow> same_report c c'"
  unfolding echoes_def could_answer_def by blast

lemma same_report_completed: "same_report c c' \<Longrightarrow> isCompleted c' = isCompleted c"
  by (auto simp: same_report_def isCompleted_def)

lemma find_map_option:
  "(\<And>x. P x = Q (f x)) \<Longrightarrow> map_option f (find P xs) = find Q (map f xs)"
  by (induction xs) auto

lemma same_report_condition:
  assumes "same_report c c'"
  shows "map_option condition_report (healthy_condition c') = map_option condition_report (healthy_condition c)"
proof -
  have "map_option condition_report (healthy_condition d) =
      find (\<lambda>x. fst x = ConditionTypeHealthy) (map condition_report (Conditions (cnhStatus d)))" for d
    unfolding healthy_condition_def by (rule find_map_option) (simp add: condition_report_def)
  then show ?thesis using assms by (simp add: same_report_def)
qed

text \<open>The condition a completed resource carries, and what the status writes of a run look like.\<close>

definition verdict_report :: "CheckNodeHealth \<Rightarrow> string \<times> string \<times> string \<times> string" where
  "verdict_report c = (ConditionTypeHealthy, fst (condition_of (verdict (results_of c))),
     snd (condition_of (verdict (results_of c))), formatResultsMessage c)"

definition carries_verdict :: "CheckNodeHealth \<Rightarrow> bool" where
  "carries_verdict c \<longleftrightarrow> map condition_report (Conditions (cnhStatus c)) = [verdict_report c]"

definition well_reported :: "cnh_event list \<Rightarrow> bool" where
  "well_reported es \<longleftrightarrow>
     list_all (\<lambda>c. \<not> isCompleted c) (butlast (status_payloads es)) \<and>
     list_all (\<lambda>c. isCompleted c \<longrightarrow> carries_verdict c) (status_payloads es)"

lemma formatResultsMessage_cong:
  "results_of c = results_of d \<Longrightarrow> formatResultsMessage c = formatResultsMessage d"
  by (simp add: formatResultsMessage_def findMissingResult_def findResult_def)

lemma results_of_completed [simp]: "results_of (completed c now) = results_of c"
  by (simp add: completed_def Let_def split: prod.splits)

lemma completed_carries_verdict: "carries_verdict (completed c now)"
  by (auto simp: carries_verdict_def verdict_report_def completed_def determineHealthyCondition_verdict
      condition_report_def Let_def intro!: formatResultsMessage_cong)

lemma not_completed_payloads [simp]:
  "isCompleted (started c now) = isCompleted c"
  "isCompleted (updateCheckResult c x) = isCompleted c"
  "isCompleted (with_finalizer env c) = isCompleted c"
  by (simp_all add: started_def updateCheckResult_def with_finalizer_def isCompleted_def)

lemma status_written_payload:
  "status_written env c p es (e, c') \<Longrightarrow> echoes env \<Longrightarrow>
     status_payloads es = [c] \<and> isCompleted c' = isCompleted c"
  by (auto elim!: status_writtenE dest: echo_status same_report_completed)

lemma marked_started_payloads:
  assumes "echoes env" "marked_started env c es (e, c')" "\<not> isCompleted c"
  shows "list_all (\<lambda>c. \<not> isCompleted c) (status_payloads es) \<and> \<not> isCompleted c'"
  using assms by (auto elim!: marked_startedE dest!: status_written_payload)

lemma startup_reported_payloads:
  assumes "echoes env" "startup_reported env c pod es (e, c')" "\<not> isCompleted c"
  shows "list_all (\<lambda>c. \<not> isCompleted c) (status_payloads es) \<and> \<not> isCompleted c'"
  using assms by (auto elim!: startup_reportedE dest!: status_written_payload)

lemma finished_payloads:
  assumes "finished env r c es res"
  shows "\<exists>now. status_payloads es = [completed c now]"
  using assms by (auto elim!: finishedE status_writtenE node_reportedE)

lemma well_reported_open: "list_all (\<lambda>c. \<not> isCompleted c) (status_payloads es) \<Longrightarrow> well_reported es"
  by (auto simp: well_reported_def list_all_iff dest: in_set_butlastD)

lemma ensured_payloads [simp]: "ensured env r c es res \<Longrightarrow> status_payloads es = []"
  by (auto elim: ensuredE)

lemma checked_well_reported:
  assumes e: "echoes env" and c: "\<not> isCompleted c" and run: "checked env r c es res"
    and pre: "status_payloads pre = []"
  shows "well_reported (pre @ es)"
  using run
proof (cases rule: checked.cases)
  case (observed es0 pod es1 c1 es2 c2 es3)
  note open1 = marked_started_payloads [OF e observed(3) c]
  note open2 = startup_reported_payloads [OF e observed(4)] 
  from observed(5) show ?thesis
  proof (cases rule: determined.cases)
    case (pod_done now)
    then obtain now' where "status_payloads es3 = [completed c2 now']" using finished_payloads by blast
    then show ?thesis using observed(1,2) open1 open2 pre
      by (auto simp: well_reported_def completed_carries_verdict butlast_append list_all_iff)
  next
    case pod_busy
    then show ?thesis using observed(1,2) open1 open2 pre by (intro well_reported_open) simp
  qed
qed (use pre marked_started_payloads [OF e _ c] startup_reported_payloads [OF e]
     in \<open>auto intro!: well_reported_open\<close>)

lemma reconciled_well_reported:
  assumes e: "echoes env" and run: "reconciled env r req es res"
  shows "well_reported es"
  using run
proof (cases rule: reconciled.cases)
  case (running cnh now es1 c1 es2)
  have "status_payloads (GetCNH req (Inr cnh) # es1) = []"
    using running(4) by (auto elim!: finalizer_ensuredE)
  from checked_well_reported [OF e running(5,6) this] running(1) show ?thesis by simp
qed (auto intro!: well_reported_open simp: cleanup_quiet cleaned_calls elim!: finalizer_ensuredE)

text \<open>C4: of the status writes of a reconciliation only the last may complete the resource, and a
  completing write carries exactly one condition, Healthy, with the verdict of the results in the
  same write and their summary as its message.\<close>

theorem completion_carries_its_verdict:
  assumes "echoes env"
  shows "emits (Reconcile_cnh env r req) (\<lambda>res es s'. well_reported es) s"
  by (rule emits_mono [OF Reconcile_protocol]) (rule reconciled_well_reported [OF assms])

section \<open>A completed resource is final\<close>

text \<open>After a run has read a resource that is completed it only cleans up: no status write, no new
  pod, nothing on a node.\<close>

fun settles_only :: "cnh_event \<Rightarrow> bool" where
  "settles_only (UpdateCNH c x) = True"
| "settles_only (DeleteCNH c x) = True"
| "settles_only e = cleanup_call e"

definition final_respected :: "cnh_event list \<Rightarrow> bool" where
  "final_respected es \<longleftrightarrow>
     (case es of GetCNH n (Inr c) # fs \<Rightarrow> isCompleted c \<longrightarrow> list_all settles_only fs | _ \<Rightarrow> True)"

lemma cleanup_settles: "list_all cleanup_call es \<Longrightarrow> list_all settles_only es"
proof (induction es)
  case (Cons e es)
  then show ?case by (cases e) auto
qed simp

lemma reconciled_final:
  assumes e: "echoes env" and run: "reconciled env r req es res"
  shows "final_respected es"
  using run
proof (cases rule: reconciled.cases)
  case (running cnh now es1 c1 es2)
  have "isCompleted c1 = isCompleted cnh"
    using running(4) e by (auto elim!: finalizer_ensuredE dest!: echo_update dest: same_report_completed)
  then show ?thesis using running by (simp add: final_respected_def)
qed (auto simp: final_respected_def cleanup_settles cleanup_tried_calls cleaned_calls
       elim!: finalizer_ensuredE)

text \<open>C5: once a resource is completed its verdict is final: no reconciliation writes its status,
  creates a pod for it or touches a node on its behalf again.\<close>

theorem completed_resource_is_final:
  assumes "echoes env"
  shows "emits (Reconcile_cnh env r req) (\<lambda>res es s'. final_respected es) s"
  by (rule emits_mono [OF Reconcile_protocol]) (rule reconciled_final [OF assms])

section \<open>The node condition\<close>

definition node_condition :: "NodeCondition list \<Rightarrow> NodeCondition option" where
  "node_condition cs = find (\<lambda>k. ncType k = NodeConditionNodeHealthy) cs"

definition other_conditions :: "NodeCondition list \<Rightarrow> NodeCondition list" where
  "other_conditions cs = filter (\<lambda>k. ncType k \<noteq> NodeConditionNodeHealthy) cs"

text \<open>The condition that is written: since when it holds is kept as long as the status is the same.\<close>

definition written_condition :: "Condition \<Rightarrow> time \<Rightarrow> NodeCondition option \<Rightarrow> NodeCondition" where
  "written_condition h now old = \<lparr>ncType = NodeConditionNodeHealthy, ncStatus = condStatus h,
     ncReason = condReason h, ncMessage = condMessage h,
     ncTransition = (case old of None \<Rightarrow> now
        | Some k \<Rightarrow> if ncStatus k = condStatus h then ncTransition k else now),
     ncHeartbeat = now\<rparr>"

lemma set_node_condition_written:
  "node_condition (set_node_condition h now cs) = Some (written_condition h now (node_condition cs))"
  by (induction cs) (auto simp: node_condition_def written_condition_def refresh_def Let_def)

lemma set_node_condition_others:
  "other_conditions (set_node_condition h now cs) = other_conditions cs"
  by (induction cs) (auto simp: other_conditions_def refresh_def Let_def)

lemma refresh_type [simp]: "ncType (refresh h now c) = ncType c"
  by (simp add: refresh_def Let_def)

lemma set_node_condition_types:
  "map ncType (set_node_condition h now cs) =
     (if NodeConditionNodeHealthy \<in> set (map ncType cs) then map ncType cs
      else map ncType cs @ [NodeConditionNodeHealthy])"
  by (induction cs) auto

text \<open>Every patch of a node in a run is of the node the resource names, as it was just read, after
  the write that completed the resource; and it changes the one condition, to that verdict.\<close>

definition mirrors_verdict :: "CheckNodeHealth \<Rightarrow> Node \<Rightarrow> Node \<Rightarrow> bool" where
  "mirrors_verdict c base n \<longleftrightarrow>
     n = base\<lparr>NodeConditions := NodeConditions n\<rparr> \<and>
     other_conditions (NodeConditions n) = other_conditions (NodeConditions base) \<and>
     (\<exists>h now. condition_report h = verdict_report c \<and>
        node_condition (NodeConditions n) = Some (written_condition h now (node_condition (NodeConditions base))))"

definition node_patches_justified :: "CheckNodeHealthReconciler \<Rightarrow> cnh_event list \<Rightarrow> bool" where
  "node_patches_justified r es \<longleftrightarrow>
     (\<forall>pre base n x post. es = pre @ PatchNodeStatus base n x # post \<longrightarrow>
        EnableNodeCondition r \<and>
        (\<exists>c c' ps. pre = ps @ [StatusUpdateCNH c (Inr c'), GetNode (refName (NodeRef (cnhSpec c))) (Inr base)] \<and>
           isCompleted c \<and> mirrors_verdict c base n) \<and>
        (\<forall>b m y. PatchNodeStatus b m y \<notin> set post))"

fun is_patch :: "cnh_event \<Rightarrow> bool" where
  "is_patch (PatchNodeStatus b n x) = True"
| "is_patch _ = False"

lemma one_patch_split:
  "ds @ PatchNodeStatus b n x # fs = pre @ PatchNodeStatus b' n' x' # post \<Longrightarrow>
   list_all (\<lambda>e. \<not> is_patch e) ds \<Longrightarrow> list_all (\<lambda>e. \<not> is_patch e) fs \<Longrightarrow>
   pre = ds \<and> b' = b \<and> n' = n \<and> x' = x \<and> post = fs"
proof (induction ds arbitrary: pre)
  case Nil
  then show ?case by (cases pre) auto
next
  case (Cons d ds)
  then show ?case by (cases pre) auto
qed

lemma patches_none: "list_all (\<lambda>e. \<not> is_patch e) es \<Longrightarrow> node_patches_justified r es"
  unfolding node_patches_justified_def by auto

lemma patches_one:
  assumes "list_all (\<lambda>e. \<not> is_patch e) ps" "list_all (\<lambda>e. \<not> is_patch e) fs"
    and "EnableNodeCondition r" "isCompleted c" "mirrors_verdict c base n"
  shows "node_patches_justified r (ps @ [StatusUpdateCNH c (Inr c'),
     GetNode (refName (NodeRef (cnhSpec c))) (Inr base), PatchNodeStatus base n x] @ fs)"
proof -
  let ?ds = "ps @ [StatusUpdateCNH c (Inr c'), GetNode (refName (NodeRef (cnhSpec c))) (Inr base)]"
  have ds: "list_all (\<lambda>e. \<not> is_patch e) ?ds" using assms(1) by simp
  have no: "PatchNodeStatus b m y \<notin> set fs" for b m y using assms(2) by (auto simp: list_all_iff)
  have "node_patches_justified r (?ds @ PatchNodeStatus base n x # fs)"
    unfolding node_patches_justified_def using one_patch_split [OF _ ds assms(2)] assms(3-5) no by blast
  then show ?thesis by simp
qed

lemma cleanup_no_patch: "list_all cleanup_call es \<Longrightarrow> list_all (\<lambda>e. \<not> is_patch e) es"
proof (induction es)
  case (Cons e es)
  then show ?case by (cases e) auto
qed simp

lemma steps_no_patch:
  "status_written env c p es st \<Longrightarrow> list_all (\<lambda>e. \<not> is_patch e) es"
  "ensured env r c es pd \<Longrightarrow> list_all (\<lambda>e. \<not> is_patch e) es"
  "finalizer_ensured env c es y \<Longrightarrow> list_all (\<lambda>e. \<not> is_patch e) es"
  by (auto elim: status_writtenE ensuredE finalizer_ensuredE)

lemma started_reported_no_patch:
  "marked_started env c es st \<Longrightarrow> list_all (\<lambda>e. \<not> is_patch e) es"
  "startup_reported env c pod es st \<Longrightarrow> list_all (\<lambda>e. \<not> is_patch e) es"
  by (auto elim!: marked_startedE startup_reportedE dest: steps_no_patch)

lemma set_node_condition_mirrors:
  assumes "condition_report h = verdict_report c"
  shows "mirrors_verdict c base (base\<lparr>NodeConditions := set_node_condition h now (NodeConditions base)\<rparr>)"
  using assms by (auto simp: mirrors_verdict_def set_node_condition_others set_node_condition_written)

lemma carries_verdict_condition:
  "carries_verdict c \<Longrightarrow> map_option condition_report (healthy_condition c) = Some (verdict_report c)"
  by (auto simp: carries_verdict_def healthy_condition_def verdict_report_def condition_report_def)

lemma finished_patches:
  assumes e: "echoes env" and run: "finished env r c es res"
    and pre: "list_all (\<lambda>e. \<not> is_patch e) pre"
  shows "node_patches_justified r (pre @ es)"
  using run
proof (cases rule: finished.cases)
  case (verdict_lost now e c')
  then show ?thesis using pre steps_no_patch(1) by (intro patches_none) simp
next
  case (verdict_kept now es1 c' ns ds err)
  from verdict_kept(3) have es1: "es1 = [StatusUpdateCNH (completed c now) (Inr c')]"
    and ans: "could_answer (env_status_update env) (completed c now) (Inr c')"
    by (auto elim!: status_writtenE)
  have same: "same_report (completed c now) c'" using echo_status [OF e ans] .
  have ds: "list_all (\<lambda>e. \<not> is_patch e) ds"
    using verdict_kept(6) by (simp add: cleanup_no_patch cleanup_tried_calls)
  from verdict_kept(4) show ?thesis
  proof (cases rule: node_reported.cases)
    case (patched h node now' x)
    have "condition_report h = verdict_report (completed c now)"
      using same_report_condition [OF same] carries_verdict_condition [OF completed_carries_verdict [of c now]]
        patched(2) by simp
    moreover have "EnableNodeCondition r" using verdict_kept(5) patched(1) by blast
    moreover have "refName (NodeRef (cnhSpec c')) = refName (NodeRef (cnhSpec (completed c now)))"
      using same by (simp add: same_report_def)
    ultimately show ?thesis
      using patches_one [OF pre ds _ isCompleted_completed set_node_condition_mirrors]
        verdict_kept(1) es1 patched(1) by simp
  qed (use verdict_kept es1 pre ds in \<open>auto intro!: patches_none\<close>)
qed

lemma checked_patches:
  assumes e: "echoes env" and run: "checked env r c es res" and pre: "list_all (\<lambda>e. \<not> is_patch e) pre"
  shows "node_patches_justified r (pre @ es)"
  using run
proof (cases rule: checked.cases)
  case (observed es0 pod es1 c1 es2 c2 es3)
  let ?pre = "pre @ es0 @ es1 @ es2"
  have pre': "list_all (\<lambda>e. \<not> is_patch e) ?pre"
    using pre observed(2-4) by (simp add: steps_no_patch started_reported_no_patch)
  from observed(5) show ?thesis
  proof (cases rule: determined.cases)
    case (pod_done now)
    then show ?thesis using finished_patches [OF e _ pre', of r c2 es3 res] observed(1) by simp
  next
    case pod_busy
    then show ?thesis using patches_none [OF pre'] observed(1) by simp
  qed
qed (use pre in \<open>auto intro!: patches_none simp: steps_no_patch started_reported_no_patch\<close>)

lemma reconciled_patches:
  assumes e: "echoes env" and run: "reconciled env r req es res"
  shows "node_patches_justified r es"
  using run
proof (cases rule: reconciled.cases)
  case (running cnh now es1 c1 es2)
  have "list_all (\<lambda>e. \<not> is_patch e) (GetCNH req (Inr cnh) # es1)"
    using running(4) by (simp add: steps_no_patch)
  from checked_patches [OF e running(6) this] running(1) show ?thesis by simp
qed (auto intro!: patches_none simp: cleanup_no_patch cleanup_tried_calls cleaned_calls steps_no_patch)

text \<open>C7: a reconciliation patches a node at most once, and only right after it completed the
  resource and read that node; the patch changes the NodeHealthy condition alone, to the status,
  reason and message of the verdict, and keeps its transition time as long as the status is the same.\<close>

theorem node_condition_mirrors_verdict:
  assumes "echoes env"
  shows "emits (Reconcile_cnh env r req) (\<lambda>res es s'. node_patches_justified r es) s"
  by (rule emits_mono [OF Reconcile_protocol]) (rule reconciled_patches [OF assms])

end
