(* ===== verification/CnhLimits.thy ===== *)
theory CnhLimits
  imports CnhSafety
begin

text \<open>
  The CheckNodeHealth controller at its limits: an open circuit breaker, a pod that never starts,
  a cleanup that fails after the verdict is in, and the length limit of pod names; then one
  concrete server and the runs on it that show the hypotheses of the properties can hold.
\<close>

section \<open>The breaker stands before the node\<close>

definition quiet :: "'w cnh_rt \<Rightarrow> 'a \<Rightarrow> cnh_event list \<Rightarrow> 'w cnh_rt \<Rightarrow> bool" where
  "quiet s res es s' \<longleftrightarrow> breaker s' = breaker s \<and> list_all (\<lambda>e. \<not> is_patch e) es"

lemma quiet_cleanup: "emits (cleanupPod env r cnh) (quiet s) s"
  by (rule emits_mono [OF cleanupPod_emits]) (auto simp: quiet_def cleanup_no_patch)

lemma quiet_ensure: "emits (ensureHealthCheckPod env r cnh) (quiet s) s"
  unfolding ensureHealthCheckPod_def call_defs by (auto intro!: emits_intro simp: quiet_def)

lemma quiet_started: "emits (markStarted env cnh) (quiet s) s"
  unfolding markStarted_def call_defs by (auto intro!: emits_intro simp: quiet_def)

lemma quiet_startup: "emits (updatePodstartCheckerResult env cnh pod) (quiet s) s"
  unfolding updatePodstartCheckerResult_def markPodStartupResult_def isPodTimeout_def call_defs Let_def
  by (auto intro!: emits_intro simp: quiet_def)

lemma quiet_completed: "emits (markCompleted env cnh) (quiet s) s"
  unfolding markCompleted_def call_defs Let_def by (auto intro!: emits_intro simp: quiet_def)

lemma quiet_finalizer: "emits (ensure_finalizer env cnh) (quiet s) s"
  unfolding ensure_finalizer_def call_defs by (auto intro!: emits_intro simp: quiet_def)

definition always_blocked :: "'w cnh_env \<Rightarrow> circuit_breaker \<Rightarrow> bool" where
  "always_blocked env cb \<longleftrightarrow> (\<forall>now. clock_reads env now \<longrightarrow> blocked cb now)"

lemma blocked_updateNodeCondition:
  assumes "always_blocked env (breaker s)"
  shows "emits (updateNodeCondition env cnh) (quiet s) s"
proof -
  have no: "fst (Allow (breaker s) now) = False \<and> snd (Allow (breaker s) now) = breaker s"
    if "env_now env w = (now, w')" for w now w'
    using assms that by (auto simp: always_blocked_def Allow_blocked dest: clock_readsI)
  show ?thesis unfolding updateNodeCondition_def
    apply (intro emits_case_option emits_return)
     apply (simp add: quiet_def)
    apply (intro emits_bind emits_breaker_allow)
    apply (drule no)
    apply (auto intro!: emits_return simp: quiet_def)
    done
qed

lemma blocked_finish:
  assumes "always_blocked env (breaker s)"
  shows "emits (finish env r cnh) (\<lambda>_ es s'. list_all (\<lambda>e. \<not> is_patch e) es) s"
  unfolding finish_def
  apply (rule emits_bind_via [OF quiet_completed])
  apply (intro emits_case_prod emits_case_option)
   prefer 2
   apply (auto intro!: emits_return simp: quiet_def)[1]
  apply (intro emits_bind emits_if)
    apply (rule emits_mono [OF blocked_updateNodeCondition])
     apply (use assms in \<open>simp add: quiet_def\<close>)
    apply (auto intro!: emits_intro emits_mono [OF quiet_cleanup] simp: quiet_def)
  done

lemma blocked_determine:
  assumes "always_blocked env (breaker s)"
  shows "emits (determineCheckResult env r cnh pod) (\<lambda>_ es s'. list_all (\<lambda>e. \<not> is_patch e) es) s"
  unfolding determineCheckResult_def isPodTimeout_def clock_def
  by (intro emits_bind emits_if emits_observe emits_return; (rule emits_mono [OF blocked_finish])?)
     (use assms in \<open>auto intro!: emits_intro emits_mono [OF blocked_finish]\<close>)

lemma blocked_run_check:
  assumes "always_blocked env (breaker s)"
  shows "emits (run_check env r cnh) (\<lambda>_ es s'. list_all (\<lambda>e. \<not> is_patch e) es) s"
  unfolding run_check_def
  apply (rule emits_bind_via [OF quiet_ensure])
  apply (intro emits_case_sum)
   apply (auto intro!: emits_return simp: quiet_def)[1]
  apply (rule emits_bind_via [OF quiet_started])
  apply (intro emits_case_prod emits_case_option)
   prefer 2
   apply (auto intro!: emits_return simp: quiet_def)[1]
  apply (rule emits_bind_via [OF quiet_startup])
  apply (intro emits_case_prod emits_case_option)
   prefer 2
   apply (auto intro!: emits_return simp: quiet_def)[1]
  apply (rule emits_mono [OF blocked_determine])
   apply (use assms in \<open>auto simp: quiet_def\<close>)
  done

lemma deletion_no_patch:
  "emits (handleDeletion env r cnh) (\<lambda>_ es s'. list_all (\<lambda>e. \<not> is_patch e) es) s"
  by (rule emits_mono [OF handleDeletion_protocol])
     (auto simp: cleanup_no_patch cleanup_tried_calls cleaned_calls)

lemma completion_no_patch:
  "emits (handleCompletion env r cnh) (\<lambda>_ es s'. list_all (\<lambda>e. \<not> is_patch e) es) s"
  by (rule emits_mono [OF handleCompletion_protocol]) (auto simp: cleanup_no_patch cleanup_tried_calls)

text \<open>C11: while the circuit breaker is open no reconciliation patches a node, whatever the API server
  answers: if at every instant the clock can show the breaker's cooldown has not passed, the run
  contains no node patch.\<close>

theorem open_breaker_shields_nodes:
  assumes "always_blocked env (breaker s)"
  shows "emits (Reconcile_cnh env r req) (\<lambda>res es s'. list_all (\<lambda>e. \<not> is_patch e) es) s"
  unfolding Reconcile_cnh_def get_cnh_def delete_cnh_def isExpired_def clock_def
  apply (intro emits_bind [of "perform _ _"] emits_bind [of "observe _"]
      emits_bind [of "State_Monad.bind _ _"] emits_perform emits_observe emits_return emits_if emits_case_sum
      emits_case_option emits_bind_via [OF quiet_finalizer]
      emits_mono [OF deletion_no_patch] emits_mono [OF blocked_run_check]
      emits_mono [OF completion_no_patch])
  using assms by (auto simp: quiet_def)

section \<open>A pod that never starts\<close>

definition condemned :: "Pod \<Rightarrow> cnh_event list \<Rightarrow> bool" where
  "condemned pod es \<longleftrightarrow>
     (\<exists>c c'. StatusUpdateCNH c (Inr c') \<in> set es \<and> isCompleted c \<and>
        find (\<lambda>k. crName k = ''PodStartup'') (results_of c) =
          Some (startup_result CheckStatusUnhealthy ''Pod stuck in Pending state - timeout exceeded'') \<and>
        condition_report (hd (Conditions (cnhStatus c))) =
          (ConditionTypeHealthy, ConditionFalse, ReasonCheckFailed, formatResultsMessage c))"

definition stuck_handled :: "Pod \<Rightarrow> cnh_event list \<Rightarrow> ctrl_result \<times> go_error option \<Rightarrow> bool" where
  "stuck_handled pod es res \<longleftrightarrow>
     (\<forall>ns k v pods fs. es = ListPods ns k v (Inr (pod # pods)) # fs \<longrightarrow> snd res = None \<longrightarrow> condemned pod es)"

lemma verdict_unhealthy_result:
  "find (\<lambda>k. crName k = n) rs = Some k \<Longrightarrow> crStatus k = CheckStatusUnhealthy \<Longrightarrow>
   verdict rs = SevUnhealthy"
  unfolding verdict_def foldr_max_Unhealthy severities_def
  by (force simp: find_Some_iff in_set_conv_nth)

lemma completed_condemned:
  assumes "find (\<lambda>k. crName k = ''PodStartup'') (results_of c) =
    Some (startup_result CheckStatusUnhealthy ''Pod stuck in Pending state - timeout exceeded'')"
  shows "condition_report (hd (Conditions (cnhStatus (completed c now)))) =
    (ConditionTypeHealthy, ConditionFalse, ReasonCheckFailed, formatResultsMessage (completed c now))"
  using completed_carries_verdict [of c now] verdict_unhealthy_result [OF assms]
  by (auto simp: carries_verdict_def verdict_report_def startup_result_def)

lemma finished_completes:
  "finished env r c es (q, None) \<Longrightarrow> \<exists>now c'. StatusUpdateCNH (completed c now) (Inr c') \<in> set es"
  by (auto elim!: finishedE status_writtenE) (blast+)

lemma checked_stuck:
  assumes e: "echoes env" and run: "checked env r c es res"
    and stuck: "Phase (podStatus pod) = PodPending" "\<not> areAllContainersStarted pod"
    and late: "\<And>now. clock_reads env now \<Longrightarrow> timed_out pod now"
  shows "stuck_handled pod es res"
  unfolding stuck_handled_def
proof (intro allI impI)
  fix ns k v pods fs
  assume es: "es = ListPods ns k v (Inr (pod # pods)) # fs" and ok: "snd res = None"
  from run ok obtain es0 pod' es1 c1 es2 c2 es3 where
    parts: "es = es0 @ es1 @ es2 @ es3" "ensured env r c es0 (Inr pod')"
    "startup_reported env c1 pod' es2 (None, c2)" "determined env r c2 pod' es3 res"
    by (auto elim!: checkedE)
  have pod: "pod' = pod" using parts(1,2) es by (auto elim!: ensuredE)
  have not_done: "\<not> pod_completed pod" using stuck(1) by (simp add: pod_completed_def go_const)
  from parts(3) pod stuck late obtain c2' where
    w: "status_written env (updateCheckResult c1 (startup_result CheckStatusUnhealthy
          ''Pod stuck in Pending state - timeout exceeded'')) ''failed to update CheckNodeHealth status: ''
        es2 (None, c2)"
    by (auto elim!: startup_reportedE)
  then have "results_of c2 = results_of (updateCheckResult c1 (startup_result CheckStatusUnhealthy
          ''Pod stuck in Pending state - timeout exceeded''))"
    using e by (auto elim!: status_writtenE dest!: echo_status simp: same_report_def)
  then have found: "find (\<lambda>k. crName k = ''PodStartup'') (results_of c2) =
      Some (startup_result CheckStatusUnhealthy ''Pod stuck in Pending state - timeout exceeded'')"
    using results.put_same [of "startup_result CheckStatusUnhealthy ''Pod stuck in Pending state - timeout exceeded''"]
    by (simp add: updateCheckResult_def startup_result_def)
  from parts(4) pod not_done late obtain q where "finished env r c2 es3 (q, None)"
    using ok by (cases res) (auto elim!: determinedE)
  then obtain now c' where "StatusUpdateCNH (completed c2 now) (Inr c') \<in> set es"
    using finished_completes parts(1) by fastforce
  then show "condemned pod es" unfolding condemned_def
    using found completed_condemned [OF found, of now]
    by (intro exI [of _ "completed c2 now"] exI [of _ c']) simp
qed

text \<open>C10: a checker pod that is still pending without started containers two minutes after its
  creation fails the check: every run that finds it and returns no error has completed the
  resource with an Unhealthy PodStartup result and the verdict False.\<close>

theorem stuck_pod_fails_the_check:
  assumes "echoes env" and "Phase (podStatus pod) = PodPending" and "\<not> areAllContainersStarted pod"
    and "\<forall>now. clock_reads env now \<longrightarrow> timed_out pod now"
  shows "emits (run_check env r cnh) (\<lambda>res es s'. stuck_handled pod es res) s"
  by (rule emits_mono [OF run_check_protocol]) (use assms in \<open>blast intro: checked_stuck\<close>)

section \<open>Nothing after the verdict can fail the run\<close>

definition verdict_decides :: "cnh_event list \<Rightarrow> ctrl_result \<times> go_error option \<Rightarrow> bool" where
  "verdict_decides es res \<longleftrightarrow>
     (\<forall>c c'. StatusUpdateCNH c (Inr c') \<in> set es \<longrightarrow> res = (no_requeue, None)) \<and>
     (\<forall>c e. StatusUpdateCNH c (Inl e) \<in> set es \<longrightarrow>
        length es = 1 \<and> res = (no_requeue, Some (Wrap ''failed to update status: '' e)))"

lemma not_node: "node_reported c ns \<Longrightarrow> StatusUpdateCNH d x \<notin> set ns"
  by (auto elim!: node_reportedE)

text \<open>Once the completing write is accepted the run returns success and asks for no retry, even
  when the node patch or the deletion of the pods fails after it; when the write is refused the
  run stops there with its error.\<close>

theorem completion_swallows_later_failures:
  "emits (determineCheckResult env r cnh pod) (\<lambda>res es s'. verdict_decides es res) s"
proof (rule emits_mono [OF determineCheckResult_protocol])
  fix res es s'
  assume "determined env r cnh pod es res"
  then show "verdict_decides es res"
    by (auto elim!: determinedE finishedE status_writtenE simp: verdict_decides_def not_node not_cleanup)
qed

section \<open>Pod names\<close>

lemma pod_prefix_length [simp]: "length podNamePrefix = 18"
  by (simp add: podNamePrefix_def)

text \<open>The name of a checker pod is never longer than 253 characters and keeps the prefix; up to
  235 characters of resource name it determines the resource, and names that agree on their first
  235 characters get the same pod name.\<close>

theorem pod_names_bounded_and_distinct:
  "length (generateHealthCheckPodName c) \<le> maxPodNameLength \<and>
   take (length podNamePrefix) (generateHealthCheckPodName c) = podNamePrefix \<and>
   (generateHealthCheckPodName c = generateHealthCheckPodName d \<longleftrightarrow> take 235 (Name c) = take 235 (Name d))"
proof -
  have "generateHealthCheckPodName e = podNamePrefix @ take 235 (Name e)" for e
    by (auto simp: generateHealthCheckPodName_def maxPodNameLength_def Let_def)
  then show ?thesis by (simp add: maxPodNameLength_def)
qed

section \<open>One concrete server\<close>

text \<open>A server that stores nothing: it answers every request from its arguments, accepts every write
  and echoes it. The clock stands still.\<close>

definition still_env :: "CheckNodeHealth \<Rightarrow> Pod list \<Rightarrow> time \<Rightarrow> unit cnh_env" where
  "still_env c pods now = \<lparr>env_now = \<lambda>w. (now, w), env_get_cnh = \<lambda>n w. (Inr c, w),
     env_update_cnh = \<lambda>d w. (Inr d, w), env_status_update = \<lambda>d w. (Inr d, w),
     env_delete_cnh = \<lambda>d w. (None, w), env_list_pods = \<lambda>ns k v w. (Inr pods, w),
     env_create_pod = \<lambda>p w. (Inr p, w), env_get_pod = \<lambda>n ns w. (Inl (ApiError NotFound ''''), w),
     env_delete_pod = \<lambda>p w. (None, w),
     env_get_node = \<lambda>n w. (Inr (ObjectMeta.extend (meta n) \<lparr>BootID = '''', NodeConditions = []\<rparr>), w),
     env_patch_node_status = \<lambda>b n w. (None, w),
     env_contains_finalizer = \<lambda>fs f. f \<in> set fs, env_add_finalizer = \<lambda>fs f. fs @ [f],
     env_remove_finalizer = \<lambda>fs f. filter (\<lambda>g. g \<noteq> f) fs, env_set_controller = \<lambda>d p. Inr p\<rparr>"

definition still_start :: "circuit_breaker \<Rightarrow> unit cnh_rt" where
  "still_start cb = \<lparr>world = (), log = [], breaker = cb\<rparr>"

definition demo_reconciler :: CheckNodeHealthReconciler where
  "demo_reconciler = \<lparr>CheckerPodLabel = '''', CheckerPodImage = ''image'', CheckerPodNamespace = ''ns'',
     EnableNodeCondition = True\<rparr>"

definition demo_cnh :: CheckNodeHealth where
  "demo_cnh = ObjectMeta.extend ((meta ''a'')\<lparr>CreationTimestamp := 0,
     Finalizers := [CheckNodeHealthFinalizer]\<rparr>)
     \<lparr>cnhSpec = \<lparr>NodeRef = \<lparr>refName = ''n''\<rparr>\<rparr>, cnhStatus = empty_status\<rparr>"

definition demo_pod :: "string \<Rightarrow> Pod" where
  "demo_pod phase = ObjectMeta.extend ((meta ''check-node-health-a'')\<lparr>Namespace := ''ns'', CreationTimestamp := 0\<rparr>)
     \<lparr>podSpec = empty_pod_spec, podStatus = empty_pod_status\<lparr>Phase := phase\<rparr>\<rparr>"

abbreviation demo_breaker :: circuit_breaker where
  "demo_breaker \<equiv> NewNodeConditionCircuitBreaker 3 10 5"

abbreviation still_log :: "CheckNodeHealth \<Rightarrow> Pod list \<Rightarrow> time \<Rightarrow> circuit_breaker \<Rightarrow> cnh_event list" where
  "still_log c pods now cb \<equiv>
     log (snd (run_state (Reconcile_cnh (still_env c pods now) demo_reconciler ''a'') (still_start cb)))"

lemma still_echoes: "echoes (still_env c pods now)"
  by (simp add: echoes_def still_env_def)

lemma still_finalizer_laws: "finalizer_laws (still_env c pods now)"
  by (auto simp: finalizer_laws_def still_env_def)

lemma still_emits:
  "emits (Reconcile_cnh (still_env c pods now) demo_reconciler ''a'') (\<lambda>res es s'. P es) (still_start cb) \<Longrightarrow>
     P (still_log c pods now cb)"
  by (auto simp: emits_def still_start_def)

lemmas still_defs = still_env_def still_start_def demo_reconciler_def demo_cnh_def demo_pod_def meta_def
  ObjectMeta.defs empty_status_def empty_pod_spec_def empty_pod_status_def
  Reconcile_cnh_def handleDeletion_def handleCompletion_def cleanupPod_def isExpired_def expired_at_def
  ensure_finalizer_def run_check_def ensureHealthCheckPod_def markStarted_def started_def
  updatePodstartCheckerResult_def markPodStartupResult_def determineCheckResult_def finish_def
  markCompleted_def completed_def isCompleted_def isPodTimeout_def timed_out_def pod_completed_def
  updateNodeCondition_def healthy_condition_def call_defs time_sub_def max_duration_def min_duration_def
  breaker_allow_def breaker_unhealthy_def breaker_healthy_def CRTTL_def PodTimeout_def time_units

text \<open>A deleted resource: its pod is listed and deleted, then the finalizer comes off.\<close>

lemma still_deletion_log:
  "still_log (demo_cnh\<lparr>DeletionTimestamp := Some 1\<rparr>) [demo_pod PodRunning] 2 demo_breaker =
     [GetCNH ''a'' (Inr (demo_cnh\<lparr>DeletionTimestamp := Some 1\<rparr>)),
      ListPods ''ns'' CheckNodeHealthLabel ''a'' (Inr [demo_pod PodRunning]),
      DeletePod (demo_pod PodRunning) None,
      UpdateCNH (demo_cnh\<lparr>DeletionTimestamp := Some 1, Finalizers := []\<rparr>)
        (Inr (demo_cnh\<lparr>DeletionTimestamp := Some 1, Finalizers := []\<rparr>))]"
  by (simp add: still_defs)

theorem finalizer_removed_only_after_cleanup_witness:
  "finalizer_safe demo_reconciler
     [GetCNH ''a'' (Inr (demo_cnh\<lparr>DeletionTimestamp := Some 1\<rparr>)),
      ListPods ''ns'' CheckNodeHealthLabel ''a'' (Inr [demo_pod PodRunning]),
      DeletePod (demo_pod PodRunning) None,
      UpdateCNH (demo_cnh\<lparr>DeletionTimestamp := Some 1, Finalizers := []\<rparr>)
        (Inr (demo_cnh\<lparr>DeletionTimestamp := Some 1, Finalizers := []\<rparr>))]"
  using still_emits [OF finalizer_removed_only_after_cleanup [OF still_finalizer_laws]]
    still_deletion_log by metis

text \<open>A pod that succeeded with every result Healthy: the resource is completed, the node condition
  set to True, the pod deleted.\<close>

definition healthy_results :: "CheckResult list" where
  "healthy_results = [\<lparr>crName = ''PodStartup'', crStatus = CheckStatusHealthy, crMessage = '''', crErrorCode = ''''\<rparr>,
     \<lparr>crName = ''PodNetwork'', crStatus = CheckStatusHealthy, crMessage = '''', crErrorCode = ''''\<rparr>]"

definition demo_checked :: CheckNodeHealth where
  "demo_checked = demo_cnh\<lparr>cnhStatus := empty_status\<lparr>StartedAt := Some 1, Results := healthy_results\<rparr>\<rparr>"

definition demo_node :: Node where
  "demo_node = ObjectMeta.extend (meta ''n'') \<lparr>BootID = '''', NodeConditions = []\<rparr>"

definition demo_healthy :: Condition where
  "demo_healthy = \<lparr>condType = ConditionTypeHealthy, condStatus = ConditionTrue,
     condReason = ReasonCheckPassed, condMessage = formatResultsMessage demo_checked, condTransition = 2\<rparr>"

lemma demo_verdict: "verdict (results_of demo_checked) = SevHealthy"
  by (simp add: verdict_def severities_def demo_checked_def healthy_results_def RequiredCheckResults_def)

lemma demo_completed:
  "completed demo_checked 2 = demo_checked\<lparr>cnhStatus := (cnhStatus demo_checked)
     \<lparr>FinishedAt := Some 2, Conditions := [demo_healthy]\<rparr>\<rparr>"
  using demo_verdict
  by (simp add: completed_def determineHealthyCondition_verdict demo_healthy_def Let_def
      formatResultsMessage_cong [of "demo_checked\<lparr>cnhStatus := _\<rparr>" demo_checked])

lemma demo_fields:
  "DeletionTimestamp demo_checked = None" "CreationTimestamp demo_checked = 0" "Name demo_checked = ''a''"
  "Finalizers demo_checked = [CheckNodeHealthFinalizer]" "cnhSpec demo_checked = \<lparr>NodeRef = \<lparr>refName = ''n''\<rparr>\<rparr>"
  "StartedAt (cnhStatus demo_checked) = Some 1" "FinishedAt (cnhStatus demo_checked) = None"
  "condType demo_healthy = ConditionTypeHealthy"
  by (simp_all add: demo_checked_def demo_cnh_def ObjectMeta.defs empty_status_def meta_def demo_healthy_def)

lemma demo_determine:
  "determineHealthyCondition (demo_checked\<lparr>cnhStatus := (cnhStatus demo_checked)\<lparr>FinishedAt := Some 2\<rparr>\<rparr>) =
     (ConditionTrue, ReasonCheckPassed, formatResultsMessage demo_checked)"
  using demo_verdict
  by (simp add: determineHealthyCondition_verdict
      formatResultsMessage_cong [of "demo_checked\<lparr>cnhStatus := _\<rparr>" demo_checked])

lemma still_fields [simp]:
  "env_now (still_env c pods now) = (\<lambda>w. (now, w))" "env_get_cnh (still_env c pods now) = (\<lambda>n w. (Inr c, w))"
  "env_update_cnh (still_env c pods now) = (\<lambda>d w. (Inr d, w))"
  "env_status_update (still_env c pods now) = (\<lambda>d w. (Inr d, w))"
  "env_list_pods (still_env c pods now) = (\<lambda>ns k v w. (Inr pods, w))"
  "env_delete_pod (still_env c pods now) = (\<lambda>p w. (None, w))"
  "env_get_node (still_env c pods now) =
     (\<lambda>n w. (Inr (ObjectMeta.extend (meta n) \<lparr>BootID = '''', NodeConditions = []\<rparr>), w))"
  "env_patch_node_status (still_env c pods now) = (\<lambda>b n w. (None, w))"
  "env_contains_finalizer (still_env c pods now) = (\<lambda>fs f. f \<in> set fs)"
  by (simp_all add: still_env_def)

lemma run_markCompleted_still:
  "run_state (markCompleted (still_env c pods 2) demo_checked) s =
     (((ConditionTrue, None), completed demo_checked 2),
      s\<lparr>log := log s @ [StatusUpdateCNH (completed demo_checked 2) (Inr (completed demo_checked 2))]\<rparr>)"
  by (simp add: markCompleted_def call_defs demo_determine Let_def)

lemma demo_succeeded:
  "pod_completed (demo_pod PodSucceeded)" "\<not> areAllContainersStarted (demo_pod PodSucceeded)"
  "Phase (podStatus (demo_pod PodSucceeded)) \<noteq> PodPending"
  by (simp_all add: demo_pod_def ObjectMeta.defs empty_pod_status_def areAllContainersStarted_def
      pod_completed_def go_const)

lemma demo_completed_fields:
  "Name (completed demo_checked 2) = ''a''" "cnhSpec (completed demo_checked 2) = \<lparr>NodeRef = \<lparr>refName = ''n''\<rparr>\<rparr>"
  "healthy_condition (completed demo_checked 2) = Some demo_healthy"
  by (simp_all add: demo_completed healthy_condition_def demo_fields)

lemma still_success_log:
  "still_log demo_checked [demo_pod PodSucceeded] 2 demo_breaker =
     [GetCNH ''a'' (Inr demo_checked),
      ListPods ''ns'' CheckNodeHealthLabel ''a'' (Inr [demo_pod PodSucceeded]),
      StatusUpdateCNH (completed demo_checked 2) (Inr (completed demo_checked 2)),
      GetNode ''n'' (Inr demo_node),
      PatchNodeStatus demo_node
        (demo_node\<lparr>NodeConditions := [\<lparr>ncType = NodeConditionNodeHealthy, ncStatus = ConditionTrue,
           ncReason = ReasonCheckPassed, ncMessage = formatResultsMessage demo_checked,
           ncTransition = 2, ncHeartbeat = 2\<rparr>]\<rparr>) None,
      ListPods ''ns'' CheckNodeHealthLabel ''a'' (Inr [demo_pod PodSucceeded]),
      DeletePod (demo_pod PodSucceeded) None]"
  by (simp add: Reconcile_cnh_def call_defs isExpired_def expired_at_def ensure_finalizer_def isCompleted_def
      run_check_def ensureHealthCheckPod_def markStarted_def updatePodstartCheckerResult_def
      determineCheckResult_def finish_def run_markCompleted_still updateNodeCondition_def
      breaker_allow_def breaker_healthy_def cleanupPod_def Allow_def NewNodeConditionCircuitBreaker_def
      demo_fields demo_completed_fields demo_succeeded demo_reconciler_def still_start_def demo_node_def
      demo_healthy_def time_sub_def max_duration_def min_duration_def CRTTL_def time_units
      Let_def ObjectMeta.defs meta_def)

theorem completion_carries_its_verdict_witness:
  "well_reported (still_log demo_checked [demo_pod PodSucceeded] 2 demo_breaker) \<and>
   status_payloads (still_log demo_checked [demo_pod PodSucceeded] 2 demo_breaker) = [completed demo_checked 2] \<and>
   verdict (results_of (completed demo_checked 2)) = SevHealthy"
proof (intro conjI)
  show "well_reported (still_log demo_checked [demo_pod PodSucceeded] 2 demo_breaker)"
    by (rule still_emits [where P = well_reported]) (rule completion_carries_its_verdict [OF still_echoes])
qed (simp_all add: still_success_log demo_verdict)

theorem node_condition_mirrors_verdict_witness:
  "node_patches_justified demo_reconciler (still_log demo_checked [demo_pod PodSucceeded] 2 demo_breaker) \<and>
   list_ex is_patch (still_log demo_checked [demo_pod PodSucceeded] 2 demo_breaker)"
proof (rule conjI)
  show "node_patches_justified demo_reconciler (still_log demo_checked [demo_pod PodSucceeded] 2 demo_breaker)"
    by (rule still_emits [where P = "node_patches_justified demo_reconciler"])
       (rule node_condition_mirrors_verdict [OF still_echoes])
qed (simp add: still_success_log)

text \<open>The completed resource, reconciled again with its pod still there: only the pod goes.\<close>

lemma still_completed_log:
  "still_log (completed demo_checked 2) [demo_pod PodSucceeded] 3 demo_breaker =
     [GetCNH ''a'' (Inr (completed demo_checked 2)),
      ListPods ''ns'' CheckNodeHealthLabel ''a'' (Inr [demo_pod PodSucceeded]),
      DeletePod (demo_pod PodSucceeded) None]"
  by (simp add: Reconcile_cnh_def call_defs isExpired_def expired_at_def ensure_finalizer_def isCompleted_def
      handleCompletion_def cleanupPod_def demo_fields demo_completed demo_reconciler_def still_start_def
      time_sub_def max_duration_def min_duration_def CRTTL_def time_units)

theorem completed_resource_is_final_witness:
  "final_respected [GetCNH ''a'' (Inr (completed demo_checked 2)),
      ListPods ''ns'' CheckNodeHealthLabel ''a'' (Inr [demo_pod PodSucceeded]),
      DeletePod (demo_pod PodSucceeded) None] \<and> isCompleted (completed demo_checked 2)"
  using still_emits [OF completed_resource_is_final [OF still_echoes]] still_completed_log
  by (metis isCompleted_completed)

definition open_breaker :: circuit_breaker where
  "open_breaker = \<lparr>threshold = 3, window = 10, cooldown = 5, consecutiveUnhealthy = [0, 1, 1], openedAt = Some 1\<rparr>"

lemma still_blocked: "always_blocked (still_env c pods 2) open_breaker"
  by (auto simp: always_blocked_def clock_reads_def blocked_def open_breaker_def time_sub_def
      max_duration_def min_duration_def)

theorem open_breaker_shields_nodes_witness:
  "list_all (\<lambda>e. \<not> is_patch e) (still_log demo_checked [demo_pod PodSucceeded] 2 open_breaker)"
  by (rule still_emits [where P = "list_all (\<lambda>e. \<not> is_patch e)"], rule open_breaker_shields_nodes)
     (simp add: still_start_def still_blocked)

text \<open>A pod pending for three minutes.\<close>

definition three_minutes :: time where "three_minutes = 180000000000"

lemma demo_stuck:
  "Phase (podStatus (demo_pod PodPending)) = PodPending" "\<not> areAllContainersStarted (demo_pod PodPending)"
  "timed_out (demo_pod PodPending) three_minutes" "\<not> pod_completed (demo_pod PodPending)"
  by (simp_all add: demo_pod_def ObjectMeta.defs empty_pod_status_def areAllContainersStarted_def
      timed_out_def time_sub_def max_duration_def min_duration_def PodTimeout_def time_units
      three_minutes_def pod_completed_def go_const)

lemma still_finish:
  "snd (fst (run_state (finish (still_env c pods now) r d) s)) = None"
  by (auto simp: finish_def markCompleted_def call_defs Let_def split: prod.splits option.splits)

lemma still_stuck_result:
  "snd (fst (run_state (run_check (still_env demo_checked [demo_pod PodPending] three_minutes) demo_reconciler
      demo_checked) (still_start open_breaker))) = None"
  by (simp add: run_check_def ensureHealthCheckPod_def markStarted_def updatePodstartCheckerResult_def
      markPodStartupResult_def determineCheckResult_def isPodTimeout_def call_defs demo_stuck demo_fields
      still_finish Let_def)

lemma finish_head:
  "log s \<noteq> [] \<Longrightarrow> hd (log (snd (run_state (finish env r d) s))) = hd (log s)"
  "log s \<noteq> [] \<Longrightarrow> log (snd (run_state (finish env r d) s)) \<noteq> []"
  using finish_protocol [of env r d s] by (auto simp: emits_def)

abbreviation stuck_run :: "(ctrl_result \<times> go_error option) \<times> unit cnh_rt" where
  "stuck_run \<equiv> run_state (run_check (still_env demo_checked [demo_pod PodPending] three_minutes) demo_reconciler
      demo_checked) (still_start open_breaker)"

lemma still_stuck_head:
  "log (snd stuck_run) \<noteq> [] \<and>
   hd (log (snd stuck_run)) = ListPods ''ns'' CheckNodeHealthLabel ''a'' (Inr [demo_pod PodPending])"
  by (simp add: run_check_def ensureHealthCheckPod_def markStarted_def updatePodstartCheckerResult_def
      markPodStartupResult_def determineCheckResult_def isPodTimeout_def call_defs demo_stuck demo_fields
      finish_head Let_def demo_reconciler_def still_start_def)

theorem stuck_pod_fails_the_check_witness:
  "condemned (demo_pod PodPending) (log (snd stuck_run))"
proof -
  have "emits (run_check (still_env demo_checked [demo_pod PodPending] three_minutes) demo_reconciler demo_checked)
      (\<lambda>res es s'. stuck_handled (demo_pod PodPending) es res) (still_start open_breaker)"
    by (rule stuck_pod_fails_the_check [OF still_echoes]) (simp_all add: demo_stuck clock_reads_def)
  then have "stuck_handled (demo_pod PodPending) (log (snd stuck_run)) (fst stuck_run)"
    by (auto simp: emits_def still_start_def)
  moreover have "log (snd stuck_run) =
      ListPods ''ns'' CheckNodeHealthLabel ''a'' (Inr [demo_pod PodPending]) # tl (log (snd stuck_run))"
    using still_stuck_head by (cases "log (snd stuck_run)") auto
  ultimately show ?thesis using still_stuck_result unfolding stuck_handled_def by metis
qed

end
