(* ===== verification/Config.thy ===== *)
theory Config
  imports GoRuntime
begin

text \<open>
  \<open>pkg/config\<close>: the configuration of the health checkers, its validation and its parser. Integers
  and durations are 64-bit words, so that the arithmetic of the validation wraps where Go's does;
  optional structs (pointers) are options, and a nil slice differs from an empty one. An error is a
  constructor per message with the values the message is built from; \<open>errors.Join\<close> of a list of
  errors is the list, and \<open>nil\<close> the empty list. The YAML decoder, the file system and the
  validators of the Kubernetes libraries are parameters.
\<close>

section \<open>Types\<close>

definition CheckTypeDNS :: string where "CheckTypeDNS = ''DNS''"
definition CheckTypePodStartup :: string where "CheckTypePodStartup = ''PodStartup''"
definition CheckTypeAPIServer :: string where "CheckTypeAPIServer = ''APIServer''"
definition CheckTypeMetricsServer :: string where "CheckTypeMetricsServer = ''MetricsServer''"
definition CheckTypeAzurePolicy :: string where "CheckTypeAzurePolicy = ''AzurePolicy''"

lemmas check_types = CheckTypeDNS_def CheckTypePodStartup_def CheckTypeAPIServer_def
  CheckTypeMetricsServer_def CheckTypeAzurePolicy_def

definition DNSCheckTargetCoreDNS :: string where "DNSCheckTargetCoreDNS = ''CoreDNS''"
definition DNSCheckTargetCoreDNSPerPod :: string where "DNSCheckTargetCoreDNSPerPod = ''CoreDNSPerPod''"
definition DNSCheckTargetLocalDNS :: string where "DNSCheckTargetLocalDNS = ''LocalDNS''"

definition CSITypeAzureFile :: string where "CSITypeAzureFile = ''azureFile''"
definition CSITypeAzureDisk :: string where "CSITypeAzureDisk = ''azureDisk''"
definition CSITypeAzureBlob :: string where "CSITypeAzureBlob = ''azureBlob''"

record CSIConfig =
  csiType :: string
  StorageClass :: string

record DNSConfig =
  Domain :: string
  QueryTimeout :: duration
  Target :: string

record PodStartupConfig =
  SyntheticPodNamespace :: string
  SyntheticPodLabelKey :: string
  SyntheticPodStartupTimeout :: duration
  MaxSyntheticPods :: int64
  TCPTimeout :: duration
  TCPMaxRetries :: int64
  TCPRetryInterval :: duration
  EnableNodeProvisioningTest :: bool
  EnabledCSIs :: "CSIConfig list option"

record APIServerConfig =
  apiNamespace :: string
  LabelKey :: string
  MutateTimeout :: duration
  ReadTimeout :: duration
  MaxObjects :: int64

record CheckerConfig =
  chkName :: string
  chkType :: string
  chkInterval :: duration
  chkTimeout :: duration
  chkDNSConfig :: "DNSConfig option"
  chkPodStartupConfig :: "PodStartupConfig option"
  chkAPIServerConfig :: "APIServerConfig option"

record Config =
  Checkers :: "CheckerConfig list"

text \<open>The validators of \<open>k8s.io/apimachinery\<close>: each returns its complaints.\<close>

record validators =
  ValidateNamespaceName :: "string \<Rightarrow> string list"
  IsQualifiedName :: "string \<Rightarrow> string list"
  IsDNS1123Subdomain :: "string \<Rightarrow> string list"

datatype config_error =
    ConfigRequired
  | NoCheckers
  | CheckerError string config_error
  | DuplicateName string
  | MissingName
  | MissingType
  | InvalidInterval duration
  | InvalidTimeout duration
  | SubConfigError string string config_error
  | UnsupportedType string string
  | DNSConfigRequired
  | DomainRequired
  | InvalidQueryTimeout
  | TargetRequired
  | InvalidTarget string
  | TimeoutBelowQuery duration duration
  | PodStartupConfigRequired
  | InvalidPodNamespace string string
  | InvalidPodLabelKey string string
  | InvalidStartupTimeout duration
  | InvalidTCPTimeout duration
  | InvalidTCPRetries int64
  | InvalidRetryInterval duration
  | RetryIntervalWithoutRetries duration
  | RetriesWithoutInterval duration
  | TimeoutBelowBudget duration duration duration
  | InvalidMaxPods int64
  | EmptyCSIs
  | InvalidCSIType nat string
  | InvalidStorageClass nat string string
  | DuplicateStorageClass nat string
  | APIServerConfigRequired
  | InvalidNamespace string string
  | InvalidLabelKey string string
  | TimeoutBelowMutate duration duration
  | TimeoutBelowRead duration duration
  | InvalidMaxObjects int64
  | JoinedErrors "config_error list"

section \<open>Validation\<close>

text \<open>\<open>check c e\<close>: the statement \<open>if c { errs = append(errs, e) }\<close>.\<close>

definition check :: "bool \<Rightarrow> config_error \<Rightarrow> config_error list" where
  "check c e = (if c then [e] else [])"

definition DNSConfig_validate :: "DNSConfig option \<Rightarrow> duration \<Rightarrow> config_error list" where
  "DNSConfig_validate cfg checkerConfigTimeout =
     (case cfg of
        None \<Rightarrow> [DNSConfigRequired]
      | Some c \<Rightarrow>
          check (Domain c = '''') DomainRequired @
          check (sint (QueryTimeout c) \<le> 0) InvalidQueryTimeout @
          (if Target c \<in> {DNSCheckTargetCoreDNS, DNSCheckTargetLocalDNS, DNSCheckTargetCoreDNSPerPod} then []
           else if Target c = '''' then [TargetRequired]
           else [InvalidTarget (Target c)]) @
          check (sint checkerConfigTimeout \<le> sint (QueryTimeout c))
            (TimeoutBelowQuery checkerConfigTimeout (QueryTimeout c)))"

definition tcpConnectivityBudget :: "PodStartupConfig \<Rightarrow> duration" where
  "tcpConnectivityBudget c =
     (TCPMaxRetries c + 1) * TCPTimeout c + TCPMaxRetries c * TCPRetryInterval c"

fun csi_errors :: "validators \<Rightarrow> nat \<Rightarrow> string set \<Rightarrow> CSIConfig list \<Rightarrow> config_error list" where
  "csi_errors v i seenStorageClasses [] = []"
| "csi_errors v i seenStorageClasses (csi # csis) =
     check (csiType csi \<notin> {CSITypeAzureFile, CSITypeAzureDisk, CSITypeAzureBlob}) (InvalidCSIType i (csiType csi)) @
     map (InvalidStorageClass i (StorageClass csi)) (IsDNS1123Subdomain v (StorageClass csi)) @
     (if StorageClass csi \<in> seenStorageClasses
      then DuplicateStorageClass i (StorageClass csi) # csi_errors v (Suc i) seenStorageClasses csis
      else csi_errors v (Suc i) (insert (StorageClass csi) seenStorageClasses) csis)"

definition csi_list :: "PodStartupConfig \<Rightarrow> CSIConfig list" where
  "csi_list c = (case EnabledCSIs c of None \<Rightarrow> [] | Some csis \<Rightarrow> csis)"

definition PodStartupConfig_validate ::
  "validators \<Rightarrow> PodStartupConfig option \<Rightarrow> duration \<Rightarrow> config_error list" where
  "PodStartupConfig_validate v cfg checkerConfigTimeout =
     (case cfg of
        None \<Rightarrow> [PodStartupConfigRequired]
      | Some c \<Rightarrow>
          map (InvalidPodNamespace (SyntheticPodNamespace c)) (ValidateNamespaceName v (SyntheticPodNamespace c)) @
          map (InvalidPodLabelKey (SyntheticPodLabelKey c)) (IsQualifiedName v (SyntheticPodLabelKey c)) @
          check (sint (SyntheticPodStartupTimeout c) \<le> 0) (InvalidStartupTimeout (SyntheticPodStartupTimeout c)) @
          check (sint (TCPTimeout c) \<le> 0) (InvalidTCPTimeout (TCPTimeout c)) @
          check (sint (TCPMaxRetries c) < 0) (InvalidTCPRetries (TCPMaxRetries c)) @
          check (sint (TCPRetryInterval c) < 0) (InvalidRetryInterval (TCPRetryInterval c)) @
          check (TCPMaxRetries c = 0 \<and> TCPRetryInterval c \<noteq> 0) (RetryIntervalWithoutRetries (TCPRetryInterval c)) @
          check (sint (TCPMaxRetries c) > 0 \<and> sint (TCPRetryInterval c) \<le> 0)
            (RetriesWithoutInterval (TCPRetryInterval c)) @
          check (sint checkerConfigTimeout \<le> sint (SyntheticPodStartupTimeout c + tcpConnectivityBudget c))
            (TimeoutBelowBudget checkerConfigTimeout (SyntheticPodStartupTimeout c) (tcpConnectivityBudget c)) @
          check (sint (MaxSyntheticPods c) \<le> 0) (InvalidMaxPods (MaxSyntheticPods c)) @
          check (EnabledCSIs c = Some []) EmptyCSIs @
          csi_errors v 0 {} (csi_list c))"

definition APIServerConfig_validate ::
  "validators \<Rightarrow> APIServerConfig option \<Rightarrow> duration \<Rightarrow> config_error list" where
  "APIServerConfig_validate v cfg checkerConfigTimeout =
     (case cfg of
        None \<Rightarrow> [APIServerConfigRequired]
      | Some c \<Rightarrow>
          map (InvalidNamespace (apiNamespace c)) (ValidateNamespaceName v (apiNamespace c)) @
          map (InvalidLabelKey (LabelKey c)) (IsQualifiedName v (LabelKey c)) @
          check (sint checkerConfigTimeout \<le> sint (MutateTimeout c))
            (TimeoutBelowMutate checkerConfigTimeout (MutateTimeout c)) @
          check (sint checkerConfigTimeout \<le> sint (ReadTimeout c))
            (TimeoutBelowRead checkerConfigTimeout (ReadTimeout c)) @
          check (sint (MaxObjects c) \<le> 0) (InvalidMaxObjects (MaxObjects c)))"

text \<open>\<open>if err := sub.validate(...); err != nil { errs = append(errs, wrap(err)) }\<close>\<close>

definition wrapped :: "(config_error \<Rightarrow> config_error) \<Rightarrow> config_error list \<Rightarrow> config_error list" where
  "wrapped wrap errs = (if errs = [] then [] else [wrap (JoinedErrors errs)])"

definition CheckerConfig_validate :: "validators \<Rightarrow> CheckerConfig \<Rightarrow> config_error list" where
  "CheckerConfig_validate v c =
     check (chkName c = '''') MissingName @
     check (chkType c = '''') MissingType @
     check (sint (chkInterval c) \<le> 0) (InvalidInterval (chkInterval c)) @
     check (sint (chkTimeout c) \<le> 0) (InvalidTimeout (chkTimeout c)) @
     (if chkType c = CheckTypeDNS then
        wrapped (SubConfigError (chkName c) ''DNSConfig'') (DNSConfig_validate (chkDNSConfig c) (chkTimeout c))
      else if chkType c = CheckTypePodStartup then
        wrapped (SubConfigError (chkName c) ''PodStartupConfig'')
          (PodStartupConfig_validate v (chkPodStartupConfig c) (chkTimeout c))
      else if chkType c = CheckTypeAPIServer then
        wrapped (SubConfigError (chkName c) ''APIServerConfig'')
          (APIServerConfig_validate v (chkAPIServerConfig c) (chkTimeout c))
      else if chkType c = CheckTypeAzurePolicy then []
      else if chkType c = CheckTypeMetricsServer then []
      else [UnsupportedType (chkName c) (chkType c)])"

fun checkers_errors :: "validators \<Rightarrow> string set \<Rightarrow> CheckerConfig list \<Rightarrow> config_error list" where
  "checkers_errors v nameSet [] = []"
| "checkers_errors v nameSet (chk # chks) =
     wrapped (CheckerError (chkName chk)) (CheckerConfig_validate v chk) @
     check (chkName chk \<in> nameSet) (DuplicateName (chkName chk)) @
     checkers_errors v (insert (chkName chk) nameSet) chks"

definition Config_validate :: "validators \<Rightarrow> Config option \<Rightarrow> config_error list" where
  "Config_validate v cfg =
     (case cfg of
        None \<Rightarrow> [ConfigRequired]
      | Some c \<Rightarrow>
          if length (Checkers c) = 0 then [NoCheckers] else checkers_errors v {} (Checkers c))"

section \<open>Parsing\<close>

datatype parse_error =
    ReadFailed string string
  | UnmarshalFailed string
  | ValidationFailed "config_error list"

definition ParseFromYAML ::
  "('b \<Rightarrow> string + Config) \<Rightarrow> validators \<Rightarrow> 'b \<Rightarrow> parse_error + Config" where
  "ParseFromYAML unmarshal v cfgData =
     (case unmarshal cfgData of
        Inl err \<Rightarrow> Inl (UnmarshalFailed err)
      | Inr cfg \<Rightarrow>
          (let errs = Config_validate v (Some cfg)
           in if errs \<noteq> [] then Inl (ValidationFailed errs) else Inr cfg))"

definition ParseFromFile ::
  "(string \<Rightarrow> string + 'b) \<Rightarrow> ('b \<Rightarrow> string + Config) \<Rightarrow> validators \<Rightarrow> string \<Rightarrow> parse_error + Config" where
  "ParseFromFile readFile unmarshal v path =
     (case readFile path of
        Inl err \<Rightarrow> Inl (ReadFailed path err)
      | Inr data \<Rightarrow> ParseFromYAML unmarshal v data)"

section \<open>What validation accepts\<close>

lemma check_Nil [simp]: "check c e = [] \<longleftrightarrow> \<not> c"
  by (simp add: check_def)

lemma wrapped_Nil [simp]: "wrapped w errs = [] \<longleftrightarrow> errs = []"
  by (simp add: wrapped_def)

definition dns_ok :: "DNSConfig \<Rightarrow> duration \<Rightarrow> bool" where
  "dns_ok c t \<longleftrightarrow> Domain c \<noteq> '''' \<and>
     Target c \<in> {DNSCheckTargetCoreDNS, DNSCheckTargetLocalDNS, DNSCheckTargetCoreDNSPerPod} \<and>
     0 < sint (QueryTimeout c) \<and> sint (QueryTimeout c) < sint t"

definition csi_ok :: "validators \<Rightarrow> CSIConfig \<Rightarrow> bool" where
  "csi_ok v csi \<longleftrightarrow> csiType csi \<in> {CSITypeAzureFile, CSITypeAzureDisk, CSITypeAzureBlob} \<and>
     IsDNS1123Subdomain v (StorageClass csi) = []"

definition pod_startup_ok :: "validators \<Rightarrow> PodStartupConfig \<Rightarrow> duration \<Rightarrow> bool" where
  "pod_startup_ok v c t \<longleftrightarrow>
     ValidateNamespaceName v (SyntheticPodNamespace c) = [] \<and> IsQualifiedName v (SyntheticPodLabelKey c) = [] \<and>
     0 < sint (SyntheticPodStartupTimeout c) \<and> 0 < sint (TCPTimeout c) \<and> 0 < sint (MaxSyntheticPods c) \<and>
     (TCPMaxRetries c = 0 \<and> TCPRetryInterval c = 0 \<or>
      0 < sint (TCPMaxRetries c) \<and> 0 < sint (TCPRetryInterval c)) \<and>
     sint (SyntheticPodStartupTimeout c + tcpConnectivityBudget c) < sint t \<and>
     EnabledCSIs c \<noteq> Some [] \<and> list_all (csi_ok v) (csi_list c) \<and> distinct (map StorageClass (csi_list c))"

definition api_server_ok :: "validators \<Rightarrow> APIServerConfig \<Rightarrow> duration \<Rightarrow> bool" where
  "api_server_ok v c t \<longleftrightarrow>
     ValidateNamespaceName v (apiNamespace c) = [] \<and> IsQualifiedName v (LabelKey c) = [] \<and>
     sint (MutateTimeout c) < sint t \<and> sint (ReadTimeout c) < sint t \<and> 0 < sint (MaxObjects c)"

definition checker_ok :: "validators \<Rightarrow> CheckerConfig \<Rightarrow> bool" where
  "checker_ok v c \<longleftrightarrow> chkName c \<noteq> '''' \<and> 0 < sint (chkInterval c) \<and> 0 < sint (chkTimeout c) \<and>
     ((chkType c = CheckTypeDNS \<and> (\<exists>d. chkDNSConfig c = Some d \<and> dns_ok d (chkTimeout c))) \<or>
      (chkType c = CheckTypePodStartup \<and> (\<exists>p. chkPodStartupConfig c = Some p \<and> pod_startup_ok v p (chkTimeout c))) \<or>
      (chkType c = CheckTypeAPIServer \<and> (\<exists>a. chkAPIServerConfig c = Some a \<and> api_server_ok v a (chkTimeout c))) \<or>
      chkType c = CheckTypeAzurePolicy \<or> chkType c = CheckTypeMetricsServer)"

lemma csi_errors_Nil:
  "csi_errors v i seen csis = [] \<longleftrightarrow>
     list_all (csi_ok v) csis \<and> distinct (map StorageClass csis) \<and> seen \<inter> StorageClass ` set csis = {}"
  by (induction csis arbitrary: i seen) (auto simp: csi_ok_def)

lemma DNSConfig_validate_Nil:
  "DNSConfig_validate cfg t = [] \<longleftrightarrow> (\<exists>c. cfg = Some c \<and> dns_ok c t)"
  by (cases cfg) (auto simp: DNSConfig_validate_def dns_ok_def)

lemma zero_word_sint: "(w :: 64 word) = 0 \<longleftrightarrow> sint w = 0"
  by (metis sint_0 word_eq_iff_signed)

lemma PodStartupConfig_validate_Nil:
  "PodStartupConfig_validate v cfg t = [] \<longleftrightarrow> (\<exists>c. cfg = Some c \<and> pod_startup_ok v c t)"
proof (cases cfg)
  case (Some c)
  have "(0 \<le> sint (TCPMaxRetries c) \<and> 0 \<le> sint (TCPRetryInterval c) \<and>
      \<not> (sint (TCPMaxRetries c) = 0 \<and> sint (TCPRetryInterval c) \<noteq> 0) \<and>
      \<not> (0 < sint (TCPMaxRetries c) \<and> sint (TCPRetryInterval c) \<le> 0)) \<longleftrightarrow>
     (sint (TCPMaxRetries c) = 0 \<and> sint (TCPRetryInterval c) = 0 \<or>
      0 < sint (TCPMaxRetries c) \<and> 0 < sint (TCPRetryInterval c))"
    by linarith
  then show ?thesis using Some
    by (simp add: PodStartupConfig_validate_def pod_startup_ok_def csi_errors_Nil not_le not_less
        zero_word_sint) blast
qed (simp add: PodStartupConfig_validate_def)

lemma APIServerConfig_validate_Nil:
  "APIServerConfig_validate v cfg t = [] \<longleftrightarrow> (\<exists>c. cfg = Some c \<and> api_server_ok v c t)"
  by (cases cfg) (auto simp: APIServerConfig_validate_def api_server_ok_def)

lemma CheckerConfig_validate_Nil: "CheckerConfig_validate v c = [] \<longleftrightarrow> checker_ok v c"
  unfolding CheckerConfig_validate_def checker_ok_def
  by (auto simp: DNSConfig_validate_Nil PodStartupConfig_validate_Nil APIServerConfig_validate_Nil check_types)

lemma checkers_errors_Nil:
  "checkers_errors v names chks = [] \<longleftrightarrow>
     list_all (checker_ok v) chks \<and> distinct (map chkName chks) \<and> names \<inter> chkName ` set chks = {}"
  by (induction chks arbitrary: names) (auto simp: CheckerConfig_validate_Nil)

lemma Config_validate_Nil:
  "Config_validate v cfg = [] \<longleftrightarrow>
     (\<exists>c. cfg = Some c \<and> Checkers c \<noteq> [] \<and> list_all (checker_ok v) (Checkers c) \<and>
        distinct (map chkName (Checkers c)))"
  by (cases cfg) (auto simp: Config_validate_def checkers_errors_Nil)

section \<open>Properties\<close>

text \<open>The rules that \<open>validation.go\<close> enforces, and three more that the comments of \<open>config.go\<close> state
  and nothing checks: at most twenty checkers, names that are labels of RFC 1123, and the two timeouts of the API
  server section, which are required (a field that is left out is decoded as zero).\<close>

definition enforced :: "validators \<Rightarrow> Config \<Rightarrow> bool" where
  "enforced v c \<longleftrightarrow> Checkers c \<noteq> [] \<and> list_all (checker_ok v) (Checkers c) \<and> distinct (map chkName (Checkers c))"

definition rfc1123_label :: "string \<Rightarrow> bool" where
  "rfc1123_label s \<longleftrightarrow> s \<noteq> [] \<and> length s \<le> 63 \<and>
     set s \<subseteq> set ''abcdefghijklmnopqrstuvwxyz0123456789-'' \<and> hd s \<noteq> CHR ''-'' \<and> last s \<noteq> CHR ''-''"

definition timeouts_set :: "CheckerConfig \<Rightarrow> bool" where
  "timeouts_set k \<longleftrightarrow> chkType k \<noteq> CheckTypeAPIServer \<or>
     (\<exists>a. chkAPIServerConfig k = Some a \<and> MutateTimeout a \<noteq> 0 \<and> ReadTimeout a \<noteq> 0)"

definition documented :: "validators \<Rightarrow> Config \<Rightarrow> bool" where
  "documented v c \<longleftrightarrow> enforced v c \<and> length (Checkers c) \<le> 20 \<and>
     list_all (\<lambda>k. rfc1123_label (chkName k) \<and> timeouts_set k) (Checkers c)"

definition beyond_documentation :: "validators \<Rightarrow> Config \<Rightarrow> bool" where
  "beyond_documentation v c \<longleftrightarrow> enforced v c \<and>
     (20 < length (Checkers c) \<or> (\<exists>k \<in> set (Checkers c). \<not> rfc1123_label (chkName k) \<or> \<not> timeouts_set k))"

lemma enforced_cases: "enforced v c \<longleftrightarrow> documented v c \<or> beyond_documentation v c"
  by (auto simp: documented_def beyond_documentation_def list_all_iff)

text \<open>C26: parsing returns a configuration exactly when it is what was decoded and keeps the rules of \<open>validation.go\<close>:
  at least one checker, unique non-empty names, a known type each with its own section, positive intervals
  and timeouts, every timeout inside the checker's, and pod-startup budgets that fit (in Go's arithmetic). Such a
  configuration may depart from the comments of \<open>config.go\<close>: it then has more than twenty checkers, a name
  that is not a label of RFC 1123, or an API server section without one of its required timeouts.\<close>

theorem parse_accepts_documented_and_beyond:
  "ParseFromYAML unmarshal v data = Inr c \<longleftrightarrow>
     unmarshal data = Inr c \<and> (documented v c \<or> beyond_documentation v c)"
  unfolding enforced_cases [symmetric]
  by (auto simp: ParseFromYAML_def Let_def Config_validate_Nil enforced_def split: sum.splits if_splits)

text \<open>The second case is not empty: a name in upper case is accepted, and so is an API server section without
  timeouts, whose calls then have no time at all.\<close>

definition shouting :: Config where
  "shouting = \<lparr>Checkers = [\<lparr>chkName = ''METRICS'', chkType = CheckTypeMetricsServer, chkInterval = second, chkTimeout = second,
     chkDNSConfig = None, chkPodStartupConfig = None, chkAPIServerConfig = None\<rparr>]\<rparr>"

definition untimed :: Config where
  "untimed = \<lparr>Checkers = [\<lparr>chkName = ''api'', chkType = CheckTypeAPIServer, chkInterval = second, chkTimeout = second,
     chkDNSConfig = None, chkPodStartupConfig = None, chkAPIServerConfig =
       Some \<lparr>apiNamespace = ''ns'', LabelKey = ''key'', MutateTimeout = 0, ReadTimeout = 0, MaxObjects = 3\<rparr>\<rparr>]\<rparr>"

definition lenient :: validators where
  "lenient = \<lparr>ValidateNamespaceName = \<lambda>_. [], IsQualifiedName = \<lambda>_. [], IsDNS1123Subdomain = \<lambda>_. []\<rparr>"

lemma enforced_parses: "enforced v c \<Longrightarrow> ParseFromYAML Inr v c = Inr c"
  by (auto simp: ParseFromYAML_def Let_def Config_validate_Nil enforced_def)

theorem undocumented_configs_are_accepted:
  "beyond_documentation v shouting \<and> ParseFromYAML Inr v shouting = Inr shouting \<and>
   beyond_documentation lenient untimed \<and> ParseFromYAML Inr lenient untimed = Inr untimed"
proof -
  have s: "enforced v shouting" "beyond_documentation v shouting"
    by (simp_all add: beyond_documentation_def enforced_def shouting_def checker_ok_def rfc1123_label_def time_units check_types)
  have u: "enforced lenient untimed" "beyond_documentation lenient untimed"
    by (simp_all add: beyond_documentation_def enforced_def untimed_def checker_ok_def api_server_ok_def timeouts_set_def
        lenient_def time_units check_types)
  show ?thesis using s u enforced_parses by blast
qed

fun repeated :: "string set \<Rightarrow> string list \<Rightarrow> string set" where
  "repeated seen [] = {}"
| "repeated seen (n # ns) = (if n \<in> seen then {n} else {}) \<union> repeated (insert n seen) ns"

lemma repeated_iff:
  "n \<in> repeated seen ns \<longleftrightarrow> (n \<in> seen \<and> n \<in> set ns) \<or> 2 \<le> count_list ns n"
proof (induction ns arbitrary: seen)
  case (Cons m ns)
  have "Suc 0 \<le> count_list ns n \<longleftrightarrow> n \<in> set ns"
    using count_list_0_iff [of ns n] by auto
  then show ?case using Cons.IH [of "insert m seen"] by auto
qed simp

lemma checkers_errors_set:
  "set (checkers_errors v names chks) =
     (\<lambda>c. CheckerError (chkName c) (JoinedErrors (CheckerConfig_validate v c))) ` {c \<in> set chks. \<not> checker_ok v c} \<union>
     DuplicateName ` repeated names (map chkName chks)"
  by (induction chks arbitrary: names)
     (auto simp: wrapped_def check_def CheckerConfig_validate_Nil [symmetric] split: if_splits)

text \<open>Validation reports everything at once: the errors of a configuration are one per invalid
  checker, wrapping all of that checker's complaints, and one per repeated name, and nothing else.\<close>

theorem validation_reports_every_error:
  "set (Config_validate v (Some c)) =
     (if Checkers c = [] then {NoCheckers}
      else (\<lambda>k. CheckerError (chkName k) (JoinedErrors (CheckerConfig_validate v k))) ` {k \<in> set (Checkers c). \<not> checker_ok v k} \<union>
        DuplicateName ` {n. 2 \<le> count_list (map chkName (Checkers c)) n})"
proof -
  have "repeated {} ns = {n. 2 \<le> count_list ns n}" for ns
    by (auto simp: repeated_iff)
  then show ?thesis by (simp add: Config_validate_def checkers_errors_set)
qed

text \<open>The budget of a pod-startup check on unbounded integers: one attempt more than retries.\<close>

definition exact_budget :: "PodStartupConfig \<Rightarrow> int" where
  "exact_budget c = (sint (TCPMaxRetries c) + 1) * sint (TCPTimeout c) +
     sint (TCPMaxRetries c) * sint (TCPRetryInterval c)"

lemma word64_of_small: "sint (w :: 64 word) = i \<Longrightarrow> w = word_of_int i"
  by auto

lemma sint_budget:
  assumes "pod_startup_ok v c t" "sint (SyntheticPodStartupTimeout c) + exact_budget c < 2 ^ 63"
  shows "sint (SyntheticPodStartupTimeout c + tcpConnectivityBudget c) =
     sint (SyntheticPodStartupTimeout c) + exact_budget c"
proof -
  have pos: "0 \<le> exact_budget c" "0 < sint (SyntheticPodStartupTimeout c)"
    using assms(1) by (auto simp: exact_budget_def pod_startup_ok_def intro!: add_nonneg_nonneg mult_nonneg_nonneg)
  have "SyntheticPodStartupTimeout c + tcpConnectivityBudget c =
      word_of_int (sint (SyntheticPodStartupTimeout c) + exact_budget c)"
    by (simp add: tcpConnectivityBudget_def exact_budget_def)
  then show ?thesis using sint_small [of "sint (SyntheticPodStartupTimeout c) + exact_budget c"] pos assms(2) by simp
qed

text \<open>For an accepted pod-startup configuration whose exact sum fits in 63 bits, the startup timeout plus
  the exact budget of the TCP attempts (retries and pauses included) is less than the checker's timeout.\<close>

theorem accepted_budget_fits_timeout:
  assumes "PodStartupConfig_validate v (Some c) t = []"
    and "sint (SyntheticPodStartupTimeout c) + exact_budget c < 2 ^ 63"
  shows "sint (SyntheticPodStartupTimeout c) + exact_budget c < sint t"
  using assms sint_budget [of v c t] by (auto simp: PodStartupConfig_validate_Nil pod_startup_ok_def)

definition demo_startup :: "duration \<Rightarrow> int64 \<Rightarrow> duration \<Rightarrow> PodStartupConfig" where
  "demo_startup tcp retries pause = \<lparr>SyntheticPodNamespace = ''ns'', SyntheticPodLabelKey = ''key'',
     SyntheticPodStartupTimeout = 5 * second, MaxSyntheticPods = 3, TCPTimeout = tcp, TCPMaxRetries = retries,
     TCPRetryInterval = pause, EnableNodeProvisioningTest = False, EnabledCSIs = None\<rparr>"

theorem accepted_budget_fits_timeout_witness:
  "sint (SyntheticPodStartupTimeout (demo_startup second 2 second)) + exact_budget (demo_startup second 2 second) <
     sint (11 * second)"
  by (rule accepted_budget_fits_timeout [of lenient])
     (simp_all add: PodStartupConfig_validate_def demo_startup_def lenient_def tcpConnectivityBudget_def check_def
        csi_list_def exact_budget_def time_units)

text \<open>The budget is computed in 64 bits, so a configuration can be accepted although its exact
  budget is far beyond the checker's timeout: three retries of a TCP timeout of 2 to the 62
  nanoseconds count as three nanoseconds.\<close>

theorem budget_overflow_is_accepted:
  "PodStartupConfig_validate lenient (Some (demo_startup (2 ^ 62) 3 1)) (6 * second) = [] \<and>
   sint (6 * second) < exact_budget (demo_startup (2 ^ 62) 3 1)"
  by (simp add: PodStartupConfig_validate_def demo_startup_def lenient_def tcpConnectivityBudget_def check_def
        csi_list_def exact_budget_def time_units)

end
