(* ===== verification/CheckerCore.thy ===== *)
theory CheckerCore
  imports KubeObjects Config
begin

text \<open>
  \<open>pkg/checker\<close> and \<open>pkg/metrics\<close>: results, the registry of checker builders, and the recording of a
  run in the Prometheus counters. A pair \<open>(result, error)\<close> of which exactly one is set is a sum. The
  counters are functions from label values to counts and part of the run-time state of a checker.
  The contract a checker has with the recorder is the locale \<open>conclusive_checker\<close>.
\<close>

section \<open>Results\<close>

definition StatusHealthy :: string where "StatusHealthy = ''Healthy''"
definition StatusUnhealthy :: string where "StatusUnhealthy = ''Unhealthy''"
definition StatusSkipped :: string where "StatusSkipped = ''Skipped''"
definition StatusUnknown :: string where "StatusUnknown = ''Unknown''"

lemma checker_status_distinct [simp]:
  "StatusHealthy \<noteq> StatusUnhealthy" "StatusUnhealthy \<noteq> StatusHealthy" "StatusHealthy \<noteq> StatusSkipped"
  "StatusSkipped \<noteq> StatusHealthy" "StatusHealthy \<noteq> StatusUnknown" "StatusUnknown \<noteq> StatusHealthy"
  "StatusUnhealthy \<noteq> StatusSkipped" "StatusSkipped \<noteq> StatusUnhealthy" "StatusUnhealthy \<noteq> StatusUnknown"
  "StatusUnknown \<noteq> StatusUnhealthy" "StatusSkipped \<noteq> StatusUnknown" "StatusUnknown \<noteq> StatusSkipped"
  by (simp_all add: StatusHealthy_def StatusUnhealthy_def StatusSkipped_def StatusUnknown_def)

record Detail =
  Code :: string
  Message :: string
  PodDetail :: string

record Result =
  Status :: string
  resDetail :: Detail

definition no_detail :: Detail where
  "no_detail = \<lparr>Code = '''', Message = '''', PodDetail = ''''\<rparr>"

definition Healthy :: Result where
  "Healthy = \<lparr>Status = StatusHealthy, resDetail = no_detail\<rparr>"
definition Unhealthy :: "string \<Rightarrow> string \<Rightarrow> Result" where
  "Unhealthy code message = \<lparr>Status = StatusUnhealthy, resDetail = no_detail\<lparr>Code := code, Message := message\<rparr>\<rparr>"
definition Skipped :: "string \<Rightarrow> Result" where
  "Skipped message = \<lparr>Status = StatusSkipped, resDetail = no_detail\<lparr>Message := message\<rparr>\<rparr>"
definition Unknown :: "string \<Rightarrow> Result" where
  "Unknown message = \<lparr>Status = StatusUnknown, resDetail = no_detail\<lparr>Message := message\<rparr>\<rparr>"
definition WithPod :: "Result \<Rightarrow> string \<Rightarrow> Result" where
  "WithPod r pod = r\<lparr>resDetail := (resDetail r)\<lparr>PodDetail := pod\<rparr>\<rparr>"

lemma result_fields [simp]:
  "Status Healthy = StatusHealthy" "Status (Unhealthy c m) = StatusUnhealthy"
  "Status (Skipped m) = StatusSkipped" "Status (Unknown m) = StatusUnknown" "Status (WithPod r p) = Status r"
  "Code (resDetail (Unhealthy c m)) = c" "Message (resDetail (Unhealthy c m)) = m"
  "Message (resDetail (Unknown m)) = m" "Code (resDetail (Unknown m)) = ''''"
  "Code (resDetail (WithPod r p)) = Code (resDetail r)" "Message (resDetail (WithPod r p)) = Message (resDetail r)"
  by (simp_all add: Healthy_def Unhealthy_def Skipped_def Unknown_def WithPod_def no_detail_def)

lemma unhealthy_not_healthy [simp]: "Unhealthy c m \<noteq> Healthy" "Healthy \<noteq> Unhealthy c m"
  by (metis result_fields(1,2) checker_status_distinct(1))+

section \<open>Recording\<close>

definition HealthyStatus :: string where "HealthyStatus = ''Healthy''"
definition UnhealthyStatus :: string where "UnhealthyStatus = ''Unhealthy''"
definition UnknownStatus :: string where "UnknownStatus = ''Unknown''"
definition HealthyCode :: string where "HealthyCode = HealthyStatus"
definition UnknownCode :: string where "UnknownCode = UnknownStatus"

text \<open>A checker, as far as its recorder sees it: \<open>Name()\<close> and \<open>Type()\<close>.\<close>

record chk_id =
  idName :: string
  idType :: string

record ('w, 'e) chk_rt = "('w, 'e) rt" +
  CheckerResultCounter :: "string list \<Rightarrow> nat"
  PodHealthResultCounter :: "string list \<Rightarrow> nat"

definition inc :: "string list \<Rightarrow> (string list \<Rightarrow> nat) \<Rightarrow> string list \<Rightarrow> nat" where
  "inc labels m = m(labels := m labels + 1)"

definition status_labels :: "go_error + Result \<Rightarrow> string list" where
  "status_labels outcome =
     (case outcome of
        Inl _ \<Rightarrow> [UnknownStatus, UnknownCode]
      | Inr result \<Rightarrow>
          if Status result = StatusHealthy then [HealthyStatus, HealthyCode]
          else if Status result = StatusUnhealthy then [UnhealthyStatus, Code (resDetail result)]
          else ['''', ''''])"

definition RecordResult :: "chk_id \<Rightarrow> go_error + Result \<Rightarrow> (('w, 'e) chk_rt, unit) state" where
  "RecordResult chk outcome = State (\<lambda>s. ((), s\<lparr>CheckerResultCounter :=
     inc ([idType chk, idName chk] @ status_labels outcome) (CheckerResultCounter s)\<rparr>))"

definition RecordCoreDNSPodResult ::
  "chk_id \<Rightarrow> string \<Rightarrow> string \<Rightarrow> go_error + Result \<Rightarrow> (('w, 'e) chk_rt, unit) state" where
  "RecordCoreDNSPodResult chk podNamespace podName outcome = State (\<lambda>s. ((), s\<lparr>PodHealthResultCounter :=
     inc ([idType chk, idName chk, podNamespace, podName] @ status_labels outcome) (PodHealthResultCounter s)\<rparr>))"

lemma run_RecordResult [simp]:
  "run_state (RecordResult chk outcome) s = ((), s\<lparr>CheckerResultCounter :=
     inc ([idType chk, idName chk] @ status_labels outcome) (CheckerResultCounter s)\<rparr>)"
  by (simp add: RecordResult_def)

lemma run_RecordCoreDNSPodResult [simp]:
  "run_state (RecordCoreDNSPodResult chk ns n outcome) s = ((), s\<lparr>PodHealthResultCounter :=
     inc ([idType chk, idName chk, ns, n] @ status_labels outcome) (PodHealthResultCounter s)\<rparr>)"
  by (simp add: RecordCoreDNSPodResult_def)

section \<open>The registry\<close>

text \<open>\<open>checkerRegistry\<close> maps a type to its builder. A builder returns a checker or an error, or panics
  (\<open>None\<close>): it reads the section of its type through a pointer.\<close>

type_synonym 'c builder = "CheckerConfig \<Rightarrow> (go_error + 'c) option"

definition RegisterChecker :: "string \<Rightarrow> 'c builder \<Rightarrow> (string \<rightharpoonup> 'c builder) \<Rightarrow> string \<rightharpoonup> 'c builder" where
  "RegisterChecker t b registry = registry(t \<mapsto> b)"

definition Build :: "(string \<rightharpoonup> 'c builder) \<Rightarrow> CheckerConfig \<Rightarrow> bool \<Rightarrow> (go_error + 'c) option" where
  "Build registry cfg kubeClientIsNil =
     (if kubeClientIsNil then Some (Inl (Msg ''kubernetes client cannot be nil''))
      else case registry (chkType cfg) of
             None \<Rightarrow> Some (Inl (Msg (''unrecognized checker type: '' @ quoted (chkType cfg))))
           | Some b \<Rightarrow> b cfg)"

section \<open>The contract of a recorded checker\<close>

text \<open>Calls change the world and the log; the counters are the rest of the state. A check is conclusive
  when its result, if it gives one, is Healthy, or Unhealthy with a code, and
  it leaves the counters to the recorder. Then a run adds one to exactly one series, whose status is
  one of the three the metrics declare and whose code is not empty.\<close>

definition conclusive :: "go_error + Result \<Rightarrow> bool" where
  "conclusive outcome \<longleftrightarrow> (case outcome of Inl _ \<Rightarrow> True
     | Inr r \<Rightarrow> Status r = StatusHealthy \<or> Status r = StatusUnhealthy \<and> Code (resDetail r) \<noteq> '''')"

definition declared :: "string list \<Rightarrow> bool" where
  "declared ls \<longleftrightarrow> (\<exists>st code. ls = [st, code] \<and> st \<in> {HealthyStatus, UnhealthyStatus, UnknownStatus} \<and> code \<noteq> '''')"

lemma conclusive_simps [simp]:
  "conclusive (Inl e)" "conclusive (Inr Healthy)" "conclusive (Inr (Unhealthy c m)) \<longleftrightarrow> c \<noteq> ''''"
  by (simp_all add: conclusive_def)

lemma status_labels_declared: "conclusive outcome \<Longrightarrow> declared (status_labels outcome)"
  by (auto simp: conclusive_def declared_def status_labels_def HealthyStatus_def UnhealthyStatus_def
      UnknownStatus_def HealthyCode_def UnknownCode_def split: sum.splits)

lemma more_counters:
  "rt.more s' = rt.more s \<Longrightarrow> CheckerResultCounter s' = CheckerResultCounter s"
  "rt.more s' = rt.more s \<Longrightarrow> PodHealthResultCounter s' = PodHealthResultCounter s"
  by (cases s; cases s'; simp)+

locale conclusive_checker =
  fixes check_prog :: "(('w, 'e) chk_rt, go_error + Result) state"
  assumes conclusive_result: "conclusive (fst (run_state check_prog s))"
    and counters_kept: "rt.more (snd (run_state check_prog s)) = rt.more s"
begin

lemma records_once:
  "\<exists>ls. declared ls \<and> CheckerResultCounter (snd (run_state (do { outcome \<leftarrow> check_prog; RecordResult chk outcome }) s)) =
     inc ([idType chk, idName chk] @ ls) (CheckerResultCounter s) \<and>
     PodHealthResultCounter (snd (run_state (do { outcome \<leftarrow> check_prog; RecordResult chk outcome }) s)) =
     PodHealthResultCounter s"
  using status_labels_declared [OF conclusive_result [of s]] more_counters [OF counters_kept [of s]]
  by (cases "run_state check_prog s") auto

end

section \<open>Programs that leave the counters alone\<close>

lemma conclusive_checkerI:
  assumes "\<And>s. emits check_prog (\<lambda>a es s'. conclusive a \<and> rt.more s' = rt.more s) s"
  shows "conclusive_checker check_prog"
proof
  fix s
  show "conclusive (fst (run_state check_prog s))"
    using assms [of s] by (simp add: emits_def)
  show "rt.more (snd (run_state check_prog s)) = rt.more s"
    using assms [of s] by (simp add: emits_def)
qed

lemma inc_same [simp]: "inc ls m ls = m ls + 1"
  by (simp add: inc_def)

lemma inc_other: "ls \<noteq> ls' \<Longrightarrow> inc ls m ls' = m ls'"
  by (simp add: inc_def)

lemma emits_RecordResult [emits_intro]:
  assumes "Q () [] (s\<lparr>CheckerResultCounter :=
     inc ([idType chk, idName chk] @ status_labels outcome) (CheckerResultCounter s)\<rparr>)"
  shows "emits (RecordResult chk outcome) Q s"
  using assms by (simp add: emits_def)

lemma emits_RecordCoreDNSPodResult [emits_intro]:
  assumes "Q () [] (s\<lparr>PodHealthResultCounter :=
     inc ([idType chk, idName chk, ns, n] @ status_labels outcome) (PodHealthResultCounter s)\<rparr>)"
  shows "emits (RecordCoreDNSPodResult chk ns n outcome) Q s"
  using assms by (simp add: emits_def)

end
