(* ===== verification/PodNetwork.thy ===== *)
theory PodNetwork
  imports CheckerCore
begin

text \<open>
  \<open>pkg/checker/podnetwork\<close>: the checker the node-checker pod runs. A ping is one UDP exchange of
  \<open>miekg/dns\<close>, a parameter, as is its \<open>Fqdn\<close>; \<open>net.SplitHostPort\<close> (as far as its success) and
  \<open>net.JoinHostPort\<close> of the standard library are written out. An exchange answers an error, or
  whether there is a response.
\<close>

section \<open>Constants and state\<close>

definition pnNamespace :: string where "pnNamespace = ''kube-system''"
definition coreDNSSelector :: string where "coreDNSSelector = ''k8s-app=kube-dns''"
definition kubernetesSvcDNSName :: string where "kubernetesSvcDNSName = ''kubernetes.default.svc.cluster.local''"
definition dnsTimeout :: duration where "dnsTimeout = second * 5"
definition ErrorCodeNetworkConnectivityFailed :: string where
  "ErrorCodeNetworkConnectivityFailed = ''NetworkConnectivityFailed''"

record PodNetworkChecker =
  pnNodeName :: string

record 'w pn_env =
  pn_parse_selector :: "string \<Rightarrow> go_error + string"
  pn_list_pods :: "string \<Rightarrow> string \<Rightarrow> 'w \<Rightarrow> (go_error + Pod list) \<times> 'w"
  pn_get_service :: "string \<Rightarrow> string \<Rightarrow> 'w \<Rightarrow> (go_error + string) \<times> 'w"
  pn_fqdn :: "string \<Rightarrow> string"
  pn_exchange :: "string \<Rightarrow> string \<Rightarrow> duration \<Rightarrow> 'w \<Rightarrow> (go_error + bool) \<times> 'w"

datatype pn_event =
    ListDNSPods string string "go_error + Pod list"
  | GetDNSService string string "go_error + string"
  | Exchange string string duration "go_error + bool"

type_synonym ('w, 'z, 'a) pn_prog = "(('w, pn_event, 'z) rt_scheme, 'a) state"

section \<open>The pinger\<close>

definition addressHasPort :: "string \<Rightarrow> bool" where
  "addressHasPort addr = split_host_port_ok addr"

definition dns_address :: "string \<Rightarrow> string" where
  "dns_address dnsSvcIP = (if \<not> addressHasPort dnsSvcIP then join_host_port dnsSvcIP ''53'' else dnsSvcIP)"

definition ping :: "'w pn_env \<Rightarrow> string \<Rightarrow> string \<Rightarrow> duration \<Rightarrow> ('w, 'z, go_error option) pn_prog" where
  "ping env dnsSvcIP domain queryTimeout = do {
     r \<leftarrow> perform (Exchange (dns_address dnsSvcIP) (pn_fqdn env domain) queryTimeout)
            (pn_exchange env (dns_address dnsSvcIP) (pn_fqdn env domain) queryTimeout);
     case r of
       Inl err \<Rightarrow> return (Some (Wrap ''no DNS response: '' err))
     | Inr got_response \<Rightarrow>
         if \<not> got_response then return (Some (Msg ''no DNS response received (nil response)''))
         else return None }"

section \<open>The checker\<close>

definition NewPodNetworkChecker :: "string \<Rightarrow> PodNetworkChecker" where
  "NewPodNetworkChecker nodeName = \<lparr>pnNodeName = nodeName\<rparr>"

definition pn_name :: string where "pn_name = ''PodNetwork''"

definition isPodReady :: "Pod \<Rightarrow> bool" where
  "isPodReady pod =
     list_ex (\<lambda>condition. pcType condition = ''Ready'' \<and> pcStatus condition = ConditionTrue) (PodConditions (podStatus pod))"

fun eligible_pods :: "PodNetworkChecker \<Rightarrow> Pod list \<Rightarrow> Pod list" where
  "eligible_pods p [] = []"
| "eligible_pods p (pod # pods) =
     (if NodeName (podSpec pod) = pnNodeName p then eligible_pods p pods
      else if Phase (podStatus pod) \<noteq> PodRunning then eligible_pods p pods
      else if \<not> isPodReady pod then eligible_pods p pods
      else if PodIP (podStatus pod) = '''' then eligible_pods p pods
      else pod # eligible_pods p pods)"

definition getEligibleCoreDNSPods :: "'w pn_env \<Rightarrow> PodNetworkChecker \<Rightarrow> ('w, 'z, go_error + Pod list) pn_prog" where
  "getEligibleCoreDNSPods env p =
     (case pn_parse_selector env coreDNSSelector of
        Inl err \<Rightarrow> return (Inl (Wrap ''failed to parse label selector: '' err))
      | Inr selector \<Rightarrow> do {
          pods \<leftarrow> perform (ListDNSPods pnNamespace selector) (pn_list_pods env pnNamespace selector);
          case pods of
            Inl err \<Rightarrow> return (Inl (Wrap ''failed to list CoreDNS pods: '' err))
          | Inr items \<Rightarrow> return (Inr (eligible_pods p items)) })"

fun checkDNSPodConnectivity :: "'w pn_env \<Rightarrow> Pod list \<Rightarrow> ('w, 'z, nat) pn_prog" where
  "checkDNSPodConnectivity env [] = return 0"
| "checkDNSPodConnectivity env (pod # pods) = do {
     r \<leftarrow> ping env (PodIP (podStatus pod)) kubernetesSvcDNSName dnsTimeout;
     n \<leftarrow> checkDNSPodConnectivity env pods;
     return (if r \<noteq> None then n else n + 1) }"

definition checkDNSSvcConnectivity :: "'w pn_env \<Rightarrow> string \<Rightarrow> ('w, 'z, go_error option) pn_prog" where
  "checkDNSSvcConnectivity env clusterDNSIP = ping env clusterDNSIP kubernetesSvcDNSName dnsTimeout"

definition evaluateResults :: "nat \<Rightarrow> bool \<Rightarrow> Result" where
  "evaluateResults podToPodSuccess clusterSvcSuccess =
     (if clusterSvcSuccess \<and> 0 < podToPodSuccess then Healthy
      else let message =
        (if \<not> clusterSvcSuccess \<and> podToPodSuccess = 0
         then ''A complete pod network failure has been detected. Pod-to-pod connectivity and the cluster DNS service are both failing''
         else if \<not> clusterSvcSuccess \<and> 0 < podToPodSuccess
         then ''Cluster DNS service connectivity failure detected; pod-to-pod network connectivity is functioning''
         else if clusterSvcSuccess \<and> podToPodSuccess = 0
         then ''Pod-to-pod network connectivity failure detected; cluster DNS service is reachable''
         else '''')
      in Unhealthy ErrorCodeNetworkConnectivityFailed message)"

definition Run_pod_network :: "'w pn_env \<Rightarrow> PodNetworkChecker \<Rightarrow> ('w, 'z, go_error + Result) pn_prog" where
  "Run_pod_network env p = do {
     coreDNSPods \<leftarrow> getEligibleCoreDNSPods env p;
     case coreDNSPods of
       Inl err \<Rightarrow> return (Inl (Wrap ''failed to get CoreDNS pods: '' err))
     | Inr pods \<Rightarrow>
         if length pods \<le> 1
         then return (Inr (Unknown ''No CoreDNS pods available for pod-to-pod network checking''))
         else do {
           service \<leftarrow> perform (GetDNSService pnNamespace ''kube-dns'') (pn_get_service env pnNamespace ''kube-dns'');
           case service of
             Inl err \<Rightarrow> return (Inl (Msg (''failed to get kube-dns service: '' @ err_text err)))
           | Inr clusterDNSIP \<Rightarrow> do {
               podToPodSuccess \<leftarrow> checkDNSPodConnectivity env pods;
               clusterSvcError \<leftarrow> checkDNSSvcConnectivity env clusterDNSIP;
               return (Inr (evaluateResults podToPodSuccess (clusterSvcError = None))) } } }"

section \<open>Addresses\<close>

text \<open>An IP address (no brackets) is always dialled with a port.\<close>

lemma dns_address_has_port:
  assumes "CHR ''['' \<notin> set ip" "CHR '']'' \<notin> set ip"
  shows "addressHasPort (dns_address ip)"
proof (cases "addressHasPort ip")
  case False
  show ?thesis
  proof (cases "CHR '':'' \<in> set ip")
    case True
    have "last_index CHR '':'' ((''['' @ ip @ '']'') @ CHR '':'' # ''53'') = Some (length (''['' @ ip @ '']''))"
      by (rule last_index_snoc) simp
    moreover have "first_index CHR '']'' ((''['' @ ip) @ CHR '']'' # '':53'') = Some (length (''['' @ ip))"
      using assms by (intro first_index_at) auto
    ultimately show ?thesis using False True assms
      by (simp add: dns_address_def join_host_port_def addressHasPort_def split_host_port_ok_def)
  next
    case no_colon: False
    have "last_index CHR '':'' (ip @ CHR '':'' # ''53'') = Some (length ip)"
      by (rule last_index_snoc) simp
    moreover have "hd (ip @ '':53'') \<noteq> CHR ''[''" using assms by (cases ip) auto
    ultimately show ?thesis using False no_colon assms
      by (simp add: dns_address_def join_host_port_def addressHasPort_def split_host_port_ok_def)
  qed
qed (simp add: dns_address_def)

section \<open>The verdict\<close>

text \<open>A CoreDNS pod tells something about the network of a node when it runs, ready and with an address,
  on another node.\<close>

definition remote_ready :: "string \<Rightarrow> Pod \<Rightarrow> bool" where
  "remote_ready node pod \<longleftrightarrow> NodeName (podSpec pod) \<noteq> node \<and> Phase (podStatus pod) = PodRunning \<and>
     (\<exists>c \<in> set (PodConditions (podStatus pod)). pcType c = ''Ready'' \<and> pcStatus c = ''True'') \<and> PodIP (podStatus pod) \<noteq> ''''"

lemma eligible_pods_filter: "eligible_pods p pods = filter (remote_ready (pnNodeName p)) pods"
  by (induction pods) (auto simp: remote_ready_def isPodReady_def list_ex_iff ConditionTrue_def)

text \<open>One question: for the name of the API server, at port 53 unless the address has one, for five seconds.\<close>

definition asks :: "'w pn_env \<Rightarrow> string \<Rightarrow> go_error + bool \<Rightarrow> pn_event" where
  "asks env ip r = Exchange (if split_host_port_ok ip then ip else join_host_port ip ''53'')
     (pn_fqdn env ''kubernetes.default.svc.cluster.local'') (5 * 10 ^ 9) r"

lemma asks_exchange: "Exchange (dns_address ip) (pn_fqdn env kubernetesSvcDNSName) dnsTimeout r = asks env ip r"
  by (simp add: asks_def dns_address_def addressHasPort_def kubernetesSvcDNSName_def dnsTimeout_def time_units)

definition answered :: "go_error + bool \<Rightarrow> bool" where
  "answered r \<longleftrightarrow> r = Inr True"

text \<open>\<open>probed env pods ip rs r es\<close>: the calls ask every pod and then the service, with the given answers.\<close>

definition probed :: "'w pn_env \<Rightarrow> Pod list \<Rightarrow> string \<Rightarrow> (go_error + bool) list \<Rightarrow> go_error + bool \<Rightarrow> pn_event list \<Rightarrow> bool" where
  "probed env pods ip rs r es \<longleftrightarrow> length rs = length pods \<and>
     es = map2 (\<lambda>pod. asks env (PodIP (podStatus pod))) pods rs @ [asks env ip r]"

definition pod_network_verdict :: "(go_error + bool) list \<Rightarrow> go_error + bool \<Rightarrow> Result \<Rightarrow> bool" where
  "pod_network_verdict rs r res \<longleftrightarrow>
     (if (\<exists>x \<in> set rs. answered x) \<and> answered r then res = Healthy
      else Status res = StatusUnhealthy \<and> Code (resDetail res) = ErrorCodeNetworkConnectivityFailed)"

definition pod_network_explained :: "'w pn_env \<Rightarrow> PodNetworkChecker \<Rightarrow> go_error + Result \<Rightarrow> pn_event list \<Rightarrow> bool" where
  "pod_network_explained env p outcome es \<longleftrightarrow>
     (case outcome of
        Inl _ \<Rightarrow> (case es of [] \<Rightarrow> (\<exists>err. pn_parse_selector env coreDNSSelector = Inl err)
          | _ \<Rightarrow> (\<exists>ns x err. last es = ListDNSPods ns x (Inl err) \<or> last es = GetDNSService ns x (Inl err)))
      | Inr res \<Rightarrow>
          (\<exists>selector items rest. es = ListDNSPods pnNamespace selector (Inr items) # rest \<and>
             (let pods = filter (remote_ready (pnNodeName p)) items
              in if length pods \<le> 1 then rest = [] \<and> (\<exists>m. res = Unknown m)
                 else \<exists>ip rs r qs. rest = GetDNSService pnNamespace ''kube-dns'' (Inr ip) # qs \<and>
                        probed env pods ip rs r qs \<and> pod_network_verdict rs r res)))"

lemma ping_emits:
  "emits (ping env ip kubernetesSvcDNSName dnsTimeout) (\<lambda>r es s'. rt.more s' = rt.more s \<and>
     (\<exists>x. es = [asks env ip x] \<and> (r = None \<longleftrightarrow> answered x))) s"
  unfolding ping_def
  by (intro emits_bind emits_perform emits_case_sum emits_if emits_return) (auto simp: asks_exchange answered_def)

lemma checkDNSPodConnectivity_emits:
  "emits (checkDNSPodConnectivity env pods) (\<lambda>n es s'. rt.more s' = rt.more s \<and>
     (\<exists>rs. length rs = length pods \<and> es = map2 (\<lambda>pod. asks env (PodIP (podStatus pod))) pods rs \<and>
        n = length (filter answered rs))) s"
proof (induction pods arbitrary: s)
  case Nil
  show ?case by (auto intro!: emits_intro)
next
  case (Cons pod pods)
  show ?case
    unfolding checkDNSPodConnectivity.simps
    apply (rule emits_bind_via [OF ping_emits])
    apply (rule emits_bind_via [OF Cons.IH])
    apply (rule emits_return)
    apply (elim conjE exE)
    subgoal for r es s1 n es2 s2 x rs
      by (intro conjI exI [of _ "x # rs"]) auto
    done
qed

lemma evaluateResults_verdict:
  "pod_network_verdict rs r (evaluateResults (length (filter answered rs)) (answered r))"
  by (auto simp: pod_network_verdict_def evaluateResults_def Let_def filter_empty_conv)

lemma Run_pod_network_emits:
  "emits (Run_pod_network env p) (\<lambda>outcome es s'. rt.more s' = rt.more s \<and> pod_network_explained env p outcome es) s"
proof (cases "pn_parse_selector env coreDNSSelector")
  case (Inl err)
  then show ?thesis unfolding Run_pod_network_def getEligibleCoreDNSPods_def
    by (auto intro!: emits_intro simp: pod_network_explained_def)
next
  case (Inr selector)
  show ?thesis unfolding Run_pod_network_def getEligibleCoreDNSPods_def Inr sum.case
    apply (rule emits_bind, rule emits_bind, rule emits_perform, rule emits_case_sum)
    subgoal by (auto intro!: emits_return simp: pod_network_explained_def)
    subgoal for x w items
      apply (rule emits_return, simp only: sum.case, rule emits_if)
      subgoal by (rule emits_return) (auto simp: pod_network_explained_def eligible_pods_filter)
      subgoal
        apply (rule emits_bind, rule emits_perform, rule emits_case_sum)
        subgoal by (auto intro!: emits_return simp: pod_network_explained_def)
        subgoal for y w' ip
          apply (rule emits_bind_via [OF checkDNSPodConnectivity_emits])
          unfolding checkDNSSvcConnectivity_def
          apply (rule emits_bind_via [OF ping_emits], rule emits_return)
          apply (elim conjE exE)
          subgoal for n es1 s1 r es2 s2 rs z
            using evaluateResults_verdict [of rs z]
            by (auto simp: pod_network_explained_def Let_def eligible_pods_filter probed_def intro!: exI [of _ z])
          done
        done
      done
    done
qed

text \<open>C31: the node's pod network is Healthy exactly when, of at least two ready CoreDNS pods on other
  nodes, one answered and the DNS service answered; with fewer such pods the result is Unknown
  without a probe, every other verdict is Unhealthy, and an error comes from a failed API call.\<close>

theorem pod_network_verdict_explained:
  "emits (Run_pod_network env p) (\<lambda>outcome es s'. pod_network_explained env p outcome es) s"
  by (rule emits_mono [OF Run_pod_network_emits]) simp

end
