(* ===== verification/NodeCheckerRunner.thy ===== *)
theory NodeCheckerRunner
  imports PodNetwork CnhApi
begin

text \<open>
  \<open>pkg/nodecheckerrunner\<close> and the parts of \<open>cmd/nodechecker\<close> around it: the program of the checker
  pod. It runs its checkers, each under \<open>retry.Do\<close> of \<open>avast/retry-go\<close>, and appends their results to
  the CheckNodeHealth resource with one status update. \<open>retry.Do\<close> is a parameter with the law
  \<open>retry_law\<close>; the closure assigns the checker's last result to a variable, so that the model lets it
  return that result. The order in which Go ranges over the map of results is a parameter too.
\<close>

section \<open>State and effects\<close>

definition maxRetryAttempts :: nat where "maxRetryAttempts = 3"
definition retryDelay :: duration where "retryDelay = 3 * second"

datatype rn_event =
    Probe pn_event
  | ReadCR string "go_error + CheckNodeHealth"
  | WriteCRStatus CheckNodeHealth "go_error option"

type_synonym ('w, 'a) rn_prog = "(('w, rn_event) rt, 'a) state"

record 'w NodeChecker =
  ncName :: string
  ncRun :: "('w, go_error + Result) rn_prog"

record 'w rn_env =
  rn_pod_network :: "'w pn_env"
  rn_retry :: "nat \<Rightarrow> duration \<Rightarrow> ('w, go_error + Result) rn_prog \<Rightarrow> ('w, go_error + Result) rn_prog"
  rn_get :: "string \<Rightarrow> 'w \<Rightarrow> (go_error + CheckNodeHealth) \<times> 'w"
  rn_status_update :: "CheckNodeHealth \<Rightarrow> 'w \<Rightarrow> go_error option \<times> 'w"
  rn_range_order :: "string \<Rightarrow> nat"

record 'w Runner =
  rnNodeName :: string
  rnCrName :: string
  rnCheckers :: "'w NodeChecker list"

section \<open>Operations\<close>

definition initializeCheckers :: "'w rn_env \<Rightarrow> string \<Rightarrow> 'w NodeChecker list" where
  "initializeCheckers env nodeName =
     [\<lparr>ncName = pn_name, ncRun = embed Probe (Run_pod_network (rn_pod_network env) (NewPodNetworkChecker nodeName))\<rparr>]"

definition NewRunner :: "'w rn_env \<Rightarrow> string \<Rightarrow> string \<Rightarrow> 'w Runner" where
  "NewRunner env nodeName cr =
     \<lparr>rnNodeName = nodeName, rnCrName = cr, rnCheckers = initializeCheckers env nodeName\<rparr>"

definition convertStatus :: "string \<Rightarrow> string" where
  "convertStatus status =
     (if status = StatusHealthy then CheckStatusHealthy
      else if status = StatusUnhealthy then CheckStatusUnhealthy
      else if status = StatusUnknown then CheckStatusUnknown
      else CheckStatusUnknown)"

text \<open>\<open>results[name] = result\<close> on a map without an order.\<close>

definition put_result :: "string \<Rightarrow> Result \<Rightarrow> (string \<times> Result) list \<Rightarrow> (string \<times> Result) list" where
  "put_result n res m = filter (\<lambda>p. fst p \<noteq> n) m @ [(n, res)]"

definition run_checker :: "'w rn_env \<Rightarrow> 'w NodeChecker \<Rightarrow> ('w, Result) rn_prog" where
  "run_checker env chk = do {
     r \<leftarrow> rn_retry env maxRetryAttempts retryDelay (ncRun chk);
     case r of
       Inl err \<Rightarrow> return (Unknown (''Checker failed after '' @ show_nat maxRetryAttempts @ '' attempts: '' @ err_text err))
     | Inr result \<Rightarrow> return result }"

fun collect_results :: "'w rn_env \<Rightarrow> 'w NodeChecker list \<Rightarrow> (string \<times> Result) list \<Rightarrow> ('w, (string \<times> Result) list) rn_prog" where
  "collect_results env [] results = return results"
| "collect_results env (chk # chks) results = do {
     result \<leftarrow> run_checker env chk;
     collect_results env chks (put_result (ncName chk) result results) }"

definition check_result :: "string \<times> Result \<Rightarrow> CheckResult" where
  "check_result p = \<lparr>crName = fst p, crStatus = convertStatus (Status (snd p)),
     crMessage = Message (resDetail (snd p)), crErrorCode = Code (resDetail (snd p))\<rparr>"

definition append_results :: "CheckResult list \<Rightarrow> CheckNodeHealth \<Rightarrow> CheckNodeHealth" where
  "append_results rs cnh = cnh\<lparr>cnhStatus := (cnhStatus cnh)\<lparr>Results := Results (cnhStatus cnh) @ rs\<rparr>\<rparr>"

definition updateCheckNodeHealthStatus ::
  "'w rn_env \<Rightarrow> 'w Runner \<Rightarrow> (string \<times> Result) list \<Rightarrow> ('w, go_error option) rn_prog" where
  "updateCheckNodeHealthStatus env r results = do {
     got \<leftarrow> perform (ReadCR (rnCrName r)) (rn_get env (rnCrName r));
     case got of
       Inl err \<Rightarrow> return (Some (Wrap ''failed to get CheckNodeHealth CR: '' err))
     | Inr cnh \<Rightarrow> do {
         let cnh' = append_results (map check_result (sort_key (\<lambda>p. rn_range_order env (fst p)) results)) cnh;
         u \<leftarrow> perform (WriteCRStatus cnh') (rn_status_update env cnh');
         case u of
           Some err \<Rightarrow> return (Some (Wrap ''failed to update status: '' err))
         | None \<Rightarrow> return None } }"

definition runCheckers :: "'w rn_env \<Rightarrow> 'w Runner \<Rightarrow> ('w, go_error option) rn_prog" where
  "runCheckers env r = do {
     results \<leftarrow> collect_results env (rnCheckers r) [];
     u \<leftarrow> updateCheckNodeHealthStatus env r results;
     case u of
       Some err \<Rightarrow> return (Some (Wrap ''failed to update CR status: '' err))
     | None \<Rightarrow> return None }"

definition Run_runner :: "'w rn_env \<Rightarrow> 'w Runner \<Rightarrow> ('w, go_error option) rn_prog" where
  "Run_runner env r = do {
     u \<leftarrow> runCheckers env r;
     case u of
       Some err \<Rightarrow> return (Some (Wrap ''failed to run checkers: '' err))
     | None \<Rightarrow> return None }"

text \<open>\<open>createClients\<close>: the calls that build the two clients, each of which may fail; the result is the error.\<close>

datatype client_step = InClusterConfig | NewClientset | AddCRScheme | NewCRClient

definition createClients :: "(client_step \<Rightarrow> go_error option) \<Rightarrow> go_error option" where
  "createClients fails =
     (case fails InClusterConfig of Some err \<Rightarrow> Some err
      | None \<Rightarrow> (case fails NewClientset of Some err \<Rightarrow> Some err
          | None \<Rightarrow> (case fails AddCRScheme of Some err \<Rightarrow> Some err
              | None \<Rightarrow> (case fails NewCRClient of Some err \<Rightarrow> Some err
                  | None \<Rightarrow> None))))"

text \<open>\<open>readNodeName\<close> and the sequence of \<open>main\<close> of \<open>cmd/nodechecker\<close>, with the exit code as its result.\<close>

definition readNodeName :: "'w rn_env \<Rightarrow> string \<Rightarrow> ('w, go_error + string) rn_prog" where
  "readNodeName env name = do {
     got \<leftarrow> perform (ReadCR name) (rn_get env name);
     case got of
       Inl err \<Rightarrow> return (Inl err)
     | Inr cnh \<Rightarrow>
         let nodeName = refName (NodeRef (cnhSpec cnh))
         in if nodeName = '''' then return (Inl (Msg ''NodeRef.Name is empty in CheckNodeHealth CR''))
            else return (Inr nodeName) }"

definition nodechecker_main :: "'w rn_env \<Rightarrow> (client_step \<Rightarrow> go_error option) \<Rightarrow> string \<Rightarrow> ('w, nat) rn_prog" where
  "nodechecker_main env fails name =
     (if name = '''' then return 1
      else if createClients fails \<noteq> None then return 1
      else do {
        nodeName \<leftarrow> readNodeName env name;
        case nodeName of
          Inl err \<Rightarrow> return 1
        | Inr node \<Rightarrow> do {
            r \<leftarrow> Run_runner env (NewRunner env node name);
            case r of
              Some err \<Rightarrow> return 1
            | None \<Rightarrow> return 0 } })"

section \<open>The law of \<open>retry.Do\<close>\<close>

text \<open>\<open>tries m n s a s'\<close>: from \<open>s\<close>, the program is run at least once and at most \<open>n\<close> times, again only after
  a failure and after a pause that logs nothing; its last result is the result, and the result is a
  failure only after \<open>n\<close> failures. The error of the result collects those of the attempts.\<close>

inductive tries :: "('w, go_error + Result) rn_prog \<Rightarrow> nat \<Rightarrow> ('w, rn_event) rt \<Rightarrow> go_error + Result \<Rightarrow> ('w, rn_event) rt \<Rightarrow> bool"
  for m where
  succeeds: "run_state m s = (Inr r, s') \<Longrightarrow> tries m (Suc n) s (Inr r) s'"
| gives_up: "run_state m s = (Inl e, s') \<Longrightarrow> tries m (Suc 0) s (Inl (RetryErrors t [e])) s'"
| again: "run_state m s = (Inl e, s1) \<Longrightarrow> log s2 = log s1 \<Longrightarrow> tries m n s2 a s' \<Longrightarrow>
    tries m (Suc n) s a s'"

definition retry_law :: "'w rn_env \<Rightarrow> bool" where
  "retry_law env \<longleftrightarrow>
     (\<forall>n d m s. 0 < n \<longrightarrow> tries m n s (fst (run_state (rn_retry env n d m) s)) (snd (run_state (rn_retry env n d m) s)))"

text \<open>A program that keeps the law: run again at once, up to \<open>n\<close> times.\<close>

fun retry_at_once :: "nat \<Rightarrow> duration \<Rightarrow> ('w, go_error + Result) rn_prog \<Rightarrow> ('w, go_error + Result) rn_prog" where
  "retry_at_once 0 d m = return (Inl (Msg ''no attempts''))"
| "retry_at_once (Suc n) d m = do {
     r \<leftarrow> m;
     case r of
       Inr res \<Rightarrow> return (Inr res)
     | Inl err \<Rightarrow> if n = 0 then return (Inl (RetryErrors ''All attempts fail'' [err])) else retry_at_once n d m }"

lemma tries_retry_at_once:
  "0 < n \<Longrightarrow> tries m n s (fst (run_state (retry_at_once n d m) s)) (snd (run_state (retry_at_once n d m) s))"
proof (induction n arbitrary: s)
  case (Suc n)
  show ?case
  proof (cases "run_state m s")
    case (Pair a s1)
    show ?thesis
    proof (cases a)
      case (Inr res)
      then show ?thesis using Pair by (auto intro: tries.succeeds)
    next
      case (Inl err)
      show ?thesis
      proof (cases "n = 0")
        case True
        then show ?thesis using Pair Inl by (auto intro: tries.gives_up)
      next
        case False
        have "tries m n s1 (fst (run_state (retry_at_once n d m) s1)) (snd (run_state (retry_at_once n d m) s1))"
          using Suc.IH [of s1] False by simp
        then have "tries m (Suc n) s (fst (run_state (retry_at_once n d m) s1)) (snd (run_state (retry_at_once n d m) s1))"
          using Pair Inl by (auto intro: tries.again)
        moreover have "run_state (retry_at_once (Suc n) d m) s = run_state (retry_at_once n d m) s1"
          using Pair Inl False by simp
        ultimately show ?thesis by simp
      qed
    qed
  qed
qed simp

text \<open>\<open>attempts Q n a es\<close>: the calls \<open>es\<close> are those of between one and \<open>n\<close> attempts, each explained by \<open>Q\<close>,
  of which all but the last failed, and \<open>a\<close> is the result of the last, a failure only after \<open>n\<close>.\<close>

inductive attempts :: "(go_error + Result \<Rightarrow> 'e list \<Rightarrow> bool) \<Rightarrow> nat \<Rightarrow> go_error + Result \<Rightarrow> 'e list \<Rightarrow> bool" for Q where
  last_ok: "Q (Inr r) es \<Longrightarrow> attempts Q (Suc n) (Inr r) es"
| last_failed: "Q (Inl e) es \<Longrightarrow> attempts Q (Suc 0) (Inl e') es"
| one_failed: "Q (Inl e) es \<Longrightarrow> attempts Q n a es' \<Longrightarrow> attempts Q (Suc n) a (es @ es')"

lemma tries_emits:
  assumes "tries m n s a s'" and "\<And>s. emits m (\<lambda>a es _. \<exists>es0. es = map f es0 \<and> Q a es0) s"
  shows "\<exists>es. log s' = log s @ map f es \<and> attempts Q n a es"
  using assms(1)
proof (induction rule: tries.induct)
  case (succeeds s r s' n)
  then show ?case using assms(2) [of s] by (auto elim!: emitsD intro: attempts.last_ok)
next
  case (gives_up s e s' t)
  then show ?case using assms(2) [of s] by (auto elim!: emitsD intro: attempts.last_failed)
next
  case (again s e s1 s2 n a s')
  obtain es1 where "log s1 = log s @ map f es1" "Q (Inl e) es1"
    using assms(2) [of s] again(1) by (auto elim!: emitsD)
  moreover obtain es2 where "log s' = log s2 @ map f es2" "attempts Q n a es2"
    using again.IH by blast
  ultimately have "log s' = log s @ map f (es1 @ es2)" "attempts Q (Suc n) a (es1 @ es2)"
    using again(2) by (auto intro: attempts.one_failed)
  then show ?case by blast
qed

lemma retry_emits:
  assumes "retry_law env" "0 < n" "\<And>s. emits m (\<lambda>a es _. \<exists>es0. es = map f es0 \<and> Q a es0) s"
  shows "emits (rn_retry env n d m) (\<lambda>a es s'. \<exists>es0. es = map f es0 \<and> attempts Q n a es0) s"
proof -
  have "tries m n s (fst (run_state (rn_retry env n d m) s)) (snd (run_state (rn_retry env n d m) s))"
    using assms(1,2) by (simp add: retry_law_def)
  from tries_emits [OF this assms(3)] show ?thesis by (auto simp: emits_def)
qed

section \<open>What a run reports\<close>

definition status_of_attempt :: "go_error + Result \<Rightarrow> string" where
  "status_of_attempt a =
     (case a of Inl _ \<Rightarrow> CheckStatusUnknown
      | Inr r \<Rightarrow> if Status r = StatusHealthy then CheckStatusHealthy
                else if Status r = StatusUnhealthy then CheckStatusUnhealthy else CheckStatusUnknown)"

text \<open>\<open>reported cnh a cnh'\<close>: the written resource is the one read, with one more result, of the network
  checker, that carries the status and the code of the attempt \<open>a\<close>.\<close>

definition reported :: "CheckNodeHealth \<Rightarrow> go_error + Result \<Rightarrow> CheckNodeHealth \<Rightarrow> bool" where
  "reported cnh a cnh' \<longleftrightarrow>
     (\<exists>msg. cnh' = cnh\<lparr>cnhStatus := (cnhStatus cnh)\<lparr>Results := Results (cnhStatus cnh) @
        [\<lparr>crName = ''PodNetwork'', crStatus = status_of_attempt a, crMessage = msg,
          crErrorCode = (case a of Inl _ \<Rightarrow> '''' | Inr r \<Rightarrow> Code (resDetail r))\<rparr>]\<rparr>\<rparr>)"

definition written :: "string \<Rightarrow> go_error + Result \<Rightarrow> go_error option \<Rightarrow> rn_event list \<Rightarrow> bool" where
  "written cr a res es \<longleftrightarrow>
     (\<exists>e. es = [ReadCR cr (Inl e)] \<and> res \<noteq> None) \<or>
     (\<exists>cnh cnh' u. es = [ReadCR cr (Inr cnh), WriteCRStatus cnh' u] \<and> reported cnh a cnh' \<and> (res = None \<longleftrightarrow> u = None))"

abbreviation network_attempts :: "'w rn_env \<Rightarrow> string \<Rightarrow> go_error + Result \<Rightarrow> pn_event list \<Rightarrow> bool" where
  "network_attempts env node \<equiv>
     attempts (pod_network_explained (rn_pod_network env) (NewPodNetworkChecker node)) maxRetryAttempts"

lemma run_network_checker_emits:
  assumes "retry_law env"
  shows "emits (run_checker env \<lparr>ncName = pn_name, ncRun = embed Probe (Run_pod_network (rn_pod_network env) (NewPodNetworkChecker node))\<rparr>)
     (\<lambda>res es s'. \<exists>es0 a. es = map Probe es0 \<and> network_attempts env node a es0 \<and>
        (case a of Inl _ \<Rightarrow> (\<exists>msg. res = Unknown msg) | Inr r \<Rightarrow> res = r)) s"
proof -
  have probe: "emits (embed Probe (Run_pod_network (rn_pod_network env) (NewPodNetworkChecker node)))
     (\<lambda>a es _. \<exists>es0. es = map Probe es0 \<and> pod_network_explained (rn_pod_network env) (NewPodNetworkChecker node) a es0) s" for s
    by (rule emits_mono [OF emits_embed [where Q = "pod_network_explained (rn_pod_network env) (NewPodNetworkChecker node)"]])
       (auto intro: emits_mono [OF Run_pod_network_emits])
  have max: "0 < maxRetryAttempts" by (simp add: maxRetryAttempts_def)
  show ?thesis
    unfolding run_checker_def NodeChecker.simps
    apply (rule emits_bind_via [OF retry_emits [OF assms max probe]], rule emits_case_sum)
    subgoal for a es s' err
      apply (rule emits_return, elim exE)
      subgoal for es0 by (intro exI [of _ es0] exI [of _ "Inl err"]) auto
      done
    subgoal for a es s' r
      apply (rule emits_return, elim exE)
      subgoal for es0 by (intro exI [of _ es0] exI [of _ "Inr r"]) auto
      done
    done
qed

lemma convertStatus_attempt:
  "(case a of Inl _ \<Rightarrow> (\<exists>msg. res = Unknown msg) | Inr r \<Rightarrow> res = r) \<Longrightarrow>
     convertStatus (Status res) = status_of_attempt a \<and>
     Code (resDetail res) = (case a of Inl _ \<Rightarrow> '''' | Inr r \<Rightarrow> Code (resDetail r))"
  by (auto simp: convertStatus_def status_of_attempt_def split: sum.splits)

lemma updateCheckNodeHealthStatus_emits:
  assumes "case a of Inl _ \<Rightarrow> (\<exists>msg. res = Unknown msg) | Inr r \<Rightarrow> res = r"
  shows "emits (updateCheckNodeHealthStatus env r [(pn_name, res)]) (\<lambda>u es s'. written (rnCrName r) a u es) s"
  unfolding updateCheckNodeHealthStatus_def Let_def
  apply (rule emits_bind, rule emits_perform, rule emits_case_sum)
  subgoal by (rule emits_return) (simp add: written_def)
  subgoal for x w cnh
    apply (rule emits_bind, rule emits_perform, rule emits_case_option)
    using convertStatus_attempt [OF assms]
    by (auto intro!: emits_return simp: written_def reported_def append_results_def check_result_def pn_name_def)
  done

lemma emits_wrapped_error:
  assumes "Q (case u of None \<Rightarrow> None | Some err \<Rightarrow> Some (Wrap t err)) [] s"
  shows "emits (case u of None \<Rightarrow> return None | Some err \<Rightarrow> return (Some (Wrap t err))) Q s"
  using assms by (cases u) (auto intro!: emits_return)

lemma runner_writes:
  assumes "retry_law env"
  shows "emits (Run_runner env (NewRunner env node cr)) (\<lambda>res es s'.
     \<exists>probes a rest. es = map Probe probes @ rest \<and> network_attempts env node a probes \<and> written cr a res rest) s"
  unfolding Run_runner_def runCheckers_def NewRunner_def initializeCheckers_def Runner.simps collect_results.simps
  apply (rule emits_bind, rule emits_bind, rule emits_bind)
  apply (rule emits_mono [OF run_network_checker_emits [OF assms]])
  apply (elim exE conjE)
  subgoal for res es1 s1 es0 a
    apply (rule emits_return, unfold put_result_def filter.simps append_Nil NodeChecker.simps)
    apply (rule emits_bind_via [OF updateCheckNodeHealthStatus_emits [where a = a and res = res]])
    subgoal by simp
    subgoal for u es2 s2
      apply (rule emits_wrapped_error, rule emits_wrapped_error)
      apply (intro exI [of _ es0] exI [of _ a] exI [of _ es2])
      apply (auto simp: written_def)
      done
    done
  done

text \<open>C32: a run of the node checker tries the network check up to three times, reads the resource, and
  writes its status once, with exactly one more result: that of the last attempt, or Unknown when all
  three erred. The run succeeds exactly when the read and the write did.\<close>

theorem runner_reports_last_attempt:
  assumes "retry_law env"
  shows "emits (Run_runner env (NewRunner env node cr)) (\<lambda>res es s'.
     \<exists>probes a rest. es = map Probe probes @ rest \<and> network_attempts env node a probes \<and> written cr a res rest) s"
  by (rule runner_writes [OF assms])

text \<open>A cluster without CoreDNS pods and a resource that can be read and written.\<close>

definition demo_pn_env :: "unit pn_env" where
  "demo_pn_env = \<lparr>pn_parse_selector = Inr, pn_list_pods = \<lambda>_ _ w. (Inr [], w), pn_get_service = \<lambda>_ _ w. (Inr ''10.0.0.10'', w),
     pn_fqdn = \<lambda>d. d @ ''.'', pn_exchange = \<lambda>_ _ _ w. (Inr True, w)\<rparr>"

definition demo_resource :: CheckNodeHealth where
  "demo_resource = ObjectMeta.extend (meta ''check'') \<lparr>cnhSpec = \<lparr>NodeRef = \<lparr>refName = ''node''\<rparr>\<rparr>, cnhStatus = empty_status\<rparr>"

definition demo_rn_env :: "unit rn_env" where
  "demo_rn_env = \<lparr>rn_pod_network = demo_pn_env, rn_retry = retry_at_once, rn_get = \<lambda>_ w. (Inr demo_resource, w),
     rn_status_update = \<lambda>_ w. (None, w), rn_range_order = length\<rparr>"

lemma demo_retry_law: "retry_law demo_rn_env"
  by (simp add: retry_law_def demo_rn_env_def tries_retry_at_once)

theorem runner_reports_last_attempt_witness:
  "retry_law demo_rn_env \<and>
   emits (Run_runner demo_rn_env (NewRunner demo_rn_env ''node'' ''check'')) (\<lambda>res es s'.
     \<exists>probes a rest. es = map Probe probes @ rest \<and> network_attempts demo_rn_env ''node'' a probes \<and> written ''check'' a res rest)
     \<lparr>world = (), log = []\<rparr>"
  using demo_retry_law runner_reports_last_attempt [OF demo_retry_law] by blast

end
