(* ===== verification/CrdTypes.thy ===== *)
theory CrdTypes
  imports CnhLimits NodeCheckerRunner
begin

text \<open>
  The validation rules of the CheckNodeHealth resource: the markers of \<open>apis/chm/v1alpha1/types.go\<close>
  and the schema generated from them. The API server rejects a status that breaks them, so the two
  writers of that status, the controller and the node checker, have to keep them. Lengths are of the
  model's strings, one character per byte.
\<close>

section \<open>The rules\<close>

definition upper_case :: "char \<Rightarrow> bool" where
  "upper_case c \<longleftrightarrow> c \<in> set ''ABCDEFGHIJKLMNOPQRSTUVWXYZ''"

definition alphanumeric :: "char \<Rightarrow> bool" where
  "alphanumeric c \<longleftrightarrow> upper_case c \<or> c \<in> set ''abcdefghijklmnopqrstuvwxyz0123456789''"

text \<open>\<open>^[A-Z][a-zA-Z0-9]*$\<close> of at most 253 characters.\<close>

definition camel_name :: "string \<Rightarrow> bool" where
  "camel_name s \<longleftrightarrow> (case s of [] \<Rightarrow> False | c # cs \<Rightarrow> upper_case c \<and> list_all alphanumeric cs) \<and> length s \<le> 253"

definition maxMessageLength :: nat where "maxMessageLength = 32768"

text \<open>A result, without the bound on its message, and with it. An empty error code is left out of the JSON.\<close>

definition typed_result :: "CheckResult \<Rightarrow> bool" where
  "typed_result r \<longleftrightarrow> camel_name (crName r) \<and>
     crStatus r \<in> {CheckStatusHealthy, CheckStatusUnhealthy, CheckStatusUnknown} \<and>
     (crErrorCode r = '''' \<or> camel_name (crErrorCode r))"

definition valid_result :: "CheckResult \<Rightarrow> bool" where
  "valid_result r \<longleftrightarrow> typed_result r \<and> length (crMessage r) \<le> maxMessageLength"

text \<open>A condition: its status, a reason that matches \<open>^[A-Za-z]([A-Za-z0-9_,:]*[A-Za-z0-9_])?$\<close> and its message.\<close>

definition valid_reason :: "string \<Rightarrow> bool" where
  "valid_reason s \<longleftrightarrow> s \<noteq> [] \<and> length s \<le> 1024 \<and> alphanumeric (hd s) \<and> hd s \<notin> set ''0123456789'' \<and>
     list_all (\<lambda>c. alphanumeric c \<or> c \<in> set ''_,:'') s \<and> (alphanumeric (last s) \<or> last s = CHR ''_'')"

definition valid_condition :: "Condition \<Rightarrow> bool" where
  "valid_condition c \<longleftrightarrow> condStatus c \<in> {ConditionTrue, ConditionFalse, ConditionUnknown} \<and>
     valid_reason (condReason c) \<and> length (condMessage c) \<le> maxMessageLength"

definition valid_parts :: "CheckNodeHealth \<Rightarrow> bool" where
  "valid_parts c \<longleftrightarrow> list_all valid_result (Results (cnhStatus c)) \<and> list_all valid_condition (Conditions (cnhStatus c))"

text \<open>\<open>startedAt\<close> is required as soon as there is a status.\<close>

definition valid_status :: "CheckNodeHealth \<Rightarrow> bool" where
  "valid_status c \<longleftrightarrow> StartedAt (cnhStatus c) \<noteq> None \<and> valid_parts c"

section \<open>What the server hands out\<close>

text \<open>\<open>served e\<close>: the resource in the answer to \<open>e\<close> keeps the rules, which the server enforces, and has
  at most \<open>maxResults\<close> results. The answer to a status write has a status.\<close>

definition maxResults :: nat where "maxResults = 120"

definition handled :: "CheckNodeHealth \<Rightarrow> bool" where
  "handled c \<longleftrightarrow> valid_parts c \<and> length (Results (cnhStatus c)) \<le> maxResults"

fun served :: "cnh_event \<Rightarrow> bool" where
  "served (GetCNH n (Inr c)) = handled c"
| "served (UpdateCNH d (Inr c)) = handled c"
| "served (StatusUpdateCNH d (Inr c)) = (handled c \<and> StartedAt (cnhStatus c) \<noteq> None)"
| "served _ = True"

section \<open>The values the controller builds\<close>

lemma startup_result_valid:
  "st \<in> {CheckStatusHealthy, CheckStatusUnhealthy} \<Longrightarrow> length msg \<le> maxMessageLength \<Longrightarrow> valid_result (startup_result st msg)"
  by (auto simp: valid_result_def typed_result_def startup_result_def camel_name_def upper_case_def alphanumeric_def)

lemma reasons_valid:
  "valid_reason ReasonCheckStarted" "valid_reason ReasonCheckPassed" "valid_reason ReasonCheckFailed" "valid_reason ReasonCheckUnknown"
  by (simp_all add: valid_reason_def alphanumeric_def upper_case_def ReasonCheckStarted_def ReasonCheckPassed_def
      ReasonCheckFailed_def ReasonCheckUnknown_def)

lemma upsert_result_all: "list_all P rs \<Longrightarrow> P r \<Longrightarrow> list_all P (upsert_result r rs)"
  by (induction rs) auto

lemma length_join: "list_all (\<lambda>s. length s \<le> n) ss \<Longrightarrow> length (join [c] ss) \<le> length ss * (n + 1)"
proof (induction "[c]" ss rule: join.induct)
  case (3 s t ss)
  then show ?case by simp
qed auto

lemma typed_line: "typed_result r \<Longrightarrow> length (crName r @ '': '' @ crStatus r) \<le> 264"
  by (auto simp: typed_result_def camel_name_def go_const)

lemma missing_lines: "list_all (\<lambda>s. length s \<le> 264) (map (\<lambda>m. m @ '': Missing'') (findMissingResult c))"
  "length (findMissingResult c) \<le> 2"
  by (auto simp: findMissingResult_def RequiredCheckResults_def list_all_iff)

lemma message_fits:
  assumes "handled c"
  shows "length (formatResultsMessage c) \<le> maxMessageLength"
proof -
  let ?ls = "map (\<lambda>r. crName r @ '': '' @ crStatus r) (results_of c) @ map (\<lambda>m. m @ '': Missing'') (findMissingResult c)"
  have "list_all (\<lambda>s. length s \<le> 264) ?ls"
    using assms missing_lines(1) typed_line
    by (auto simp: handled_def valid_parts_def valid_result_def list_all_iff)
  then have "length (formatResultsMessage c) \<le> length ?ls * 265"
    unfolding formatResultsMessage_def using length_join [of 264 ?ls "CHR 0x0A"] by simp
  moreover have "length ?ls \<le> 122"
    using assms missing_lines(2) [of c] by (auto simp: handled_def maxResults_def)
  ultimately show ?thesis by (auto simp: maxMessageLength_def)
qed

lemma started_valid: "handled c \<Longrightarrow> valid_status (started c now)"
  by (auto simp: valid_status_def valid_parts_def started_def handled_def valid_condition_def reasons_valid)

lemma reported_valid:
  assumes "handled c" "StartedAt (cnhStatus c) \<noteq> None" "valid_result r"
  shows "valid_status (updateCheckResult c r)"
  using assms by (auto simp: valid_status_def valid_parts_def updateCheckResult_def handled_def upsert_result_all)

lemma completed_valid:
  assumes "handled c" "StartedAt (cnhStatus c) \<noteq> None"
  shows "valid_status (completed c now)"
proof -
  let ?d = "c\<lparr>cnhStatus := (cnhStatus c)\<lparr>FinishedAt := Some now\<rparr>\<rparr>"
  have "handled ?d" using assms(1) by (simp add: handled_def valid_parts_def)
  note fits = message_fits [OF this]
  obtain st rs msg where d: "determineHealthyCondition ?d = (st, rs, msg)" by (cases "determineHealthyCondition ?d")
  have "st \<in> {ConditionTrue, ConditionFalse, ConditionUnknown}" "valid_reason rs" "msg = formatResultsMessage ?d"
    using d by (auto simp: determineHealthyCondition_def Let_def reasons_valid split: if_splits)
  then show ?thesis using assms fits d
    by (auto simp: valid_status_def valid_parts_def completed_def handled_def valid_condition_def Let_def)
qed

section \<open>Every write keeps the rules\<close>

text \<open>The protocol of a status write: what was sent, and what the caller goes on with.\<close>

lemma status_written_served:
  assumes "status_written env c p es (e, c')" "list_all served es"
  shows "status_payloads es = [c] \<and> (e = None \<longrightarrow> handled c' \<and> StartedAt (cnhStatus c') \<noteq> None)"
  using assms by (auto elim!: status_writtenE)

lemma marked_started_valid:
  assumes "marked_started env c es (e, c')" "list_all served es" "handled c"
  shows "list_all valid_status (status_payloads es) \<and> (e = None \<longrightarrow> handled c' \<and> StartedAt (cnhStatus c') \<noteq> None)"
  using assms by (auto elim!: marked_startedE dest!: status_written_served simp: started_valid)

lemma startup_reported_valid:
  assumes "startup_reported env c pod es (e, c')" "list_all served es" "handled c" "StartedAt (cnhStatus c) \<noteq> None"
  shows "list_all valid_status (status_payloads es) \<and> (e = None \<longrightarrow> handled c' \<and> StartedAt (cnhStatus c') \<noteq> None)"
proof -
  have "valid_status (updateCheckResult c (startup_result CheckStatusHealthy ''All containers started successfully''))"
    "valid_status (updateCheckResult c (startup_result CheckStatusUnhealthy ''Pod stuck in Pending state - timeout exceeded''))"
    using assms(3,4) by (auto intro!: reported_valid startup_result_valid simp: maxMessageLength_def)
  then show ?thesis using assms by (auto elim!: startup_reportedE dest!: status_written_served)
qed

lemma determined_valid:
  assumes "determined env r c pod es res" "handled c" "StartedAt (cnhStatus c) \<noteq> None"
  shows "list_all valid_status (status_payloads es)"
  using assms by (auto elim!: determinedE dest!: finished_payloads simp: completed_valid)

lemma checked_valid:
  assumes "checked env r c es res" "list_all served es" "handled c"
  shows "list_all valid_status (status_payloads es)"
  using assms(1)
proof (cases rule: checked.cases)
  case (start_failed es0 pod es1 e c1)
  then show ?thesis using marked_started_valid [OF _ _ assms(3)] assms(2) by auto
next
  case (report_failed es0 pod es1 c1 es2 e c2)
  then have "list_all served es1" "list_all served es2" using assms(2) by auto
  with marked_started_valid [OF report_failed(4) _ assms(3)] startup_reported_valid [OF report_failed(5)] report_failed
  show ?thesis by auto
next
  case (observed es0 pod es1 c1 es2 c2 es3)
  then have "list_all served es1" "list_all served es2" using assms(2) by auto
  with marked_started_valid [OF observed(3) _ assms(3)] startup_reported_valid [OF observed(4)]
    determined_valid [OF observed(5)] observed
  show ?thesis by auto
qed auto

lemma reconciled_valid:
  assumes "reconciled env r req es res" "list_all served es"
  shows "list_all valid_status (status_payloads es)"
  using assms(1)
proof (cases rule: reconciled.cases)
  case (running cnh now es1 c1 es2)
  have "handled c1" using running(1,4) assms(2) by (auto elim!: finalizer_ensuredE)
  moreover have "status_payloads es1 = []" using running(4) by (auto elim!: finalizer_ensuredE)
  ultimately show ?thesis using checked_valid [OF running(6)] running(1) assms(2) by auto
qed (auto simp: cleanup_quiet cleaned_calls elim!: finalizer_ensuredE)

text \<open>The node checker's result.\<close>

lemma network_code_typed: "camel_name ErrorCodeNetworkConnectivityFailed" "camel_name ''PodNetwork''"
  by (simp_all add: ErrorCodeNetworkConnectivityFailed_def camel_name_def upper_case_def alphanumeric_def)

lemma network_verdict_code:
  "pod_network_explained env p (Inr res) es \<Longrightarrow>
     Status res = StatusUnhealthy \<and> Code (resDetail res) = ErrorCodeNetworkConnectivityFailed \<or> Code (resDetail res) = ''''"
  by (auto simp: pod_network_explained_def pod_network_verdict_def Let_def Healthy_def no_detail_def split: if_splits)

text \<open>\<open>appends_typed cr es\<close>: every status write appends to the resource just read one result with declared
  name, status and code, and keeps the schema exactly when the resource had been started, kept the
  other rules itself, and the message of the result is within its bound.\<close>

definition appends_typed :: "string \<Rightarrow> rn_event list \<Rightarrow> bool" where
  "appends_typed cr es \<longleftrightarrow> (\<forall>c u. WriteCRStatus c u \<in> set es \<longrightarrow>
     (\<exists>c0 r. ReadCR cr (Inr c0) \<in> set es \<and> typed_result r \<and>
        c = c0\<lparr>cnhStatus := (cnhStatus c0)\<lparr>Results := Results (cnhStatus c0) @ [r]\<rparr>\<rparr> \<and>
        (valid_status c \<longleftrightarrow> StartedAt (cnhStatus c0) \<noteq> None \<and> valid_parts c0 \<and> length (crMessage r) \<le> maxMessageLength)))"

lemma appended_valid:
  "typed_result r \<Longrightarrow> valid_status (c\<lparr>cnhStatus := (cnhStatus c)\<lparr>Results := Results (cnhStatus c) @ [r]\<rparr>\<rparr>) \<longleftrightarrow>
     StartedAt (cnhStatus c) \<noteq> None \<and> valid_parts c \<and> length (crMessage r) \<le> maxMessageLength"
  by (auto simp: valid_status_def valid_parts_def valid_result_def)

lemma attempts_network_code:
  assumes "attempts (pod_network_explained env p) n a es" "a = Inr res"
  shows "Code (resDetail res) = '''' \<or> Code (resDetail res) = ErrorCodeNetworkConnectivityFailed"
  using assms by (induction rule: attempts.induct) (auto dest: network_verdict_code)

lemma written_typed:
  assumes "network_attempts env node a probes" "written cr a res rest"
  shows "appends_typed cr (map Probe probes @ rest)"
proof -
  have "typed_result \<lparr>crName = ''PodNetwork'', crStatus = status_of_attempt a, crMessage = msg,
      crErrorCode = (case a of Inl _ \<Rightarrow> '''' | Inr r \<Rightarrow> Code (resDetail r))\<rparr>" for msg
    using attempts_network_code [OF assms(1)] network_code_typed
    by (auto simp: typed_result_def status_of_attempt_def split: sum.splits)
  then show ?thesis using assms(2) appended_valid by (fastforce simp: written_def reported_def appends_typed_def)
qed

text \<open>C12: what the two writers of the status send, against the schema of the resource. If the resources the
  server hands to the controller keep the schema, with at most 120 results, every status the
  controller sends does, the required start time and the message bounds included. The node checker
  appends one result with a declared name, status and code to the resource it just read, and what it
  sends keeps the schema exactly when that resource was marked as started, kept the rules, and the
  message is within its bound; so a checker that is faster than the controller's start mark sends a
  status that the server rejects.\<close>

theorem status_writes_and_schema:
  assumes "retry_law rn"
  shows "emits (Reconcile_cnh env r req) (\<lambda>res es s'. list_all served es \<longrightarrow> list_all valid_status (status_payloads es)) s \<and>
    emits (Run_runner rn (NewRunner rn node cr)) (\<lambda>res es s'. appends_typed cr es) s2"
proof
  show "emits (Reconcile_cnh env r req) (\<lambda>res es s'. list_all served es \<longrightarrow> list_all valid_status (status_payloads es)) s"
    by (rule emits_mono [OF Reconcile_protocol]) (blast intro: reconciled_valid)
  show "emits (Run_runner rn (NewRunner rn node cr)) (\<lambda>res es s'. appends_typed cr es) s2"
    by (rule emits_mono [OF runner_writes [OF assms]]) (blast intro: written_typed)
qed

lemma demo_handled: "handled demo_checked" "handled (completed demo_checked 2)" "StartedAt (cnhStatus (completed demo_checked 2)) \<noteq> None"
proof -
  show h: "handled demo_checked"
    by (simp add: handled_def valid_parts_def demo_checked_def healthy_results_def empty_status_def valid_result_def
        typed_result_def camel_name_def upper_case_def alphanumeric_def maxResults_def)
  have "valid_status (completed demo_checked 2)" using completed_valid [OF h] by (simp add: demo_fields)
  then show "handled (completed demo_checked 2)" "StartedAt (cnhStatus (completed demo_checked 2)) \<noteq> None"
    using h by (simp_all add: valid_status_def handled_def)
qed

text \<open>The run of the demo node checker reads a resource that was not marked as started: its write breaks the schema.\<close>

abbreviation early_log :: "rn_event list" where
  "early_log \<equiv> log (snd (run_state (Run_runner demo_rn_env (NewRunner demo_rn_env ''node'' ''check'')) \<lparr>world = (), log = []\<rparr>))"

definition early_result :: CheckResult where
  "early_result = \<lparr>crName = ''PodNetwork'', crStatus = CheckStatusUnknown,
     crMessage = ''No CoreDNS pods available for pod-to-pod network checking'', crErrorCode = ''''\<rparr>"

definition early_write :: CheckNodeHealth where
  "early_write = append_results [early_result] demo_resource"

lemma early_log_eq:
  "early_log = [Probe (ListDNSPods pnNamespace coreDNSSelector (Inr [])), ReadCR ''check'' (Inr demo_resource),
     WriteCRStatus early_write None]"
  by (simp add: Run_runner_def NewRunner_def initializeCheckers_def runCheckers_def demo_rn_env_def run_checker_def
      maxRetryAttempts_def numeral_3_eq_3 embed_def Run_pod_network_def getEligibleCoreDNSPods_def demo_pn_env_def
      perform_def updateCheckNodeHealthStatus_def put_result_def early_write_def early_result_def check_result_def
      convertStatus_def Unknown_def no_detail_def pn_name_def go_const)

theorem status_writes_and_schema_witness:
  "list_all served (still_log demo_checked [demo_pod PodSucceeded] 2 demo_breaker) \<and>
   status_payloads (still_log demo_checked [demo_pod PodSucceeded] 2 demo_breaker) = [completed demo_checked 2] \<and>
   valid_status (completed demo_checked 2) \<and>
   WriteCRStatus early_write None \<in> set early_log \<and> \<not> valid_status early_write"
proof (intro conjI)
  let ?L = "still_log demo_checked [demo_pod PodSucceeded] 2 demo_breaker"
  note both = status_writes_and_schema [OF demo_retry_law]
  show s: "list_all served ?L" "status_payloads ?L = [completed demo_checked 2]"
    using demo_handled by (simp_all add: still_success_log)
  have "list_all served ?L \<longrightarrow> list_all valid_status (status_payloads ?L)"
    by (rule still_emits [where P = "\<lambda>es. list_all served es \<longrightarrow> list_all valid_status (status_payloads es)"])
       (rule conjunct1 [OF both])
  then show "valid_status (completed demo_checked 2)" using s by simp
  show w: "WriteCRStatus early_write None \<in> set early_log" by (simp add: early_log_eq)
  have "appends_typed ''check'' early_log"
    using conjunct2 [OF both, of "''node''" "''check''" "\<lparr>world = (), log = []\<rparr>"] by (auto simp: emits_def)
  then obtain c0 where "ReadCR ''check'' (Inr c0) \<in> set early_log"
      "valid_status early_write \<longrightarrow> StartedAt (cnhStatus c0) \<noteq> None"
    using w unfolding appends_typed_def by blast
  then show "\<not> valid_status early_write"
    by (auto simp: early_log_eq demo_resource_def empty_status_def ObjectMeta.defs)
qed

end
