(* ===== verification/Sha256.thy ===== *)
theory Sha256
  imports Prelude
begin

text \<open>
  SHA-256, of Go's standard library \<open>crypto/sha256\<close>, and the hexadecimal formatting \<open>%x\<close> of a byte
  array: the node controller names its resources by a digest. Bytes are 8-bit words, the state is
  a list of eight 32-bit words.
\<close>

unbundle bit_operations_syntax

type_synonym byte = "8 word"
type_synonym word32 = "32 word"

definition rotr :: "nat \<Rightarrow> word32 \<Rightarrow> word32" where
  "rotr n x = drop_bit n x OR push_bit (32 - n) x"

text \<open>
  The constants by their definition: the first 32 bits of the fractional parts of the cube roots of
  the first 64 primes and of the square roots of the first 8. \<open>root_bits k n b r\<close> extends \<open>r\<close> by its
  lower \<open>b\<close> bits to the integer \<open>k\<close>-th root of \<open>n\<close>.
\<close>

fun root_bits :: "nat \<Rightarrow> nat \<Rightarrow> nat \<Rightarrow> nat \<Rightarrow> nat" where
  "root_bits k n 0 r = r"
| "root_bits k n (Suc b) r =
     (let r' = r + 2 ^ b in root_bits k n b (if r' ^ k \<le> n then r' else r))"

definition fraction_of_root :: "nat \<Rightarrow> nat \<Rightarrow> word32" where
  "fraction_of_root k p = of_nat (root_bits k (p * 2 ^ (32 * k)) 36 0)"

fun next_primes :: "nat \<Rightarrow> nat list \<Rightarrow> nat list \<Rightarrow> nat list" where
  "next_primes m ps [] = ps"
| "next_primes m ps (c # cs) =
     next_primes m (if length ps < m \<and> list_all (\<lambda>p. c mod p \<noteq> 0) ps then ps @ [c] else ps) cs"

definition first_primes :: "nat \<Rightarrow> nat list" where
  "first_primes m = next_primes m [] [2..<312]"

lemma length_first_primes_8: "length (first_primes 8) = 8"
  by code_simp

definition sha_k :: "word32 list" where
  "sha_k = map (fraction_of_root 3) (first_primes 64)"

definition sha_init :: "word32 list" where
  "sha_init = map (fraction_of_root 2) (first_primes 8)"

text \<open>The message schedule, built backwards: the head of the list is the latest word.\<close>

fun schedule_step :: "word32 list \<Rightarrow> word32 list" where
  "schedule_step ws =
     (let w2 = ws ! 1; w7 = ws ! 6; w15 = ws ! 14; w16 = ws ! 15;
          s0 = rotr 7 w15 XOR rotr 18 w15 XOR drop_bit 3 w15;
          s1 = rotr 17 w2 XOR rotr 19 w2 XOR drop_bit 10 w2
      in (w16 + s0 + w7 + s1) # ws)"

definition schedule :: "word32 list \<Rightarrow> word32 list" where
  "schedule block = rev ((schedule_step ^^ 48) (rev block))"

fun sha_round :: "word32 \<times> word32 \<Rightarrow> word32 list \<Rightarrow> word32 list" where
  "sha_round (k, w) [a, b, c, d, e, f, g, h] =
     (let s1 = rotr 6 e XOR rotr 11 e XOR rotr 25 e;
          ch = (e AND f) XOR (NOT e AND g);
          t1 = h + s1 + ch + k + w;
          s0 = rotr 2 a XOR rotr 13 a XOR rotr 22 a;
          maj = (a AND b) XOR (a AND c) XOR (b AND c)
      in [t1 + s0 + maj, a, b, c, d + t1, e, f, g])"
| "sha_round _ st = st"

definition compress :: "word32 list \<Rightarrow> word32 list \<Rightarrow> word32 list" where
  "compress st block =
     map (\<lambda>(x, y). x + y) (zip st (fold sha_round (zip sha_k (schedule block)) st))"

fun word_of_bytes :: "byte list \<Rightarrow> word32" where
  "word_of_bytes [a, b, c, d] =
     push_bit 24 (ucast a) OR push_bit 16 (ucast b) OR push_bit 8 (ucast c) OR ucast d"
| "word_of_bytes _ = 0"

definition bytes_of_word :: "word32 \<Rightarrow> byte list" where
  "bytes_of_word w = [ucast (drop_bit 24 w), ucast (drop_bit 16 w), ucast (drop_bit 8 w), ucast w]"

function chunks :: "nat \<Rightarrow> 'a list \<Rightarrow> 'a list list" where
  "chunks n xs = (if n = 0 \<or> xs = [] then [] else take n xs # chunks n (drop n xs))"
  by pat_completeness auto
termination
  by (relation "measure (\<lambda>(n, xs). length xs)") auto

declare chunks.simps [simp del]

definition length_bytes :: "nat \<Rightarrow> byte list" where
  "length_bytes n = map (\<lambda>i. of_nat (8 * n div 256 ^ (7 - i))) [0..<8]"

definition pad :: "byte list \<Rightarrow> byte list" where
  "pad m = m @ [0x80] @ replicate ((119 - length m mod 64) mod 64) 0 @ length_bytes (length m)"

definition Sum256 :: "byte list \<Rightarrow> byte list" where
  "Sum256 m = concat (map bytes_of_word
     (fold (\<lambda>block st. compress st (map word_of_bytes (chunks 4 block))) (chunks 64 (pad m)) sha_init))"

definition hex_digit :: "nat \<Rightarrow> char" where
  "hex_digit d = char_of (if d < 10 then 48 + d else 87 + d)"

definition show_hex :: "byte list \<Rightarrow> string" where
  "show_hex bs = concat (map (\<lambda>b. [hex_digit (unat b div 16), hex_digit (unat b mod 16)]) bs)"

definition bytes_of_string :: "string \<Rightarrow> byte list" where
  "bytes_of_string s = map (\<lambda>c. of_nat (of_char c)) s"

section \<open>The digest is 32 bytes\<close>

lemma length_pad: "length (pad m) mod 64 = 0"
proof -
  define q r where "q = length m div 64" and "r = length m mod 64"
  have m: "length m = 64 * q + r" by (simp add: q_def r_def)
  have r: "r < 64" by (simp add: r_def)
  have len: "length (pad m) = length m + 9 + (119 - r) mod 64"
    by (simp add: pad_def length_bytes_def r_def)
  have "(119 - r) mod 64 = (if r \<le> 55 then 55 - r else 119 - r)"
    using r mod_add_self2 [of "55 - r" 64] by (auto simp: mod_if)
  then have "length (pad m) = 64 * (q + (if r \<le> 55 then 1 else 2))"
    using len m r by (auto split: if_splits)
  then show ?thesis by (metis mod_mult_self1_is_0)
qed

lemma length_sha_round [simp]: "length (sha_round kw st) = length st"
  by (cases "(kw, st)" rule: sha_round.cases) (simp_all add: Let_def)

lemma length_fold_round [simp]: "length (fold sha_round kws st) = length st"
  by (induction kws arbitrary: st) auto

lemma length_compress [simp]: "length (compress st block) = length st"
  by (simp add: compress_def)

lemma length_fold_compress: "length (fold (\<lambda>block st. compress st (f block)) bs st) = length st"
  by (induction bs arbitrary: st) auto

lemma length_bytes_of_words: "length (concat (map bytes_of_word ws)) = 4 * length ws"
  by (induction ws) (auto simp: bytes_of_word_def)

lemma length_Sum256 [simp]: "length (Sum256 m) = 32"
  by (simp add: Sum256_def length_bytes_of_words length_fold_compress sha_init_def length_first_primes_8)

lemma length_show_hex [simp]: "length (show_hex bs) = 2 * length bs"
  by (induction bs) (auto simp: show_hex_def)

end
