(* ===== verification/NodeController.thy ===== *)
theory NodeController
  imports KubeObjects CnhController Sha256
begin

text \<open>
  \<open>pkg/controller/node/controller.go\<close>: the reconciler of nodes. It detects a reboot by comparing
  the boot ID of a node with the one it recorded in an annotation, creates one CheckNodeHealth per
  boot, and removes health conditions that have grown old. The API server and the clock are the
  fields of \<open>node_env\<close>; a successful patch replaces the local node by the server's answer, as the
  client does.
\<close>

section \<open>Constants\<close>

definition coreDNSNamespace :: string where "coreDNSNamespace = ''kube-system''"
definition coreDNSDeploymentName :: string where "coreDNSDeploymentName = ''coredns''"
definition AnnotationLastBootID :: string where
  "AnnotationLastBootID = ''checknodehealth.clusterhealthmonitor.azure.com/last-boot-id''"
definition cnhRebootPrefix :: string where "cnhRebootPrefix = ''boot''"
definition maxCNHNameLength :: nat where "maxCNHNameLength = 253"
definition NewNodeThreshold :: duration where "NewNodeThreshold = 5 * minute"
definition NodeConditionTTL :: duration where "NodeConditionTTL = 30 * minute"
definition NodeReadyRequeueInterval :: duration where "NodeReadyRequeueInterval = 30 * second"
definition NodeReadyMaxWait :: duration where "NodeReadyMaxWait = 10 * minute"
definition KarpenterCapacityTypeLabel :: string where
  "KarpenterCapacityTypeLabel = ''karpenter.sh/capacity-type''"
definition KarpenterInitializedLabel :: string where
  "KarpenterInitializedLabel = ''karpenter.sh/initialized''"
definition NodeReady :: string where "NodeReady = ''Ready''"

section \<open>The API server, as a parameter\<close>

record 'w node_env =
  nenv_now :: "'w \<Rightarrow> time \<times> 'w"
  nenv_get_node :: "string \<Rightarrow> 'w \<Rightarrow> (go_error + Node) \<times> 'w"
  nenv_get_deployment :: "string \<Rightarrow> string \<Rightarrow> 'w \<Rightarrow> (go_error + Deployment) \<times> 'w"
  nenv_create_cnh :: "CheckNodeHealth \<Rightarrow> 'w \<Rightarrow> (go_error + CheckNodeHealth) \<times> 'w"
  nenv_patch_status :: "Node \<Rightarrow> Node \<Rightarrow> 'w \<Rightarrow> (go_error + Node) \<times> 'w"
  nenv_patch :: "Node \<Rightarrow> Node \<Rightarrow> 'w \<Rightarrow> (go_error + Node) \<times> 'w"

datatype node_event =
    NodeGet string "go_error + Node"
  | DeploymentGet string string "go_error + Deployment"
  | CnhCreate CheckNodeHealth "go_error + CheckNodeHealth"
  | NodeStatusPatch Node Node "go_error + Node"
  | NodePatch Node Node "go_error + Node"

type_synonym ('w, 'a) node_prog = "(('w, node_event) rt, 'a) state"

definition node_clock :: "'w node_env \<Rightarrow> ('w, time) node_prog" where
  "node_clock env = observe (nenv_now env)"
definition node_get :: "'w node_env \<Rightarrow> string \<Rightarrow> ('w, go_error + Node) node_prog" where
  "node_get env n = perform (NodeGet n) (nenv_get_node env n)"
definition deployment_get :: "'w node_env \<Rightarrow> string \<Rightarrow> string \<Rightarrow> ('w, go_error + Deployment) node_prog" where
  "deployment_get env ns n = perform (DeploymentGet ns n) (nenv_get_deployment env ns n)"
definition cnh_create :: "'w node_env \<Rightarrow> CheckNodeHealth \<Rightarrow> ('w, go_error + CheckNodeHealth) node_prog" where
  "cnh_create env c = perform (CnhCreate c) (nenv_create_cnh env c)"
definition node_status_patch :: "'w node_env \<Rightarrow> Node \<Rightarrow> Node \<Rightarrow> ('w, go_error + Node) node_prog" where
  "node_status_patch env base n = perform (NodeStatusPatch base n) (nenv_patch_status env base n)"
definition node_patch :: "'w node_env \<Rightarrow> Node \<Rightarrow> Node \<Rightarrow> ('w, go_error + Node) node_prog" where
  "node_patch env base n = perform (NodePatch base n) (nenv_patch env base n)"

lemmas node_call_defs = node_clock_def node_get_def deployment_get_def cnh_create_def
  node_status_patch_def node_patch_def

section \<open>Predicates on a node\<close>

definition ready_condition :: "Node \<Rightarrow> NodeCondition option" where
  "ready_condition node = find (\<lambda>c. ncType c = NodeReady) (NodeConditions node)"

definition isNodeReady :: "Node \<Rightarrow> bool" where
  "isNodeReady node =
     (case ready_condition node of Some c \<Rightarrow> ncStatus c = ConditionTrue | None \<Rightarrow> False)"

definition isKarpenterManaged :: "Node \<Rightarrow> bool" where
  "isKarpenterManaged node =
     (case Labels node KarpenterCapacityTypeLabel of Some v \<Rightarrow> v \<noteq> '''' | None \<Rightarrow> False)"

text \<open>A missing key reads as the empty string.\<close>

definition read_key :: "(string \<rightharpoonup> string) \<Rightarrow> string \<Rightarrow> string" where
  "read_key m k = (case m k of Some v \<Rightarrow> v | None \<Rightarrow> '''')"

definition isKarpenterInitialized :: "Node \<Rightarrow> bool" where
  "isKarpenterInitialized node \<longleftrightarrow> read_key (Labels node) KarpenterInitializedLabel = ''true''"

text \<open>The instant since which the node counts as not ready, if it does.\<close>

definition not_ready_since :: "Node \<Rightarrow> time option" where
  "not_ready_since node =
     (if isKarpenterManaged node \<and> \<not> isKarpenterInitialized node then Some (CreationTimestamp node)
      else case ready_condition node of
             Some c \<Rightarrow> if ncStatus c = ConditionTrue then None else Some (ncTransition c)
           | None \<Rightarrow> Some (CreationTimestamp node))"

definition notReadyExceeds :: "'w node_env \<Rightarrow> Node \<Rightarrow> duration \<Rightarrow> ('w, bool) node_prog" where
  "notReadyExceeds env node d =
     (case not_ready_since node of
        None \<Rightarrow> return False
      | Some t \<Rightarrow> do { now \<leftarrow> node_clock env; return (time_sub now t > sint d) })"

section \<open>Names\<close>

definition boot_hash :: "string \<Rightarrow> string" where
  "boot_hash bootID = take 8 (show_hex (Sum256 (bytes_of_string bootID)))"

definition GenerateCNHName :: "string \<Rightarrow> string \<Rightarrow> string" where
  "GenerateCNHName nodeName bootID =
     (let name = cnhRebootPrefix @ ''-'' @ boot_hash bootID @ ''-'' @ nodeName
      in if length name > maxCNHNameLength then take maxCNHNameLength name else name)"

section \<open>Readiness and creation\<close>

definition coreDNSReady :: "'w node_env \<Rightarrow> ('w, go_error + bool) node_prog" where
  "coreDNSReady env = do {
     got \<leftarrow> deployment_get env coreDNSNamespace coreDNSDeploymentName;
     case got of
       Inl err \<Rightarrow> if is_not_found err then return (Inr False) else return (Inl err)
     | Inr deploy \<Rightarrow>
         let desiredReplicas = (case SpecReplicas deploy of Some n \<Rightarrow> n | None \<Rightarrow> 1)
         in if desiredReplicas = 0
            then return (Inl (Msg (''CoreDNS Deployment '' @ coreDNSNamespace @ ''/'' @
                   coreDNSDeploymentName @ '' has 0 desired replicas'')))
            else return (Inr (ReadyReplicas deploy = desiredReplicas)) }"

definition isNodeReadyForHealthCheck :: "'w node_env \<Rightarrow> Node \<Rightarrow> ('w, go_error + bool) node_prog" where
  "isNodeReadyForHealthCheck env node = do {
     dns \<leftarrow> coreDNSReady env;
     case dns of
       Inl err \<Rightarrow> return (Inl (Wrap ''failed to check CoreDNS readiness: '' err))
     | Inr ready \<Rightarrow>
         if \<not> ready then return (Inr False)
         else if isKarpenterManaged node then
           (if \<not> isKarpenterInitialized node then return (Inr False) else return (Inr True))
         else if \<not> isNodeReady node then return (Inr False)
         else return (Inr True) }"

definition boot_check :: "Node \<Rightarrow> string \<Rightarrow> CheckNodeHealth" where
  "boot_check node bootID = ObjectMeta.extend (meta (GenerateCNHName (Name node) bootID))
     \<lparr>cnhSpec = \<lparr>NodeRef = \<lparr>refName = Name node\<rparr>\<rparr>, cnhStatus = empty_status\<rparr>"

definition createCheckNodeHealth :: "'w node_env \<Rightarrow> Node \<Rightarrow> string \<Rightarrow> ('w, go_error + bool) node_prog" where
  "createCheckNodeHealth env node bootID = do {
     r \<leftarrow> isNodeReadyForHealthCheck env node;
     case r of
       Inl err \<Rightarrow> return (Inl err)
     | Inr ready \<Rightarrow>
         if \<not> ready then return (Inr False)
         else do {
           created \<leftarrow> cnh_create env (boot_check node bootID);
           case created of
             Inl err \<Rightarrow>
               if is_already_exists err then return (Inr True)
               else return (Inl (Wrap (''failed to create CheckNodeHealth for node '' @ Name node @ '': '') err))
           | Inr _ \<Rightarrow> return (Inr True) } }"

section \<open>Conditions and annotations\<close>

definition health_condition :: "Node \<Rightarrow> NodeCondition option" where
  "health_condition node = find (\<lambda>c. ncType c = NodeConditionNodeHealthy) (NodeConditions node)"

definition without_health :: "Node \<Rightarrow> Node" where
  "without_health node = node\<lparr>NodeConditions :=
     remove_first (\<lambda>c. ncType c = NodeConditionNodeHealthy) (NodeConditions node)\<rparr>"

definition removeStaleNodeCondition :: "'w node_env \<Rightarrow> Node \<Rightarrow> ('w, go_error + Node) node_prog" where
  "removeStaleNodeCondition env node =
     (case health_condition node of
        None \<Rightarrow> return (Inr node)
      | Some c \<Rightarrow> do {
          now \<leftarrow> node_clock env;
          if time_sub now (ncTransition c) \<le> sint NodeConditionTTL then return (Inr node)
          else do {
            r \<leftarrow> node_status_patch env node (without_health node);
            case r of
              Inl err \<Rightarrow> return (Inl (Wrap
                (''failed to remove stale NodeHealthy condition from node '' @ Name node @ '': '') err))
            | Inr node' \<Rightarrow> return (Inr node') } })"

definition with_boot :: "Node \<Rightarrow> string \<Rightarrow> Node" where
  "with_boot node bootID = node\<lparr>Annotations := (Annotations node)(AnnotationLastBootID \<mapsto> bootID)\<rparr>"

definition updateBootIDAnnotation :: "'w node_env \<Rightarrow> Node \<Rightarrow> string \<Rightarrow> ('w, go_error option) node_prog" where
  "updateBootIDAnnotation env node bootID = do {
     r \<leftarrow> node_patch env node (with_boot node bootID);
     case r of
       Inl err \<Rightarrow> return (Some (Wrap (''failed to update bootID annotation on node '' @ Name node @ '': '') err))
     | Inr _ \<Rightarrow> return None }"

section \<open>Reconciliation\<close>

text \<open>Both the new-node and the reboot branch create the check, and wait or give up when the node is
  not ready; \<open>record_boot\<close> is the shared last line.\<close>

definition record_boot :: "'w node_env \<Rightarrow> Node \<Rightarrow> string \<Rightarrow> ('w, ctrl_result \<times> go_error option) node_prog" where
  "record_boot env node bootID = do {
     err \<leftarrow> updateBootIDAnnotation env node bootID;
     return (\<lparr>RequeueAfter = NodeConditionTTL\<rparr>, err) }"

definition check_boot :: "'w node_env \<Rightarrow> Node \<Rightarrow> string \<Rightarrow> ('w, ctrl_result \<times> go_error option) node_prog" where
  "check_boot env node bootID = do {
     r \<leftarrow> createCheckNodeHealth env node bootID;
     case r of
       Inl err \<Rightarrow> return (no_requeue, Some err)
     | Inr created \<Rightarrow>
         if \<not> created then do {
           exceeded \<leftarrow> notReadyExceeds env node NodeReadyMaxWait;
           if exceeded then return (no_requeue, None)
           else return (\<lparr>RequeueAfter = NodeReadyRequeueInterval\<rparr>, None) }
         else record_boot env node bootID }"

definition Reconcile_node :: "'w node_env \<Rightarrow> string \<Rightarrow> ('w, ctrl_result \<times> go_error option) node_prog" where
  "Reconcile_node env req = do {
     got \<leftarrow> node_get env req;
     case got of
       Inl err \<Rightarrow> return (no_requeue, ignore_not_found (Some err))
     | Inr node0 \<Rightarrow> do {
         gc \<leftarrow> removeStaleNodeCondition env node0;
         case gc of
           Inl err \<Rightarrow> return (no_requeue, Some err)
         | Inr node \<Rightarrow>
             let currentBootID = BootID node; lastBootID = read_key (Annotations node) AnnotationLastBootID
             in if currentBootID = '''' then return (no_requeue, None)
                else if lastBootID = '''' then do {
                  now \<leftarrow> node_clock env;
                  if time_sub now (CreationTimestamp node) < sint NewNodeThreshold
                  then check_boot env node currentBootID
                  else record_boot env node currentBootID }
                else if lastBootID = currentBootID then return (no_requeue, None)
                else check_boot env node currentBootID } }"

text \<open>The events that reach the reconciler.\<close>

datatype node_watch = CreateEvent | UpdateEvent | DeleteEvent | GenericEvent

fun nodeRebootPredicate :: "node_watch \<Rightarrow> bool" where
  "nodeRebootPredicate CreateEvent = True"
| "nodeRebootPredicate UpdateEvent = True"
| "nodeRebootPredicate DeleteEvent = False"
| "nodeRebootPredicate GenericEvent = False"

end
