(* ===== verification/NodeSafety.thy ===== *)
theory NodeSafety
  imports NodeController
begin

text \<open>
  The protocol of the node controller and its properties: a boot is recorded only after its check
  exists, checks are created only for nodes that can run them, waiting is bounded, only old health
  conditions are removed, and the names of the checks determine node and boot.
\<close>

section \<open>The protocol\<close>

definition dns_ready :: "Deployment \<Rightarrow> bool" where
  "dns_ready d \<longleftrightarrow> (let n = (case SpecReplicas d of Some n \<Rightarrow> n | None \<Rightarrow> 1) in n \<noteq> 0 \<and> ReadyReplicas d = n)"

definition can_run_checks :: "Node \<Rightarrow> bool" where
  "can_run_checks node \<longleftrightarrow>
     (if isKarpenterManaged node then isKarpenterInitialized node else isNodeReady node)"

definition dns_get :: "go_error + Deployment \<Rightarrow> node_event" where
  "dns_get x = DeploymentGet coreDNSNamespace coreDNSDeploymentName x"

lemma dns_get_inject [simp]: "dns_get x = dns_get y \<longleftrightarrow> x = y"
  by (simp add: dns_get_def)

inductive check_created :: "Node \<Rightarrow> string \<Rightarrow> node_event list \<Rightarrow> go_error + bool \<Rightarrow> bool" for node boot where
  dns_unread: "\<not> is_not_found e \<Longrightarrow> check_created node boot [dns_get (Inl e)] (Inl e')"
| dns_empty: "SpecReplicas d = Some 0 \<Longrightarrow> check_created node boot [dns_get (Inr d)] (Inl e')"
| dns_missing: "is_not_found e \<Longrightarrow> check_created node boot [dns_get (Inl e)] (Inr False)"
| dns_unready: "\<not> dns_ready d \<Longrightarrow> check_created node boot [dns_get (Inr d)] (Inr False)"
| node_unready: "\<not> can_run_checks node \<Longrightarrow> check_created node boot [dns_get (Inr d)] (Inr False)"
| create_failed: "\<not> is_already_exists e \<Longrightarrow> dns_ready d \<Longrightarrow> can_run_checks node \<Longrightarrow>
     check_created node boot [dns_get (Inr d), CnhCreate (boot_check node boot) (Inl e)] (Inl e')"
| check_new: "dns_ready d \<Longrightarrow> can_run_checks node \<Longrightarrow>
     check_created node boot [dns_get (Inr d), CnhCreate (boot_check node boot) (Inr c)] (Inr True)"
| check_exists: "is_already_exists e \<Longrightarrow> dns_ready d \<Longrightarrow> can_run_checks node \<Longrightarrow>
     check_created node boot [dns_get (Inr d), CnhCreate (boot_check node boot) (Inl e)] (Inr True)"

inductive boot_recorded :: "Node \<Rightarrow> string \<Rightarrow> node_event list \<Rightarrow> ctrl_result \<times> go_error option \<Rightarrow> bool"
  for node boot where
  recorded: "boot_recorded node boot [NodePatch node (with_boot node boot) (Inr n)]
     (\<lparr>RequeueAfter = NodeConditionTTL\<rparr>, None)"
| not_recorded: "boot_recorded node boot [NodePatch node (with_boot node boot) (Inl e)]
     (\<lparr>RequeueAfter = NodeConditionTTL\<rparr>, Some e')"

inductive boot_checked ::
  "'w node_env \<Rightarrow> Node \<Rightarrow> string \<Rightarrow> node_event list \<Rightarrow> ctrl_result \<times> go_error option \<Rightarrow> bool"
  for env node boot where
  check_error: "check_created node boot es (Inl e) \<Longrightarrow> boot_checked env node boot es (no_requeue, Some e)"
| given_up: "check_created node boot es (Inr False) \<Longrightarrow> not_ready_since node = Some t \<Longrightarrow>
     nenv_now env w = (now, w') \<Longrightarrow> time_sub now t > sint NodeReadyMaxWait \<Longrightarrow>
     boot_checked env node boot es (no_requeue, None)"
| waited: "check_created node boot es (Inr False) \<Longrightarrow>
     not_ready_since node = Some t \<Longrightarrow> nenv_now env w = (now, w') \<Longrightarrow>
     time_sub now t \<le> sint NodeReadyMaxWait \<Longrightarrow>
     boot_checked env node boot es (\<lparr>RequeueAfter = NodeReadyRequeueInterval\<rparr>, None)"
| waited_ready: "check_created node boot es (Inr False) \<Longrightarrow> not_ready_since node = None \<Longrightarrow>
     boot_checked env node boot es (\<lparr>RequeueAfter = NodeReadyRequeueInterval\<rparr>, None)"
| checked_and_recorded: "check_created node boot es (Inr True) \<Longrightarrow> boot_recorded node boot es1 res \<Longrightarrow>
     boot_checked env node boot (es @ es1) res"

inductive stale_removed :: "'w node_env \<Rightarrow> Node \<Rightarrow> node_event list \<Rightarrow> go_error + Node \<Rightarrow> bool" for env node where
  no_condition: "health_condition node = None \<Longrightarrow> stale_removed env node [] (Inr node)"
| fresh: "health_condition node = Some c \<Longrightarrow> nenv_now env w = (now, w') \<Longrightarrow>
     time_sub now (ncTransition c) \<le> sint NodeConditionTTL \<Longrightarrow> stale_removed env node [] (Inr node)"
| stale: "health_condition node = Some c \<Longrightarrow> nenv_now env w = (now, w') \<Longrightarrow>
     time_sub now (ncTransition c) > sint NodeConditionTTL \<Longrightarrow>
     stale_removed env node [NodeStatusPatch node (without_health node) (Inr n)] (Inr n)"
| stale_kept: "health_condition node = Some c \<Longrightarrow> nenv_now env w = (now, w') \<Longrightarrow>
     time_sub now (ncTransition c) > sint NodeConditionTTL \<Longrightarrow>
     stale_removed env node [NodeStatusPatch node (without_health node) (Inl e)] (Inl e')"

definition last_boot :: "Node \<Rightarrow> string" where
  "last_boot node = read_key (Annotations node) AnnotationLastBootID"

inductive node_reconciled ::
  "'w node_env \<Rightarrow> string \<Rightarrow> node_event list \<Rightarrow> ctrl_result \<times> go_error option \<Rightarrow> bool" for env req where
  unread: "node_reconciled env req [NodeGet req (Inl e)] (no_requeue, ignore_not_found (Some e))"
| gc_failed: "stale_removed env node es (Inl e) \<Longrightarrow>
     node_reconciled env req (NodeGet req (Inr node) # es) (no_requeue, Some e)"
| no_boot: "stale_removed env node0 es (Inr node) \<Longrightarrow> BootID node = '''' \<Longrightarrow>
     node_reconciled env req (NodeGet req (Inr node0) # es) (no_requeue, None)"
| new_node: "stale_removed env node0 es (Inr node) \<Longrightarrow> BootID node \<noteq> '''' \<Longrightarrow> last_boot node = '''' \<Longrightarrow>
     nenv_now env w = (now, w') \<Longrightarrow> time_sub now (CreationTimestamp node) < sint NewNodeThreshold \<Longrightarrow>
     boot_checked env node (BootID node) es1 res \<Longrightarrow>
     node_reconciled env req (NodeGet req (Inr node0) # es @ es1) res"
| old_node: "stale_removed env node0 es (Inr node) \<Longrightarrow> BootID node \<noteq> '''' \<Longrightarrow> last_boot node = '''' \<Longrightarrow>
     nenv_now env w = (now, w') \<Longrightarrow> time_sub now (CreationTimestamp node) \<ge> sint NewNodeThreshold \<Longrightarrow>
     boot_recorded node (BootID node) es1 res \<Longrightarrow>
     node_reconciled env req (NodeGet req (Inr node0) # es @ es1) res"
| same_boot: "stale_removed env node0 es (Inr node) \<Longrightarrow> last_boot node = BootID node \<Longrightarrow>
     node_reconciled env req (NodeGet req (Inr node0) # es) (no_requeue, None)"
| rebooted: "stale_removed env node0 es (Inr node) \<Longrightarrow> BootID node \<noteq> '''' \<Longrightarrow> last_boot node \<noteq> '''' \<Longrightarrow>
     last_boot node \<noteq> BootID node \<Longrightarrow> boot_checked env node (BootID node) es1 res \<Longrightarrow>
     node_reconciled env req (NodeGet req (Inr node0) # es @ es1) res"

inductive_cases check_createdE: "check_created node boot es res"
inductive_cases boot_recordedE: "boot_recorded node boot es res"
inductive_cases boot_checkedE: "boot_checked env node boot es res"
inductive_cases stale_removedE: "stale_removed env node es res"
inductive_cases node_reconciledE: "node_reconciled env req es res"

definition dns_answer :: "(go_error + Deployment) \<Rightarrow> go_error + bool \<Rightarrow> bool" where
  "dns_answer x res \<longleftrightarrow> (case x of
     Inl e \<Rightarrow> if is_not_found e then res = Inr False else res = Inl e
   | Inr d \<Rightarrow> if SpecReplicas d = Some 0 then (\<exists>e. res = Inl e) else res = Inr (dns_ready d))"

lemma coreDNSReady_protocol:
  "emits (coreDNSReady env) (\<lambda>res es s'. \<exists>x. es = [dns_get x] \<and> dns_answer x res) s"
  unfolding coreDNSReady_def node_call_defs Let_def
  by (auto intro!: emits_intro
      simp: dns_get_def dns_answer_def dns_ready_def Let_def split: option.splits)

lemma isNodeReadyForHealthCheck_protocol:
  "emits (isNodeReadyForHealthCheck env node) (\<lambda>res es s'. \<exists>x. es = [dns_get x] \<and>
     (case res of Inl e \<Rightarrow> (\<exists>e'. dns_answer x (Inl e'))
      | Inr b \<Rightarrow> \<exists>r. dns_answer x (Inr r) \<and> b = (r \<and> can_run_checks node))) s"
  unfolding isNodeReadyForHealthCheck_def
  by (rule emits_bind_via [OF coreDNSReady_protocol])
     (auto intro!: emits_return simp: can_run_checks_def split: sum.splits)

lemma dns_answer_error: "dns_answer x (Inl e) \<Longrightarrow>
   (\<exists>e'. x = Inl e' \<and> \<not> is_not_found e') \<or> (\<exists>d. x = Inr d \<and> SpecReplicas d = Some 0)"
  by (auto simp: dns_answer_def split: sum.splits if_splits)

lemma dns_answer_ready: "dns_answer x (Inr r) \<Longrightarrow>
   (\<exists>e. x = Inl e \<and> is_not_found e \<and> \<not> r) \<or> (\<exists>d. x = Inr d \<and> r = dns_ready d)"
  by (auto simp: dns_answer_def split: sum.splits if_splits)

lemma createCheckNodeHealth_protocol:
  "emits (createCheckNodeHealth env node boot) (\<lambda>res es s'. check_created node boot es res) s"
  unfolding createCheckNodeHealth_def node_call_defs
  apply (rule emits_bind_via [OF isNodeReadyForHealthCheck_protocol])
  apply (intro emits_case_sum emits_if emits_return emits_bind emits_perform)
      apply (auto intro: check_created.intros dest!: dns_answer_error dns_answer_ready)
  done

lemma record_boot_protocol:
  "emits (record_boot env node boot) (\<lambda>res es s'. boot_recorded node boot es res) s"
  unfolding record_boot_def updateBootIDAnnotation_def node_call_defs
  by (auto intro!: emits_intro intro: boot_recorded.intros)

lemma check_boot_protocol:
  "emits (check_boot env node boot) (\<lambda>res es s'. boot_checked env node boot es res) s"
  unfolding check_boot_def notReadyExceeds_def node_clock_def
  apply (rule emits_bind_via [OF createCheckNodeHealth_protocol])
  apply (auto intro!: emits_intro emits_mono [OF record_boot_protocol] intro: boot_checked.intros
      simp: not_less split: option.splits)
  done

lemma removeStaleNodeCondition_protocol:
  "emits (removeStaleNodeCondition env node) (\<lambda>res es s'. stale_removed env node es res) s"
  unfolding removeStaleNodeCondition_def node_call_defs
  by (auto intro!: emits_intro intro: stale_removed.intros simp: not_le)

lemma Reconcile_node_protocol:
  "emits (Reconcile_node env req) (\<lambda>res es s'. node_reconciled env req es res) s"
  unfolding Reconcile_node_def node_get_def node_clock_def Let_def last_boot_def [symmetric]
  apply (intro emits_bind [of "perform _ _"] emits_perform emits_case_sum emits_return
      emits_bind_via [OF removeStaleNodeCondition_protocol])
    apply (auto intro!: emits_intro emits_mono [OF record_boot_protocol] emits_mono [OF check_boot_protocol]
      intro: node_reconciled.intros simp: not_less simp del: ignore_not_found_simps)
  done

section \<open>What can be seen in a run\<close>

fun check_creation :: "node_event \<Rightarrow> CheckNodeHealth list" where
  "check_creation (CnhCreate c x) = [c]"
| "check_creation _ = []"

fun meta_patch :: "node_event \<Rightarrow> (Node \<times> Node) list" where
  "meta_patch (NodePatch b n x) = [(b, n)]"
| "meta_patch _ = []"

fun node_status_patches :: "node_event \<Rightarrow> (Node \<times> Node) list" where
  "node_status_patches (NodeStatusPatch b n x) = [(b, n)]"
| "node_status_patches _ = []"

fun node_call_failed :: "node_event \<Rightarrow> bool" where
  "node_call_failed (NodeGet _ x) = (case x of Inl _ \<Rightarrow> True | Inr _ \<Rightarrow> False)"
| "node_call_failed (DeploymentGet _ _ x) = (case x of Inl _ \<Rightarrow> True | Inr _ \<Rightarrow> False)"
| "node_call_failed (CnhCreate _ x) = (case x of Inl _ \<Rightarrow> True | Inr _ \<Rightarrow> False)"
| "node_call_failed (NodeStatusPatch _ _ x) = (case x of Inl _ \<Rightarrow> True | Inr _ \<Rightarrow> False)"
| "node_call_failed (NodePatch _ _ x) = (case x of Inl _ \<Rightarrow> True | Inr _ \<Rightarrow> False)"

definition seen :: "(node_event \<Rightarrow> 'a list) \<Rightarrow> node_event list \<Rightarrow> 'a list" where
  "seen f es = concat (map f es)"

lemma seen_simps [simp]:
  "seen f [] = []" "seen f (e # es) = f e @ seen f es" "seen f (es @ fs) = seen f es @ seen f fs"
  by (simp_all add: seen_def)

lemma dns_get_seen [simp]:
  "check_creation (dns_get x) = []" "meta_patch (dns_get x) = []" "node_status_patches (dns_get x) = []"
  by (simp_all add: dns_get_def)

text \<open>A state of the node the run has read: from the lookup or from the answer to a patch.\<close>

definition read_node :: "node_event list \<Rightarrow> Node \<Rightarrow> bool" where
  "read_node es node \<longleftrightarrow> (\<exists>n. NodeGet n (Inr node) \<in> set es) \<or> (\<exists>b m. NodeStatusPatch b m (Inr node) \<in> set es)"

lemma stale_removed_read:
  "stale_removed env node0 fs (Inr node) \<Longrightarrow> read_node (NodeGet req (Inr node0) # fs @ es) node"
  by (erule stale_removedE) (auto simp: read_node_def)

section \<open>A boot is recorded after its check\<close>

text \<open>The check for the boot exists: it was created in this run, or the API server says it already
  existed.\<close>

definition check_in_place :: "Node \<Rightarrow> string \<Rightarrow> node_event \<Rightarrow> bool" where
  "check_in_place node boot e \<longleftrightarrow> (\<exists>x. e = CnhCreate (boot_check node boot) x \<and>
     (case x of Inl err \<Rightarrow> is_already_exists err | Inr _ \<Rightarrow> True))"

definition boot_record_justified :: "'w node_env \<Rightarrow> node_event list \<Rightarrow> bool" where
  "boot_record_justified env es \<longleftrightarrow> seen meta_patch es = [] \<or>
     (\<exists>node pre x. es = pre @ [NodePatch node (with_boot node (BootID node)) x] \<and>
        seen meta_patch pre = [] \<and> BootID node \<noteq> '''' \<and> last_boot node \<noteq> BootID node \<and>
        (list_ex (check_in_place node (BootID node)) pre \<or>
         last_boot node = '''' \<and>
           (\<exists>w w' now. nenv_now env w = (now, w') \<and> time_sub now (CreationTimestamp node) \<ge> sint NewNodeThreshold)))"

lemma check_created_seen:
  "check_created node boot es res \<Longrightarrow> seen meta_patch es = [] \<and> seen node_status_patches es = []"
  by (auto elim!: check_createdE)

lemma stale_removed_seen:
  "stale_removed env node es res \<Longrightarrow> seen meta_patch es = [] \<and> seen check_creation es = []"
  by (auto elim!: stale_removedE)

lemma boot_recorded_seen:
  "boot_recorded node boot es res \<Longrightarrow> seen check_creation es = [] \<and> seen node_status_patches es = [] \<and>
     (\<exists>x. es = [NodePatch node (with_boot node boot) x])"
  by (auto elim!: boot_recordedE)

lemma check_created_in_place:
  "check_created node boot es (Inr True) \<Longrightarrow> list_ex (check_in_place node boot) es"
  by (auto elim!: check_createdE simp: check_in_place_def)

lemma boot_checked_justified:
  assumes "boot_checked env node (BootID node) es res" "BootID node \<noteq> ''''" "last_boot node \<noteq> BootID node"
    and "seen meta_patch pre = []"
  shows "boot_record_justified env (pre @ es)"
  using assms(1)
proof (cases rule: boot_checked.cases)
  case (checked_and_recorded es0 es1)
  then obtain x where "es1 = [NodePatch node (with_boot node (BootID node)) x]"
    using boot_recorded_seen by blast
  then show ?thesis using checked_and_recorded assms check_created_seen check_created_in_place
    unfolding boot_record_justified_def
    by (intro disjI2 exI [of _ node] exI [of _ "pre @ es0"] exI [of _ x]) fastforce
qed (use assms in \<open>simp_all add: boot_record_justified_def check_created_seen\<close>)

lemma node_reconciled_justified:
  assumes "node_reconciled env req es res"
  shows "boot_record_justified env es"
  using assms
proof (cases rule: node_reconciled.cases)
  case (new_node node0 fs node w now w' es1)
  then show ?thesis
    using boot_checked_justified [of env node es1 res "NodeGet req (Inr node0) # fs"] stale_removed_seen
    by fastforce
next
  case (old_node node0 fs node w now w' es1)
  then obtain x where "es1 = [NodePatch node (with_boot node (BootID node)) x]"
    using boot_recorded_seen by blast
  then show ?thesis using old_node stale_removed_seen unfolding boot_record_justified_def
    by (intro disjI2 exI [of _ node] exI [of _ "NodeGet req (Inr node0) # fs"] exI [of _ x]) fastforce
next
  case (rebooted node0 fs node es1)
  then show ?thesis
    using boot_checked_justified [of env node es1 res "NodeGet req (Inr node0) # fs"] stale_removed_seen
    by fastforce
qed (auto simp: boot_record_justified_def dest!: stale_removed_seen)

text \<open>C16: a boot is never marked as seen without its check. A reconciliation writes the boot ID
  annotation at most once, as its last call, with the node's own boot ID, and only when the
  CheckNodeHealth for that node and boot was created in the same run or already existed, or the
  node had no annotation and was found older than five minutes.\<close>

theorem boot_recorded_only_with_its_check:
  "emits (Reconcile_node env req) (\<lambda>res es s'. boot_record_justified env es) s"
  by (rule emits_mono [OF Reconcile_node_protocol]) (rule node_reconciled_justified)

section \<open>Which nodes get a check\<close>

definition checks_justified :: "node_event list \<Rightarrow> bool" where
  "checks_justified es \<longleftrightarrow> seen check_creation es = [] \<or>
     (\<exists>node pre d x post. es = pre @ [dns_get (Inr d), CnhCreate (boot_check node (BootID node)) x] @ post \<and>
        seen check_creation es = [boot_check node (BootID node)] \<and>
        read_node pre node \<and> dns_ready d \<and> can_run_checks node \<and> BootID node \<noteq> '''' \<and> last_boot node \<noteq> BootID node)"

lemma check_created_creations:
  assumes "check_created node boot es res"
  shows "seen check_creation es = [] \<or> (\<exists>d x. es = [dns_get (Inr d), CnhCreate (boot_check node boot) x] \<and>
    dns_ready d \<and> can_run_checks node)"
  using assms by (auto elim!: check_createdE)

lemma boot_checked_parts:
  assumes "boot_checked env node boot es res"
  shows "\<exists>es0 es1 res0. es = es0 @ es1 \<and> check_created node boot es0 res0 \<and> seen check_creation es1 = [] \<and>
     seen node_status_patches es1 = []"
  using assms
proof (cases rule: boot_checked.cases)
  case (checked_and_recorded es0 es1)
  then show ?thesis using boot_recorded_seen by blast
qed (rule exI [of _ es], rule exI [of _ "[]"], auto)+

lemma boot_checked_creations:
  assumes "boot_checked env node (BootID node) es res" "BootID node \<noteq> ''''" "last_boot node \<noteq> BootID node"
    and "seen check_creation pre = []" "read_node pre node"
  shows "checks_justified (pre @ es)"
proof -
  obtain es0 es1 res0 where es: "es = es0 @ es1" "check_created node (BootID node) es0 res0"
    "seen check_creation es1 = []"
    using boot_checked_parts [OF assms(1)] by blast
  show ?thesis using check_created_creations [OF es(2)]
  proof (elim disjE exE conjE)
    fix d x
    assume "es0 = [dns_get (Inr d), CnhCreate (boot_check node (BootID node)) x]" "dns_ready d"
      "can_run_checks node"
    then show ?thesis using es assms unfolding checks_justified_def
      by (intro disjI2 exI [of _ node] exI [of _ pre] exI [of _ d] exI [of _ x] exI [of _ es1]) simp
  qed (use es assms in \<open>simp add: checks_justified_def\<close>)
qed

lemma node_reconciled_creations:
  assumes "node_reconciled env req es res"
  shows "checks_justified es"
  using assms
proof (cases rule: node_reconciled.cases)
  case (new_node node0 fs node w now w' es1)
  then show ?thesis
    using boot_checked_creations [of env node es1 res "NodeGet req (Inr node0) # fs"] stale_removed_seen
      stale_removed_read [of env node0 fs node req "[]"] by fastforce
next
  case (rebooted node0 fs node es1)
  then show ?thesis
    using boot_checked_creations [of env node es1 res "NodeGet req (Inr node0) # fs"] stale_removed_seen
      stale_removed_read [of env node0 fs node req "[]"] by fastforce
qed (auto simp: checks_justified_def dest!: stale_removed_seen boot_recorded_seen)

text \<open>C17: a reconciliation creates at most one check, for the current boot of the node it read, and
  only when that boot is not recorded yet, all desired CoreDNS replicas were just seen ready and
  the node is Ready (or, managed by Karpenter, initialized).\<close>

theorem checks_only_for_nodes_that_can_run_them:
  "emits (Reconcile_node env req) (\<lambda>res es s'. checks_justified es) s"
  by (rule emits_mono [OF Reconcile_node_protocol]) (rule node_reconciled_creations)

section \<open>Waiting\<close>

text \<open>Why a run ends the way it does: an error comes from a failed call or a CoreDNS Deployment scaled
  to nothing; the result asks for 30 seconds only while the node has not been waited for too long.\<close>

definition node_outcome :: "'w node_env \<Rightarrow> node_event list \<Rightarrow> ctrl_result \<times> go_error option \<Rightarrow> bool" where
  "node_outcome env es res \<longleftrightarrow>
     (snd res \<noteq> None \<longrightarrow> list_ex node_call_failed es \<or> (\<exists>d. dns_get (Inr d) \<in> set es \<and> SpecReplicas d = Some 0)) \<and>
     (RequeueAfter (fst res) = 0 \<or> RequeueAfter (fst res) = NodeConditionTTL \<and> seen meta_patch es \<noteq> [] \<or>
      RequeueAfter (fst res) = NodeReadyRequeueInterval \<and> seen meta_patch es = [] \<and> snd res = None \<and>
      (\<exists>node. read_node es node \<and> (not_ready_since node = None \<or>
        (\<exists>t now w w'. not_ready_since node = Some t \<and> nenv_now env w = (now, w') \<and>
           time_sub now t \<le> sint NodeReadyMaxWait))))"

lemma no_requeue_zero [simp]: "RequeueAfter no_requeue = 0"
  by (simp add: no_requeue_def)

lemma check_created_failed: "check_created node boot es (Inl e) \<Longrightarrow>
    list_ex node_call_failed es \<or> (\<exists>d. dns_get (Inr d) \<in> set es \<and> SpecReplicas d = Some 0)"
  by (auto elim!: check_createdE simp: dns_get_def)

lemma boot_recorded_outcome:
  "boot_recorded node boot es res \<Longrightarrow> (snd res \<noteq> None \<longrightarrow> list_ex node_call_failed es) \<and>
     RequeueAfter (fst res) = NodeConditionTTL \<and> seen meta_patch es \<noteq> []"
  by (auto elim!: boot_recordedE)

lemma boot_checked_outcome:
  assumes "boot_checked env node boot es res" "seen meta_patch pre = []" "read_node (pre @ es) node"
  shows "node_outcome env (pre @ es) res"
  using assms(1)
proof (cases rule: boot_checked.cases)
  case (check_error e)
  from check_created_failed [OF check_error(2)] check_error(1) show ?thesis
    by (auto simp: node_outcome_def)
next
  case given_up
  then show ?thesis by (simp add: node_outcome_def)
next
  case waited
  then show ?thesis using assms(2,3) check_created_seen unfolding node_outcome_def by fastforce
next
  case waited_ready
  then show ?thesis using assms(2,3) check_created_seen unfolding node_outcome_def by fastforce
next
  case checked_and_recorded
  then show ?thesis by (auto simp: node_outcome_def dest!: boot_recorded_outcome)
qed

lemma node_reconciled_outcome:
  assumes "node_reconciled env req es res"
  shows "node_outcome env es res"
  using assms
proof (cases rule: node_reconciled.cases)
  case (unread e)
  then show ?thesis by (auto simp: node_outcome_def)
next
  case (gc_failed node fs e)
  then show ?thesis by (auto simp: node_outcome_def elim!: stale_removedE)
next
  case (new_node node0 fs node w now w' es1)
  then show ?thesis
    using boot_checked_outcome [of env node "BootID node" es1 res "NodeGet req (Inr node0) # fs"]
      stale_removed_seen stale_removed_read by fastforce
next
  case (rebooted node0 fs node es1)
  then show ?thesis
    using boot_checked_outcome [of env node "BootID node" es1 res "NodeGet req (Inr node0) # fs"]
      stale_removed_seen stale_removed_read by fastforce
qed (auto simp: node_outcome_def dest!: boot_recorded_outcome)

text \<open>C18: an error of a reconciliation is that of a failed call, or CoreDNS is scaled to zero; a retry in
  30 seconds is asked for only when nothing was recorded and the node either counts as ready (it
  waits for CoreDNS) or has not been unready for more than ten minutes.\<close>

theorem node_retries_are_justified:
  "emits (Reconcile_node env req) (\<lambda>res es s'. node_outcome env es res) s"
  by (rule emits_mono [OF Reconcile_node_protocol]) (rule node_reconciled_outcome)

section \<open>Old health conditions\<close>

text \<open>
  \<open>c\<close> is the first NodeHealthy condition of the node, \<open>xs\<close> the conditions before it and \<open>ys\<close> those
  after it. \<open>age_read env c d\<close>: the clock reads \<open>d\<close> nanoseconds after the last transition of \<open>c\<close>.
  A run that got the node goes on with the removal of \<open>c\<close> only, when it is over thirty minutes old,
  and writes no other status; or it writes no status at all and the node has no such condition or
  a younger one.
\<close>

definition first_health :: "Node \<Rightarrow> NodeCondition list \<Rightarrow> NodeCondition \<Rightarrow> NodeCondition list \<Rightarrow> bool" where
  "first_health node xs c ys \<longleftrightarrow> NodeConditions node = xs @ c # ys \<and> ncType c = NodeConditionNodeHealthy \<and>
     (\<forall>k\<in>set xs. ncType k \<noteq> NodeConditionNodeHealthy)"

definition age_read :: "'w node_env \<Rightarrow> NodeCondition \<Rightarrow> int \<Rightarrow> bool" where
  "age_read env c d \<longleftrightarrow> (\<exists>w w' now. nenv_now env w = (now, w') \<and> d = time_sub now (ncTransition c))"

definition only_stale_removed :: "'w node_env \<Rightarrow> string \<Rightarrow> node_event list \<Rightarrow> bool" where
  "only_stale_removed env req es \<longleftrightarrow>
     (\<exists>e. es = [NodeGet req (Inl e)]) \<or>
     (\<exists>base rest. es = NodeGet req (Inr base) # rest \<and>
       ((\<exists>xs c ys d x rest'. rest = NodeStatusPatch base (base\<lparr>NodeConditions := xs @ ys\<rparr>) x # rest' \<and>
           seen node_status_patches rest' = [] \<and> first_health base xs c ys \<and>
           age_read env c d \<and> d > 30 * 60 * 10 ^ 9) \<or>
        seen node_status_patches rest = [] \<and>
          (\<forall>xs c ys. first_health base xs c ys \<longrightarrow> (\<exists>d. age_read env c d \<and> d \<le> 30 * 60 * 10 ^ 9))))"

lemma health_condition_first:
  "health_condition node = Some c \<Longrightarrow>
     \<exists>xs ys. first_health node xs c ys \<and> without_health node = node\<lparr>NodeConditions := xs @ ys\<rparr>"
  unfolding health_condition_def first_health_def
  by (drule find_Some_split, elim exE conjE, rule exI, rule exI) (auto simp: without_health_def remove_first_split)

lemma first_health_condition: "first_health node xs c ys \<Longrightarrow> health_condition node = Some c"
  by (simp add: first_health_def health_condition_def find_split_Some)

lemma ttl_thirty_minutes: "sint NodeConditionTTL = 30 * 60 * 10 ^ 9"
  by (simp add: NodeConditionTTL_def time_units)

lemma first_removed:
  assumes "first_health base xs c ys" "nenv_now env w = (now, w')" "time_sub now (ncTransition c) > sint NodeConditionTTL"
    "seen node_status_patches es = []"
  shows "only_stale_removed env req
    (NodeGet req (Inr base) # NodeStatusPatch base (base\<lparr>NodeConditions := xs @ ys\<rparr>) x # es)"
proof -
  have "age_read env c (time_sub now (ncTransition c))" using assms(2) by (auto simp: age_read_def)
  then show ?thesis unfolding only_stale_removed_def using assms(1,3,4) ttl_thirty_minutes by auto
qed

lemma none_removed:
  assumes "\<And>c. health_condition node = Some c \<Longrightarrow>
      \<exists>w now w'. nenv_now env w = (now, w') \<and> time_sub now (ncTransition c) \<le> sint NodeConditionTTL"
    "seen node_status_patches es = []"
  shows "only_stale_removed env req (NodeGet req (Inr node) # es)"
proof -
  have "\<exists>d. age_read env c d \<and> d \<le> 30 * 60 * 10 ^ 9" if "first_health node xs c ys" for xs c ys
    using assms(1) [OF first_health_condition [OF that]] unfolding age_read_def ttl_thirty_minutes by blast
  then show ?thesis unfolding only_stale_removed_def using assms(2) by blast
qed

lemma stale_then_quiet:
  assumes "stale_removed env node fs y" "seen node_status_patches es = []"
  shows "only_stale_removed env req (NodeGet req (Inr node) # fs @ es)"
proof -
  have removed: "only_stale_removed env req (NodeGet req (Inr node) # NodeStatusPatch node (without_health node) x # es)"
    if "health_condition node = Some c" "nenv_now env w = (now, w')"
        "time_sub now (ncTransition c) > sint NodeConditionTTL" for c w now w' x
    using health_condition_first [OF that(1)] first_removed [OF _ that(2,3) assms(2)] by metis
  from assms(1) show ?thesis
  proof (cases rule: stale_removed.cases)
    case no_condition
    then show ?thesis using none_removed [of node env es req] assms(2) by simp
  next
    case (fresh c w now w')
    then show ?thesis using none_removed [of node env es req] assms(2) by auto
  qed (use removed in auto)
qed

lemma boot_checked_status: "boot_checked env node boot es res \<Longrightarrow> seen node_status_patches es = []"
  using boot_checked_parts check_created_seen by fastforce

lemma node_reconciled_stale:
  assumes "node_reconciled env req es res"
  shows "only_stale_removed env req es"
  using assms
  by (cases rule: node_reconciled.cases)
     (auto simp: only_stale_removed_def [of env req "[NodeGet req _]"] intro: stale_then_quiet
        stale_then_quiet [of _ _ _ _ "[]", simplified] dest: boot_checked_status boot_recorded_seen)

text \<open>C19: a run that gets the node removes its first NodeHealthy condition, right after the read and with
  everything else as read, only when the condition's last transition is more than thirty minutes
  old on the clock; it writes the node's status at no other time, and it leaves the status alone
  only when the node has no NodeHealthy condition or the first one is at most that old.\<close>

theorem only_stale_health_conditions_removed:
  "emits (Reconcile_node env req) (\<lambda>res es s'. only_stale_removed env req es) s"
  by (rule emits_mono [OF Reconcile_node_protocol]) (rule node_reconciled_stale)

section \<open>Names\<close>

lemma length_boot_hash [simp]: "length (boot_hash boot) = 8"
  by (simp add: boot_hash_def)

lemma GenerateCNHName_take:
  "GenerateCNHName n boot = cnhRebootPrefix @ ''-'' @ boot_hash boot @ ''-'' @ take 239 n"
  by (auto simp: GenerateCNHName_def maxCNHNameLength_def cnhRebootPrefix_def Let_def)

text \<open>C20: the name of a check is at most 253 characters and always holds the whole hash of the boot ID;
  two names are equal exactly when the hashes are and the node names agree on their first 239
  characters, so truncation never mixes up two boots of a node.\<close>

theorem boot_check_names_determine_boot_and_node:
  "length (GenerateCNHName n boot) \<le> maxCNHNameLength \<and>
   take 14 (GenerateCNHName n boot) = cnhRebootPrefix @ ''-'' @ boot_hash boot @ ''-'' \<and>
   (GenerateCNHName n boot = GenerateCNHName m boot' \<longleftrightarrow>
      boot_hash boot = boot_hash boot' \<and> take 239 n = take 239 m)"
  by (simp add: GenerateCNHName_take maxCNHNameLength_def cnhRebootPrefix_def)

section \<open>A node that becomes ready late\<close>

definition late_node :: "'w node_env \<Rightarrow> Node \<Rightarrow> bool" where
  "late_node env node \<longleftrightarrow> BootID node \<noteq> '''' \<and> last_boot node = '''' \<and> health_condition node = None \<and>
     (\<forall>w. time_sub (fst (nenv_now env w)) (CreationTimestamp node) \<ge> sint NewNodeThreshold)"

definition recorded_unchecked :: "Node \<Rightarrow> node_event list \<Rightarrow> bool" where
  "recorded_unchecked node es \<longleftrightarrow>
     (\<forall>req fs. es = NodeGet req (Inr node) # fs \<longrightarrow>
        (\<exists>x. fs = [NodePatch node (with_boot node (BootID node)) x]))"

lemma late_node_clock: "late_node env node \<Longrightarrow> nenv_now env w = (now, w') \<Longrightarrow>
    \<not> time_sub now (CreationTimestamp node) < sint NewNodeThreshold"
  unfolding late_node_def by (metis fst_conv not_less)

lemma node_reconciled_late:
  assumes late: "late_node env node" and run: "node_reconciled env req es res"
  shows "recorded_unchecked node es"
  unfolding recorded_unchecked_def
proof (intro allI impI)
  fix req' fs
  assume es: "es = NodeGet req' (Inr node) # fs"
  have gc: "gs = [] \<and> y = Inr node" if "stale_removed env node gs y" for gs y
    using that late by (auto elim!: stale_removedE simp: late_node_def)
  from run show "\<exists>x. fs = [NodePatch node (with_boot node (BootID node)) x]"
  proof (cases rule: node_reconciled.cases)
    case (new_node node0 gs node1 w now w' es1)
    then have "node1 = node" using es gc by fastforce
    then show ?thesis using new_node late_node_clock [OF late] by blast
  next
    case (old_node node0 gs node1 w now w' es1)
    then show ?thesis using es gc boot_recorded_seen by fastforce
  qed (use es late in \<open>auto simp: late_node_def dest!: gc\<close>)
qed

text \<open>A node that is first reconciled with a boot ID more than five minutes after its creation, for
  instance because its own requests to be retried while it was not ready outlasted them, gets its
  boot recorded at once and no check: the ten minutes that the controller is willing to wait for
  readiness never apply to a new node.\<close>

theorem late_node_recorded_unchecked:
  assumes "late_node env node"
  shows "emits (Reconcile_node env req) (\<lambda>res es s'. recorded_unchecked node es) s"
  by (rule emits_mono [OF Reconcile_node_protocol]) (rule node_reconciled_late [OF assms])

definition late_demo :: Node where
  "late_demo = ObjectMeta.extend ((meta ''n'')\<lparr>CreationTimestamp := 0\<rparr>) \<lparr>BootID = ''b'', NodeConditions = []\<rparr>"

definition six_minutes :: time where "six_minutes = 360000000000"

definition still_node_env :: "unit node_env" where
  "still_node_env = \<lparr>nenv_now = \<lambda>w. (six_minutes, w), nenv_get_node = \<lambda>n w. (Inr late_demo, w),
     nenv_get_deployment = \<lambda>ns n w. (Inl (ApiError NotFound ''''), w), nenv_create_cnh = \<lambda>c w. (Inr c, w),
     nenv_patch_status = \<lambda>b n w. (Inr n, w), nenv_patch = \<lambda>b n w. (Inr n, w)\<rparr>"

lemma late_demo_late: "late_node still_node_env late_demo"
  by (simp add: late_node_def still_node_env_def late_demo_def ObjectMeta.defs meta_def last_boot_def
      read_key_def health_condition_def six_minutes_def time_sub_def max_duration_def min_duration_def
      NewNodeThreshold_def time_units)


lemma late_demo_log:
  "log (snd (run_state (Reconcile_node still_node_env ''n'') \<lparr>world = (), log = []\<rparr>)) =
     [NodeGet ''n'' (Inr late_demo),
      NodePatch late_demo (with_boot late_demo ''b'') (Inr (with_boot late_demo ''b''))]"
proof -
  have facts: "health_condition late_demo = None" "BootID late_demo = ''b''" "CreationTimestamp late_demo = 0"
    "read_key (Annotations late_demo) AnnotationLastBootID = ''''"
    by (simp_all add: late_demo_def ObjectMeta.defs meta_def health_condition_def read_key_def)
  show ?thesis
    by (simp add: Reconcile_node_def node_call_defs removeStaleNodeCondition_def facts record_boot_def
        updateBootIDAnnotation_def still_node_env_def six_minutes_def time_sub_def max_duration_def
        min_duration_def NewNodeThreshold_def time_units Let_def)
qed

theorem late_node_recorded_unchecked_witness:
  "recorded_unchecked late_demo [NodeGet ''n'' (Inr late_demo),
      NodePatch late_demo (with_boot late_demo ''b'') (Inr (with_boot late_demo ''b''))]"
  using late_node_recorded_unchecked [OF late_demo_late, of "''n''" "\<lparr>world = (), log = []\<rparr>"] late_demo_log
  by (auto simp: emits_def)

end
