(* ===== verification/HcrController.thy ===== *)
theory HcrController
  imports KubeObjects
begin

text \<open>
  \<open>pkg/controller/healthcheckrequest/controller.go\<close>: the controller that serves health check
  requests. Each request owns a HealthSignal, each signal owns the CheckNodeHealth that does the
  work, and the conditions of a finished check are copied to the signal. Both lookups go through
  an index of owner UIDs, whose key functions are part of the sources.
\<close>

section \<open>Constants and index keys\<close>

definition HealthSignalSource :: string where "HealthSignalSource = ''ClusterHealthMonitor''"
definition HealthCheckRequestKind :: string where "HealthCheckRequestKind = ''HealthCheckRequest''"
definition HealthSignalKind :: string where "HealthSignalKind = ''HealthSignal''"

definition owner_uids :: "string \<Rightarrow> OwnerReference list \<Rightarrow> string list" where
  "owner_uids kind refs = map ownerUID (filter (\<lambda>ref. ownerKind ref = kind) refs)"

definition healthSignalOwnerUIDIndex :: "HealthSignal \<Rightarrow> string list" where
  "healthSignalOwnerUIDIndex hs = owner_uids HealthCheckRequestKind (OwnerReferences hs)"

definition checkNodeHealthOwnerUIDIndex :: "CheckNodeHealth \<Rightarrow> string list" where
  "checkNodeHealthOwnerUIDIndex cnh = owner_uids HealthSignalKind (OwnerReferences cnh)"

section \<open>The API server, as a parameter\<close>

text \<open>The module that defines HealthSignal is not part of the repository either: its group version and
  its name for node health are parameters.\<close>

record 'w hcr_env =
  henv_get_hcr :: "string \<Rightarrow> 'w \<Rightarrow> (go_error + HealthCheckRequest) \<times> 'w"
  henv_get_signal :: "string \<Rightarrow> 'w \<Rightarrow> (go_error + HealthSignal) \<times> 'w"
  henv_list_signals :: "string \<Rightarrow> 'w \<Rightarrow> (go_error + HealthSignal list) \<times> 'w"
  henv_list_checks :: "string \<Rightarrow> 'w \<Rightarrow> (go_error + CheckNodeHealth list) \<times> 'w"
  henv_create_signal :: "HealthSignal \<Rightarrow> 'w \<Rightarrow> (go_error + HealthSignal) \<times> 'w"
  henv_create_check :: "CheckNodeHealth \<Rightarrow> 'w \<Rightarrow> (go_error + CheckNodeHealth) \<times> 'w"
  henv_update_signal :: "HealthSignal \<Rightarrow> 'w \<Rightarrow> (go_error + HealthSignal) \<times> 'w"
  henv_group_version :: string
  henv_node_health :: string
  henv_set_controller :: "HealthSignal \<Rightarrow> CheckNodeHealth \<Rightarrow> go_error + CheckNodeHealth"

datatype hcr_event =
    RequestGet string "go_error + HealthCheckRequest"
  | SignalGet string "go_error + HealthSignal"
  | SignalList string "go_error + HealthSignal list"
  | CheckList string "go_error + CheckNodeHealth list"
  | SignalCreate HealthSignal "go_error + HealthSignal"
  | CheckCreate CheckNodeHealth "go_error + CheckNodeHealth"
  | SignalStatusUpdate HealthSignal "go_error + HealthSignal"

type_synonym ('w, 'a) hcr_prog = "(('w, hcr_event) rt, 'a) state"

definition request_get :: "'w hcr_env \<Rightarrow> string \<Rightarrow> ('w, go_error + HealthCheckRequest) hcr_prog" where
  "request_get env n = perform (RequestGet n) (henv_get_hcr env n)"
definition signal_get :: "'w hcr_env \<Rightarrow> string \<Rightarrow> ('w, go_error + HealthSignal) hcr_prog" where
  "signal_get env n = perform (SignalGet n) (henv_get_signal env n)"
definition signal_list :: "'w hcr_env \<Rightarrow> string \<Rightarrow> ('w, go_error + HealthSignal list) hcr_prog" where
  "signal_list env uid = perform (SignalList uid) (henv_list_signals env uid)"
definition check_list :: "'w hcr_env \<Rightarrow> string \<Rightarrow> ('w, go_error + CheckNodeHealth list) hcr_prog" where
  "check_list env uid = perform (CheckList uid) (henv_list_checks env uid)"
definition signal_create :: "'w hcr_env \<Rightarrow> HealthSignal \<Rightarrow> ('w, go_error + HealthSignal) hcr_prog" where
  "signal_create env hs = perform (SignalCreate hs) (henv_create_signal env hs)"
definition check_create :: "'w hcr_env \<Rightarrow> CheckNodeHealth \<Rightarrow> ('w, go_error + CheckNodeHealth) hcr_prog" where
  "check_create env c = perform (CheckCreate c) (henv_create_check env c)"
definition signal_status_update :: "'w hcr_env \<Rightarrow> HealthSignal \<Rightarrow> ('w, go_error + HealthSignal) hcr_prog" where
  "signal_status_update env hs = perform (SignalStatusUpdate hs) (henv_update_signal env hs)"

lemmas hcr_call_defs = request_get_def signal_get_def signal_list_def check_list_def signal_create_def
  check_create_def signal_status_update_def

section \<open>Operations\<close>

definition new_signal :: "'w hcr_env \<Rightarrow> HealthCheckRequest \<Rightarrow> HealthSignal" where
  "new_signal env hcr = ObjectMeta.extend
     ((meta (to_lower (Name hcr @ ''-'' @ HealthSignalSource)))\<lparr>OwnerReferences :=
        [\<lparr>ownerAPIVersion = henv_group_version env, ownerKind = HealthCheckRequestKind, ownerName = Name hcr,
          ownerUID = UID hcr, ownerController = None, ownerBlockDeletion = Some False\<rparr>]\<rparr>)
     \<lparr>hsType = henv_node_health env, hsTargetKind = ''Node'', hsTargetName = hcrTargetName hcr, hsConditions = []\<rparr>"

definition ensureHealthSignal :: "'w hcr_env \<Rightarrow> HealthCheckRequest \<Rightarrow> ('w, go_error + HealthSignal) hcr_prog" where
  "ensureHealthSignal env hcr = do {
     listed \<leftarrow> signal_list env (UID hcr);
     case listed of
       Inl err \<Rightarrow> return (Inl (Wrap ''failed to list HealthSignals by owner UID: '' err))
     | Inr items \<Rightarrow>
         (case items of
            hs # _ \<Rightarrow> return (Inr hs)
          | [] \<Rightarrow> do {
              created \<leftarrow> signal_create env (new_signal env hcr);
              case created of
                Inl err \<Rightarrow> return (Inl (Wrap ''failed to create HealthSignal: '' err))
              | Inr hs \<Rightarrow> return (Inr hs) }) }"

definition new_check :: "HealthSignal \<Rightarrow> string \<Rightarrow> CheckNodeHealth" where
  "new_check hs nodeName = ObjectMeta.extend (meta (Name hs))
     \<lparr>cnhSpec = \<lparr>NodeRef = \<lparr>refName = nodeName\<rparr>\<rparr>, cnhStatus = empty_status\<rparr>"

definition ensureCheckNodeHealth ::
  "'w hcr_env \<Rightarrow> HealthSignal \<Rightarrow> string \<Rightarrow> ('w, go_error + CheckNodeHealth) hcr_prog" where
  "ensureCheckNodeHealth env hs nodeName = do {
     listed \<leftarrow> check_list env (UID hs);
     case listed of
       Inl err \<Rightarrow> return (Inl (Wrap ''failed to list CheckNodeHealths by owner UID: '' err))
     | Inr items \<Rightarrow>
         (case items of
            c # _ \<Rightarrow> return (Inr c)
          | [] \<Rightarrow>
              (case henv_set_controller env hs (new_check hs nodeName) of
                 Inl err \<Rightarrow> return (Inl (Wrap ''failed to set controller reference: '' err))
               | Inr cnh \<Rightarrow> do {
                   created \<leftarrow> check_create env cnh;
                   case created of
                     Inl err \<Rightarrow> return (Inl (Wrap ''failed to create CheckNodeHealth: '' err))
                   | Inr c \<Rightarrow> return (Inr c) })) }"

definition syncHealthSignalStatus ::
  "'w hcr_env \<Rightarrow> HealthSignal \<Rightarrow> CheckNodeHealth \<Rightarrow> ('w, go_error option) hcr_prog" where
  "syncHealthSignalStatus env hs cnh = do {
     r \<leftarrow> signal_status_update env (hs\<lparr>hsConditions := Conditions (cnhStatus cnh)\<rparr>);
     case r of
       Inl err \<Rightarrow> return (Some (Wrap ''failed to update HealthSignal status: '' err))
     | Inr _ \<Rightarrow> return None }"

definition Reconcile_hcr :: "'w hcr_env \<Rightarrow> string \<Rightarrow> ('w, ctrl_result \<times> go_error option) hcr_prog" where
  "Reconcile_hcr env req = do {
     got \<leftarrow> request_get env req;
     case got of
       Inl err \<Rightarrow> return (no_requeue, ignore_not_found (Some err))
     | Inr hcr \<Rightarrow>
         if DeletionTimestamp hcr \<noteq> None then return (no_requeue, None)
         else do {
           s \<leftarrow> ensureHealthSignal env hcr;
           case s of
             Inl err \<Rightarrow> return (no_requeue, Some err)
           | Inr healthSignal \<Rightarrow> do {
               c \<leftarrow> ensureCheckNodeHealth env healthSignal (hcrTargetName hcr);
               case c of
                 Inl err \<Rightarrow> return (no_requeue, Some err)
               | Inr cnh \<Rightarrow>
                   if FinishedAt (cnhStatus cnh) = None then return (\<lparr>RequeueAfter = 5 * second\<rparr>, None)
                   else do {
                     err \<leftarrow> syncHealthSignalStatus env healthSignal cnh;
                     return (no_requeue, err) } } } }"

text \<open>The watch on CheckNodeHealth: an event of a check wakes the request at the top of its chain of
  owners.\<close>

definition mapCheckNodeHealthToHealthCheckRequest ::
  "'w hcr_env \<Rightarrow> CheckNodeHealth \<Rightarrow> ('w, string list) hcr_prog" where
  "mapCheckNodeHealthToHealthCheckRequest env cnh =
     (case find (\<lambda>ref. ownerKind ref = HealthSignalKind) (OwnerReferences cnh) of
        None \<Rightarrow> return []
      | Some hsOwnerRef \<Rightarrow> do {
          got \<leftarrow> signal_get env (ownerName hsOwnerRef);
          case got of
            Inl _ \<Rightarrow> return []
          | Inr hs \<Rightarrow>
              (case find (\<lambda>ref. ownerKind ref = HealthCheckRequestKind) (OwnerReferences hs) of
                 Some ownerRef \<Rightarrow> return [ownerName ownerRef]
               | None \<Rightarrow> return []) })"

section \<open>Laws\<close>

text \<open>\<open>SetControllerReference\<close> appends one owner reference, to the given owner; its kind is that of the
  HealthSignal type in the scheme.\<close>

definition controller_law :: "'w hcr_env \<Rightarrow> bool" where
  "controller_law env \<longleftrightarrow>
     (\<forall>hs c c'. henv_set_controller env hs c = Inr c' \<longrightarrow>
        (\<exists>ref. c' = c\<lparr>OwnerReferences := OwnerReferences c @ [ref]\<rparr> \<and> ownerKind ref = HealthSignalKind \<and>
           ownerName ref = Name hs \<and> ownerUID ref = UID hs \<and> ownerController ref = Some True))"

section \<open>The protocol\<close>

inductive signal_ensured ::
  "'w hcr_env \<Rightarrow> HealthCheckRequest \<Rightarrow> hcr_event list \<Rightarrow> go_error + HealthSignal \<Rightarrow> bool" for env hcr where
  signals_unlisted: "signal_ensured env hcr [SignalList (UID hcr) (Inl e)] (Inl e')"
| signal_found: "signal_ensured env hcr [SignalList (UID hcr) (Inr (hs # rest))] (Inr hs)"
| signal_not_created: "signal_ensured env hcr [SignalList (UID hcr) (Inr []), SignalCreate (new_signal env hcr) (Inl e)] (Inl e')"
| signal_created: "signal_ensured env hcr [SignalList (UID hcr) (Inr []), SignalCreate (new_signal env hcr) (Inr hs)] (Inr hs)"

inductive check_ensured ::
  "'w hcr_env \<Rightarrow> HealthSignal \<Rightarrow> string \<Rightarrow> hcr_event list \<Rightarrow> go_error + CheckNodeHealth \<Rightarrow> bool" for env hs n where
  checks_unlisted: "check_ensured env hs n [CheckList (UID hs) (Inl e)] (Inl e')"
| check_found: "check_ensured env hs n [CheckList (UID hs) (Inr (c # rest))] (Inr c)"
| check_unowned: "henv_set_controller env hs (new_check hs n) = Inl e \<Longrightarrow>
     check_ensured env hs n [CheckList (UID hs) (Inr [])] (Inl e')"
| check_not_created: "henv_set_controller env hs (new_check hs n) = Inr c \<Longrightarrow>
     check_ensured env hs n [CheckList (UID hs) (Inr []), CheckCreate c (Inl e)] (Inl e')"
| check_created: "henv_set_controller env hs (new_check hs n) = Inr c \<Longrightarrow>
     check_ensured env hs n [CheckList (UID hs) (Inr []), CheckCreate c (Inr c')] (Inr c')"

inductive hcr_reconciled ::
  "'w hcr_env \<Rightarrow> string \<Rightarrow> hcr_event list \<Rightarrow> ctrl_result \<times> go_error option \<Rightarrow> bool" for env req where
  request_unread: "hcr_reconciled env req [RequestGet req (Inl e)] (no_requeue, ignore_not_found (Some e))"
| request_deleted: "DeletionTimestamp hcr \<noteq> None \<Longrightarrow>
     hcr_reconciled env req [RequestGet req (Inr hcr)] (no_requeue, None)"
| no_signal: "DeletionTimestamp hcr = None \<Longrightarrow> signal_ensured env hcr es (Inl e) \<Longrightarrow>
     hcr_reconciled env req (RequestGet req (Inr hcr) # es) (no_requeue, Some e)"
| no_check: "DeletionTimestamp hcr = None \<Longrightarrow> signal_ensured env hcr es (Inr hs) \<Longrightarrow>
     check_ensured env hs (hcrTargetName hcr) es1 (Inl e) \<Longrightarrow>
     hcr_reconciled env req (RequestGet req (Inr hcr) # es @ es1) (no_requeue, Some e)"
| in_progress: "DeletionTimestamp hcr = None \<Longrightarrow> signal_ensured env hcr es (Inr hs) \<Longrightarrow>
     check_ensured env hs (hcrTargetName hcr) es1 (Inr c) \<Longrightarrow> FinishedAt (cnhStatus c) = None \<Longrightarrow>
     hcr_reconciled env req (RequestGet req (Inr hcr) # es @ es1) (\<lparr>RequeueAfter = 5 * second\<rparr>, None)"
| synced: "DeletionTimestamp hcr = None \<Longrightarrow> signal_ensured env hcr es (Inr hs) \<Longrightarrow>
     check_ensured env hs (hcrTargetName hcr) es1 (Inr c) \<Longrightarrow> FinishedAt (cnhStatus c) = Some t \<Longrightarrow>
     hcr_reconciled env req (RequestGet req (Inr hcr) # es @ es1 @
       [SignalStatusUpdate (hs\<lparr>hsConditions := Conditions (cnhStatus c)\<rparr>) (Inr hs')]) (no_requeue, None)"
| not_synced: "DeletionTimestamp hcr = None \<Longrightarrow> signal_ensured env hcr es (Inr hs) \<Longrightarrow>
     check_ensured env hs (hcrTargetName hcr) es1 (Inr c) \<Longrightarrow> FinishedAt (cnhStatus c) = Some t \<Longrightarrow>
     hcr_reconciled env req (RequestGet req (Inr hcr) # es @ es1 @
       [SignalStatusUpdate (hs\<lparr>hsConditions := Conditions (cnhStatus c)\<rparr>) (Inl e)]) (no_requeue, Some e')"

inductive_cases signal_ensuredE: "signal_ensured env hcr es res"
inductive_cases check_ensuredE: "check_ensured env hs n es res"
inductive_cases hcr_reconciledE: "hcr_reconciled env req es res"

lemma ensureHealthSignal_protocol:
  "emits (ensureHealthSignal env hcr) (\<lambda>res es s'. signal_ensured env hcr es res) s"
  unfolding ensureHealthSignal_def hcr_call_defs by (auto intro!: emits_intro signal_ensured.intros)

lemma ensureCheckNodeHealth_protocol:
  "emits (ensureCheckNodeHealth env hs n) (\<lambda>res es s'. check_ensured env hs n es res) s"
  unfolding ensureCheckNodeHealth_def hcr_call_defs by (auto intro!: emits_intro intro: check_ensured.intros)

lemma Reconcile_hcr_protocol:
  "emits (Reconcile_hcr env req) (\<lambda>res es s'. hcr_reconciled env req es res) s"
  unfolding Reconcile_hcr_def syncHealthSignalStatus_def request_get_def signal_status_update_def
  apply (intro emits_bind [of "perform _ _"] emits_perform emits_case_sum emits_return emits_if
      emits_bind_via [OF ensureHealthSignal_protocol] emits_bind_via [OF ensureCheckNodeHealth_protocol])
        apply (auto intro!: emits_intro intro: hcr_reconciled.intros simp del: ignore_not_found_simps)
  done

section \<open>The signal mirrors the finished check\<close>

text \<open>A signal, and a check, that the run has found or created.\<close>

definition run_signal :: "hcr_event list \<Rightarrow> HealthSignal \<Rightarrow> bool" where
  "run_signal es hs \<longleftrightarrow> (\<exists>u rest. SignalList u (Inr (hs # rest)) \<in> set es) \<or> (\<exists>d. SignalCreate d (Inr hs) \<in> set es)"

definition run_check_of :: "hcr_event list \<Rightarrow> HealthSignal \<Rightarrow> CheckNodeHealth \<Rightarrow> bool" where
  "run_check_of es hs c \<longleftrightarrow> (\<exists>rest. CheckList (UID hs) (Inr (c # rest)) \<in> set es) \<or>
     (CheckList (UID hs) (Inr []) \<in> set es \<and> (\<exists>d. CheckCreate d (Inr c) \<in> set es))"

fun signal_write :: "hcr_event \<Rightarrow> HealthSignal list" where
  "signal_write (SignalStatusUpdate h x) = [h]"
| "signal_write _ = []"

definition signal_writes :: "hcr_event list \<Rightarrow> HealthSignal list" where
  "signal_writes es = concat (map signal_write es)"

lemma signal_writes_simps [simp]:
  "signal_writes [] = []" "signal_writes (e # es) = signal_write e @ signal_writes es"
  "signal_writes (es @ fs) = signal_writes es @ signal_writes fs"
  by (simp_all add: signal_writes_def)

definition mirrors_check :: "hcr_event list \<Rightarrow> ctrl_result \<times> go_error option \<Rightarrow> bool" where
  "mirrors_check es res \<longleftrightarrow>
     (case signal_writes es of
        [] \<Rightarrow> RequeueAfter (fst res) = 0 \<or>
              res = (\<lparr>RequeueAfter = 5 * second\<rparr>, None) \<and>
                (\<exists>hs c. run_signal es hs \<and> run_check_of es hs c \<and> FinishedAt (cnhStatus c) = None)
      | h # rest \<Rightarrow> rest = [] \<and> fst res = no_requeue \<and>
          (\<exists>hs c x. run_signal es hs \<and> run_check_of es hs c \<and> FinishedAt (cnhStatus c) \<noteq> None \<and>
             h = hs\<lparr>hsConditions := Conditions (cnhStatus c)\<rparr> \<and>
             last es = SignalStatusUpdate h x \<and>
             (snd res = None \<longleftrightarrow> (case x of Inl _ \<Rightarrow> False | Inr _ \<Rightarrow> True))))"

lemma signal_ensured_run: "signal_ensured env hcr es (Inr hs) \<Longrightarrow> run_signal (pre @ es @ post) hs"
  by (erule signal_ensuredE) (auto simp: run_signal_def)

lemma check_ensured_run: "check_ensured env hs n es (Inr c) \<Longrightarrow> run_check_of (pre @ es @ post) hs c"
  by (erule check_ensuredE) (auto simp: run_check_of_def)

lemma ensured_no_write:
  "signal_ensured env hcr es y \<Longrightarrow> signal_writes es = []"
  "check_ensured env hs n es z \<Longrightarrow> signal_writes es = []"
  by (auto elim: signal_ensuredE check_ensuredE)

lemma hcr_reconciled_mirrors:
  assumes "hcr_reconciled env req es res"
  shows "mirrors_check es res"
  using assms
proof (cases rule: hcr_reconciled.cases)
  case (in_progress hcr es0 hs es1 c)
  have "run_signal es hs" "run_check_of es hs c"
    using in_progress signal_ensured_run [of env hcr es0 hs "[RequestGet req (Inr hcr)]" es1]
      check_ensured_run [of env hs _ es1 c "RequestGet req (Inr hcr) # es0" "[]"] by simp_all
  then show ?thesis using in_progress ensured_no_write unfolding mirrors_check_def by fastforce
next
  case (synced hcr es0 hs es1 c t hs')
  have "run_signal es hs" "run_check_of es hs c"
    using synced signal_ensured_run [of env hcr es0 hs "[RequestGet req (Inr hcr)]"]
      check_ensured_run [of env hs _ es1 c "RequestGet req (Inr hcr) # es0"] by simp_all
  then show ?thesis using synced ensured_no_write unfolding mirrors_check_def
    by (simp add: ensured_no_write) blast
next
  case (not_synced hcr es0 hs es1 c t e e')
  have "run_signal es hs" "run_check_of es hs c"
    using not_synced signal_ensured_run [of env hcr es0 hs "[RequestGet req (Inr hcr)]"]
      check_ensured_run [of env hs _ es1 c "RequestGet req (Inr hcr) # es0"] by simp_all
  then show ?thesis using not_synced ensured_no_write unfolding mirrors_check_def
    by (simp add: ensured_no_write) blast
qed (auto simp: mirrors_check_def ensured_no_write no_requeue_def)

text \<open>C22: a reconciliation of a request writes the signal's status at most once, as its last call, with
  exactly the conditions of the finished check of that signal, and succeeds exactly when the write
  does; without a write it comes back in five seconds only for a check that has not finished.\<close>

theorem signal_mirrors_finished_check:
  "emits (Reconcile_hcr env req) (\<lambda>res es s'. mirrors_check es res) s"
  by (rule emits_mono [OF Reconcile_hcr_protocol]) (rule hcr_reconciled_mirrors)

section \<open>The chain of owners\<close>

text \<open>Whatever a run creates was absent under the owner's UID in the listing right before, and will be
  listed under it: the index keys of the new object are exactly the UID that was looked up.\<close>

definition creations_indexed :: "'w hcr_env \<Rightarrow> hcr_event list \<Rightarrow> bool" where
  "creations_indexed env es \<longleftrightarrow>
     (\<forall>pre d x post. es = pre @ SignalCreate d x # post \<longrightarrow>
        (\<exists>u ps. pre = ps @ [SignalList u (Inr [])] \<and> healthSignalOwnerUIDIndex d = [u])) \<and>
     (\<forall>pre c x post. es = pre @ CheckCreate c x # post \<longrightarrow>
        (\<exists>u ps. pre = ps @ [CheckList u (Inr [])] \<and> checkNodeHealthOwnerUIDIndex c = [u]))"

lemma new_signal_index [simp]: "healthSignalOwnerUIDIndex (new_signal env hcr) = [UID hcr]"
  by (simp add: healthSignalOwnerUIDIndex_def owner_uids_def new_signal_def ObjectMeta.defs meta_def)

lemma new_check_index:
  "controller_law env \<Longrightarrow> henv_set_controller env hs (new_check hs n) = Inr c \<Longrightarrow>
     checkNodeHealthOwnerUIDIndex c = [UID hs]"
  by (fastforce simp: controller_law_def checkNodeHealthOwnerUIDIndex_def owner_uids_def new_check_def
      ObjectMeta.defs meta_def)

lemma signal_ensured_indexed:
  assumes "signal_ensured env hcr es y" "es = pre @ SignalCreate d x # post"
  shows "pre = [SignalList (UID hcr) (Inr [])] \<and> d = new_signal env hcr"
  using assms by (auto elim!: signal_ensuredE simp: append_eq_Cons_conv)

lemma check_ensured_indexed:
  assumes "check_ensured env hs n es y" "es = pre @ CheckCreate c x # post"
  shows "pre = [CheckList (UID hs) (Inr [])] \<and> henv_set_controller env hs (new_check hs n) = Inr c"
  using assms by (auto elim!: check_ensuredE simp: append_eq_Cons_conv)

lemma ensured_other_creations:
  "signal_ensured env hcr es y \<Longrightarrow> CheckCreate c x \<notin> set es"
  "check_ensured env hs n es z \<Longrightarrow> SignalCreate d w \<notin> set es"
  by (auto elim: signal_ensuredE check_ensuredE)

definition signal_part :: "'w hcr_env \<Rightarrow> hcr_event list \<Rightarrow> bool" where
  "signal_part env es \<longleftrightarrow> es = [] \<or> (\<exists>hcr y. signal_ensured env hcr es y)"

definition check_part :: "'w hcr_env \<Rightarrow> hcr_event list \<Rightarrow> bool" where
  "check_part env es \<longleftrightarrow> es = [] \<or> (\<exists>hs n z. check_ensured env hs n es z)"

definition status_part :: "hcr_event list \<Rightarrow> bool" where
  "status_part es \<longleftrightarrow> es = [] \<or> (\<exists>h x. es = [SignalStatusUpdate h x])"

inductive creating_parts :: "'w hcr_env \<Rightarrow> hcr_event list \<Rightarrow> bool" for env where
  parts: "signal_part env es0 \<Longrightarrow> check_part env es1 \<Longrightarrow> status_part sts \<Longrightarrow>
     creating_parts env (RequestGet req g # es0 @ es1 @ sts)"

lemma parts_intros:
  "signal_part env []" "check_part env []" "status_part []" "status_part [SignalStatusUpdate h x]"
  "signal_ensured env hcr es y \<Longrightarrow> signal_part env es" "check_ensured env hs n es1 z \<Longrightarrow> check_part env es1"
  by (auto simp: signal_part_def check_part_def status_part_def)

lemma hcr_reconciled_parts: "hcr_reconciled env req es res \<Longrightarrow> creating_parts env es"
  by (erule hcr_reconciledE)
     (use parts [of env] parts [of env _ "[]"] parts [of env "[]" "[]" "[]"] parts [of env _ "[]" "[]"] parts [of env _ _ "[]"] in
       \<open>simp_all add: parts_intros\<close>)

lemma append_Cons_split:
  "xs @ ys = pre @ a # post \<Longrightarrow>
     (\<exists>p. xs = pre @ a # p) \<or> (\<exists>p. pre = xs @ p \<and> ys = p @ a # post)"
  by (auto simp: append_eq_append_conv2 append_eq_Cons_conv)

lemma parts_indexed:
  assumes "controller_law env" "creating_parts env es"
  shows "creations_indexed env es"
  using assms(2)
proof (cases rule: creating_parts.cases)
  case (parts es0 es1 sts req g)
  then have es: "es = [RequestGet req g] @ es0 @ es1 @ sts"
    and p0: "es0 = [] \<or> (\<exists>hcr y. signal_ensured env hcr es0 y)"
    and p1: "es1 = [] \<or> (\<exists>hs n z. check_ensured env hs n es1 z)"
    and pt: "\<And>d c x. SignalCreate d x \<notin> set sts" "\<And>d c x. CheckCreate c x \<notin> set sts"
    by (auto simp: signal_part_def check_part_def status_part_def)
  have no1: "SignalCreate d x \<notin> set es1" for d x using p1 ensured_other_creations(2) by fastforce
  have no0: "CheckCreate d x \<notin> set es0" for d x using p0 ensured_other_creations(1) by fastforce
  show ?thesis unfolding creations_indexed_def
  proof (intro conjI allI impI)
    fix pre d x post
    assume "es = pre @ SignalCreate d x # post"
    then obtain p q where "pre = [RequestGet req g] @ p" "es0 = p @ SignalCreate d x # q"
      using es no1 [of d x] pt(1) [of d x] by (auto dest!: append_Cons_split simp: Cons_eq_append_conv)
    then show "\<exists>u ps. pre = ps @ [SignalList u (Inr [])] \<and> healthSignalOwnerUIDIndex d = [u]"
      using p0 signal_ensured_indexed by (metis append_is_Nil_conv list.distinct(1) new_signal_index)
  next
    fix pre c x post
    assume "es = pre @ CheckCreate c x # post"
    then obtain p q where "pre = [RequestGet req g] @ es0 @ p" "es1 = p @ CheckCreate c x # q"
      using es no0 [of c x] pt(2) [of c x] by (auto dest!: append_Cons_split simp: Cons_eq_append_conv)
    then show "\<exists>u ps. pre = ps @ [CheckList u (Inr [])] \<and> checkNodeHealthOwnerUIDIndex c = [u]"
      using p1 check_ensured_indexed new_check_index [OF assms(1)]
      by (metis append_assoc append_is_Nil_conv list.distinct(1))
  qed
qed

text \<open>C23: a request never gets a second signal or a signal a second check from its own controller: each
  creation follows a listing that found none under the owner's UID, and the created object is
  indexed under that UID, so that the next listing finds it.\<close>

theorem created_objects_are_found_again:
  assumes "controller_law env"
  shows "emits (Reconcile_hcr env req) (\<lambda>res es s'. creations_indexed env es) s"
  by (rule emits_mono [OF Reconcile_hcr_protocol]) (blast intro: parts_indexed hcr_reconciled_parts assms)

section \<open>The watch leads back to the request\<close>

text \<open>
  What the code relies on. \<open>name_of\<close> gives the name of the request with a UID, since UIDs identify objects;
  a created signal comes back with the name and the owners that were sent; and the listing is served
  from the index of owner UIDs, over signals that only this controller makes, so that a listed
  signal has the request of that UID as its one owner of the kind. An answer in a run is one the server gave.
\<close>

definition signal_server :: "(string \<Rightarrow> string) \<Rightarrow> 'w hcr_env \<Rightarrow> bool" where
  "signal_server name_of env \<longleftrightarrow>
     (\<forall>n w hcr w'. henv_get_hcr env n w = (Inr hcr, w') \<longrightarrow> Name hcr = n \<and> name_of (UID hcr) = n) \<and>
     (\<forall>h w hs w'. henv_create_signal env h w = (Inr hs, w') \<longrightarrow> Name hs = Name h \<and> OwnerReferences hs = OwnerReferences h) \<and>
     (\<forall>u w hss w'. henv_list_signals env u w = (Inr hss, w') \<longrightarrow> (\<forall>hs \<in> set hss. \<exists>ref.
        filter (\<lambda>r. ownerKind r = HealthCheckRequestKind) (OwnerReferences hs) = [ref] \<and>
        ownerUID ref = u \<and> ownerName ref = name_of u))"

fun hcr_answer :: "'w hcr_env \<Rightarrow> hcr_event \<Rightarrow> bool" where
  "hcr_answer env (RequestGet n x) = (\<exists>w w'. henv_get_hcr env n w = (x, w'))"
| "hcr_answer env (SignalList u x) = (\<exists>w w'. henv_list_signals env u w = (x, w'))"
| "hcr_answer env (SignalCreate h x) = (\<exists>w w'. henv_create_signal env h w = (x, w'))"
| "hcr_answer env _ = True"

lemma ensureHealthSignal_answers:
  "emits (ensureHealthSignal env hcr) (\<lambda>res es s'. list_all (hcr_answer env) es) s"
  unfolding ensureHealthSignal_def hcr_call_defs by (intro emits_intro) auto

lemma ensureCheckNodeHealth_answers:
  "emits (ensureCheckNodeHealth env hs n) (\<lambda>res es s'. list_all (hcr_answer env) es) s"
  unfolding ensureCheckNodeHealth_def hcr_call_defs by (intro emits_intro) auto

lemma Reconcile_hcr_answers:
  "emits (Reconcile_hcr env req) (\<lambda>res es s'. list_all (hcr_answer env) es) s"
  unfolding Reconcile_hcr_def syncHealthSignalStatus_def request_get_def signal_status_update_def
  by (intro emits_bind [of "perform _ _"] emits_perform emits_case_sum emits_return emits_if
      emits_bind_via [OF ensureHealthSignal_answers] emits_bind_via [OF ensureCheckNodeHealth_answers])
     (auto intro!: emits_intro)

text \<open>
  \<open>checks_wake env req es\<close>: for every check \<open>d\<close> the run has sent, the run had found or created a signal
  \<open>hs\<close> such that every later event of a check with the owners of \<open>d\<close>, in any state of the world in
  which the signal is served under its name with the same owners, wakes exactly the request of the run.
\<close>

definition checks_wake :: "'w hcr_env \<Rightarrow> string \<Rightarrow> hcr_event list \<Rightarrow> bool" where
  "checks_wake env req es \<longleftrightarrow> (\<forall>d x. CheckCreate d x \<in> set es \<longrightarrow>
     (\<exists>hs. run_signal es hs \<and>
       (\<forall>c hs' t. OwnerReferences c = OwnerReferences d \<longrightarrow>
          fst (henv_get_signal env (Name hs) (world t)) = Inr hs' \<longrightarrow> OwnerReferences hs' = OwnerReferences hs \<longrightarrow>
          fst (run_state (mapCheckNodeHealthToHealthCheckRequest env c) t) = [req])))"

text \<open>The first owner of a kind is the one owner of that kind.\<close>

lemma find_of_filter: "filter p xs = [x] \<Longrightarrow> find p xs = Some x"
  by (induction xs) (auto split: if_splits)

lemma signal_ensured_owner:
  assumes "signal_server name_of env" "signal_ensured env hcr es (Inr hs)" "list_all (hcr_answer env) es"
    "name_of (UID hcr) = Name hcr"
  shows "\<exists>ref. find (\<lambda>r. ownerKind r = HealthCheckRequestKind) (OwnerReferences hs) = Some ref \<and> ownerName ref = Name hcr"
  using assms(2)
proof (cases rule: signal_ensured.cases)
  case (signal_found rest)
  then obtain w w' where "henv_list_signals env (UID hcr) w = (Inr (hs # rest), w')" using assms(3) by auto
  then obtain ref where "filter (\<lambda>r. ownerKind r = HealthCheckRequestKind) (OwnerReferences hs) = [ref]"
      "ownerName ref = name_of (UID hcr)"
    using assms(1) unfolding signal_server_def by (meson list.set_intros(1))
  then show ?thesis using find_of_filter assms(4) by metis
next
  case signal_created
  then obtain w w' where "henv_create_signal env (new_signal env hcr) w = (Inr hs, w')" using assms(3) by auto
  then have "OwnerReferences hs = OwnerReferences (new_signal env hcr)"
    using assms(1) unfolding signal_server_def by blast
  then show ?thesis by (simp add: new_signal_def ObjectMeta.defs meta_def)
qed

lemma owned_check_wakes:
  assumes "controller_law env" "henv_set_controller env hs (new_check hs n) = Inr d"
    "OwnerReferences c = OwnerReferences d"
    "fst (henv_get_signal env (Name hs) (world t)) = Inr hs'" "OwnerReferences hs' = OwnerReferences hs"
    "find (\<lambda>r. ownerKind r = HealthCheckRequestKind) (OwnerReferences hs) = Some ref"
  shows "fst (run_state (mapCheckNodeHealthToHealthCheckRequest env c) t) = [ownerName ref]"
proof -
  obtain own where own: "OwnerReferences c = [own]" "ownerKind own = HealthSignalKind" "ownerName own = Name hs"
    using assms(1-3) by (fastforce simp: controller_law_def new_check_def ObjectMeta.defs meta_def)
  then show ?thesis
    unfolding mapCheckNodeHealthToHealthCheckRequest_def hcr_call_defs
    using assms(4-6) by (cases "henv_get_signal env (Name hs) (world t)") simp
qed

lemma created_check_parts:
  assumes "hcr_reconciled env req es res" "CheckCreate d x \<in> set es"
  shows "\<exists>hcr es0 hs n. RequestGet req (Inr hcr) \<in> set es \<and> set es0 \<subseteq> set es \<and>
     signal_ensured env hcr es0 (Inr hs) \<and> henv_set_controller env hs (new_check hs n) = Inr d"
  using assms
  by (cases rule: hcr_reconciled.cases)
     (fastforce elim!: check_ensuredE dest: ensured_other_creations(1))+

lemma hcr_reconciled_wakes:
  assumes "controller_law env" "signal_server name_of env" "hcr_reconciled env req es res" "list_all (hcr_answer env) es"
  shows "checks_wake env req es"
  unfolding checks_wake_def
proof (intro allI impI)
  fix d x
  assume "CheckCreate d x \<in> set es"
  then obtain hcr es0 hs n where p: "RequestGet req (Inr hcr) \<in> set es" "set es0 \<subseteq> set es"
      "signal_ensured env hcr es0 (Inr hs)" "henv_set_controller env hs (new_check hs n) = Inr d"
    using created_check_parts [OF assms(3)] by blast
  obtain w w' where "henv_get_hcr env req w = (Inr hcr, w')"
    using p(1) assms(4) by (fastforce simp: list_all_iff)
  then have named: "Name hcr = req" "name_of (UID hcr) = Name hcr"
    using assms(2) unfolding signal_server_def by blast+
  have "list_all (hcr_answer env) es0" using p(2) assms(4) by (auto simp: list_all_iff)
  then obtain ref where ref: "find (\<lambda>r. ownerKind r = HealthCheckRequestKind) (OwnerReferences hs) = Some ref"
      "ownerName ref = req"
    using signal_ensured_owner [OF assms(2) p(3) _ named(2)] named(1) by auto
  have "run_signal es hs"
    using signal_ensured_run [OF p(3), of "[]" "[]"] p(2) by (auto simp: run_signal_def)
  then show "\<exists>hs. run_signal es hs \<and> (\<forall>c hs' t. OwnerReferences c = OwnerReferences d \<longrightarrow>
      fst (henv_get_signal env (Name hs) (world t)) = Inr hs' \<longrightarrow> OwnerReferences hs' = OwnerReferences hs \<longrightarrow>
      fst (run_state (mapCheckNodeHealthToHealthCheckRequest env c) t) = [req])"
    using owned_check_wakes [OF assms(1) p(4)] ref by (intro exI [of _ hs]) metis
qed

text \<open>C24: the watch leads back to the request: every event of a check that a reconciliation of a request
  has created, for the signal it listed or the one the server returned, wakes exactly that request,
  as long as check and signal keep their owners.\<close>

theorem check_events_wake_their_request:
  assumes "controller_law env" "signal_server name_of env"
  shows "emits (Reconcile_hcr env req) (\<lambda>res es s'. checks_wake env req es) s"
  by (rule emits_mono [OF emits_conj [OF Reconcile_hcr_protocol Reconcile_hcr_answers]])
     (blast intro: hcr_reconciled_wakes assms)

section \<open>One concrete server\<close>

text \<open>A server that knows one request and lists nothing; what is created comes back with a UID.\<close>

definition demo_hcr :: HealthCheckRequest where
  "demo_hcr = ObjectMeta.extend ((meta ''Req'')\<lparr>UID := ''u1''\<rparr>) \<lparr>hcrTargetName = ''n''\<rparr>"

definition signal_ref :: "HealthSignal \<Rightarrow> OwnerReference" where
  "signal_ref hs = \<lparr>ownerAPIVersion = ''v1'', ownerKind = HealthSignalKind, ownerName = Name hs,
     ownerUID = UID hs, ownerController = Some True, ownerBlockDeletion = Some True\<rparr>"

definition still_hcr_env :: "HealthSignal \<Rightarrow> unit hcr_env" where
  "still_hcr_env hs = \<lparr>henv_get_hcr = \<lambda>n w. (Inr demo_hcr, w), henv_get_signal = \<lambda>n w. (Inr hs, w),
     henv_list_signals = \<lambda>u w. (Inr [], w), henv_list_checks = \<lambda>u w. (Inr [], w),
     henv_create_signal = \<lambda>h w. (Inr (h\<lparr>UID := ''u2''\<rparr>), w), henv_create_check = \<lambda>c w. (Inr c, w),
     henv_update_signal = \<lambda>h w. (Inr h, w), henv_group_version = ''v1'', henv_node_health = ''NodeHealth'',
     henv_set_controller = \<lambda>h c. Inr (c\<lparr>OwnerReferences := OwnerReferences c @ [signal_ref h]\<rparr>)\<rparr>"

lemma still_hcr_law: "controller_law (still_hcr_env hs)"
  by (auto simp: controller_law_def still_hcr_env_def signal_ref_def)

definition demo_signal :: HealthSignal where
  "demo_signal = ObjectMeta.extend ((meta ''req-clusterhealthmonitor'')\<lparr>OwnerReferences :=
        [\<lparr>ownerAPIVersion = ''v1'', ownerKind = HealthCheckRequestKind, ownerName = ''Req'',
          ownerUID = ''u1'', ownerController = None, ownerBlockDeletion = Some False\<rparr>]\<rparr>)
     \<lparr>hsType = ''NodeHealth'', hsTargetKind = ''Node'', hsTargetName = ''n'', hsConditions = []\<rparr>"

theorem created_objects_are_found_again_witness:
  "creations_indexed (still_hcr_env demo_signal)
     (log (snd (run_state (Reconcile_hcr (still_hcr_env demo_signal) ''Req'') \<lparr>world = (), log = []\<rparr>))) \<and>
   length (log (snd (run_state (Reconcile_hcr (still_hcr_env demo_signal) ''Req'') \<lparr>world = (), log = []\<rparr>))) = 5"
proof (rule conjI)
  show "creations_indexed (still_hcr_env demo_signal)
     (log (snd (run_state (Reconcile_hcr (still_hcr_env demo_signal) ''Req'') \<lparr>world = (), log = []\<rparr>)))"
    using created_objects_are_found_again [OF still_hcr_law, of demo_signal "''Req''" "\<lparr>world = (), log = []\<rparr>"]
    by (auto simp: emits_def)
qed (simp add: Reconcile_hcr_def ensureHealthSignal_def ensureCheckNodeHealth_def hcr_call_defs
       still_hcr_env_def demo_hcr_def new_check_def ObjectMeta.defs meta_def empty_status_def)

lemma demo_lower: "to_lower (''Req-'' @ HealthSignalSource) = ''req-clusterhealthmonitor''"
  by code_simp

text \<open>The server of the request \<open>Req\<close>: the signal gets the UID \<open>u2\<close>, is served with it, and the check
  created for it is owned by it.\<close>

definition stored_signal :: HealthSignal where
  "stored_signal = demo_signal\<lparr>UID := ''u2''\<rparr>"

definition request_env :: "unit hcr_env" where
  "request_env = (still_hcr_env stored_signal)\<lparr>henv_get_hcr :=
     \<lambda>n w. (if n = ''Req'' then Inr demo_hcr else Inl (ApiError NotFound ''''), w)\<rparr>"

definition owned_check :: CheckNodeHealth where
  "owned_check = (new_check stored_signal ''n'')\<lparr>OwnerReferences := [signal_ref stored_signal]\<rparr>"

lemma request_env_server: "signal_server (\<lambda>_. ''Req'') request_env"
  by (auto simp: signal_server_def request_env_def still_hcr_env_def demo_hcr_def ObjectMeta.defs meta_def)

lemma request_env_law: "controller_law request_env"
  by (auto simp: controller_law_def request_env_def still_hcr_env_def signal_ref_def)

lemma request_signal: "new_signal request_env demo_hcr = demo_signal"
  using demo_lower
  by (simp add: new_signal_def demo_signal_def demo_hcr_def request_env_def still_hcr_env_def ObjectMeta.defs meta_def)

lemma request_env_calls:
  "henv_get_hcr request_env ''Req'' w = (Inr demo_hcr, w)" "henv_list_signals request_env u w = (Inr [], w)"
  "henv_list_checks request_env u w = (Inr [], w)" "henv_create_signal request_env h w = (Inr (h\<lparr>UID := ''u2''\<rparr>), w)"
  "henv_create_check request_env c w = (Inr c, w)"
  "henv_set_controller request_env h c = Inr (c\<lparr>OwnerReferences := OwnerReferences c @ [signal_ref h]\<rparr>)"
  by (simp_all add: request_env_def still_hcr_env_def)

abbreviation request_log :: "hcr_event list" where
  "request_log \<equiv> log (snd (run_state (Reconcile_hcr request_env ''Req'') \<lparr>world = (), log = []\<rparr>))"

lemma request_log_eq:
  "request_log = [RequestGet ''Req'' (Inr demo_hcr), SignalList ''u1'' (Inr []), SignalCreate demo_signal (Inr stored_signal),
     CheckList ''u2'' (Inr []), CheckCreate owned_check (Inr owned_check)]"
proof -
  have "DeletionTimestamp demo_hcr = None" "UID demo_hcr = ''u1''" "hcrTargetName demo_hcr = ''n''"
    "UID stored_signal = ''u2''" "OwnerReferences (new_check stored_signal ''n'') = []"
    "FinishedAt (cnhStatus (new_check stored_signal ''n'')) = None"
    by (simp_all add: demo_hcr_def stored_signal_def demo_signal_def new_check_def empty_status_def ObjectMeta.defs meta_def)
  then show ?thesis
    by (simp add: Reconcile_hcr_def ensureHealthSignal_def ensureCheckNodeHealth_def hcr_call_defs request_signal
        request_env_calls stored_signal_def [symmetric] owned_check_def)
qed

theorem check_events_wake_their_request_witness:
  "CheckCreate owned_check (Inr owned_check) \<in> set request_log \<and>
   fst (run_state (mapCheckNodeHealthToHealthCheckRequest request_env owned_check) \<lparr>world = (), log = []\<rparr>) = [''Req'']"
proof
  show c: "CheckCreate owned_check (Inr owned_check) \<in> set request_log" by (simp add: request_log_eq)
  have "checks_wake request_env ''Req'' request_log"
    using check_events_wake_their_request [OF request_env_law request_env_server, of "''Req''" "\<lparr>world = (), log = []\<rparr>"]
    by (auto simp: emits_def)
  then obtain hs where "run_signal request_log hs" and wakes:
      "\<And>hs' t. fst (henv_get_signal request_env (Name hs) (world t)) = Inr hs' \<Longrightarrow> OwnerReferences hs' = OwnerReferences hs \<Longrightarrow>
         fst (run_state (mapCheckNodeHealthToHealthCheckRequest request_env owned_check) t) = [''Req'']"
    using c unfolding checks_wake_def by blast
  then have "hs = stored_signal" by (auto simp: run_signal_def request_log_eq)
  then show "fst (run_state (mapCheckNodeHealthToHealthCheckRequest request_env owned_check) \<lparr>world = (), log = []\<rparr>) = [''Req'']"
    by (intro wakes [of _ stored_signal]) (simp_all add: request_env_def still_hcr_env_def)
qed

end
