(* ===== verification/ControllerProgram.thy ===== *)
theory ControllerProgram
  imports CrdTypes NodeSafety HcrController
begin

text \<open>
  \<open>cmd/controller/checknodehealth/main.go\<close>: the program that runs the reconcilers. Its flags, the
  options of the manager with the rules of the object cache, the reconcilers it sets up and its exits.
  The steps that call into libraries may fail: \<open>fails\<close> says which.
\<close>

section \<open>Flags and options\<close>

record controller_flags =
  metricsAddr :: string
  probeAddr :: string
  enableLeaderElection :: bool
  enableNodeRebootCheck :: bool
  enableHealthCheckRequest :: bool
  enableNodeCondition :: bool

definition default_flags :: controller_flags where
  "default_flags = \<lparr>metricsAddr = '':8080'', probeAddr = '':8081'', enableLeaderElection = False,
     enableNodeRebootCheck = False, enableHealthCheckRequest = False, enableNodeCondition = False\<rparr>"

definition checkerPodNamespace :: string where "checkerPodNamespace = ''kube-system''"

text \<open>A cache rule restricts a kind to namespaces and to objects that have a label (\<open>selection.Exists\<close>);
  \<open>None\<close> is no restriction. A kind without a rule is cached whole.\<close>

datatype kind = PodKind | NodeKind | DeploymentKind

record cache_rule =
  ruleNamespaces :: "string list option"
  ruleLabel :: "string option"

record manager_options =
  moMetricsAddr :: string
  moProbeAddr :: string
  moLeaderElection :: bool
  moLeaderElectionID :: string
  moSyncPeriod :: duration
  moByObject :: "kind \<rightharpoonup> cache_rule"

definition cacheByObject :: "controller_flags \<Rightarrow> kind \<rightharpoonup> cache_rule" where
  "cacheByObject fl =
     (let pods = [PodKind \<mapsto> \<lparr>ruleNamespaces = Some [checkerPodNamespace], ruleLabel = Some CheckNodeHealthLabel\<rparr>]
      in if enableNodeRebootCheck fl
         then pods(NodeKind \<mapsto> \<lparr>ruleNamespaces = None, ruleLabel = None\<rparr>,
                   DeploymentKind \<mapsto> \<lparr>ruleNamespaces = Some [''kube-system''], ruleLabel = None\<rparr>)
         else pods)"

text \<open>The transform of cached nodes: of a node, whatever else it holds, the metadata, the boot ID and the
  conditions stay; an object that is no node is kept.\<close>

definition node_transform :: "'x Node_scheme + 'o \<Rightarrow> Node + 'o" where
  "node_transform obj = (case obj of Inl node \<Rightarrow> Inl (Node.truncate node) | Inr other \<Rightarrow> Inr other)"

definition manager_options_of :: "controller_flags \<Rightarrow> manager_options" where
  "manager_options_of fl =
     \<lparr>moMetricsAddr = metricsAddr fl, moProbeAddr = probeAddr fl, moLeaderElection = enableLeaderElection fl,
      moLeaderElectionID = ''checknodehealth.clusterhealthmonitor.azure.com'', moSyncPeriod = SyncPeriod,
      moByObject = cacheByObject fl\<rparr>"

section \<open>The program\<close>

text \<open>A reconciler with its fields; the breaker of the first may be nil.\<close>

datatype reconciler =
    RunsCheckNodeHealth CheckNodeHealthReconciler "circuit_breaker option"
  | RunsHealthCheckRequest
  | RunsNodeReboot

datatype setup_step = ApplyLogging | LoadKubeconfig | BuildSelector | CreateManager | SetupCheckNodeHealth
  | SetupHealthCheckRequest | SetupNodeReboot | AddHealthz | AddReadyz | RunManager

datatype controller_run = ExitsOne string | Started manager_options "reconciler list"

definition new_breaker :: "controller_flags \<Rightarrow> circuit_breaker option" where
  "new_breaker fl =
     (if enableNodeCondition fl
      then Some (NewNodeConditionCircuitBreaker DefaultCircuitBreakerThreshold DefaultCircuitBreakerWindow
             DefaultCircuitBreakerCooldown)
      else None)"

definition new_reconciler :: "controller_flags \<Rightarrow> string \<Rightarrow> CheckNodeHealthReconciler" where
  "new_reconciler fl checkerPodImage =
     \<lparr>CheckerPodLabel = ''checknodehealth'', CheckerPodImage = checkerPodImage,
      CheckerPodNamespace = checkerPodNamespace, EnableNodeCondition = enableNodeCondition fl\<rparr>"

text \<open>The end of \<open>main\<close>: the health and readiness checks, and the manager until it stops.\<close>

definition run_manager :: "(setup_step \<Rightarrow> bool) \<Rightarrow> controller_run \<Rightarrow> controller_run" where
  "run_manager fails started_run =
     (if fails AddHealthz then ExitsOne ''Unable to set up health check''
      else if fails AddReadyz then ExitsOne ''Unable to set up ready check''
      else if fails RunManager then ExitsOne ''Problem running manager''
      else started_run)"

definition controller_main :: "controller_flags \<Rightarrow> string \<Rightarrow> (setup_step \<Rightarrow> bool) \<Rightarrow> controller_run" where
  "controller_main fl checkerPodImage fails =
     (if fails ApplyLogging then ExitsOne ''Failed to validate and apply logging configuration''
      else if checkerPodImage = '''' then ExitsOne ''CHECKER_POD_IMAGE environment variable is not set''
      else if fails LoadKubeconfig then ExitsOne ''Unable to get kubeconfig''
      else if fails BuildSelector then ExitsOne ''Unable to build pod label selector''
      else if fails CreateManager then ExitsOne ''Unable to create manager''
      else if fails SetupCheckNodeHealth then ExitsOne ''Unable to create controller''
      else if enableHealthCheckRequest fl \<and> fails SetupHealthCheckRequest then ExitsOne ''Unable to create controller''
      else if enableNodeRebootCheck fl \<and> fails SetupNodeReboot then ExitsOne ''Unable to create controller''
      else run_manager fails (Started (manager_options_of fl)
        ([RunsCheckNodeHealth (new_reconciler fl checkerPodImage) (new_breaker fl)] @
         (if enableHealthCheckRequest fl then [RunsHealthCheckRequest] else []) @
         (if enableNodeRebootCheck fl then [RunsNodeReboot] else []))))"

text \<open>The three \<open>SetupWithManager\<close>: for an event of a watched object, the names of the objects to reconcile. \<open>For\<close>
  names the object itself; \<open>Owns\<close> names its controller, which the library finds (\<open>owner_requests\<close>).\<close>

datatype object_event =
    CnhChanged CheckNodeHealth
  | PodChanged Pod
  | NodeChanged node_watch Node
  | RequestChanged HealthCheckRequest

definition podPredicate :: "CheckNodeHealthReconciler \<Rightarrow> Pod \<Rightarrow> bool" where
  "podPredicate r pod \<longleftrightarrow> Namespace pod = CheckerPodNamespace r"

fun SetupWithManager_cnh :: "(Pod \<Rightarrow> string list) \<Rightarrow> CheckNodeHealthReconciler \<Rightarrow> object_event \<Rightarrow> string list" where
  "SetupWithManager_cnh owner_requests r (CnhChanged c) = [Name c]"
| "SetupWithManager_cnh owner_requests r (PodChanged p) = (if podPredicate r p then owner_requests p else [])"
| "SetupWithManager_cnh owner_requests r _ = []"

fun SetupWithManager_node :: "object_event \<Rightarrow> string list" where
  "SetupWithManager_node (NodeChanged w n) = (if nodeRebootPredicate w then [Name n] else [])"
| "SetupWithManager_node _ = []"

fun hcr_requests :: "'w hcr_env \<Rightarrow> object_event \<Rightarrow> ('w, string list) hcr_prog" where
  "hcr_requests env (RequestChanged h) = return [Name h]"
| "hcr_requests env (CnhChanged c) = mapCheckNodeHealthToHealthCheckRequest env c"
| "hcr_requests env _ = return []"

text \<open>The third registers its two indexes first; \<open>IndexField\<close> is the library's.\<close>

definition SetupWithManager_hcr ::
  "(string \<Rightarrow> go_error option) \<Rightarrow> 'w hcr_env \<Rightarrow> go_error + (object_event \<Rightarrow> ('w, string list) hcr_prog)" where
  "SetupWithManager_hcr IndexField env =
     (case IndexField ''.metadata.ownerReferences.healthSignal.uid'' of
        Some err \<Rightarrow> Inl err
      | None \<Rightarrow>
          (case IndexField ''.metadata.ownerReferences.checkNodeHealth.uid'' of
             Some err \<Rightarrow> Inl err
           | None \<Rightarrow> Inr (hcr_requests env)))"

section \<open>What the reconcilers see\<close>

text \<open>Whether the cache holds an object of a kind.\<close>

definition cached :: "manager_options \<Rightarrow> kind \<Rightarrow> 'x ObjectMeta_scheme \<Rightarrow> bool" where
  "cached opts k obj =
     (case moByObject opts k of
        None \<Rightarrow> True
      | Some rule \<Rightarrow>
          (case ruleNamespaces rule of None \<Rightarrow> True | Some nss \<Rightarrow> Namespace obj \<in> set nss) \<and>
          (case ruleLabel rule of None \<Rightarrow> True | Some l \<Rightarrow> Labels obj l \<noteq> None))"

text \<open>\<open>SetControllerReference\<close> sets the owner of an object and nothing else the cache looks at.\<close>

definition owner_law :: "'w cnh_env \<Rightarrow> bool" where
  "owner_law env \<longleftrightarrow> (\<forall>c p q. env_set_controller env c p = Inr q \<longrightarrow>
     Namespace q = Namespace p \<and> Labels q = Labels p \<and> podSpec q = podSpec p)"

text \<open>The library finds the controller that \<open>SetControllerReference\<close> set.\<close>

definition wake_law :: "'w cnh_env \<Rightarrow> (Pod \<Rightarrow> string list) \<Rightarrow> bool" where
  "wake_law env owner_requests \<longleftrightarrow> (\<forall>c p q p'. env_set_controller env c p = Inr q \<longrightarrow>
     OwnerReferences p' = OwnerReferences q \<longrightarrow> owner_requests p' = [Name c])"

text \<open>A state of a pod at any later time: only its status and what the sources do not look at has changed.\<close>

definition same_pod :: "Pod \<Rightarrow> Pod \<Rightarrow> bool" where
  "same_pod p p' \<longleftrightarrow> Namespace p' = Namespace p \<and> Labels p' = Labels p \<and> OwnerReferences p' = OwnerReferences p"

text \<open>\<open>watched opts owner_requests r c pod\<close>: in every state the pod is in the cache, and its events wake \<open>c\<close>.\<close>

definition watched :: "manager_options \<Rightarrow> (Pod \<Rightarrow> string list) \<Rightarrow> CheckNodeHealthReconciler \<Rightarrow> CheckNodeHealth \<Rightarrow> Pod \<Rightarrow> bool" where
  "watched opts owner_requests r c pod \<longleftrightarrow> (\<forall>p'. same_pod pod p' \<longrightarrow>
     cached opts PodKind p' \<and> SetupWithManager_cnh owner_requests r (PodChanged p') = [Name c])"

lemma started_parts:
  assumes "controller_main fl img fails = Started opts rs"
  shows "img \<noteq> ''''" "opts = manager_options_of fl"
    "RunsCheckNodeHealth r cb \<in> set rs \<Longrightarrow> r = new_reconciler fl img \<and> cb = new_breaker fl"
    "RunsNodeReboot \<in> set rs \<longleftrightarrow> enableNodeRebootCheck fl"
  using assms by (auto simp: controller_main_def run_manager_def split: if_splits)

lemma built_pod_seen:
  assumes "owner_law env" "wake_law env owner_requests" "buildHealthCheckPod env (new_reconciler fl img) c = Inr pod"
  shows "watched (manager_options_of fl) owner_requests (new_reconciler fl img) c pod \<and>
    map ctImage (Containers (podSpec pod)) = [img]"
proof -
  obtain p where p: "env_set_controller env c p = Inr pod" "Namespace p = checkerPodNamespace"
    "Labels p = [CheckNodeHealthLabel \<mapsto> Name c]" "map ctImage (Containers (podSpec p)) = [img]"
    using assms(3) by (auto simp: buildHealthCheckPod_def Let_def new_reconciler_def ObjectMeta.defs)
  then have "Namespace pod = checkerPodNamespace" "Labels pod = [CheckNodeHealthLabel \<mapsto> Name c]"
    "map ctImage (Containers (podSpec pod)) = [img]"
    using assms(1) by (auto simp: owner_law_def)
  moreover have "owner_requests p' = [Name c]" if "same_pod pod p'" for p'
    using assms(2) p(1) that by (auto simp: wake_law_def same_pod_def)
  ultimately show ?thesis
    by (auto simp: watched_def same_pod_def cached_def manager_options_of_def cacheByObject_def podPredicate_def
        new_reconciler_def Let_def)
qed

lemma created_pods_seen:
  assumes "owner_law env" "wake_law env owner_requests" "created_when_absent env (new_reconciler fl img) es"
  shows "list_all (\<lambda>pod. (\<exists>c. read_cnh es c \<and> watched (manager_options_of fl) owner_requests (new_reconciler fl img) c pod) \<and>
    map ctImage (Containers (podSpec pod)) = [img]) (pod_creations es)"
proof (cases "pod_creations es = []")
  case False
  then obtain c pod pre post where p: "read_cnh pre c" "buildHealthCheckPod env (new_reconciler fl img) c = Inr pod"
      "pod_creations es = [pod]" "es = pre @ post"
    using assms(3) unfolding created_when_absent_def by blast
  have "read_cnh es c" using p(1,4) by (auto simp: read_cnh_def)
  then show ?thesis using built_pod_seen [OF assms(1,2) p(2)] p(3) by auto
qed simp

text \<open>C25: the parts of the controller program fit together: every pod its CheckNodeHealth reconciler creates
  runs the configured image for a resource the reconciler has read, and whatever state that pod gets into, the
  program's cache holds it and its events wake the reconciler for exactly that resource; the
  circuit breaker is there exactly when the reconciler uses it; the node reconciler runs exactly when
  asked for, and then the cache holds the CoreDNS Deployment.\<close>

theorem controller_parts_fit:
  assumes "controller_main fl img fails = Started opts rs" and "owner_law env" and "wake_law env owner_requests"
    and "RunsCheckNodeHealth r cb \<in> set rs"
  shows "emits (Reconcile_cnh env r req) (\<lambda>res es s'. list_all (\<lambda>pod. (\<exists>c. read_cnh es c \<and> watched opts owner_requests r c pod) \<and>
       map ctImage (Containers (podSpec pod)) = [img]) (pod_creations es)) s \<and>
    (cb \<noteq> None \<longleftrightarrow> EnableNodeCondition r) \<and>
    (RunsNodeReboot \<in> set rs \<longleftrightarrow> enableNodeRebootCheck fl) \<and>
    cached opts DeploymentKind ((meta coreDNSDeploymentName)\<lparr>Namespace := coreDNSNamespace\<rparr>)"
proof -
  note parts = started_parts [OF assms(1)]
  have r: "r = new_reconciler fl img" "cb = new_breaker fl" using parts(3) assms(4) by auto
  have "emits (Reconcile_cnh env r req) (\<lambda>res es s'. list_all (\<lambda>pod. (\<exists>c. read_cnh es c \<and> watched opts owner_requests r c pod) \<and>
       map ctImage (Containers (podSpec pod)) = [img]) (pod_creations es)) s"
    unfolding r(1) parts(2)
    by (rule emits_mono [OF Reconcile_protocol]) (rule created_pods_seen [OF assms(2,3) reconciled_created_when_absent])
  moreover have "cb \<noteq> None \<longleftrightarrow> EnableNodeCondition r"
    using r by (simp add: new_breaker_def new_reconciler_def)
  moreover have "cached opts DeploymentKind ((meta coreDNSDeploymentName)\<lparr>Namespace := coreDNSNamespace\<rparr>)"
    using parts(2) by (simp add: cached_def manager_options_of_def cacheByObject_def coreDNSNamespace_def Let_def)
  ultimately show ?thesis using parts(4) by blast
qed

text \<open>The transform does not take anything away that a node reconciler reads.\<close>

lemma node_transform_keeps:
  "node_transform (Inl n) = Inl m \<Longrightarrow> Name m = Name n \<and> Annotations m = Annotations n \<and> Labels m = Labels n \<and>
     CreationTimestamp m = CreationTimestamp n \<and> BootID m = BootID n \<and> NodeConditions m = NodeConditions n"
  by (auto simp: node_transform_def Node.defs ObjectMeta.defs)

definition demo_flags :: controller_flags where
  "demo_flags = default_flags\<lparr>enableNodeCondition := True, enableNodeRebootCheck := True\<rparr>"

lemma demo_started:
  "controller_main demo_flags ''image'' (\<lambda>_. False) = Started (manager_options_of demo_flags)
     [RunsCheckNodeHealth (new_reconciler demo_flags ''image'') (new_breaker demo_flags), RunsNodeReboot]"
  by (simp add: controller_main_def run_manager_def demo_flags_def default_flags_def)

text \<open>The still server with a controller reference that names its owner.\<close>

definition owning_env :: "unit cnh_env" where
  "owning_env = (still_env demo_checked [] 2)\<lparr>env_set_controller := \<lambda>c p. Inr (p\<lparr>OwnerReferences :=
     [\<lparr>ownerAPIVersion = ''v1alpha1'', ownerKind = ''CheckNodeHealth'', ownerName = Name c, ownerUID = UID c,
       ownerController = Some True, ownerBlockDeletion = Some True\<rparr>]\<rparr>)\<rparr>"

definition controller_of :: "Pod \<Rightarrow> string list" where
  "controller_of p = map ownerName (filter (\<lambda>o'. ownerController o' = Some True) (OwnerReferences p))"

lemma owning_laws: "owner_law owning_env" "wake_law owning_env controller_of"
  by (auto simp: owner_law_def wake_law_def owning_env_def controller_of_def)

abbreviation creation_log :: "cnh_event list" where
  "creation_log \<equiv> log (snd (run_state (Reconcile_cnh owning_env (new_reconciler demo_flags ''image'') ''a'')
     (still_start demo_breaker)))"

lemma demo_creates: "length (pod_creations creation_log) = 1"
  by (simp add: Reconcile_cnh_def call_defs isExpired_def expired_at_def ensure_finalizer_def isCompleted_def
      run_check_def ensureHealthCheckPod_def buildHealthCheckPod_def demo_fields owning_env_def still_env_def still_start_def
      time_sub_def max_duration_def min_duration_def CRTTL_def time_units Let_def)

theorem controller_parts_fit_witness:
  "length (pod_creations creation_log) = 1 \<and>
   list_all (\<lambda>pod. (\<exists>c. read_cnh creation_log c \<and> watched (manager_options_of demo_flags) controller_of (new_reconciler demo_flags ''image'') c pod) \<and>
     map ctImage (Containers (podSpec pod)) = [''image'']) (pod_creations creation_log)"
proof -
  let ?P = "\<lambda>es. list_all (\<lambda>pod. (\<exists>c. read_cnh es c \<and> watched (manager_options_of demo_flags) controller_of (new_reconciler demo_flags ''image'') c pod) \<and>
     map ctImage (Containers (podSpec pod)) = [''image'']) (pod_creations es)"
  have "emits (Reconcile_cnh owning_env (new_reconciler demo_flags ''image'') ''a'') (\<lambda>res es s'. ?P es) (still_start demo_breaker)"
    using controller_parts_fit [OF demo_started owning_laws, where cb = "new_breaker demo_flags"] by simp
  then have "?P creation_log" by (simp add: emits_def still_start_def)
  then show ?thesis using demo_creates by blast
qed

end
