(* ===== verification/DnsCheck.thy ===== *)
theory DnsCheck
  imports CheckerCore
begin

text \<open>
  \<open>pkg/checker/dnscheck\<close>: the DNS checker with its three targets. The API client, the lookups of
  \<open>net.Resolver\<close> (by the address of the server, the domain and the timeout) and the parser of \<open>/etc/resolv.conf\<close> are the fields of \<open>dns_env\<close>; the addresses a lookup returns are
  dropped by every caller, so that a lookup answers \<open>None\<close> or its error.
\<close>

section \<open>Constants and state\<close>

definition dnsNamespace :: string where "dnsNamespace = ''kube-system''"
definition coreDNSServiceName :: string where "coreDNSServiceName = ''kube-dns''"
definition resolvConfPath :: string where "resolvConfPath = ''/etc/resolv.conf''"
definition localDNSIP :: string where "localDNSIP = ''169.254.10.11''"

definition ErrCodeServiceNotReady :: string where "ErrCodeServiceNotReady = ''ServiceNotReady''"
definition ErrCodePodsNotReady :: string where "ErrCodePodsNotReady = ''PodsNotReady''"
definition ErrCodeServiceTimeout :: string where "ErrCodeServiceTimeout = ''ServiceTimeout''"
definition ErrCodePodTimeout :: string where "ErrCodePodTimeout = ''PodTimeout''"
definition ErrCodeServiceError :: string where "ErrCodeServiceError = ''ServiceError''"
definition ErrCodePodError :: string where "ErrCodePodError = ''PodError''"
definition ErrCodeLocalDNSTimeout :: string where "ErrCodeLocalDNSTimeout = ''LocalDNSTimeout''"
definition ErrCodeLocalDNSError :: string where "ErrCodeLocalDNSError = ''LocalDNSError''"

lemmas dns_codes = ErrCodeServiceNotReady_def ErrCodePodsNotReady_def ErrCodeServiceTimeout_def
  ErrCodePodTimeout_def ErrCodeServiceError_def ErrCodePodError_def ErrCodeLocalDNSTimeout_def
  ErrCodeLocalDNSError_def

text \<open>Of \<open>discoveryv1.Endpoint\<close>: its addresses, readiness and the pod it refers to.\<close>

record ObjectReference =
  targetNamespace :: string
  targetName :: string

record Endpoint =
  Addresses :: "string list"
  Ready :: "bool option"
  TargetRef :: "ObjectReference option"

record EndpointSlice =
  Endpoints :: "Endpoint list"

record DNSChecker =
  dnsName :: string
  dnsConfig :: DNSConfig

record 'w dns_env =
  dns_lookup :: "string \<Rightarrow> string \<Rightarrow> duration \<Rightarrow> 'w \<Rightarrow> go_error option \<times> 'w"
  dns_get_service :: "string \<Rightarrow> string \<Rightarrow> 'w \<Rightarrow> (go_error + string) \<times> 'w"
  dns_list_slices :: "string \<Rightarrow> string \<Rightarrow> 'w \<Rightarrow> (go_error + EndpointSlice list) \<times> 'w"
  dns_resolv_conf :: "string \<Rightarrow> go_error + string list"

datatype dns_event =
    Lookup string string duration "go_error option"
  | GetService string string "go_error + string"
  | ListEndpointSlices string string "go_error + EndpointSlice list"

type_synonym ('w, 'a) dns_prog = "(('w, dns_event) chk_rt, 'a) state"

text \<open>\<open>resolver.go\<close>: a resolver that asks the given server on port 53, whatever the system's configuration, under
  a timeout of its own.\<close>

definition lookupHost :: "'w dns_env \<Rightarrow> string \<Rightarrow> string \<Rightarrow> duration \<Rightarrow> ('w, go_error option) dns_prog" where
  "lookupHost env dnsIP domain queryTimeout =
     perform (Lookup dnsIP domain queryTimeout) (dns_lookup env (join_host_port dnsIP ''53'') domain queryTimeout)"

definition get_service :: "'w dns_env \<Rightarrow> string \<Rightarrow> string \<Rightarrow> ('w, go_error + string) dns_prog" where
  "get_service env ns n = perform (GetService ns n) (dns_get_service env ns n)"

definition list_slices :: "'w dns_env \<Rightarrow> string \<Rightarrow> string \<Rightarrow> ('w, go_error + EndpointSlice list) dns_prog" where
  "list_slices env ns sel = perform (ListEndpointSlices ns sel) (dns_list_slices env ns sel)"

section \<open>Operations\<close>

definition isLocalDNSEnabled :: "'w dns_env \<Rightarrow> go_error + bool" where
  "isLocalDNSEnabled env =
     (case dns_resolv_conf env resolvConfPath of
        Inl err \<Rightarrow> Inl (Wrap (''failed to parse '' @ resolvConfPath @ '': '') err)
      | Inr servers \<Rightarrow> Inr (list_ex (\<lambda>server. server = localDNSIP) servers))"

definition BuildDNSChecker :: "'w dns_env \<Rightarrow> DNSChecker builder" where
  "BuildDNSChecker env checkerConfig =
     (case chkDNSConfig checkerConfig of
        None \<Rightarrow> None
      | Some cfg \<Rightarrow>
          (let chk = Inr \<lparr>dnsName = chkName checkerConfig, dnsConfig = cfg\<rparr>
           in if Target cfg = DNSCheckTargetLocalDNS then
                (case isLocalDNSEnabled env of
                   Inl err \<Rightarrow> Some (Inl (Wrap ''failed to create LocalDNS checker: '' err))
                 | Inr enabled \<Rightarrow> if \<not> enabled then Some (Inl (Sentinel ErrSkipChecker)) else Some chk)
              else Some chk))"

definition getCoreDNSSvcIP :: "'w dns_env \<Rightarrow> ('w, go_error + string) dns_prog" where
  "getCoreDNSSvcIP env = do {
     svc \<leftarrow> get_service env dnsNamespace coreDNSServiceName;
     case svc of
       Inl err \<Rightarrow>
         if is_not_found err then return (Inl (Sentinel ErrServiceNotReady))
         else return (Inl (Wrap ''failed to get CoreDNS service: '' err))
     | Inr clusterIP \<Rightarrow>
         if clusterIP = '''' \<or> clusterIP = ''None'' then return (Inl (Sentinel ErrServiceNotReady))
         else return (Inr clusterIP) }"

definition skipped_endpoint :: "Endpoint \<Rightarrow> bool" where
  "skipped_endpoint ep \<longleftrightarrow> Ready ep = Some False"

definition ready_endpoints :: "EndpointSlice list \<Rightarrow> Endpoint list" where
  "ready_endpoints slices =
     concat (map (\<lambda>slice. filter (\<lambda>ep. \<not> skipped_endpoint ep) (Endpoints slice)) slices)"

definition getCoreDNSEndpoints :: "'w dns_env \<Rightarrow> ('w, go_error + Endpoint list) dns_prog" where
  "getCoreDNSEndpoints env = do {
     slices \<leftarrow> list_slices env dnsNamespace (''kubernetes.io/service-name='' @ coreDNSServiceName);
     case slices of
       Inl err \<Rightarrow>
         if is_not_found err then return (Inl (Sentinel ErrPodsNotReady))
         else return (Inl (Wrap ''failed to get CoreDNS pod IPs: '' err))
     | Inr items \<Rightarrow>
         let endpoints = ready_endpoints items
         in if length endpoints = 0 then return (Inl (Sentinel ErrPodsNotReady)) else return (Inr endpoints) }"

fun query_ips :: "'w dns_env \<Rightarrow> DNSConfig \<Rightarrow> string list \<Rightarrow> ('w, go_error option) dns_prog" where
  "query_ips env cfg [] = return None"
| "query_ips env cfg (ip # ips) = do {
     r \<leftarrow> lookupHost env ip (Domain cfg) (QueryTimeout cfg);
     case r of
       Some err \<Rightarrow> return (Some err)
     | None \<Rightarrow> query_ips env cfg ips }"

definition queryEndpoint :: "'w dns_env \<Rightarrow> DNSChecker \<Rightarrow> Endpoint \<Rightarrow> ('w, go_error option) dns_prog" where
  "queryEndpoint env c endpoint = query_ips env (dnsConfig c) (Addresses endpoint)"

fun query_pods :: "'w dns_env \<Rightarrow> DNSChecker \<Rightarrow> Endpoint list \<Rightarrow> ('w, go_error option) dns_prog" where
  "query_pods env c [] = return None"
| "query_pods env c (dnsEndpoint # dnsEndpoints) = do {
     r \<leftarrow> query_ips env (dnsConfig c) (Addresses dnsEndpoint);
     case r of
       Some err \<Rightarrow> return (Some err)
     | None \<Rightarrow> query_pods env c dnsEndpoints }"

definition checkCoreDNS :: "'w dns_env \<Rightarrow> DNSChecker \<Rightarrow> ('w, go_error + Result) dns_prog" where
  "checkCoreDNS env c = do {
     svc \<leftarrow> getCoreDNSSvcIP env;
     case svc of
       Inl err \<Rightarrow>
         if errors_is ErrServiceNotReady err
         then return (Inr (Unhealthy ErrCodeServiceNotReady ''CoreDNS service is not ready''))
         else return (Inl err)
     | Inr svcIP \<Rightarrow> do {
         r \<leftarrow> lookupHost env svcIP (Domain (dnsConfig c)) (QueryTimeout (dnsConfig c));
         case r of
           Some err \<Rightarrow>
             if errors_is DeadlineExceeded err
             then return (Inr (Unhealthy ErrCodeServiceTimeout ''CoreDNS service query timed out''))
             else return (Inr (Unhealthy ErrCodeServiceError (''CoreDNS service query error: '' @ err_text err)))
         | None \<Rightarrow> do {
             eps \<leftarrow> getCoreDNSEndpoints env;
             case eps of
               Inl err \<Rightarrow>
                 if errors_is ErrPodsNotReady err
                 then return (Inr (Unhealthy ErrCodePodsNotReady ''CoreDNS Pods are not ready''))
                 else return (Inl err)
             | Inr dnsEndpoints \<Rightarrow> do {
                 q \<leftarrow> query_pods env c dnsEndpoints;
                 case q of
                   Some err \<Rightarrow>
                     if errors_is DeadlineExceeded err
                     then return (Inr (Unhealthy ErrCodePodTimeout ''CoreDNS pod query timed out''))
                     else return (Inr (Unhealthy ErrCodePodError (''CoreDNS pod query error: '' @ err_text err)))
                 | None \<Rightarrow> return (Inr Healthy) } } } }"

definition checkLocalDNS :: "'w dns_env \<Rightarrow> DNSChecker \<Rightarrow> ('w, go_error + Result) dns_prog" where
  "checkLocalDNS env c = do {
     r \<leftarrow> lookupHost env localDNSIP (Domain (dnsConfig c)) (QueryTimeout (dnsConfig c));
     case r of
       Some err \<Rightarrow>
         if errors_is DeadlineExceeded err
         then return (Inr (Unhealthy ErrCodeLocalDNSTimeout ''LocalDNS query timed out''))
         else return (Inr (Unhealthy ErrCodeLocalDNSError (''LocalDNS query error: '' @ err_text err)))
     | None \<Rightarrow> return (Inr Healthy) }"

definition dns_id :: "DNSChecker \<Rightarrow> chk_id" where
  "dns_id c = \<lparr>idName = dnsName c, idType = CheckTypeDNS\<rparr>"

definition pod_outcome :: "go_error option \<Rightarrow> go_error + Result" where
  "pod_outcome r =
     (case r of
        Some err \<Rightarrow>
          if errors_is DeadlineExceeded err then Inr (Unhealthy ErrCodePodTimeout ''CoreDNS pod query timed out'')
          else Inl err
      | None \<Rightarrow> Inr Healthy)"

fun record_endpoints :: "'w dns_env \<Rightarrow> DNSChecker \<Rightarrow> Endpoint list \<Rightarrow> ('w, unit) dns_prog" where
  "record_endpoints env c [] = return ()"
| "record_endpoints env c (endpoint # endpoints) =
     (case TargetRef endpoint of
        None \<Rightarrow> record_endpoints env c endpoints
      | Some ref \<Rightarrow>
          if length (targetName ref) = 0 then record_endpoints env c endpoints
          else do {
            r \<leftarrow> queryEndpoint env c endpoint;
            RecordCoreDNSPodResult (dns_id c) (targetNamespace ref) (targetName ref) (pod_outcome r);
            record_endpoints env c endpoints })"

definition checkCoreDNSPerPod :: "'w dns_env \<Rightarrow> DNSChecker \<Rightarrow> ('w, unit) dns_prog" where
  "checkCoreDNSPerPod env c = do {
     eps \<leftarrow> getCoreDNSEndpoints env;
     case eps of
       Inl err \<Rightarrow> return ()
     | Inr endpoints \<Rightarrow> record_endpoints env c endpoints }"

definition Run_dns :: "'w dns_env \<Rightarrow> DNSChecker \<Rightarrow> ('w, unit) dns_prog" where
  "Run_dns env c =
     (if Target (dnsConfig c) = DNSCheckTargetCoreDNS then do {
        outcome \<leftarrow> checkCoreDNS env c; RecordResult (dns_id c) outcome }
      else if Target (dnsConfig c) = DNSCheckTargetLocalDNS then do {
        outcome \<leftarrow> checkLocalDNS env c; RecordResult (dns_id c) outcome }
      else if Target (dnsConfig c) = DNSCheckTargetCoreDNSPerPod then checkCoreDNSPerPod env c
      else return ())"

section \<open>What the queries emit\<close>

definition ok_lookup :: "DNSConfig \<Rightarrow> string \<Rightarrow> dns_event" where
  "ok_lookup cfg ip = Lookup ip (Domain cfg) (QueryTimeout cfg) None"

text \<open>\<open>asked cfg ips r es\<close>: the calls \<open>es\<close> look up the domain at each of \<open>ips\<close> in order, up to the first
  failure, and \<open>r\<close> is that failure or \<open>None\<close>.\<close>

definition asked :: "DNSConfig \<Rightarrow> string list \<Rightarrow> go_error option \<Rightarrow> dns_event list \<Rightarrow> bool" where
  "asked cfg ips r es \<longleftrightarrow>
     (case r of
        None \<Rightarrow> es = map (ok_lookup cfg) ips
      | Some err \<Rightarrow> \<exists>pre ip post. ips = pre @ ip # post \<and>
          es = map (ok_lookup cfg) pre @ [Lookup ip (Domain cfg) (QueryTimeout cfg) (Some err)])"

lemma asked_append:
  "asked cfg ips None es \<Longrightarrow> asked cfg ips' r es' \<Longrightarrow> asked cfg (ips @ ips') r (es @ es')"
  by (cases r) (auto simp: asked_def, metis append_assoc map_append)

lemma asked_stop: "asked cfg ips (Some err) es \<Longrightarrow> asked cfg (ips @ ips') (Some err) es"
  unfolding asked_def by (simp, metis append_Cons append_assoc)

lemma query_ips_emits:
  "emits (query_ips env cfg ips) (\<lambda>r es s'. asked cfg ips r es \<and> rt.more s' = rt.more s) s"
proof (induction ips arbitrary: s)
  case Nil
  show ?case by (auto intro!: emits_intro simp: asked_def)
next
  case (Cons ip ips)
  show ?case
    unfolding query_ips.simps lookupHost_def
    apply (intro emits_bind emits_perform emits_case_option)
    subgoal for r w
      by (rule emits_mono [OF Cons.IH])
         (use asked_append [of cfg "[ip]" "[ok_lookup cfg ip]" ips] in \<open>auto simp: asked_def [of cfg "[ip]"] ok_lookup_def\<close>)
    subgoal for r w err
      by (rule emits_return) (auto simp: asked_def intro!: exI [of _ "[]"])
    done
qed

lemma query_pods_emits:
  "emits (query_pods env c eps)
     (\<lambda>r es s'. asked (dnsConfig c) (concat (map Addresses eps)) r es \<and> rt.more s' = rt.more s) s"
proof (induction eps arbitrary: s)
  case Nil
  show ?case by (auto intro!: emits_intro simp: asked_def)
next
  case (Cons ep eps)
  show ?case
    unfolding query_pods.simps
    apply (rule emits_bind_via [OF query_ips_emits])
    apply (intro emits_case_option)
    subgoal for r es s'
      by (rule emits_mono [OF Cons.IH]) (auto intro: asked_append)
    subgoal for r es s' err
      by (rule emits_return) (auto intro: asked_stop)
    done
qed

definition no_service :: "go_error + string \<Rightarrow> go_error \<Rightarrow> bool" where
  "no_service x e \<longleftrightarrow>
     (case x of
        Inr ip \<Rightarrow> ip \<in> {'''', ''None''} \<and> e = Sentinel ErrServiceNotReady
      | Inl y \<Rightarrow> e = (if is_not_found y then Sentinel ErrServiceNotReady
                     else Wrap ''failed to get CoreDNS service: '' y))"

definition no_endpoints :: "go_error + EndpointSlice list \<Rightarrow> go_error \<Rightarrow> bool" where
  "no_endpoints x e \<longleftrightarrow>
     (case x of
        Inr slices \<Rightarrow> ready_endpoints slices = [] \<and> e = Sentinel ErrPodsNotReady
      | Inl y \<Rightarrow> e = (if is_not_found y then Sentinel ErrPodsNotReady
                     else Wrap ''failed to get CoreDNS pod IPs: '' y))"

lemma getCoreDNSSvcIP_emits:
  "emits (getCoreDNSSvcIP env) (\<lambda>r es s'. rt.more s' = rt.more s \<and>
     (\<exists>x. es = [GetService dnsNamespace coreDNSServiceName x] \<and>
        (case r of Inr ip \<Rightarrow> x = Inr ip \<and> ip \<notin> {'''', ''None''} | Inl e \<Rightarrow> no_service x e))) s"
  unfolding getCoreDNSSvcIP_def get_service_def no_service_def
  by (intro emits_bind emits_perform emits_case_sum emits_if emits_return) auto

definition slice_selector :: string where
  "slice_selector = ''kubernetes.io/service-name='' @ coreDNSServiceName"

lemma getCoreDNSEndpoints_emits:
  "emits (getCoreDNSEndpoints env) (\<lambda>r es s'. rt.more s' = rt.more s \<and>
     (\<exists>x. es = [ListEndpointSlices dnsNamespace slice_selector x] \<and>
        (case r of Inr eps \<Rightarrow> (\<exists>slices. x = Inr slices \<and> eps = ready_endpoints slices \<and> eps \<noteq> [])
         | Inl e \<Rightarrow> no_endpoints x e))) s"
  unfolding getCoreDNSEndpoints_def list_slices_def Let_def slice_selector_def no_endpoints_def
  by (intro emits_bind emits_perform emits_case_sum emits_if emits_return) auto

section \<open>The verdict of the CoreDNS check\<close>

text \<open>The stage of the check a log ends in, as an error code.\<close>

definition blamed :: "dns_event list \<Rightarrow> string" where
  "blamed es =
     (case last es of
        GetService _ _ _ \<Rightarrow> ErrCodeServiceNotReady
      | ListEndpointSlices _ _ _ \<Rightarrow> ErrCodePodsNotReady
      | Lookup _ _ _ r \<Rightarrow>
          (let timeout = (case r of None \<Rightarrow> False | Some err \<Rightarrow> errors_is DeadlineExceeded err)
           in if length es = 2 then (if timeout then ErrCodeServiceTimeout else ErrCodeServiceError)
              else (if timeout then ErrCodePodTimeout else ErrCodePodError)))"

text \<open>The log of a check in which everything works: the service has an address and resolves the domain,
  there are ready endpoints, and every address of every one of them resolves the domain.\<close>

definition all_resolve :: "DNSConfig \<Rightarrow> dns_event list \<Rightarrow> bool" where
  "all_resolve cfg es \<longleftrightarrow>
     (\<exists>ip slices. ip \<notin> {'''', ''None''} \<and> ready_endpoints slices \<noteq> [] \<and>
        es = [GetService dnsNamespace coreDNSServiceName (Inr ip), ok_lookup cfg ip,
              ListEndpointSlices dnsNamespace slice_selector (Inr slices)] @
             map (ok_lookup cfg) (concat (map Addresses (ready_endpoints slices))))"

definition api_failure :: "dns_event \<Rightarrow> bool" where
  "api_failure e \<longleftrightarrow> (\<exists>ns n err. e = GetService ns n (Inl err) \<or> e = ListEndpointSlices ns n (Inl err))"

definition core_dns_explained :: "DNSConfig \<Rightarrow> go_error + Result \<Rightarrow> dns_event list \<Rightarrow> bool" where
  "core_dns_explained cfg outcome es \<longleftrightarrow>
     (outcome = Inr Healthy \<longleftrightarrow> all_resolve cfg es) \<and>
     (case outcome of
        Inl e \<Rightarrow> api_failure (last es)
      | Inr r \<Rightarrow> if r = Healthy then True
          else Status r = StatusUnhealthy \<and> Code (resDetail r) = blamed es)"


lemma explained_unhealthy:
  "\<not> all_resolve cfg es \<Longrightarrow> code = blamed es \<Longrightarrow> core_dns_explained cfg (Inr (Unhealthy code msg)) es"
  by (simp add: core_dns_explained_def)

lemma explained_error:
  "\<not> all_resolve cfg es \<Longrightarrow> api_failure (last es) \<Longrightarrow> core_dns_explained cfg (Inl e) es"
  by (simp add: core_dns_explained_def)

lemma explained_healthy:
  assumes "ip \<notin> {'''', ''None''}"
    and "\<exists>slices. eps = ready_endpoints slices \<and> eps \<noteq> [] \<and>
       es = [GetService dnsNamespace coreDNSServiceName (Inr ip), ok_lookup cfg ip,
              ListEndpointSlices dnsNamespace slice_selector (Inr slices)] @
             map (ok_lookup cfg) (concat (map Addresses eps))"
  shows "core_dns_explained cfg (Inr Healthy) es"
proof -
  have "all_resolve cfg es" using assms unfolding all_resolve_def by blast
  then show ?thesis by (simp add: core_dns_explained_def)
qed

lemma all_resolve_last:
  assumes "all_resolve cfg es"
  shows "3 \<le> length es"
    "(\<exists>ip. last es = ok_lookup cfg ip) \<or>
     (\<exists>slices. last es = ListEndpointSlices dnsNamespace slice_selector (Inr slices) \<and> ready_endpoints slices \<noteq> [])"
proof -
  obtain ip slices where ok: "ready_endpoints slices \<noteq> []"
    and es: "es = [GetService dnsNamespace coreDNSServiceName (Inr ip), ok_lookup cfg ip,
              ListEndpointSlices dnsNamespace slice_selector (Inr slices)] @
             map (ok_lookup cfg) (concat (map Addresses (ready_endpoints slices)))"
    using assms by (auto simp: all_resolve_def)
  show "3 \<le> length es" by (simp add: es)
  show "(\<exists>ip. last es = ok_lookup cfg ip) \<or>
     (\<exists>slices. last es = ListEndpointSlices dnsNamespace slice_selector (Inr slices) \<and> ready_endpoints slices \<noteq> [])"
    by (cases "concat (map Addresses (ready_endpoints slices))" rule: rev_cases) (use ok in \<open>auto simp: es\<close>)
qed

lemma service_stage_explained:
  assumes "no_service x err" and es: "es = [GetService dnsNamespace coreDNSServiceName x]"
  shows "core_dns_explained cfg (if errors_is ErrServiceNotReady err
     then Inr (Unhealthy ErrCodeServiceNotReady msg) else Inl err) es"
proof -
  have no: "\<not> all_resolve cfg es" using all_resolve_last(1) [of cfg es] by (auto simp: es)
  have "errors_is ErrServiceNotReady err \<or> api_failure (last es)"
    using assms by (auto simp: no_service_def api_failure_def split: sum.splits)
  moreover have "blamed es = ErrCodeServiceNotReady" by (simp add: blamed_def es)
  ultimately show ?thesis using explained_unhealthy [OF no] explained_error [OF no] by auto
qed

lemma endpoint_stage_explained:
  assumes "no_endpoints x err" and l: "last es = ListEndpointSlices dnsNamespace slice_selector x"
  shows "core_dns_explained cfg (if errors_is ErrPodsNotReady err
     then Inr (Unhealthy ErrCodePodsNotReady msg) else Inl err) es"
proof -
  have no: "\<not> all_resolve cfg es"
    using all_resolve_last(2) [of cfg es] assms by (auto simp: ok_lookup_def no_endpoints_def)
  have "errors_is ErrPodsNotReady err \<or> api_failure (last es)"
    using assms by (auto simp: no_endpoints_def api_failure_def split: sum.splits)
  moreover have "blamed es = ErrCodePodsNotReady" by (simp add: blamed_def l)
  ultimately show ?thesis using explained_unhealthy [OF no] explained_error [OF no] by auto
qed

lemma lookup_stage_explained:
  assumes l: "\<exists>ip. last es = Lookup ip (Domain cfg) (QueryTimeout cfg) (Some err)" and "code = blamed es"
  shows "core_dns_explained cfg (Inr (Unhealthy code msg)) es"
  using all_resolve_last(2) [of cfg es] l assms(2) by (intro explained_unhealthy) (auto simp: ok_lookup_def)

text \<open>C29: the CoreDNS check is Healthy exactly when the service has an address and resolves the domain,
  there are ready endpoints, and every address of each of them resolves it; otherwise it errs only
  for a failed API call, and its code names the stage its last call failed in.\<close>

theorem core_dns_verdict_explained:
  "emits (checkCoreDNS env c) (\<lambda>outcome es s'. core_dns_explained (dnsConfig c) outcome es) s"
  unfolding checkCoreDNS_def lookupHost_def
  apply (rule emits_bind_via [OF getCoreDNSSvcIP_emits])
  apply (intro emits_case_sum)
  subgoal premises prems for r es s' err
    using prems service_stage_explained [of _ err es "dnsConfig c"]
    by (intro emits_if emits_return) (auto split: if_splits)
  subgoal for r es s' ip
    apply (rule emits_bind, rule emits_perform, rule emits_case_option)
    subgoal for x w
      apply (rule emits_bind_via [OF getCoreDNSEndpoints_emits])
      apply (intro emits_case_sum)
      subgoal for r2 es2 s2 err
        using endpoint_stage_explained [of _ err "es @ [Lookup ip (Domain (dnsConfig c)) (QueryTimeout (dnsConfig c)) x] @ es2" "dnsConfig c"]
        by (intro emits_if emits_return) (auto split: if_splits)
      subgoal for r2 es2 s2 eps
        apply (rule emits_bind_via [OF query_pods_emits])
        apply (intro emits_case_option)
        subgoal
          by (rule emits_return, rule explained_healthy [where ip = ip and eps = eps]) (auto simp: asked_def ok_lookup_def [of _ ip])
        subgoal for q es3 s3 err
          by (intro emits_if emits_return; rule lookup_stage_explained [where err = err])
             (auto simp: asked_def blamed_def)
        done
      done
    subgoal for x w err
      by (intro emits_if emits_return; rule lookup_stage_explained [where err = err]) (auto simp: blamed_def)
    done
  done

section \<open>The checks with one verdict keep the recorder's contract\<close>

lemma dns_codes_nonempty [simp]:
  "ErrCodeServiceNotReady \<noteq> ''''" "ErrCodePodsNotReady \<noteq> ''''" "ErrCodeServiceTimeout \<noteq> ''''"
  "ErrCodePodTimeout \<noteq> ''''" "ErrCodeServiceError \<noteq> ''''" "ErrCodePodError \<noteq> ''''"
  "ErrCodeLocalDNSTimeout \<noteq> ''''" "ErrCodeLocalDNSError \<noteq> ''''"
  by (simp_all add: dns_codes)

lemma checkCoreDNS_conclusive:
  "emits (checkCoreDNS env c) (\<lambda>a es s'. conclusive a \<and> rt.more s' = rt.more s) s"
  unfolding checkCoreDNS_def lookupHost_def
  apply (rule emits_bind_via [OF getCoreDNSSvcIP_emits], rule emits_case_sum)
  subgoal by (intro emits_if emits_return) auto
  subgoal
    apply (rule emits_bind, rule emits_perform, rule emits_case_option)
    subgoal
      apply (rule emits_bind_via [OF getCoreDNSEndpoints_emits], rule emits_case_sum)
      subgoal by (intro emits_if emits_return) auto
      subgoal by (rule emits_bind_via [OF query_pods_emits], rule emits_case_option; (intro emits_if)?; rule emits_return) auto
      done
    subgoal by (intro emits_if emits_return) auto
    done
  done

lemma checkLocalDNS_conclusive:
  "emits (checkLocalDNS env c) (\<lambda>a es s'. conclusive a \<and> rt.more s' = rt.more s) s"
  unfolding checkLocalDNS_def lookupHost_def
  by (intro emits_bind emits_perform emits_case_option emits_if emits_return) auto

interpretation core_dns: conclusive_checker "checkCoreDNS env c" for env c
  by (rule conclusive_checkerI) (rule checkCoreDNS_conclusive)

interpretation local_dns: conclusive_checker "checkLocalDNS env c" for env c
  by (rule conclusive_checkerI) (rule checkLocalDNS_conclusive)

section \<open>The per-pod check\<close>

definition named :: "Endpoint \<Rightarrow> bool" where
  "named ep \<longleftrightarrow> (\<exists>ref. TargetRef ep = Some ref \<and> targetName ref \<noteq> '''')"

text \<open>The last two labels of the series a query is counted in, by how it went: its status and its code.
  Only a deadline counts as unhealthy; any other error leaves the state of the pod unknown.\<close>

definition query_labels :: "go_error option \<Rightarrow> string list" where
  "query_labels r =
     (case r of
        None \<Rightarrow> [''Healthy'', ''Healthy'']
      | Some err \<Rightarrow> if errors_is DeadlineExceeded err then [''Unhealthy'', ''PodTimeout''] else [''Unknown'', ''Unknown''])"

definition pod_series :: "DNSChecker \<Rightarrow> Endpoint \<Rightarrow> go_error option \<Rightarrow> string list" where
  "pod_series c ep r =
     [''DNS'', dnsName c, targetNamespace (the (TargetRef ep)), targetName (the (TargetRef ep))] @ query_labels r"

lemma recorded_labels: "status_labels (pod_outcome r) = query_labels r"
  by (simp add: status_labels_def pod_outcome_def query_labels_def Healthy_def Unhealthy_def HealthyStatus_def
      HealthyCode_def UnhealthyStatus_def UnknownStatus_def UnknownCode_def StatusHealthy_def StatusUnhealthy_def
      ErrCodePodTimeout_def split: option.splits)

text \<open>The endpoints of a listing that count: all but those marked as not ready, if they name their pod.\<close>

definition reporting :: "EndpointSlice list \<Rightarrow> Endpoint list" where
  "reporting slices = filter (\<lambda>ep. Ready ep \<noteq> Some False \<and> named ep) (concat (map Endpoints slices))"

lemma reporting_ready: "filter named (ready_endpoints slices) = reporting slices"
  by (induction slices) (auto simp: reporting_def ready_endpoints_def skipped_endpoint_def intro: filter_cong)

text \<open>\<open>each_queried c eps rs es\<close>: the calls query the endpoints one after the other, each up to its own
  first failure, with the answers \<open>rs\<close>.\<close>

fun each_queried :: "DNSChecker \<Rightarrow> Endpoint list \<Rightarrow> go_error option list \<Rightarrow> dns_event list \<Rightarrow> bool" where
  "each_queried c [] [] es = (es = [])"
| "each_queried c (ep # eps) (r # rs) es =
     (\<exists>es1 es2. es = es1 @ es2 \<and> asked (dnsConfig c) (Addresses ep) r es1 \<and> each_queried c eps rs es2)"
| "each_queried c _ _ es = False"

lemma each_queried_length: "each_queried c eps rs es \<Longrightarrow> length rs = length eps"
  by (induction c eps rs es rule: each_queried.induct) auto

definition pod_counts :: "DNSChecker \<Rightarrow> Endpoint list \<Rightarrow> go_error option list \<Rightarrow> string list \<Rightarrow> nat" where
  "pod_counts c eps rs ls = length (filter (\<lambda>(ep, r). pod_series c ep r = ls) (zip eps rs))"

lemma record_endpoints_emits:
  "emits (record_endpoints env c eps) (\<lambda>_ es s'.
     CheckerResultCounter s' = CheckerResultCounter s \<and>
     (\<exists>rs. each_queried c (filter named eps) rs es \<and>
        PodHealthResultCounter s' = (\<lambda>ls. PodHealthResultCounter s ls + pod_counts c (filter named eps) rs ls))) s"
proof (induction eps arbitrary: s)
  case Nil
  show ?case by (auto intro!: emits_intro exI [of _ "[]"] simp: pod_counts_def)
next
  case (Cons ep eps)
  have skip: "\<not> named ep \<Longrightarrow> ?case" if "record_endpoints env c (ep # eps) = record_endpoints env c eps"
    using Cons.IH that by simp
  show ?case
  proof (cases "named ep")
    case False
    then show ?thesis by (intro skip) (auto simp: named_def split: option.splits)
  next
    case True
    then obtain ref where ref: "TargetRef ep = Some ref" "targetName ref \<noteq> ''''" by (auto simp: named_def)
    have eq: "record_endpoints env c (ep # eps) = do {
            r \<leftarrow> queryEndpoint env c ep;
            RecordCoreDNSPodResult (dns_id c) (targetNamespace ref) (targetName ref) (pod_outcome r);
            record_endpoints env c eps }" using ref by simp
    show ?thesis
      unfolding eq queryEndpoint_def
      apply (rule emits_bind_via [OF query_ips_emits])
      apply (rule emits_bind, rule emits_RecordCoreDNSPodResult)
      subgoal for r es s'
        apply (rule emits_mono [OF Cons.IH])
        subgoal premises prems for _ es2 s2
        proof -
          obtain rs where rs: "each_queried c (filter named eps) rs es2"
            and cnt: "PodHealthResultCounter s2 = (\<lambda>ls. inc (pod_series c ep r) (PodHealthResultCounter s') ls +
               pod_counts c (filter named eps) rs ls)"
            using prems(2) ref by (auto simp: pod_series_def dns_id_def recorded_labels CheckTypeDNS_def)
          have same: "PodHealthResultCounter s' = PodHealthResultCounter s" "CheckerResultCounter s' = CheckerResultCounter s"
            using prems(1) more_counters by auto
          have chk: "CheckerResultCounter s2 = CheckerResultCounter s" using prems(2) same by simp
          have "each_queried c (filter named (ep # eps)) (r # rs) (es @ [] @ es2)"
            using prems(1) rs True by auto
          moreover have "PodHealthResultCounter s2 =
             (\<lambda>ls. PodHealthResultCounter s ls + pod_counts c (filter named (ep # eps)) (r # rs) ls)"
            using cnt same True by (auto simp: pod_counts_def inc_def fun_eq_iff)
          ultimately show ?thesis using chk by blast
        qed
        done
      done
  qed
qed

text \<open>C30: the per-pod check adds, for every endpoint that is not marked as not ready and names its pod,
  exactly one result to that pod's series: Healthy when every address of the endpoint resolved the
  domain, Unhealthy with the code PodTimeout when the first failure was a deadline, and Unknown when it
  was any other error. Nothing is added to any other series; endpoints it cannot attribute, and a
  failed listing, leave no trace in the counters.\<close>

theorem one_result_per_named_endpoint:
  "emits (checkCoreDNSPerPod env c) (\<lambda>_ es s'.
     CheckerResultCounter s' = CheckerResultCounter s \<and>
     (\<exists>x qs rs. es = ListEndpointSlices dnsNamespace slice_selector x # qs \<and>
        (let eps = (case x of Inl _ \<Rightarrow> [] | Inr slices \<Rightarrow> reporting slices)
         in each_queried c eps rs qs \<and>
            PodHealthResultCounter s' = (\<lambda>ls. PodHealthResultCounter s ls + pod_counts c eps rs ls)))) s"
  unfolding checkCoreDNSPerPod_def
  apply (rule emits_bind_via [OF getCoreDNSEndpoints_emits], rule emits_case_sum)
  subgoal for r es s' err
    apply (rule emits_return)
    apply (use more_counters [of s' s] in \<open>auto simp: Let_def pod_counts_def no_endpoints_def reporting_ready [symmetric] intro!: exI [of _ "[]"] split: sum.splits\<close>)
    done
  subgoal for r es s' eps
    apply (rule emits_mono [OF record_endpoints_emits])
    apply (use more_counters [of s' s] in \<open>auto simp: Let_def reporting_ready\<close>)
    done
  done

end
