(* ===== verification/CheckerGC.thy ===== *)
theory CheckerGC
  imports CheckerCore
begin

text \<open>
  The garbage collection the API server and pod startup checkers share: over a list of leftovers,
  delete each that is older than the checker's timeout, ignore those already gone, and collect the
  other errors. The loop is written once, over the clock and the delete call; the locale \<open>age_gc\<close>
  states what it relies on, and each checker interprets it with its own calls. Here the clock is
  logged, so that the age a leftover had when it was deleted is part of the log.
\<close>

definition older :: "time \<Rightarrow> ('o \<Rightarrow> time) \<Rightarrow> duration \<Rightarrow> 'o \<Rightarrow> bool" where
  "older now created timeout obj \<longleftrightarrow> sint timeout < time_sub now (created obj)"

fun gc_loop ::
  "(('w, 'e, 'z) rt_scheme, time) state \<Rightarrow> ('o \<Rightarrow> (('w, 'e, 'z) rt_scheme, go_error option) state) \<Rightarrow>
   ('o \<Rightarrow> time) \<Rightarrow> duration \<Rightarrow> ('o \<Rightarrow> string) \<Rightarrow> 'o list \<Rightarrow> (('w, 'e, 'z) rt_scheme, go_error list) state" where
  "gc_loop clock delete created timeout describe [] = return []"
| "gc_loop clock delete created timeout describe (obj # objs) = do {
     now \<leftarrow> clock;
     if older now created timeout obj then do {
       r \<leftarrow> delete obj;
       errs \<leftarrow> gc_loop clock delete created timeout describe objs;
       return ((case ignore_not_found r of Some err \<Rightarrow> [Wrap (describe obj) err] | None \<Rightarrow> []) @ errs) }
     else gc_loop clock delete created timeout describe objs }"

text \<open>\<open>gc_explained now_ev del_ev created timeout objs es\<close>: the calls \<open>es\<close> read the clock once per object
  and delete exactly those that were older than the timeout at their reading.\<close>

fun gc_explained ::
  "(time \<Rightarrow> 'e) \<Rightarrow> ('o \<Rightarrow> go_error option \<Rightarrow> 'e) \<Rightarrow> ('o \<Rightarrow> time) \<Rightarrow> duration \<Rightarrow> 'o list \<Rightarrow> 'e list \<Rightarrow> bool" where
  "gc_explained now_ev del_ev created timeout [] es = (es = [])"
| "gc_explained now_ev del_ev created timeout (obj # objs) es =
     (\<exists>now rest. gc_explained now_ev del_ev created timeout objs rest \<and>
        (if older now created timeout obj then (\<exists>r. es = now_ev now # del_ev obj r # rest)
         else es = now_ev now # rest))"

locale age_gc =
  fixes clock :: "(('w, 'e, 'z) rt_scheme, time) state"
    and delete :: "'o \<Rightarrow> (('w, 'e, 'z) rt_scheme, go_error option) state"
    and now_ev :: "time \<Rightarrow> 'e" and del_ev :: "'o \<Rightarrow> go_error option \<Rightarrow> 'e"
  assumes clock_logged: "emits clock (\<lambda>t es s'. es = [now_ev t] \<and> rt.more s' = rt.more s) s"
    and delete_logged: "emits (delete obj) (\<lambda>r es s'. es = [del_ev obj r] \<and> rt.more s' = rt.more s) s"
begin

lemma gc_loop_emits:
  "emits (gc_loop clock delete created timeout describe objs)
     (\<lambda>errs es s'. gc_explained now_ev del_ev created timeout objs es \<and> rt.more s' = rt.more s) s"
proof (induction objs arbitrary: s)
  case Nil
  show ?case by (auto intro!: emits_intro)
next
  case (Cons obj objs)
  show ?case
    unfolding gc_loop.simps
    apply (rule emits_bind_via [OF clock_logged], rule emits_if)
    subgoal for now es s'
      apply (rule emits_bind_via [OF delete_logged])
      apply (rule emits_bind_via [OF Cons.IH])
      apply (rule emits_return)
      apply auto
      done
    subgoal for now es s'
      by (rule emits_mono [OF Cons.IH]) auto
    done
qed

end

end
