(* ===== verification/GoDuration.thy ===== *)
theory GoDuration
  imports GoRuntime
begin

text \<open>
  Two functions of Go's package \<open>time\<close> the pod startup checker computes with: \<open>ParseDuration\<close> and
  \<open>Duration.Round\<close>. Digits after a decimal point are read exactly and the fraction of the unit is
  rounded down; Go computes that one product in floating point, which can differ in the last
  nanosecond. \<open>parse_duration\<close> gives \<open>None\<close> where \<open>ParseDuration\<close> gives an error.
\<close>

section \<open>ParseDuration\<close>

definition is_digit :: "char \<Rightarrow> bool" where
  "is_digit c \<longleftrightarrow> 48 \<le> (of_char c :: nat) \<and> (of_char c :: nat) \<le> 57"

definition digit_val :: "char \<Rightarrow> nat" where
  "digit_val c = of_char c - 48"

text \<open>\<open>leadingInt\<close>: the leading digits as a number, unless it exceeds 2 to the 63.\<close>

fun leading_int :: "nat \<Rightarrow> string \<Rightarrow> (nat \<times> string) option" where
  "leading_int x [] = Some (x, [])"
| "leading_int x (c # s) =
     (if \<not> is_digit c then Some (x, c # s)
      else if 2 ^ 63 div 10 < x then None
      else let x' = 10 * x + digit_val c in if 2 ^ 63 < x' then None else leading_int x' s)"

text \<open>\<open>leadingFraction\<close>: digits beyond the precision of 63 bits are read and dropped.\<close>

fun leading_fraction :: "nat \<Rightarrow> nat \<Rightarrow> bool \<Rightarrow> string \<Rightarrow> nat \<times> nat \<times> string" where
  "leading_fraction x scale overflow [] = (x, scale, [])"
| "leading_fraction x scale overflow (c # s) =
     (if \<not> is_digit c then (x, scale, c # s)
      else if overflow then leading_fraction x scale True s
      else if (2 ^ 63 - 1) div 10 < x then leading_fraction x scale True s
      else let y = 10 * x + digit_val c
           in if 2 ^ 63 < y then leading_fraction x scale True s else leading_fraction y (scale * 10) False s)"

definition unit_map :: "string \<Rightarrow> nat option" where
  "unit_map u =
     (if u = ''ns'' then Some 1
      else if u = ''us'' \<or> u = [CHR 0xC2, CHR 0xB5, CHR ''s''] \<or> u = [CHR 0xCE, CHR 0xBC, CHR ''s''] then Some 1000
      else if u = ''ms'' then Some 1000000
      else if u = ''s'' then Some 1000000000
      else if u = ''m'' then Some 60000000000
      else if u = ''h'' then Some 3600000000000
      else None)"

definition number_char :: "char \<Rightarrow> bool" where
  "number_char c \<longleftrightarrow> c = CHR ''.'' \<or> is_digit c"

text \<open>One number with its unit: its value in nanoseconds and the rest of the text.\<close>

definition take_fraction :: "string \<Rightarrow> nat \<times> nat \<times> bool \<times> string" where
  "take_fraction s =
     (case s of
        c # s' \<Rightarrow> if c = CHR ''.'' then (case leading_fraction 0 1 False s' of (f, scale, s'') \<Rightarrow> (f, scale, s'' \<noteq> s', s''))
                  else (0, 1, False, s)
      | [] \<Rightarrow> (0, 1, False, s))"

definition take_component :: "string \<Rightarrow> (nat \<times> string) option" where
  "take_component s =
     (if s = [] \<or> \<not> number_char (hd s) then None
      else case leading_int 0 s of
             None \<Rightarrow> None
           | Some (v, s1) \<Rightarrow>
               (case take_fraction s1 of (f, scale, post, s2) \<Rightarrow>
                  if s1 = s \<and> \<not> post then None
                  else let u = takeWhile (\<lambda>c. \<not> number_char c) s2; s3 = dropWhile (\<lambda>c. \<not> number_char c) s2
                       in if u = [] then None
                          else case unit_map u of
                                 None \<Rightarrow> None
                               | Some unit \<Rightarrow>
                                   if 2 ^ 63 div unit < v then None
                                   else let w = v * unit + f * unit div scale
                                        in if 2 ^ 63 < w then None else Some (w, s3)))"

text \<open>The loop over the components; each consumes text, so its length is enough fuel.\<close>

fun parse_components :: "nat \<Rightarrow> nat \<Rightarrow> string \<Rightarrow> nat option" where
  "parse_components fuel d [] = Some d"
| "parse_components 0 d (c # s) = None"
| "parse_components (Suc fuel) d (c # s) =
     (case take_component (c # s) of
        None \<Rightarrow> None
      | Some (w, s') \<Rightarrow> if 2 ^ 63 < d + w then None else parse_components fuel (d + w) s')"

definition parse_duration :: "string \<Rightarrow> duration option" where
  "parse_duration orig =
     (let neg = (orig \<noteq> [] \<and> hd orig = CHR ''-'');
          s = (if orig \<noteq> [] \<and> (hd orig = CHR ''-'' \<or> hd orig = CHR ''+'') then tl orig else orig)
      in if s = ''0'' then Some 0
         else if s = [] then None
         else case parse_components (length s) 0 s of
                None \<Rightarrow> None
              | Some d \<Rightarrow> if neg then Some (- of_nat d)
                          else if 2 ^ 63 - 1 < d then None else Some (of_nat d))"

lemma length_leading_int: "leading_int x s = Some (v, s') \<Longrightarrow> length s' \<le> length s"
  by (induction x s rule: leading_int.induct) (auto simp: Let_def split: if_splits)

lemma length_leading_fraction:
  "leading_fraction x scale overflow s = (f, scale', s') \<Longrightarrow> length s' \<le> length s"
  by (induction x scale overflow s rule: leading_fraction.induct) (force simp: Let_def split: if_splits)+

lemma length_take_fraction: "take_fraction s = (f, scale, post, s') \<Longrightarrow> length s' \<le> length s"
  using length_leading_fraction
  by (auto simp: take_fraction_def split: list.splits if_splits prod.splits) (metis le_SucI)

text \<open>A component is never empty, so that the fuel of \<open>parse_duration\<close> never runs out: more fuel gives
  the same result.\<close>

lemma take_component_shorter: "take_component s = Some (w, s') \<Longrightarrow> length s' < length s"
proof -
  assume *: "take_component s = Some (w, s')"
  obtain v s1 where 1: "leading_int 0 s = Some (v, s1)" using * by (auto simp: take_component_def split: if_splits option.splits)
  obtain f scale post s2 where 2: "take_fraction s1 = (f, scale, post, s2)" by (cases "take_fraction s1") auto
  have s': "s' = dropWhile (\<lambda>c. \<not> number_char c) s2" and u: "takeWhile (\<lambda>c. \<not> number_char c) s2 \<noteq> []"
    using * 1 2 by (auto simp: take_component_def Let_def split: if_splits option.splits)
  have "length s' < length s2"
    using u unfolding s' by (cases s2) (auto simp: less_Suc_eq_le length_dropWhile_le split: if_splits)
  then show ?thesis using length_leading_int [OF 1] length_take_fraction [OF 2] by simp
qed

lemma parse_components_fuel:
  "length s \<le> fuel \<Longrightarrow> length s \<le> fuel' \<Longrightarrow> parse_components fuel d s = parse_components fuel' d s"
proof (induction fuel d s arbitrary: fuel' rule: parse_components.induct)
  case (3 fuel d c s)
  then obtain n where n: "fuel' = Suc n" by (cases fuel') auto
  show ?case
  proof (cases "take_component (c # s)")
    case (Some p)
    obtain w s' where p: "p = (w, s')" by (cases p)
    have "length s' < length (c # s)" using take_component_shorter Some p by blast
    then have len: "length s' \<le> fuel" "length s' \<le> n" using "3.prems" n by auto
    have "parse_components fuel (d + w) s' = parse_components n (d + w) s'" if "\<not> 2 ^ 63 < d + w"
      using "3.IH" [OF Some p [symmetric] that len(1) len(2)] .
    then show ?thesis unfolding n parse_components.simps Some p option.case prod.case by (rule if_cong [OF refl refl])
  qed (simp add: n)
qed auto

section \<open>Round\<close>

text \<open>\<open>d.Round(m)\<close> for a positive unit: to the nearest multiple, halves away from zero, saturating.\<close>

definition round_to :: "int \<Rightarrow> duration \<Rightarrow> duration" where
  "round_to m w =
     (let d = sint w; r = \<bar>d\<bar> mod m
      in if m \<le> 0 then w
         else if d < 0 then
           (if 2 * r < m then word_of_int (d + r)
            else if min_duration \<le> d - m + r then word_of_int (d - m + r) else word_of_int min_duration)
         else
           (if 2 * r < m then word_of_int (d - r)
            else if d + m - r \<le> max_duration then word_of_int (d + m - r) else word_of_int max_duration))"

text \<open>Rounding a duration that is far from the ends of the range: the nearest multiple of the unit.\<close>

lemma round_to_nearest:
  assumes "0 < m" "\<bar>sint w\<bar> + m \<le> max_duration"
  shows "m dvd sint (round_to m w)" "2 * \<bar>sint (round_to m w) - sint w\<bar> \<le> m"
proof -
  define d r where "d = sint w" and "r = \<bar>d\<bar> mod m"
  have r: "0 \<le> r" "r < m" using assms by (auto simp: r_def)
  have dvd: "m dvd \<bar>d\<bar> - r" by (simp add: r_def minus_mod_eq_mult_div)
  define x where "x = (if d < 0 then if 2 * r < m then d + r else d - m + r else if 2 * r < m then d - r else d + m - r)"
  have bounds: "min_duration \<le> d - m + r" "d + m - r \<le> max_duration" "- (2 ^ 63) \<le> x" "x < 2 ^ 63"
    using assms(2) r unfolding d_def [symmetric] x_def min_duration_def max_duration_def
    by (simp_all split: if_splits) linarith+
  have "round_to m w = word_of_int x"
    unfolding round_to_def Let_def d_def [symmetric] r_def [symmetric] x_def
    using bounds(1,2) assms(1) by simp
  then have "sint (round_to m w) = x" using bounds(3,4) sint_small [of x] by (simp only:)
  moreover have "m dvd x"
  proof -
    have neg: "m dvd d + r" if "d < 0"
    proof -
      have "\<bar>d\<bar> - r = - (d + r)" using that by simp
      then show ?thesis using dvd by (metis dvd_minus_iff)
    qed
    have pos: "m dvd d - r" if "\<not> d < 0" using that dvd by simp
    have "m dvd d + r - m" if "d < 0" using neg that by simp
    moreover have "m dvd d - r + m" if "\<not> d < 0" using pos that by simp
    moreover have "d - m + r = d + r - m" "d + m - r = d - r + m" by auto
    ultimately show ?thesis using neg pos unfolding x_def by presburger
  qed
  moreover have "2 * \<bar>x - d\<bar> \<le> m" using r by (auto simp: x_def)
  ultimately show "m dvd sint (round_to m w)" "2 * \<bar>sint (round_to m w) - sint w\<bar> \<le> m" by (simp_all add: d_def)
qed

end
