(* ===== verification/GoLoops.thy ===== *)
theory GoLoops
  imports GoRuntime
begin

text \<open>
  What a library's loop does with the function it is given: \<open>repeats f i s as s'\<close> says that from \<open>s\<close> it
  calls \<open>f i\<close>, \<open>f (i + 1)\<close> and so on, with the answers \<open>as\<close>, and ends in \<open>s'\<close>; between the calls time
  passes, in which the world changes but nothing is logged. The laws of \<open>retry.Do\<close> and of
  \<open>wait.PollUntilContextCancel\<close> are stated with it.
\<close>

inductive repeats ::
  "(nat \<Rightarrow> (('w, 'e, 'z) rt_scheme, 'a) state) \<Rightarrow> nat \<Rightarrow> ('w, 'e, 'z) rt_scheme \<Rightarrow> 'a list \<Rightarrow> ('w, 'e, 'z) rt_scheme \<Rightarrow> bool"
  for f where
  stop: "log s' = log s \<Longrightarrow> rt.more s' = rt.more s \<Longrightarrow> repeats f i s [] s'"
| call: "log s1 = log s \<Longrightarrow> rt.more s1 = rt.more s \<Longrightarrow> run_state (f i) s1 = (a, s2) \<Longrightarrow>
    repeats f (Suc i) s2 as s' \<Longrightarrow> repeats f i s (a # as) s'"

text \<open>The calls of a repetition are those of its rounds, one after the other.\<close>

fun rounds :: "(nat \<Rightarrow> 'a \<Rightarrow> 'e list \<Rightarrow> bool) \<Rightarrow> nat \<Rightarrow> 'a list \<Rightarrow> 'e list \<Rightarrow> bool" where
  "rounds Q i [] es = (es = [])"
| "rounds Q i (a # as) es = (\<exists>es1 es2. es = es1 @ es2 \<and> Q i a es1 \<and> rounds Q (Suc i) as es2)"

lemma repeats_rounds:
  assumes "repeats f i s as s'"
    and "\<And>i s. emits (f i) (\<lambda>a es s'. Q i a es \<and> rt.more s' = rt.more s) s"
  shows "\<exists>es. log s' = log s @ es \<and> rounds Q i as es \<and> rt.more s' = rt.more s"
  using assms(1)
proof (induction rule: repeats.induct)
  case (stop s' s i)
  then show ?case by auto
next
  case (call s1 s i a s2 as s')
  obtain es1 where "log s2 = log s1 @ es1" "Q i a es1" "rt.more s2 = rt.more s1"
    using assms(2) [of i s1] call(3) by (auto elim!: emitsD)
  then show ?case using call.IH call(1,2) by fastforce
qed

lemma rounds_mono: "(\<And>i a es. Q i a es \<Longrightarrow> R i a es) \<Longrightarrow> rounds Q i as es \<Longrightarrow> rounds R i as es"
  by (induction as arbitrary: i es) (simp, simp, blast)

lemma rounds_last:
  "rounds Q i as es \<Longrightarrow> as \<noteq> [] \<Longrightarrow> \<exists>pre post. es = pre @ post \<and> Q (i + length as - 1) (last as) post"
proof (induction Q i as es rule: rounds.induct)
  case (2 Q i a as es)
  then obtain es1 es2 where es: "es = es1 @ es2" "Q i a es1" "rounds Q (Suc i) as es2" by auto
  show ?case
  proof (cases "as = []")
    case True
    then show ?thesis using es by auto
  next
    case False
    then obtain pre post where "es2 = pre @ post" "Q (Suc i + length as - 1) (last as) post" using "2.IH" es by blast
    then show ?thesis using es False by (intro exI [of _ "es1 @ pre"] exI [of _ post]) auto
  qed
qed simp

lemma rounds_event: "rounds Q i as es \<Longrightarrow> e \<in> set es \<Longrightarrow> \<exists>k a es1. a \<in> set as \<and> Q k a es1 \<and> e \<in> set es1"
  by (induction as arbitrary: i es) (simp, fastforce)

lemma rounds_answer: "rounds Q i as es \<Longrightarrow> a \<in> set as \<Longrightarrow> \<exists>k es1. Q k a es1 \<and> set es1 \<subseteq> set es"
  by (induction as arbitrary: i es) (simp, fastforce)

end
