(* ===== verification/PodStartup.thy ===== *)
theory PodStartup
  imports CheckerGC GoDuration GoLoops
begin

text \<open>
  \<open>pkg/checker/podstartup\<close>: the pod startup checker, with its synthetic pods (\<open>pods.go\<close>), the
  volumes of the enabled CSI drivers (\<open>storage.go\<close>) and the Karpenter node pools (\<open>nodepools.go\<close>).
  The API client, the dynamic client, the dialer and the clock are the fields of \<open>ps_env\<close>, and so are
  the two loops of libraries: \<open>retry.Do\<close>, whose \<open>i\<close>-th call of the closure sees its counter at \<open>i\<close>,
  and \<open>wait.PollUntilContextCancel\<close>, whose condition stops it with the value it assigns.
\<close>

section \<open>Constants and objects\<close>

definition syntheticPodImage :: string where
  "syntheticPodImage = ''mcr.microsoft.com/azurelinux/base/nginx:1.25.4-4-azl3.0.20250702''"
definition syntheticPodPort :: int where "syntheticPodPort = 80"
definition pollingInterval :: duration where "pollingInterval = second"
definition azureDiskPVCNamePrefix :: string where "azureDiskPVCNamePrefix = ''clusterhealthmonitor-azuredisk-pvc''"
definition azureFilePVCNamePrefix :: string where "azureFilePVCNamePrefix = ''clusterhealthmonitor-azurefile-pvc''"
definition azureBlobPVCNamePrefix :: string where "azureBlobPVCNamePrefix = ''clusterhealthmonitor-azureblob-pvc''"

definition ErrCodePodCreationError :: string where "ErrCodePodCreationError = ''PodCreationError''"
definition ErrCodePodCreationTimeout :: string where "ErrCodePodCreationTimeout = ''PodCreationTimeout''"
definition ErrCodePodStartupDurationExceeded :: string where
  "ErrCodePodStartupDurationExceeded = ''PodStartupDurationExceeded''"
definition ErrCodeRequestFailed :: string where "ErrCodeRequestFailed = ''RequestFailed''"
definition ErrCodeRequestTimeout :: string where "ErrCodeRequestTimeout = ''RequestTimeout''"
definition ErrCodeStorageClassNotFound :: string where "ErrCodeStorageClassNotFound = ''StorageClassNotFound''"

lemmas startup_codes = ErrCodePodCreationError_def ErrCodePodCreationTimeout_def
  ErrCodePodStartupDurationExceeded_def ErrCodeRequestFailed_def ErrCodeRequestTimeout_def
  ErrCodeStorageClassNotFound_def

record PersistentVolumeClaim = ObjectMeta +
  pvcKind :: string
  pvcAPIVersion :: string
  AccessModes :: "string list"
  StorageClassName :: string
  StorageRequest :: string

record Taint =
  taintKey :: string
  taintEffect :: string

record NodeClassReference =
  nodeClassGroup :: string
  nodeClassKind :: string
  nodeClassName :: string

record NodePool = ObjectMeta +
  npKind :: string
  npAPIVersion :: string
  TemplateLabels :: "string \<rightharpoonup> string"
  NodeClassRef :: NodeClassReference
  Requirements :: "NodeSelectorRequirement list"
  Taints :: "Taint list"

record PodStartupChecker =
  psName :: string
  psConfig :: PodStartupConfig
  psTimeout :: duration

section \<open>Effects\<close>

datatype ps_event =
    Clock time
  | ListSyntheticPods string string string "go_error + Pod list"
  | CreateSyntheticPod string Pod "go_error + Pod"
  | GetSyntheticPod string string "go_error + Pod"
  | DeleteSyntheticPod string string "go_error option"
  | ListPVCs string string string "go_error + PersistentVolumeClaim list"
  | CreatePVC string PersistentVolumeClaim "go_error option"
  | DeletePVC string string "go_error option"
  | GetStorageClass string "go_error option"
  | GetCRD string "go_error option"
  | CreateNodePool NodePool "go_error option"
  | DeleteNodePool string "go_error option"
  | ListNodePools string "go_error + (go_error + string option) list"
  | ListPulledEvents string string "go_error + string list"
  | Dial string "go_error option"

type_synonym ('w, 'a) ps_prog = "(('w, ps_event) chk_rt, 'a) state"

text \<open>A listed node pool is what reading its name at \<open>metadata.name\<close> gives: an error, nothing, or a name.\<close>

record 'w ps_env =
  ps_in_cluster :: "go_error option"
  ps_new_dynamic :: "go_error option"
  ps_now :: "'w \<Rightarrow> time \<times> 'w"
  ps_list_pods :: "string \<Rightarrow> string \<Rightarrow> string \<Rightarrow> 'w \<Rightarrow> (go_error + Pod list) \<times> 'w"
  ps_create_pod :: "string \<Rightarrow> Pod \<Rightarrow> 'w \<Rightarrow> (go_error + Pod) \<times> 'w"
  ps_get_pod :: "string \<Rightarrow> string \<Rightarrow> 'w \<Rightarrow> (go_error + Pod) \<times> 'w"
  ps_delete_pod :: "string \<Rightarrow> string \<Rightarrow> 'w \<Rightarrow> go_error option \<times> 'w"
  ps_list_pvcs :: "string \<Rightarrow> string \<Rightarrow> string \<Rightarrow> 'w \<Rightarrow> (go_error + PersistentVolumeClaim list) \<times> 'w"
  ps_create_pvc :: "string \<Rightarrow> PersistentVolumeClaim \<Rightarrow> 'w \<Rightarrow> go_error option \<times> 'w"
  ps_delete_pvc :: "string \<Rightarrow> string \<Rightarrow> 'w \<Rightarrow> go_error option \<times> 'w"
  ps_get_storage_class :: "string \<Rightarrow> 'w \<Rightarrow> go_error option \<times> 'w"
  ps_get_crd :: "string \<Rightarrow> 'w \<Rightarrow> go_error option \<times> 'w"
  ps_convert :: "NodePool \<Rightarrow> go_error option"
  ps_create_node_pool :: "NodePool \<Rightarrow> 'w \<Rightarrow> go_error option \<times> 'w"
  ps_delete_node_pool :: "string \<Rightarrow> 'w \<Rightarrow> go_error option \<times> 'w"
  ps_list_node_pools :: "string \<Rightarrow> 'w \<Rightarrow> (go_error + (go_error + string option) list) \<times> 'w"
  ps_list_events :: "string \<Rightarrow> string \<Rightarrow> 'w \<Rightarrow> (go_error + string list) \<times> 'w"
  ps_dial :: "string \<Rightarrow> 'w \<Rightarrow> go_error option \<times> 'w"
  ps_poll :: "duration \<Rightarrow> ('w, duration option) ps_prog \<Rightarrow> ('w, go_error + duration) ps_prog"
  ps_retry :: "nat \<Rightarrow> duration \<Rightarrow> (nat \<Rightarrow> ('w, go_error option) ps_prog) \<Rightarrow> ('w, go_error option) ps_prog"

definition ps_clock :: "'w ps_env \<Rightarrow> ('w, time) ps_prog" where
  "ps_clock env = perform Clock (ps_now env)"

definition list_synthetic_pods :: "'w ps_env \<Rightarrow> string \<Rightarrow> string \<Rightarrow> string \<Rightarrow> ('w, go_error + Pod list) ps_prog" where
  "list_synthetic_pods env ns k v = perform (ListSyntheticPods ns k v) (ps_list_pods env ns k v)"

definition get_synthetic_pod :: "'w ps_env \<Rightarrow> string \<Rightarrow> string \<Rightarrow> ('w, go_error + Pod) ps_prog" where
  "get_synthetic_pod env ns n = perform (GetSyntheticPod ns n) (ps_get_pod env ns n)"

definition delete_synthetic_pod :: "'w ps_env \<Rightarrow> string \<Rightarrow> string \<Rightarrow> ('w, go_error option) ps_prog" where
  "delete_synthetic_pod env ns n = perform (DeleteSyntheticPod ns n) (ps_delete_pod env ns n)"

definition list_pvcs :: "'w ps_env \<Rightarrow> string \<Rightarrow> string \<Rightarrow> string \<Rightarrow> ('w, go_error + PersistentVolumeClaim list) ps_prog" where
  "list_pvcs env ns k v = perform (ListPVCs ns k v) (ps_list_pvcs env ns k v)"

definition create_pvc :: "'w ps_env \<Rightarrow> string \<Rightarrow> PersistentVolumeClaim \<Rightarrow> ('w, go_error option) ps_prog" where
  "create_pvc env ns pvc = perform (CreatePVC ns pvc) (ps_create_pvc env ns pvc)"

definition delete_pvc :: "'w ps_env \<Rightarrow> string \<Rightarrow> string \<Rightarrow> ('w, go_error option) ps_prog" where
  "delete_pvc env ns n = perform (DeletePVC ns n) (ps_delete_pvc env ns n)"

lemmas ps_calls = ps_clock_def list_synthetic_pods_def get_synthetic_pod_def delete_synthetic_pod_def
  list_pvcs_def create_pvc_def delete_pvc_def

section \<open>Building\<close>

definition BuildPodStartupChecker :: "'w ps_env \<Rightarrow> PodStartupChecker builder" where
  "BuildPodStartupChecker env cfg =
     (case chkPodStartupConfig cfg of
        None \<Rightarrow> None
      | Some c \<Rightarrow>
          (case ps_in_cluster env of
             Some err \<Rightarrow> Some (Inl (Wrap ''failed to get in-cluster config: '' err))
           | None \<Rightarrow>
               (case ps_new_dynamic env of
                  Some err \<Rightarrow> Some (Inl (Wrap ''failed to create dynamic client: '' err))
                | None \<Rightarrow> Some (Inr \<lparr>psName = chkName cfg, psConfig = c, psTimeout = chkTimeout cfg\<rparr>))))"

section \<open>Pods\<close>

abbreviation ps_namespace :: "PodStartupChecker \<Rightarrow> string" where
  "ps_namespace c \<equiv> SyntheticPodNamespace (psConfig c)"

text \<open>\<open>syntheticPodLabels\<close> is the single label \<open>(key, value)\<close>; as a selector it selects on exactly it.\<close>

definition syntheticPodLabels :: "PodStartupChecker \<Rightarrow> string \<times> string" where
  "syntheticPodLabels c = (SyntheticPodLabelKey (psConfig c), psName c)"

definition own_labels :: "PodStartupChecker \<Rightarrow> string \<rightharpoonup> string" where
  "own_labels c = [fst (syntheticPodLabels c) \<mapsto> snd (syntheticPodLabels c)]"

definition syntheticPodNamePrefix :: "PodStartupChecker \<Rightarrow> string" where
  "syntheticPodNamePrefix c = to_lower (psName c @ ''-synthetic-'')"

definition new_pvc :: "PodStartupChecker \<Rightarrow> string \<Rightarrow> string \<Rightarrow> string \<Rightarrow> string \<Rightarrow> PersistentVolumeClaim" where
  "new_pvc c prefix timestampStr storageClassName mode = ObjectMeta.extend
     ((meta (prefix @ ''-'' @ timestampStr))\<lparr>Namespace := ps_namespace c, Labels := own_labels c\<rparr>)
     \<lparr>pvcKind = ''PersistentVolumeClaim'', pvcAPIVersion = ''v1'', AccessModes = [mode],
      StorageClassName = storageClassName, StorageRequest = ''5Gi''\<rparr>"

definition azureDiskPVC :: "PodStartupChecker \<Rightarrow> string \<Rightarrow> string \<Rightarrow> PersistentVolumeClaim" where
  "azureDiskPVC c timestampStr sc = new_pvc c azureDiskPVCNamePrefix timestampStr sc ''ReadWriteOnce''"
definition azureFilePVC :: "PodStartupChecker \<Rightarrow> string \<Rightarrow> string \<Rightarrow> PersistentVolumeClaim" where
  "azureFilePVC c timestampStr sc = new_pvc c azureFilePVCNamePrefix timestampStr sc ''ReadWriteMany''"
definition azureBlobPVC :: "PodStartupChecker \<Rightarrow> string \<Rightarrow> string \<Rightarrow> PersistentVolumeClaim" where
  "azureBlobPVC c timestampStr sc = new_pvc c azureBlobPVCNamePrefix timestampStr sc ''ReadWriteMany''"

definition csi_volume :: "PodStartupChecker \<Rightarrow> string \<Rightarrow> CSIConfig \<Rightarrow> (Volume \<times> VolumeMount) list" where
  "csi_volume c timestampStr csi =
     (let volume = (\<lambda>n pvc path. [(\<lparr>volName = n, volClaimName = Name pvc\<rparr>, \<lparr>vmName = n, vmMountPath = path\<rparr>)])
      in if csiType csi = CSITypeAzureFile
         then volume ''azurefile-volume'' (azureFilePVC c timestampStr (StorageClass csi)) ''/mnt/azurefile''
         else if csiType csi = CSITypeAzureDisk
         then volume ''azuredisk-volume'' (azureDiskPVC c timestampStr (StorageClass csi)) ''/mnt/azuredisk''
         else if csiType csi = CSITypeAzureBlob
         then volume ''azureblob-volume'' (azureBlobPVC c timestampStr (StorageClass csi)) ''/mnt/azureblob''
         else [])"

definition generateSyntheticPod :: "PodStartupChecker \<Rightarrow> string \<Rightarrow> Pod" where
  "generateSyntheticPod c timestampStr =
     (let volumes = concat (map (csi_volume c timestampStr) (csi_list (psConfig c)));
          key = SyntheticPodLabelKey (psConfig c);
          base = empty_pod_spec
            \<lparr>Containers := [\<lparr>ctName = ''synthetic'', ctImage = syntheticPodImage, ctCommand = [], ctArgs = [],
               ctPorts = [(syntheticPodPort, ''TCP'')], ctVolumeMounts = map snd volumes\<rparr>],
             Tolerations :=
               [\<lparr>tolKey = ''node-role.kubernetes.io/master'', tolOperator = '''', tolValue = '''', tolEffect = ''NoSchedule''\<rparr>,
                \<lparr>tolKey = ''CriticalAddonsOnly'', tolOperator = ''Exists'', tolValue = '''', tolEffect = ''''\<rparr>],
             RequiredNodeAffinity :=
               [[\<lparr>nsrKey = ''kubernetes.azure.com/cluster'', nsrOperator = ''Exists'', nsrValues = []\<rparr>,
                 \<lparr>nsrKey = ''type'', nsrOperator = ''NotIn'', nsrValues = [''virtual-kubelet'']\<rparr>,
                 \<lparr>nsrKey = ''kubernetes.io/os'', nsrOperator = ''In'', nsrValues = [''linux'']\<rparr>,
                 \<lparr>nsrKey = ''kubernetes.azure.com/mode'', nsrOperator = ''In'', nsrValues = [''system'']\<rparr>]],
             Volumes := map fst volumes\<rparr>;
          spec = (if EnableNodeProvisioningTest (psConfig c) then
              base\<lparr>NodeSelector := [key \<mapsto> timestampStr],
                   Tolerations := Tolerations base @
                     [\<lparr>tolKey = key, tolOperator = ''Exists'', tolValue = '''', tolEffect = ''NoSchedule''\<rparr>]\<rparr>
            else base)
      in ObjectMeta.extend ((meta (syntheticPodNamePrefix c @ timestampStr))\<lparr>Labels := own_labels c\<rparr>)
           \<lparr>podSpec = spec, podStatus = empty_pod_status\<rparr>)"

definition getSyntheticPodIP :: "'w ps_env \<Rightarrow> PodStartupChecker \<Rightarrow> string \<Rightarrow> ('w, go_error + string) ps_prog" where
  "getSyntheticPodIP env c podName = do {
     r \<leftarrow> get_synthetic_pod env (ps_namespace c) podName;
     case r of
       Inl err \<Rightarrow> return (Inl (Wrap (''error getting pod '' @ podName @ '': '') err))
     | Inr pod \<Rightarrow>
         if PodIP (podStatus pod) = '''' then return (Inl (Msg ''pod IP is empty'')) else return (Inr (PodIP (podStatus pod))) }"

definition syntheticPodGarbageCollection :: "'w ps_env \<Rightarrow> PodStartupChecker \<Rightarrow> ('w, go_error option) ps_prog" where
  "syntheticPodGarbageCollection env c = do {
     podList \<leftarrow> list_synthetic_pods env (ps_namespace c) (fst (syntheticPodLabels c)) (snd (syntheticPodLabels c));
     case podList of
       Inl err \<Rightarrow> return (Some (Wrap ''failed to list pods for garbage collection: '' err))
     | Inr items \<Rightarrow> do {
         errs \<leftarrow> gc_loop (ps_clock env) (\<lambda>pod. delete_synthetic_pod env (ps_namespace c) (Name pod)) CreationTimestamp
           (psTimeout c) (\<lambda>pod. ''failed to delete old synthetic pod '' @ Name pod @ '': '') items;
         return (errors_join errs) } }"

section \<open>Storage\<close>

fun validateStorageClasses :: "'w ps_env \<Rightarrow> CSIConfig list \<Rightarrow> ('w, go_error option) ps_prog" where
  "validateStorageClasses env [] = return None"
| "validateStorageClasses env (csi # csis) = do {
     r \<leftarrow> perform (GetStorageClass (StorageClass csi)) (ps_get_storage_class env (StorageClass csi));
     case r of
       Some err \<Rightarrow> return (Some (Wrap (''failed to get StorageClass '' @ quoted (StorageClass csi) @ '' for CSI type '' @
                     quoted (csiType csi) @ '': '') err))
     | None \<Rightarrow> validateStorageClasses env csis }"

text \<open>The claim of a CSI entry with the name its errors use, or none for an unsupported type.\<close>

definition csi_claim :: "PodStartupChecker \<Rightarrow> string \<Rightarrow> CSIConfig \<Rightarrow> (string \<times> PersistentVolumeClaim) option" where
  "csi_claim c timestampStr csi =
     (if csiType csi = CSITypeAzureDisk then Some (''Azure Disk PVC'', azureDiskPVC c timestampStr (StorageClass csi))
      else if csiType csi = CSITypeAzureFile then Some (''Azure File PVC'', azureFilePVC c timestampStr (StorageClass csi))
      else if csiType csi = CSITypeAzureBlob then Some (''Azure Blob PVC'', azureBlobPVC c timestampStr (StorageClass csi))
      else None)"

fun createCSIResources :: "'w ps_env \<Rightarrow> PodStartupChecker \<Rightarrow> string \<Rightarrow> CSIConfig list \<Rightarrow> ('w, go_error option) ps_prog" where
  "createCSIResources env c timestampStr [] = return None"
| "createCSIResources env c timestampStr (csi # csis) =
     (case csi_claim c timestampStr csi of
        None \<Rightarrow> return (Some (Msg (''failed to create resources for unsupported CSI type: '' @ csiType csi)))
      | Some (what, pvc) \<Rightarrow> do {
          r \<leftarrow> create_pvc env (ps_namespace c) pvc;
          case r of
            Some err \<Rightarrow> return (Some (Wrap (''failed to create '' @ what @ '': '') err))
          | None \<Rightarrow> createCSIResources env c timestampStr csis })"

fun deleteCSIResources :: "'w ps_env \<Rightarrow> PodStartupChecker \<Rightarrow> string \<Rightarrow> CSIConfig list \<Rightarrow> ('w, go_error option) ps_prog" where
  "deleteCSIResources env c timestampStr [] = return None"
| "deleteCSIResources env c timestampStr (csi # csis) =
     (case csi_claim c timestampStr csi of
        None \<Rightarrow> return (Some (Msg (''failed to delete resources for unsupported CSI type: '' @ csiType csi)))
      | Some (what, pvc) \<Rightarrow> do {
          r \<leftarrow> delete_pvc env (ps_namespace c) (Name pvc);
          case ignore_not_found r of
            Some err \<Rightarrow> return (Some (Wrap (''failed to delete '' @ what @ '': '') err))
          | None \<Rightarrow> deleteCSIResources env c timestampStr csis })"

definition persistentVolumeClaimGarbageCollection :: "'w ps_env \<Rightarrow> PodStartupChecker \<Rightarrow> ('w, go_error option) ps_prog" where
  "persistentVolumeClaimGarbageCollection env c = do {
     pvcs \<leftarrow> list_pvcs env (ps_namespace c) (fst (syntheticPodLabels c)) (snd (syntheticPodLabels c));
     case pvcs of
       Inl err \<Rightarrow> return (Some (Wrap ''failed to list persistent volume claims: '' err))
     | Inr items \<Rightarrow> do {
         errs \<leftarrow> gc_loop (ps_clock env) (\<lambda>pvc. delete_pvc env (ps_namespace c) (Name pvc)) CreationTimestamp
           (psTimeout c) (\<lambda>pvc. ''failed to delete outdated persistent volume claim '' @ Name pvc @ '': '') items;
         return (errors_join errs) } }"

definition max_pvcs :: "PodStartupChecker \<Rightarrow> int64" where
  "max_pvcs c = MaxSyntheticPods (psConfig c) * of_nat (length (csi_list (psConfig c)))"

definition checkCSIResourceLimit :: "'w ps_env \<Rightarrow> PodStartupChecker \<Rightarrow> ('w, go_error option) ps_prog" where
  "checkCSIResourceLimit env c =
     (if length (csi_list (psConfig c)) = 0 then return None
      else do {
        pvcs \<leftarrow> list_pvcs env (ps_namespace c) (fst (syntheticPodLabels c)) (snd (syntheticPodLabels c));
        case pvcs of
          Inl err \<Rightarrow> return (Some err)
        | Inr items \<Rightarrow>
            if sint (max_pvcs c) \<le> int (length items)
            then return (Some (Msg (''maximum number of PVCs reached, current: '' @ show_nat (length items) @
                   '', max allowed: '' @ show_int (sint (max_pvcs c)) @ '', delete some PVCs before running the checker again'')))
            else return None })"

section \<open>Node pools\<close>

definition isKarpenterNodePoolCRDPresent :: "'w ps_env \<Rightarrow> ('w, go_error + bool) ps_prog" where
  "isKarpenterNodePoolCRDPresent env = do {
     r \<leftarrow> perform (GetCRD ''nodepools.karpenter.sh'') (ps_get_crd env ''nodepools.karpenter.sh'');
     case r of
       Some err \<Rightarrow> if is_not_found err then return (Inr False) else return (Inl err)
     | None \<Rightarrow> return (Inr True) }"

definition createKarpenterNodePool :: "'w ps_env \<Rightarrow> NodePool \<Rightarrow> ('w, go_error option) ps_prog" where
  "createKarpenterNodePool env nodePool =
     (case ps_convert env nodePool of
        Some err \<Rightarrow> return (Some err)
      | None \<Rightarrow> do {
          r \<leftarrow> perform (CreateNodePool nodePool) (ps_create_node_pool env nodePool);
          case r of
            Some err \<Rightarrow> return (Some err)
          | None \<Rightarrow> return None })"

definition deleteKarpenterNodePool :: "'w ps_env \<Rightarrow> string \<Rightarrow> ('w, go_error option) ps_prog" where
  "deleteKarpenterNodePool env nodePoolName = do {
     r \<leftarrow> perform (DeleteNodePool nodePoolName) (ps_delete_node_pool env nodePoolName);
     return (ignore_not_found r) }"

fun delete_node_pools :: "'w ps_env \<Rightarrow> (go_error + string option) list \<Rightarrow> ('w, go_error list) ps_prog" where
  "delete_node_pools env [] = return []"
| "delete_node_pools env (item # items) =
     (case item of
        Inl err \<Rightarrow> do {
          errs \<leftarrow> delete_node_pools env items;
          return (Wrap ''failed to parse Karpenter Node Pool name: '' err # errs) }
      | Inr None \<Rightarrow> do {
          errs \<leftarrow> delete_node_pools env items;
          return (Msg ''got Karpenter NodePool with no name field in metadata'' # errs) }
      | Inr (Some nodePoolName) \<Rightarrow> do {
          r \<leftarrow> deleteKarpenterNodePool env nodePoolName;
          errs \<leftarrow> delete_node_pools env items;
          return ((case r of None \<Rightarrow> []
             | Some err \<Rightarrow> [Wrap (''failed to delete old Karpenter Node Pool '' @ nodePoolName @ '': '') err]) @ errs) })"

definition deleteAllKarpenterNodePools :: "'w ps_env \<Rightarrow> PodStartupChecker \<Rightarrow> ('w, go_error option) ps_prog" where
  "deleteAllKarpenterNodePools env c = do {
     nodePools \<leftarrow> perform (ListNodePools (SyntheticPodLabelKey (psConfig c))) (ps_list_node_pools env (SyntheticPodLabelKey (psConfig c)));
     case nodePools of
       Inl err \<Rightarrow> return (Some err)
     | Inr items \<Rightarrow> do {
         errs \<leftarrow> delete_node_pools env items;
         return (errors_join errs) } }"

definition karpenterNodePool :: "PodStartupChecker \<Rightarrow> string \<Rightarrow> string \<Rightarrow> NodePool" where
  "karpenterNodePool c nodePoolName timestampStr =
     (let key = SyntheticPodLabelKey (psConfig c)
      in ObjectMeta.extend ((meta nodePoolName)\<lparr>Labels := [key \<mapsto> timestampStr]\<rparr>)
           \<lparr>npKind = ''NodePool'', npAPIVersion = ''karpenter.sh/v1'',
            TemplateLabels = [''kubernetes.azure.com/mode'' \<mapsto> ''system'', key \<mapsto> timestampStr],
            NodeClassRef = \<lparr>nodeClassGroup = ''karpenter.azure.com'', nodeClassKind = ''AKSNodeClass'', nodeClassName = ''default''\<rparr>,
            Requirements = [\<lparr>nsrKey = ''kubernetes.io/arch'', nsrOperator = ''In'', nsrValues = [''amd64'']\<rparr>],
            Taints = [\<lparr>taintKey = key, taintEffect = ''NoSchedule''\<rparr>]\<rparr>)"

section \<open>Measuring a pod\<close>

definition garbageCollect_ps :: "'w ps_env \<Rightarrow> PodStartupChecker \<Rightarrow> ('w, go_error option) ps_prog" where
  "garbageCollect_ps env c = do {
     pods \<leftarrow> syntheticPodGarbageCollection env c;
     pools \<leftarrow> (if EnableNodeProvisioningTest (psConfig c) then deleteAllKarpenterNodePools env c else return None);
     pvcs \<leftarrow> persistentVolumeClaimGarbageCollection env c;
     return (errors_join
       ((case pods of None \<Rightarrow> [] | Some err \<Rightarrow> [Wrap ''failed to garbage collect outdated synthetic pods: '' err]) @
        (case pools of None \<Rightarrow> [] | Some err \<Rightarrow> [Wrap ''failed to delete old Karpenter Node Pools: '' err]) @
        (case pvcs of None \<Rightarrow> [] | Some err \<Rightarrow> [Wrap ''failed to garbage collect outdated persistent volume claims: '' err]))) }"

text \<open>The condition of the poll: the startup duration once some container runs.\<close>

definition startup_duration :: "Pod \<Rightarrow> duration option" where
  "startup_duration pod =
     (case find (\<lambda>status. Running status \<noteq> None) (ContainerStatuses (podStatus pod)) of
        None \<Rightarrow> None
      | Some status \<Rightarrow> Some (word_of_int (time_sub (the (Running status)) (CreationTimestamp pod))))"

definition poll_condition :: "'w ps_env \<Rightarrow> PodStartupChecker \<Rightarrow> string \<Rightarrow> ('w, duration option) ps_prog" where
  "poll_condition env c podName = do {
     r \<leftarrow> get_synthetic_pod env (ps_namespace c) podName;
     case r of
       Inl err \<Rightarrow> return None
     | Inr pod \<Rightarrow> if length (ContainerStatuses (podStatus pod)) = 0 then return None else return (startup_duration pod) }"

definition pollPodCreationToContainerRunningDuration ::
  "'w ps_env \<Rightarrow> PodStartupChecker \<Rightarrow> string \<Rightarrow> ('w, go_error + duration) ps_prog" where
  "pollPodCreationToContainerRunningDuration env c podName =
     ps_poll env pollingInterval (poll_condition env c podName)"

text \<open>An event message is parsed with \<open>imagePullDurationRegex\<close> and \<open>ParseDuration\<close>, whose several error
  texts are one here. The regular expression: an opening parenthesis, at least one letter, digit or point, and
  \<open>including waiting\<close> with the closing one; its group is the text between. The leftmost match counts.\<close>

definition group_char :: "char \<Rightarrow> bool" where
  "group_char c \<longleftrightarrow> (let n = of_char c :: nat in
     (97 \<le> n \<and> n \<le> 122) \<or> (65 \<le> n \<and> n \<le> 90) \<or> (48 \<le> n \<and> n \<le> 57) \<or> n = 46)"

fun find_submatch :: "string \<Rightarrow> string option" where
  "find_submatch [] = None"
| "find_submatch (c # s) =
     (if c = CHR ''('' \<and> takeWhile group_char s \<noteq> [] \<and> has_prefix '' including waiting)'' (dropWhile group_char s)
      then Some (takeWhile group_char s) else find_submatch s)"

definition parseImagePullDuration :: "string \<Rightarrow> go_error + duration" where
  "parseImagePullDuration message =
     (case find_submatch message of
        None \<Rightarrow> Inl (Msg (''failed to extract image pull duration from event message: message in unexpected format: '' @ message))
      | Some text \<Rightarrow>
          (case parse_duration text of
             None \<Rightarrow> Inl (Msg (''time: invalid duration '' @ quoted text))
           | Some d \<Rightarrow> Inr d))"

fun pull_duration_of :: "string \<Rightarrow> string list \<Rightarrow> go_error + duration" where
  "pull_duration_of podName [] = Inl (Msg (''no image pull events found for pod '' @ podName))"
| "pull_duration_of podName (message # messages) =
     (if contains ''Successfully pulled image'' message then parseImagePullDuration message
      else if contains ''already present on machine'' message then Inr 0
      else pull_duration_of podName messages)"

definition getImagePullDuration :: "'w ps_env \<Rightarrow> PodStartupChecker \<Rightarrow> string \<Rightarrow> ('w, go_error + duration) ps_prog" where
  "getImagePullDuration env c podName = do {
     events \<leftarrow> perform (ListPulledEvents (ps_namespace c) podName) (ps_list_events env (ps_namespace c) podName);
     case events of
       Inl err \<Rightarrow> return (Inl (Wrap (''failed to list events for pod '' @ podName @ '': '') err))
     | Inr messages \<Rightarrow> return (pull_duration_of podName messages) }"

definition createTCPConnection :: "'w ps_env \<Rightarrow> string \<Rightarrow> ('w, go_error option) ps_prog" where
  "createTCPConnection env podIP = do {
     r \<leftarrow> perform (Dial (podIP @ '':'' @ show_int syntheticPodPort)) (ps_dial env (podIP @ '':'' @ show_int syntheticPodPort));
     case r of
       Some err \<Rightarrow> return (Some (Wrap ''TCP connection failed: '' err))
     | None \<Rightarrow> return None }"

definition tcp_attempt :: "'w ps_env \<Rightarrow> string \<Rightarrow> nat \<Rightarrow> ('w, go_error option) ps_prog" where
  "tcp_attempt env podIP attempt = do {
     r \<leftarrow> createTCPConnection env podIP;
     case r of
       None \<Rightarrow> return None
     | Some err \<Rightarrow> return (Some (Wrap (''attempt '' @ show_nat attempt @ '': '') err)) }"

definition createTCPConnectionWithRetry :: "'w ps_env \<Rightarrow> PodStartupChecker \<Rightarrow> string \<Rightarrow> ('w, go_error option) ps_prog" where
  "createTCPConnectionWithRetry env c podIP =
     (let maxAttempts = TCPMaxRetries (psConfig c) + 1
      in ps_retry env (unat maxAttempts) (TCPRetryInterval (psConfig c)) (tcp_attempt env podIP))"

text \<open>\<open>errors.As(err, &retryErr)\<close>: the first error list of \<open>retry.Do\<close> in a depth-first walk.\<close>

fun as_retry_error :: "go_error \<Rightarrow> go_error list option" where
  "as_retry_error (RetryErrors m es) = Some es"
| "as_retry_error (Wrap p e) = as_retry_error e"
| "as_retry_error (Joined es) = first_some (map as_retry_error es)"
| "as_retry_error (Sentinel t) = None"
| "as_retry_error (ApiError r m) = None"
| "as_retry_error (Msg m) = None"

definition allErrorsAreDeadlineExceeded :: "go_error option \<Rightarrow> bool" where
  "allErrorsAreDeadlineExceeded r =
     (case r of
        None \<Rightarrow> False
      | Some err \<Rightarrow>
          (case as_retry_error err of
             None \<Rightarrow> errors_is DeadlineExceeded err
           | Some retryErr \<Rightarrow> if length retryErr = 0 then False else list_all (errors_is DeadlineExceeded) retryErr))"

section \<open>The check\<close>

definition exceeded :: "string \<Rightarrow> go_error + Result" where
  "exceeded message = Inr (Unhealthy ErrCodePodStartupDurationExceeded message)"

text \<open>The connectivity test, after a startup within the limit.\<close>

definition check_connectivity :: "'w ps_env \<Rightarrow> PodStartupChecker \<Rightarrow> string \<Rightarrow> ('w, go_error + Result) ps_prog" where
  "check_connectivity env c podName = do {
     ip \<leftarrow> getSyntheticPodIP env c podName;
     case ip of
       Inl err \<Rightarrow> return (Inl (Wrap ''failed to get synthetic pod IP: '' err))
     | Inr podIP \<Rightarrow> do {
         r \<leftarrow> createTCPConnectionWithRetry env c podIP;
         case r of
           Some err \<Rightarrow>
             if allErrorsAreDeadlineExceeded (Some err)
             then return (Inr (Unhealthy ErrCodeRequestTimeout ''TCP request to synthetic pod timed out''))
             else return (Inr (Unhealthy ErrCodeRequestFailed (''TCP request to synthetic pod failed: '' @ err_text err)))
         | None \<Rightarrow> return (Inr Healthy) } }"

definition startup_time :: "duration \<Rightarrow> duration \<Rightarrow> duration" where
  "startup_time running pull = round_to (sint second) (running - pull)"

text \<open>What happens to a created pod before the deferred deletions.\<close>

definition measure_pod :: "'w ps_env \<Rightarrow> PodStartupChecker \<Rightarrow> string \<Rightarrow> ('w, go_error + Result) ps_prog" where
  "measure_pod env c podName = do {
     r \<leftarrow> pollPodCreationToContainerRunningDuration env c podName;
     case r of
       Inl err \<Rightarrow>
         if errors_is DeadlineExceeded err then return (exceeded ''pod has no running container'')
         else return (Inl (Wrap ''pod has no running container: '' err))
     | Inr running \<Rightarrow> do {
         p \<leftarrow> getImagePullDuration env c podName;
         case p of
           Inl err \<Rightarrow> return (Inl (Wrap ''failed to get image pull duration: '' err))
         | Inr pull \<Rightarrow>
             if sint (SyntheticPodStartupTimeout (psConfig c)) \<le> sint (startup_time running pull)
             then return (exceeded ''pod exceeded the maximum healthy startup duration'')
             else check_connectivity env c podName } }"

text \<open>The deferred function of a created pod.\<close>

definition release_pod :: "'w ps_env \<Rightarrow> PodStartupChecker \<Rightarrow> string \<Rightarrow> string \<Rightarrow> ('w, unit) ps_prog" where
  "release_pod env c podName nodePoolName = do {
     _ \<leftarrow> delete_synthetic_pod env (ps_namespace c) podName;
     (if EnableNodeProvisioningTest (psConfig c) then do {
        _ \<leftarrow> deleteKarpenterNodePool env nodePoolName;
        return () }
      else return ()) }"

definition create_and_measure :: "'w ps_env \<Rightarrow> PodStartupChecker \<Rightarrow> string \<Rightarrow> string \<Rightarrow> ('w, go_error + Result) ps_prog" where
  "create_and_measure env c timeStampStr nodePoolName = do {
     created \<leftarrow> perform (CreateSyntheticPod (ps_namespace c) (generateSyntheticPod c timeStampStr))
                  (ps_create_pod env (ps_namespace c) (generateSyntheticPod c timeStampStr));
     case created of
       Inl err \<Rightarrow>
         if errors_is DeadlineExceeded err
         then return (Inr (Unhealthy ErrCodePodCreationTimeout ''timed out creating synthetic pod''))
         else return (Inr (Unhealthy ErrCodePodCreationError (''error creating synthetic pod: '' @ err_text err)))
     | Inr synthPod \<Rightarrow> do {
         outcome \<leftarrow> measure_pod env c (Name synthPod);
         release_pod env c (Name synthPod) nodePoolName;
         return outcome } }"

text \<open>The node pool of the run when the provisioning test is enabled: \<open>Some\<close> ends the run.\<close>

definition provision :: "'w ps_env \<Rightarrow> PodStartupChecker \<Rightarrow> string \<Rightarrow> string \<Rightarrow> ('w, (go_error + Result) option) ps_prog" where
  "provision env c timeStampStr nodePoolName =
     (if \<not> EnableNodeProvisioningTest (psConfig c) then return None
      else do {
        present \<leftarrow> isKarpenterNodePoolCRDPresent env;
        case present of
          Inl err \<Rightarrow> return (Some (Inl (Wrap ''failed to check Karpenter NodePool CRD presence: '' err)))
        | Inr p \<Rightarrow>
            if \<not> p then return (Some (Inr (Skipped ''Karpenter NodePool CRD was not found, pod startup test was skipped'')))
            else do {
              r \<leftarrow> createKarpenterNodePool env (karpenterNodePool c nodePoolName timeStampStr);
              case r of
                Some err \<Rightarrow> return (Some (Inl (Wrap ''failed to create Karpenter NodePool: '' err)))
              | None \<Rightarrow> return None } })"

definition node_pool_name :: "PodStartupChecker \<Rightarrow> string \<Rightarrow> string" where
  "node_pool_name c timeStampStr = to_lower (psName c) @ ''-nodepool-'' @ timeStampStr"

definition check_pods :: "'w ps_env \<Rightarrow> PodStartupChecker \<Rightarrow> string \<Rightarrow> ('w, go_error + Result) ps_prog" where
  "check_pods env c timeStampStr = do {
     pods \<leftarrow> list_synthetic_pods env (ps_namespace c) (fst (syntheticPodLabels c)) (snd (syntheticPodLabels c));
     case pods of
       Inl err \<Rightarrow> return (Inl (Wrap ''failed to list pods: '' err))
     | Inr items \<Rightarrow>
         if sint (MaxSyntheticPods (psConfig c)) \<le> int (length items)
         then return (Inl (Msg (''maximum number of synthetic pods reached, current: '' @ show_nat (length items) @
                '', max allowed: '' @ show_int (sint (MaxSyntheticPods (psConfig c))) @
                '', delete some pods before running the checker again'')))
         else do {
           stop \<leftarrow> provision env c timeStampStr (node_pool_name c timeStampStr);
           case stop of
             Some outcome \<Rightarrow> return outcome
           | None \<Rightarrow> create_and_measure env c timeStampStr (node_pool_name c timeStampStr) } }"

definition check_startup :: "'w ps_env \<Rightarrow> PodStartupChecker \<Rightarrow> ('w, go_error + Result) ps_prog" where
  "check_startup env c = do {
     _ \<leftarrow> garbageCollect_ps env c;
     now \<leftarrow> ps_clock env;
     let timeStampStr = show_int now;
     v \<leftarrow> validateStorageClasses env (csi_list (psConfig c));
     case v of
       Some err \<Rightarrow>
         if is_not_found err then return (Inr (Unhealthy ErrCodeStorageClassNotFound (err_text err)))
         else return (Inl err)
     | None \<Rightarrow> do {
         l \<leftarrow> checkCSIResourceLimit env c;
         case l of
           Some err \<Rightarrow> return (Inl (Wrap ''CSI resource limit check failed: '' err))
         | None \<Rightarrow> do {
             r \<leftarrow> createCSIResources env c timeStampStr (csi_list (psConfig c));
             case r of
               Some err \<Rightarrow> return (Inl (Wrap ''failed to create CSI test resources: '' err))
             | None \<Rightarrow> do {
                 outcome \<leftarrow> check_pods env c timeStampStr;
                 _ \<leftarrow> deleteCSIResources env c timeStampStr (csi_list (psConfig c));
                 return outcome } } } }"

definition startup_id :: "PodStartupChecker \<Rightarrow> chk_id" where
  "startup_id c = \<lparr>idName = psName c, idType = CheckTypePodStartup\<rparr>"

definition Run_startup :: "'w ps_env \<Rightarrow> PodStartupChecker \<Rightarrow> ('w, unit) ps_prog" where
  "Run_startup env c = do { outcome \<leftarrow> check_startup env c; RecordResult (startup_id c) outcome }"

end
