(* ===== verification/StartupSafety.thy ===== *)
theory StartupSafety
  imports PodStartup
begin

text \<open>
  What a run of the pod startup checker guarantees: its garbage collections, the release of what it
  creates, and what its verdict says about the pod. The two loops of libraries it uses obey
  \<open>poll_law\<close> and \<open>dial_law\<close>.
\<close>

section \<open>Laws of the loops\<close>

text \<open>Polling stops with the first value of the condition, or fails without one.\<close>

definition poll_law :: "'w ps_env \<Rightarrow> bool" where
  "poll_law env \<longleftrightarrow>
     (\<forall>d m s. \<exists>as. repeats (\<lambda>_. m) 0 s as (snd (run_state (ps_poll env d m) s)) \<and>
        (case fst (run_state (ps_poll env d m) s) of
           Inr x \<Rightarrow> as \<noteq> [] \<and> last as = Some x \<and> list_all (\<lambda>a. a = None) (butlast as)
         | Inl _ \<Rightarrow> list_all (\<lambda>a. a = None) as))"

text \<open>Retrying stops with the first success, or fails after failures only, whose errors it collects.\<close>

definition dial_law :: "'w ps_env \<Rightarrow> bool" where
  "dial_law env \<longleftrightarrow>
     (\<forall>n d f s. \<exists>as. repeats f 1 s as (snd (run_state (ps_retry env n d f) s)) \<and>
        (case fst (run_state (ps_retry env n d f) s) of
           None \<Rightarrow> as \<noteq> [] \<and> last as = None \<and> list_all (\<lambda>a. a \<noteq> None) (butlast as)
         | Some e \<Rightarrow> list_all (\<lambda>a. a \<noteq> None) as \<and> (as = [] \<or> (\<exists>t more. e = RetryErrors t (map the as @ more)))))"

lemma poll_emits:
  assumes "poll_law env" and "\<And>s. emits m (\<lambda>a es s'. Q a es \<and> rt.more s' = rt.more s) s"
  shows "emits (ps_poll env d m) (\<lambda>r es s'. rt.more s' = rt.more s \<and>
     (\<exists>as. rounds (\<lambda>_. Q) 0 as es \<and> (case r of Inr x \<Rightarrow> Some x \<in> set as | Inl _ \<Rightarrow> set as \<subseteq> {None}))) s"
proof -
  let ?r = "run_state (ps_poll env d m) s"
  obtain as where as: "repeats (\<lambda>_. m) 0 s as (snd ?r)"
    "case fst ?r of Inr x \<Rightarrow> as \<noteq> [] \<and> last as = Some x \<and> list_all (\<lambda>a. a = None) (butlast as)
       | Inl _ \<Rightarrow> list_all (\<lambda>a. a = None) as"
    using assms(1) unfolding poll_law_def by blast
  obtain es where es: "log (snd ?r) = log s @ es" "rounds (\<lambda>_. Q) 0 as es" "rt.more (snd ?r) = rt.more s"
    using repeats_rounds [OF as(1), of "\<lambda>_. Q"] assms(2) by blast
  have "case fst ?r of Inr x \<Rightarrow> Some x \<in> set as | Inl _ \<Rightarrow> set as \<subseteq> {None}"
    using as(2) by (auto split: sum.splits simp: list_all_iff) (metis last_in_set)
  then show ?thesis using es by (auto simp: emits_def)
qed

lemma retry_dial_emits:
  assumes "dial_law env" and "\<And>i s. emits (f i) (\<lambda>a es s'. Q i a es \<and> rt.more s' = rt.more s) s"
  shows "emits (ps_retry env n d f) (\<lambda>r es s'. rt.more s' = rt.more s \<and>
     (\<exists>as. rounds Q 1 as es \<and>
        (case r of None \<Rightarrow> as \<noteq> [] \<and> last as = None
         | Some e \<Rightarrow> None \<notin> set as \<and> (as = [] \<or> (\<exists>t more. e = RetryErrors t (map the as @ more)))))) s"
proof -
  let ?r = "run_state (ps_retry env n d f) s"
  obtain as where as: "repeats f 1 s as (snd ?r)"
    "case fst ?r of None \<Rightarrow> as \<noteq> [] \<and> last as = None \<and> list_all (\<lambda>a. a \<noteq> None) (butlast as)
       | Some e \<Rightarrow> list_all (\<lambda>a. a \<noteq> None) as \<and> (as = [] \<or> (\<exists>t more. e = RetryErrors t (map the as @ more)))"
    using assms(1) unfolding dial_law_def by blast
  obtain es where es: "log (snd ?r) = log s @ es" "rounds Q 1 as es" "rt.more (snd ?r) = rt.more s"
    using repeats_rounds [OF as(1) assms(2)] by blast
  have "case fst ?r of None \<Rightarrow> as \<noteq> [] \<and> last as = None
     | Some e \<Rightarrow> None \<notin> set as \<and> (as = [] \<or> (\<exists>t more. e = RetryErrors t (map the as @ more)))"
    using as(2) by (auto split: option.splits simp: list_all_iff)
  then show ?thesis using es by (auto simp: emits_def)
qed

section \<open>Garbage collection\<close>

interpretation pod_gc: age_gc "ps_clock env" "\<lambda>pod. delete_synthetic_pod env ns (Name pod)"
    Clock "\<lambda>pod. DeleteSyntheticPod ns (Name pod)" for env :: "'w ps_env" and ns
  by unfold_locales (auto simp: ps_calls intro!: emits_intro)

interpretation pvc_gc: age_gc "ps_clock env" "\<lambda>pvc. delete_pvc env ns (Name pvc)"
    Clock "\<lambda>pvc. DeletePVC ns (Name pvc)" for env :: "'w ps_env" and ns
  by unfold_locales (auto simp: ps_calls intro!: emits_intro)

abbreviation listed_pods :: "PodStartupChecker \<Rightarrow> go_error + Pod list \<Rightarrow> ps_event" where
  "listed_pods c \<equiv> ListSyntheticPods (ps_namespace c) (SyntheticPodLabelKey (psConfig c)) (psName c)"

abbreviation listed_pvcs :: "PodStartupChecker \<Rightarrow> go_error + PersistentVolumeClaim list \<Rightarrow> ps_event" where
  "listed_pvcs c \<equiv> ListPVCs (ps_namespace c) (SyntheticPodLabelKey (psConfig c)) (psName c)"

definition pods_collected :: "PodStartupChecker \<Rightarrow> ps_event list \<Rightarrow> bool" where
  "pods_collected c es \<longleftrightarrow> (\<exists>err. es = [listed_pods c (Inl err)]) \<or>
     (\<exists>items ds. es = listed_pods c (Inr items) # ds \<and>
        gc_explained Clock (\<lambda>pod. DeleteSyntheticPod (ps_namespace c) (Name pod)) CreationTimestamp (psTimeout c) items ds)"

definition pvcs_collected :: "PodStartupChecker \<Rightarrow> ps_event list \<Rightarrow> bool" where
  "pvcs_collected c es \<longleftrightarrow> (\<exists>err. es = [listed_pvcs c (Inl err)]) \<or>
     (\<exists>items ds. es = listed_pvcs c (Inr items) # ds \<and>
        gc_explained Clock (\<lambda>pvc. DeletePVC (ps_namespace c) (Name pvc)) CreationTimestamp (psTimeout c) items ds)"

text \<open>Node pools are not collected by age: every pool that carries the label key goes.\<close>

definition pools_collected :: "PodStartupChecker \<Rightarrow> ps_event list \<Rightarrow> bool" where
  "pools_collected c es \<longleftrightarrow>
     (if EnableNodeProvisioningTest (psConfig c) then
        (\<exists>err. es = [ListNodePools (SyntheticPodLabelKey (psConfig c)) (Inl err)]) \<or>
        (\<exists>items ds. es = ListNodePools (SyntheticPodLabelKey (psConfig c)) (Inr items) # ds \<and>
           list_all2 (\<lambda>n e. \<exists>r. e = DeleteNodePool n r) [n. Inr (Some n) \<leftarrow> items] ds)
      else es = [])"

lemma syntheticPodGarbageCollection_emits:
  "emits (syntheticPodGarbageCollection env c) (\<lambda>r es s'. pods_collected c es \<and> rt.more s' = rt.more s) s"
  unfolding syntheticPodGarbageCollection_def list_synthetic_pods_def syntheticPodLabels_def fst_conv snd_conv
  apply (rule emits_bind, rule emits_perform, rule emits_case_sum)
  subgoal by (rule emits_return) (simp add: pods_collected_def)
  subgoal by (rule emits_bind_via [OF pod_gc.gc_loop_emits], rule emits_return) (simp add: pods_collected_def)
  done

lemma persistentVolumeClaimGarbageCollection_emits:
  "emits (persistentVolumeClaimGarbageCollection env c) (\<lambda>r es s'. pvcs_collected c es \<and> rt.more s' = rt.more s) s"
  unfolding persistentVolumeClaimGarbageCollection_def list_pvcs_def syntheticPodLabels_def fst_conv snd_conv
  apply (rule emits_bind, rule emits_perform, rule emits_case_sum)
  subgoal by (rule emits_return) (simp add: pvcs_collected_def)
  subgoal by (rule emits_bind_via [OF pvc_gc.gc_loop_emits], rule emits_return) (simp add: pvcs_collected_def)
  done

lemma delete_node_pools_emits:
  "emits (delete_node_pools env items) (\<lambda>errs es s'. rt.more s' = rt.more s \<and>
     list_all2 (\<lambda>n e. \<exists>r. e = DeleteNodePool n r) [n. Inr (Some n) \<leftarrow> items] es) s"
proof (induction items arbitrary: s)
  case Nil
  show ?case by (auto intro!: emits_intro)
next
  case (Cons item items)
  show ?case
    unfolding delete_node_pools.simps deleteKarpenterNodePool_def
    apply (rule emits_case_sum)
    subgoal by (rule emits_bind_via [OF Cons.IH], rule emits_return) simp
    subgoal
      apply (rule emits_case_option)
      subgoal by (rule emits_bind_via [OF Cons.IH], rule emits_return) simp
      subgoal
        apply (rule emits_bind, rule emits_bind, rule emits_perform, rule emits_return)
        apply (rule emits_bind_via [OF Cons.IH], rule emits_return)
        apply simp
        done
      done
    done
qed

lemma garbageCollect_ps_emits:
  "emits (garbageCollect_ps env c) (\<lambda>r es s'. rt.more s' = rt.more s \<and>
     (\<exists>e1 e2 e3. es = e1 @ e2 @ e3 \<and> pods_collected c e1 \<and> pools_collected c e2 \<and> pvcs_collected c e3)) s"
proof -
  have pools: "emits (if EnableNodeProvisioningTest (psConfig c) then deleteAllKarpenterNodePools env c else return None)
     (\<lambda>r es s'. pools_collected c es \<and> rt.more s' = rt.more s) s" for s
    unfolding deleteAllKarpenterNodePools_def
    apply (rule emits_if)
    subgoal
      apply (rule emits_bind, rule emits_perform, rule emits_case_sum)
      subgoal by (rule emits_return) (simp add: pools_collected_def)
      subgoal by (rule emits_bind_via [OF delete_node_pools_emits], rule emits_return) (simp add: pools_collected_def)
      done
    subgoal by (rule emits_return) (simp add: pools_collected_def)
    done
  show ?thesis
    unfolding garbageCollect_ps_def
    by (rule emits_bind_via [OF syntheticPodGarbageCollection_emits], rule emits_bind_via [OF pools],
        rule emits_bind_via [OF persistentVolumeClaimGarbageCollection_emits], rule emits_return) auto
qed

section \<open>Measuring\<close>

text \<open>Calls that create and delete nothing.\<close>

fun reads_only :: "ps_event \<Rightarrow> bool" where
  "reads_only (CreateSyntheticPod _ _ _) = False"
| "reads_only (DeleteSyntheticPod _ _ _) = False"
| "reads_only (CreatePVC _ _ _) = False"
| "reads_only (DeletePVC _ _ _) = False"
| "reads_only (CreateNodePool _ _) = False"
| "reads_only (DeleteNodePool _ _) = False"
| "reads_only _ = True"

definition polled :: "PodStartupChecker \<Rightarrow> string \<Rightarrow> duration option \<Rightarrow> ps_event list \<Rightarrow> bool" where
  "polled c n a es \<longleftrightarrow> (\<exists>x. es = [GetSyntheticPod (ps_namespace c) n x] \<and>
     a = (case x of Inl _ \<Rightarrow> None | Inr pod \<Rightarrow> startup_duration pod))"

definition dial_event :: "string \<Rightarrow> go_error option \<Rightarrow> ps_event" where
  "dial_event ip r = Dial (ip @ '':80'') r"

definition dialled :: "string \<Rightarrow> nat \<Rightarrow> go_error option \<Rightarrow> ps_event list \<Rightarrow> bool" where
  "dialled ip i a es \<longleftrightarrow> (\<exists>x. es = [dial_event ip x] \<and>
     (case x of None \<Rightarrow> a = None
      | Some e \<Rightarrow> \<exists>p q. a = Some (Wrap p (Wrap q e))))"

lemma poll_condition_emits:
  "emits (poll_condition env c n) (\<lambda>a es s'. polled c n a es \<and> rt.more s' = rt.more s) s"
  unfolding poll_condition_def get_synthetic_pod_def
  by (intro emits_bind emits_perform emits_case_sum emits_if emits_return) (auto simp: polled_def startup_duration_def)

lemma show_port: "show_int syntheticPodPort = ''80''"
  by code_simp

lemma tcp_attempt_emits:
  "emits (tcp_attempt env ip i) (\<lambda>a es s'. dialled ip i a es \<and> rt.more s' = rt.more s) s"
proof -
  have addr: "ip @ '':'' @ show_int syntheticPodPort = ip @ '':80''" by (simp add: show_port)
  show ?thesis
    unfolding tcp_attempt_def createTCPConnection_def addr
    apply (rule emits_bind, rule emits_bind, rule emits_perform, rule emits_case_option)
    subgoal by (rule emits_return) (auto intro!: emits_return simp: dialled_def dial_event_def)
    subgoal by (rule emits_return) (auto intro!: emits_return simp: dialled_def dial_event_def)
    done
qed

text \<open>What the log shows of a pod: a duration it was seen running after, the pull duration its events
  report, and an address it had.\<close>

definition seen_running :: "PodStartupChecker \<Rightarrow> string \<Rightarrow> duration \<Rightarrow> ps_event list \<Rightarrow> bool" where
  "seen_running c n running es \<longleftrightarrow>
     (\<exists>pod. GetSyntheticPod (ps_namespace c) n (Inr pod) \<in> set es \<and> startup_duration pod = Some running)"

definition seen_pull :: "PodStartupChecker \<Rightarrow> string \<Rightarrow> duration \<Rightarrow> ps_event list \<Rightarrow> bool" where
  "seen_pull c n pull es \<longleftrightarrow>
     (\<exists>msgs. ListPulledEvents (ps_namespace c) n (Inr msgs) \<in> set es \<and> pull_duration_of n msgs = Inr pull)"

definition seen_ip :: "PodStartupChecker \<Rightarrow> string \<Rightarrow> string \<Rightarrow> ps_event list \<Rightarrow> bool" where
  "seen_ip c n ip es \<longleftrightarrow>
     (\<exists>pod. GetSyntheticPod (ps_namespace c) n (Inr pod) \<in> set es \<and> PodIP (podStatus pod) = ip \<and> ip \<noteq> '''')"

definition startup_limit :: "PodStartupChecker \<Rightarrow> int" where
  "startup_limit c = sint (SyntheticPodStartupTimeout (psConfig c))"

text \<open>The evidence behind each verdict on a created pod: its startup time is what it took to run less the
  image pull, to the second.\<close>

definition seconds_of :: "duration \<Rightarrow> duration" where
  "seconds_of d = round_to (10 ^ 9) d"

lemma startup_time_seconds: "startup_time running pull = seconds_of (running - pull)"
  by (simp add: startup_time_def seconds_of_def time_units)

definition started_and_reachable :: "PodStartupChecker \<Rightarrow> string \<Rightarrow> ps_event list \<Rightarrow> bool" where
  "started_and_reachable c n es \<longleftrightarrow>
     (\<exists>running pull ip. seen_running c n running es \<and> seen_pull c n pull es \<and>
        sint (seconds_of (running - pull)) < startup_limit c \<and> seen_ip c n ip es \<and> dial_event ip None \<in> set es)"

definition started_too_late :: "PodStartupChecker \<Rightarrow> string \<Rightarrow> ps_event list \<Rightarrow> bool" where
  "started_too_late c n es \<longleftrightarrow>
     (\<forall>running. \<not> seen_running c n running es) \<or>
     (\<exists>running pull. seen_running c n running es \<and> seen_pull c n pull es \<and>
        startup_limit c \<le> sint (seconds_of (running - pull)))"

definition never_reached :: "PodStartupChecker \<Rightarrow> string \<Rightarrow> bool \<Rightarrow> ps_event list \<Rightarrow> bool" where
  "never_reached c n timeouts es \<longleftrightarrow>
     (\<exists>ip. seen_ip c n ip es \<and> (\<forall>a. Dial a None \<notin> set es) \<and>
        (if timeouts then \<forall>a e. Dial a (Some e) \<in> set es \<longrightarrow> errors_is DeadlineExceeded e else True))"

definition measured :: "PodStartupChecker \<Rightarrow> string \<Rightarrow> go_error + Result \<Rightarrow> ps_event list \<Rightarrow> bool" where
  "measured c n outcome es \<longleftrightarrow>
     (case outcome of
        Inl _ \<Rightarrow> True
      | Inr r \<Rightarrow>
          (r = Healthy \<and> started_and_reachable c n es) \<or>
          (Status r = StatusUnhealthy \<and>
             (Code (resDetail r) = ErrCodePodStartupDurationExceeded \<and> started_too_late c n es \<or>
              Code (resDetail r) = ErrCodeRequestTimeout \<and> never_reached c n True es \<or>
              Code (resDetail r) = ErrCodeRequestFailed \<and> never_reached c n False es)))"

lemma seen_append [simp]:
  "seen_running c n d (es @ es') \<longleftrightarrow> seen_running c n d es \<or> seen_running c n d es'"
  "seen_pull c n d (es @ es') \<longleftrightarrow> seen_pull c n d es \<or> seen_pull c n d es'"
  "seen_ip c n ip (es @ es') \<longleftrightarrow> seen_ip c n ip es \<or> seen_ip c n ip es'"
  by (auto simp: seen_running_def seen_pull_def seen_ip_def)

lemma polled_Some:
  assumes "polled c n (Some d) es"
  shows "\<exists>pod. es = [GetSyntheticPod (ps_namespace c) n (Inr pod)] \<and> startup_duration pod = Some d"
proof -
  obtain x where "es = [GetSyntheticPod (ps_namespace c) n x]"
    "Some d = (case x of Inl _ \<Rightarrow> None | Inr pod \<Rightarrow> startup_duration pod)"
    using assms by (auto simp: polled_def)
  then show ?thesis by (cases x) auto
qed

text \<open>Calls that also dial nothing.\<close>

definition looks_only :: "ps_event \<Rightarrow> bool" where
  "looks_only e \<longleftrightarrow> reads_only e \<and> (\<forall>a r. e \<noteq> Dial a r)"

lemma looks_only_no_dial: "list_all looks_only es \<Longrightarrow> Dial a r \<notin> set es"
  by (auto simp: list_all_iff looks_only_def)

lemma poll_startup_emits:
  assumes "poll_law env"
  shows "emits (pollPodCreationToContainerRunningDuration env c n) (\<lambda>r es s'. rt.more s' = rt.more s \<and>
     list_all looks_only es \<and>
     (case r of Inr d \<Rightarrow> seen_running c n d es | Inl _ \<Rightarrow> (\<forall>d. \<not> seen_running c n d es))) s"
  unfolding pollPodCreationToContainerRunningDuration_def
proof (rule emits_mono [OF poll_emits [OF assms poll_condition_emits]], elim conjE exE)
  fix r es as and s' :: "('a, ps_event) chk_rt"
  assume m: "rt.more s' = rt.more s" and as: "rounds (\<lambda>_. polled c n) 0 as es"
    and r: "case r of Inr x \<Rightarrow> Some x \<in> set as | Inl _ \<Rightarrow> set as \<subseteq> {None}"
  have look: "list_all looks_only es"
    using rounds_event [OF as] by (fastforce simp: list_all_iff polled_def looks_only_def)
  have seen: "seen_running c n d es" if "Some d \<in> set as" for d
  proof -
    from rounds_answer [OF as that] obtain es1 where "polled c n (Some d) es1" "set es1 \<subseteq> set es" by blast
    with polled_Some show ?thesis by (fastforce simp: seen_running_def)
  qed
  have unseen: "Some d \<in> set as" if run: "seen_running c n d es" for d
  proof -
    obtain pod where pod: "GetSyntheticPod (ps_namespace c) n (Inr pod) \<in> set es" "startup_duration pod = Some d"
      using run by (auto simp: seen_running_def)
    from rounds_event [OF as pod(1)] obtain a es1 where "a \<in> set as" "polled c n a es1"
      "GetSyntheticPod (ps_namespace c) n (Inr pod) \<in> set es1" by blast
    then show ?thesis using pod(2) by (auto simp: polled_def)
  qed
  show "rt.more s' = rt.more s \<and> list_all looks_only es \<and>
     (case r of Inr d \<Rightarrow> seen_running c n d es | Inl _ \<Rightarrow> (\<forall>d. \<not> seen_running c n d es))"
    using m look seen unseen r by (auto split: sum.splits)
qed

lemma image_pull_emits:
  "emits (getImagePullDuration env c n) (\<lambda>r es s'. rt.more s' = rt.more s \<and> list_all looks_only es \<and>
     (case r of Inr d \<Rightarrow> seen_pull c n d es | Inl _ \<Rightarrow> True)) s"
  unfolding getImagePullDuration_def
  by (rule emits_bind, rule emits_perform, rule emits_case_sum; rule emits_return)
     (auto simp: seen_pull_def looks_only_def split: sum.splits)

lemma pod_ip_emits:
  "emits (getSyntheticPodIP env c n) (\<lambda>r es s'. rt.more s' = rt.more s \<and> list_all looks_only es \<and>
     (case r of Inr ip \<Rightarrow> seen_ip c n ip es | Inl _ \<Rightarrow> True)) s"
  unfolding getSyntheticPodIP_def get_synthetic_pod_def
  by (rule emits_bind, rule emits_perform, rule emits_case_sum; (rule emits_if)?; rule emits_return)
     (auto simp: seen_ip_def looks_only_def split: sum.splits)

lemma errors_is_wrapped_dial:
  "dialled ip i a es \<Longrightarrow> dial_event ip' (Some e) \<in> set es \<Longrightarrow> \<exists>w. a = Some w \<and> errors_is t w = errors_is t e"
  by (auto simp: dialled_def dial_event_def split: option.splits)

text \<open>The dials: one succeeded, or none did; and when every recorded error is a timeout, every dial was.\<close>

lemma connect_emits:
  assumes "dial_law env"
  shows "emits (createTCPConnectionWithRetry env c ip) (\<lambda>r es s'. rt.more s' = rt.more s \<and>
     (\<forall>e \<in> set es. \<exists>x. e = dial_event ip x) \<and>
     (case r of
        None \<Rightarrow> dial_event ip None \<in> set es
      | Some err \<Rightarrow> dial_event ip None \<notin> set es \<and>
          (allErrorsAreDeadlineExceeded r \<longrightarrow> (\<forall>e. dial_event ip (Some e) \<in> set es \<longrightarrow> errors_is DeadlineExceeded e)))) s"
  unfolding createTCPConnectionWithRetry_def Let_def
proof (rule emits_mono [OF retry_dial_emits [OF assms tcp_attempt_emits]], elim conjE exE)
  fix r es as and s' :: "('a, ps_event) chk_rt"
  assume m: "rt.more s' = rt.more s" and as: "rounds (dialled ip) 1 as es"
    and r: "case r of None \<Rightarrow> as \<noteq> [] \<and> last as = None
         | Some e \<Rightarrow> None \<notin> set as \<and> (as = [] \<or> (\<exists>t more. e = RetryErrors t (map the as @ more)))"
  have only: "\<forall>e \<in> set es. \<exists>x. e = dial_event ip x"
    using rounds_event [OF as] by (fastforce simp: dialled_def)
  have ok: "dial_event ip None \<in> set es \<longleftrightarrow> None \<in> set as"
  proof
    assume "dial_event ip None \<in> set es"
    from rounds_event [OF as this] show "None \<in> set as" by (auto simp: dialled_def dial_event_def)
  next
    assume "None \<in> set as"
    from rounds_answer [OF as this] show "dial_event ip None \<in> set es"
      by (auto simp: dialled_def dial_event_def split: option.splits)
  qed
  have late: "errors_is DeadlineExceeded e"
    if all: "allErrorsAreDeadlineExceeded r" and some: "r = Some err" and dial: "dial_event ip (Some e) \<in> set es" for err e
  proof -
    obtain k a es1 where a: "a \<in> set as" "dialled ip k a es1" "dial_event ip (Some e) \<in> set es1"
      using rounds_event [OF as dial] by blast
    then obtain w where w: "a = Some w" "errors_is DeadlineExceeded w = errors_is DeadlineExceeded e"
      using errors_is_wrapped_dial by blast
    have "as \<noteq> []" using a(1) by auto
    then obtain t more where e: "r = Some (RetryErrors t (map the as @ more))" using r some by auto
    have "list_all (errors_is DeadlineExceeded) (map the as @ more)"
      using all \<open>as \<noteq> []\<close> by (simp add: e allErrorsAreDeadlineExceeded_def split: if_splits)
    moreover have "w \<in> set (map the as)" using a(1) w(1) by force
    ultimately show ?thesis using w(2) by (auto simp: list_all_iff)
  qed
  show "rt.more s' = rt.more s \<and> (\<forall>e \<in> set es. \<exists>x. e = dial_event ip x) \<and>
     (case r of
        None \<Rightarrow> dial_event ip None \<in> set es
      | Some err \<Rightarrow> dial_event ip None \<notin> set es \<and>
          (allErrorsAreDeadlineExceeded r \<longrightarrow> (\<forall>e. dial_event ip (Some e) \<in> set es \<longrightarrow> errors_is DeadlineExceeded e)))"
    using m only ok late r by (auto split: option.splits) (metis last_in_set)+
qed

lemma startup_codes_nonempty [simp]:
  "ErrCodePodCreationError \<noteq> ''''" "ErrCodePodCreationTimeout \<noteq> ''''" "ErrCodePodStartupDurationExceeded \<noteq> ''''"
  "ErrCodeRequestFailed \<noteq> ''''" "ErrCodeRequestTimeout \<noteq> ''''" "ErrCodeStorageClassNotFound \<noteq> ''''"
  by (simp_all add: startup_codes)

lemma looks_reads: "list_all looks_only es \<Longrightarrow> list_all reads_only es"
  by (auto simp: list_all_iff looks_only_def)

definition reached :: "PodStartupChecker \<Rightarrow> string \<Rightarrow> go_error + Result \<Rightarrow> ps_event list \<Rightarrow> bool" where
  "reached c n outcome es \<longleftrightarrow>
     (case outcome of
        Inl _ \<Rightarrow> True
      | Inr r \<Rightarrow>
          (r = Healthy \<and> (\<exists>ip. seen_ip c n ip es \<and> dial_event ip None \<in> set es)) \<or>
          (Status r = StatusUnhealthy \<and>
             (Code (resDetail r) = ErrCodeRequestTimeout \<and> never_reached c n True es \<or>
              Code (resDetail r) = ErrCodeRequestFailed \<and> never_reached c n False es)))"

lemma never_reachedI:
  assumes "list_all looks_only es1" "seen_ip c n ip es1" "\<forall>e \<in> set es2. \<exists>x. e = dial_event ip x"
    and "dial_event ip None \<notin> set es2"
    and "timeouts \<Longrightarrow> \<forall>e. dial_event ip (Some e) \<in> set es2 \<longrightarrow> errors_is DeadlineExceeded e"
  shows "never_reached c n timeouts (es1 @ es2)"
  unfolding never_reached_def
proof (intro exI conjI)
  show "seen_ip c n ip (es1 @ es2)" using assms(2) by simp
  have at: "Dial a r \<in> set (es1 @ es2) \<Longrightarrow> Dial a r = dial_event ip r \<and> dial_event ip r \<in> set es2" for a r
    using looks_only_no_dial [OF assms(1)] assms(3) by (fastforce simp: dial_event_def)
  show "\<forall>a. Dial a None \<notin> set (es1 @ es2)" using at assms(4) by blast
  show "if timeouts then \<forall>a e. Dial a (Some e) \<in> set (es1 @ es2) \<longrightarrow> errors_is DeadlineExceeded e else True"
    using at assms(5) by auto
qed

lemma check_connectivity_emits:
  assumes "dial_law env"
  shows "emits (check_connectivity env c n) (\<lambda>outcome es s'. rt.more s' = rt.more s \<and> list_all reads_only es \<and>
     conclusive outcome \<and> reached c n outcome es) s"
  unfolding check_connectivity_def
  apply (rule emits_bind_via [OF pod_ip_emits], rule emits_case_sum)
  subgoal by (rule emits_return) (auto simp: reached_def looks_reads)
  subgoal for r es s1 ip
    apply (rule emits_bind_via [OF connect_emits [OF assms]], rule emits_case_option)
    subgoal for r2 es2 s2
      apply (rule emits_return, elim conjE)
      apply (frule looks_reads [of es])
      apply (auto simp: reached_def list_all_iff dial_event_def intro!: exI [of _ ip])
      done
    subgoal premises prems for r2 es2 s2 err
    proof -
      have p: "list_all looks_only es" "seen_ip c n ip es" "\<forall>e \<in> set es2. \<exists>x. e = dial_event ip x"
        "dial_event ip None \<notin> set es2" using prems by auto
      have never: "never_reached c n t (es @ es2)" if "t \<Longrightarrow> allErrorsAreDeadlineExceeded (Some err)" for t
        by (rule never_reachedI [OF p]) (use prems that in auto)
      have reads: "list_all reads_only (es @ es2)"
        using looks_reads [OF p(1)] p(3) by (auto simp: list_all_iff dial_event_def)
      show ?thesis
        using prems never [of True] never [of False] reads
        by (intro emits_if emits_return) (auto simp: reached_def)
    qed
    done
  done

lemma measure_pod_emits:
  assumes "poll_law env" "dial_law env"
  shows "emits (measure_pod env c n) (\<lambda>outcome es s'. rt.more s' = rt.more s \<and> list_all reads_only es \<and>
     conclusive outcome \<and> measured c n outcome es) s"
  unfolding measure_pod_def exceeded_def
  apply (rule emits_bind_via [OF poll_startup_emits [OF assms(1)]], rule emits_case_sum)
  subgoal by (intro emits_if emits_return) (auto simp: measured_def started_too_late_def looks_reads)
  subgoal for r es s1 running
    apply (rule emits_bind_via [OF image_pull_emits], rule emits_case_sum)
    subgoal by (rule emits_return) (auto simp: measured_def looks_reads)
    subgoal for r2 es2 s2 pull
      apply (rule emits_if)
      subgoal by (rule emits_return) (auto simp: measured_def started_too_late_def startup_limit_def looks_reads startup_time_seconds)
      subgoal
        apply (rule emits_mono [OF check_connectivity_emits [OF assms(2)]])
        subgoal premises prems for outcome es3 s3
        proof -
          have run: "seen_running c n running es" "seen_pull c n pull es2" "list_all looks_only (es @ es2)" using prems by auto
          have re: "reached c n outcome es3" using prems by blast
          have lim: "sint (seconds_of (running - pull)) < startup_limit c"
            using prems by (simp add: startup_limit_def startup_time_seconds)
          have "never_reached c n t (es @ es2 @ es3)" if "never_reached c n t es3" for t
            using that looks_only_no_dial [OF run(3)] by (auto simp: never_reached_def)
          moreover have "started_and_reachable c n (es @ es2 @ es3)"
            if "seen_ip c n ip es3" "dial_event ip None \<in> set es3" for ip
            unfolding started_and_reachable_def using run lim that by (intro exI [of _ running] exI [of _ pull] exI [of _ ip]) auto
          ultimately have "measured c n outcome (es @ es2 @ es3)"
            using re by (cases outcome) (auto simp: measured_def reached_def)
          then show ?thesis using prems looks_reads [OF run(3)] by simp
        qed
        done
      done
    done
  done

section \<open>Volumes\<close>

definition claims :: "PodStartupChecker \<Rightarrow> string \<Rightarrow> PersistentVolumeClaim list" where
  "claims c ts = map (\<lambda>csi. snd (the (csi_claim c ts csi))) (csi_list (psConfig c))"

definition volumes_created :: "PodStartupChecker \<Rightarrow> string \<Rightarrow> ps_event list \<Rightarrow> bool" where
  "volumes_created c ts es \<longleftrightarrow> es = map (\<lambda>p. CreatePVC (ps_namespace c) p None) (claims c ts)"

text \<open>The deferred deletion goes through the claims in order, and stops early only at a failed deletion.\<close>

definition volumes_released :: "PodStartupChecker \<Rightarrow> string \<Rightarrow> ps_event list \<Rightarrow> bool" where
  "volumes_released c ts es \<longleftrightarrow>
     (\<exists>rs. length rs \<le> length (claims c ts) \<and>
        es = map2 (\<lambda>p. DeletePVC (ps_namespace c) (Name p)) (take (length rs) (claims c ts)) rs \<and>
        (length rs = length (claims c ts) \<or> rs \<noteq> [] \<and> ignore_not_found (last rs) \<noteq> None))"

fun is_create_pvc :: "ps_event \<Rightarrow> bool" where
  "is_create_pvc (CreatePVC _ _ _) = True"
| "is_create_pvc _ = False"

lemma validateStorageClasses_emits:
  "emits (validateStorageClasses env csis) (\<lambda>r es s'. rt.more s' = rt.more s \<and> list_all reads_only es \<and>
     (case r of None \<Rightarrow> True
      | Some err \<Rightarrow> \<exists>sc e. GetStorageClass sc (Some e) \<in> set es \<and> (is_not_found err \<longleftrightarrow> is_not_found e))) s"
proof (induction csis arbitrary: s)
  case Nil
  show ?case by (auto intro!: emits_intro)
next
  case (Cons csi csis)
  show ?case
    unfolding validateStorageClasses.simps
    apply (rule emits_bind, rule emits_perform, rule emits_case_option)
    subgoal by (rule emits_mono [OF Cons.IH]) (auto split: option.splits)
    subgoal by (rule emits_return) auto
    done
qed

lemma checkCSIResourceLimit_emits:
  "emits (checkCSIResourceLimit env c) (\<lambda>r es s'. rt.more s' = rt.more s \<and> list_all reads_only es) s"
  unfolding checkCSIResourceLimit_def list_pvcs_def
  apply (rule emits_if)
  subgoal by (rule emits_return) simp
  subgoal by (rule emits_bind, rule emits_perform, rule emits_case_sum; (rule emits_if)?; rule emits_return) auto
  done

lemma createCSIResources_emits:
  "emits (createCSIResources env c ts csis) (\<lambda>r es s'. rt.more s' = rt.more s \<and> list_all is_create_pvc es \<and>
     (r = None \<longrightarrow> list_all (\<lambda>csi. csi_claim c ts csi \<noteq> None) csis \<and>
        es = map (\<lambda>csi. CreatePVC (ps_namespace c) (snd (the (csi_claim c ts csi))) None) csis)) s"
proof (induction csis arbitrary: s)
  case Nil
  show ?case by (auto intro!: emits_intro)
next
  case (Cons csi csis)
  show ?case
    unfolding createCSIResources.simps create_pvc_def
    apply (rule emits_case_option)
    subgoal by (rule emits_return) simp
    subgoal for p
      apply (rule emits_case_prod, rule emits_bind, rule emits_perform, rule emits_case_option)
      subgoal by (rule emits_mono [OF Cons.IH]) auto
      subgoal by (rule emits_return) auto
      done
    done
qed

lemma deleteCSIResources_emits:
  assumes "list_all (\<lambda>csi. csi_claim c ts csi \<noteq> None) csis"
  shows "emits (deleteCSIResources env c ts csis) (\<lambda>r es s'. rt.more s' = rt.more s \<and>
     (\<exists>rs. length rs \<le> length csis \<and>
        es = map2 (\<lambda>csi. DeletePVC (ps_namespace c) (Name (snd (the (csi_claim c ts csi))))) (take (length rs) csis) rs \<and>
        (length rs = length csis \<or> rs \<noteq> [] \<and> ignore_not_found (last rs) \<noteq> None))) s"
  using assms
proof (induction csis arbitrary: s)
  case Nil
  show ?case by (auto intro!: emits_intro)
next
  case (Cons csi csis)
  obtain what pvc where claim: "csi_claim c ts csi = Some (what, pvc)" using Cons.prems by auto
  have ok: "list_all (\<lambda>csi. csi_claim c ts csi \<noteq> None) csis" using Cons.prems by simp
  show ?case
    unfolding deleteCSIResources.simps delete_pvc_def claim option.case prod.case
    apply (rule emits_bind, rule emits_perform, rule emits_case_option)
    subgoal for r w
      apply (rule emits_mono [OF Cons.IH [OF ok]], elim conjE exE)
      subgoal for res es s' rs
        by (intro conjI exI [of _ "r # rs"]) (auto simp: claim)
      done
    subgoal for r w err
      by (rule emits_return) (auto simp: claim intro!: exI [of _ "[r]"])
    done
qed

lemma volumes_released_emits:
  assumes "list_all (\<lambda>csi. csi_claim c ts csi \<noteq> None) (csi_list (psConfig c))"
  shows "emits (deleteCSIResources env c ts (csi_list (psConfig c))) (\<lambda>r es s'. rt.more s' = rt.more s \<and> volumes_released c ts es) s"
  by (rule emits_mono [OF deleteCSIResources_emits [OF assms]])
     (auto simp: volumes_released_def claims_def take_map zip_map1 case_prod_beta)

section \<open>A run\<close>

text \<open>Calls that leave no pod behind and delete nothing.\<close>

fun pod_free :: "ps_event \<Rightarrow> bool" where
  "pod_free (CreateSyntheticPod _ _ (Inr _)) = False"
| "pod_free (DeleteSyntheticPod _ _ _) = False"
| "pod_free (CreatePVC _ _ _) = False"
| "pod_free (DeletePVC _ _ _) = False"
| "pod_free (DeleteNodePool _ _) = False"
| "pod_free _ = True"

lemma reads_pod_free: "reads_only e \<Longrightarrow> pod_free e"
  by (cases e rule: reads_only.cases) auto

text \<open>The verdicts without a pod: no node pools in the cluster, or the creation was refused.\<close>

definition unmeasured :: "PodStartupChecker \<Rightarrow> go_error + Result \<Rightarrow> ps_event list \<Rightarrow> bool" where
  "unmeasured c outcome es \<longleftrightarrow>
     (case outcome of
        Inl _ \<Rightarrow> True
      | Inr r \<Rightarrow>
          (Status r = StatusSkipped \<and> (\<exists>n e. GetCRD n (Some e) \<in> set es \<and> is_not_found e)) \<or>
          (Status r = StatusUnhealthy \<and> (\<exists>pod e. CreateSyntheticPod (ps_namespace c) pod (Inl e) \<in> set es \<and>
             Code (resDetail r) = (if errors_is DeadlineExceeded e then ErrCodePodCreationTimeout else ErrCodePodCreationError))) \<or>
          (Status r = StatusUnhealthy \<and> Code (resDetail r) = ErrCodeStorageClassNotFound \<and>
             (\<exists>sc e. GetStorageClass sc (Some e) \<in> set es \<and> is_not_found e)))"

text \<open>A created pod: measured, then deleted, and its node pool after it.\<close>

definition released :: "PodStartupChecker \<Rightarrow> string \<Rightarrow> Pod \<Rightarrow> go_error + Result \<Rightarrow> ps_event list \<Rightarrow> bool" where
  "released c ts p outcome es \<longleftrightarrow>
     (\<exists>mid r post. es = CreateSyntheticPod (ps_namespace c) (generateSyntheticPod c ts) (Inr p) # mid @
          DeleteSyntheticPod (ps_namespace c) (Name p) r # post \<and>
        list_all reads_only mid \<and> measured c (Name p) outcome mid \<and>
        (if EnableNodeProvisioningTest (psConfig c)
         then \<exists>r'. post = [DeleteNodePool (node_pool_name c ts) r'] else post = []))"

definition pods_run :: "PodStartupChecker \<Rightarrow> string \<Rightarrow> go_error + Result \<Rightarrow> ps_event list \<Rightarrow> bool" where
  "pods_run c ts outcome es \<longleftrightarrow>
     (list_all pod_free es \<and> unmeasured c outcome es) \<or>
     (\<exists>items prov p tail. es = listed_pods c (Inr items) # prov @ tail \<and>
        int (length items) < sint (MaxSyntheticPods (psConfig c)) \<and> list_all pod_free prov \<and> released c ts p outcome tail)"

lemma unmeasured_more: "unmeasured c outcome es \<Longrightarrow> set es \<subseteq> set es' \<Longrightarrow> unmeasured c outcome es'"
  unfolding unmeasured_def by (cases outcome) (simp, simp only: sum.case, blast)

lemma pods_runI:
  "int (length items) < sint (MaxSyntheticPods (psConfig c)) \<Longrightarrow> list_all pod_free prov \<Longrightarrow>
   released c ts p outcome tail \<Longrightarrow> pods_run c ts outcome (listed_pods c (Inr items) # prov @ tail)"
  unfolding pods_run_def by blast

lemma provision_emits:
  "emits (provision env c ts pool) (\<lambda>r es s'. rt.more s' = rt.more s \<and> list_all pod_free es \<and>
     (case r of None \<Rightarrow> True | Some outcome \<Rightarrow> unmeasured c outcome es \<and>
        (conclusive outcome \<or> EnableNodeProvisioningTest (psConfig c)))) s"
  unfolding provision_def isKarpenterNodePoolCRDPresent_def createKarpenterNodePool_def
  apply (rule emits_if)
  subgoal by (rule emits_return) simp
  subgoal
    apply (rule emits_bind, rule emits_bind, rule emits_perform, rule emits_case_option)
    subgoal
      apply (rule emits_return, simp only: sum.case not_True_eq_False if_False)
      apply (rule emits_bind, rule emits_case_option)
      subgoal
        apply (rule emits_bind, rule emits_perform, rule emits_case_option)
        subgoal by (rule emits_return) (auto intro!: emits_return simp: unmeasured_def)
        subgoal by (rule emits_return) (auto intro!: emits_return simp: unmeasured_def)
        done
      subgoal by (rule emits_return) (auto intro!: emits_return simp: unmeasured_def)
      done
    subgoal
      apply (rule emits_if)
      subgoal by (rule emits_return) (auto intro!: emits_return simp: unmeasured_def)
      subgoal by (rule emits_return) (auto intro!: emits_return simp: unmeasured_def)
      done
    done
  done

lemma create_and_measure_emits:
  assumes "poll_law env" "dial_law env"
  shows "emits (create_and_measure env c ts (node_pool_name c ts)) (\<lambda>outcome es s'. rt.more s' = rt.more s \<and> conclusive outcome \<and>
     (list_all pod_free es \<and> unmeasured c outcome es \<or> (\<exists>p. released c ts p outcome es))) s"
  unfolding create_and_measure_def
  apply (rule emits_bind, rule emits_perform, rule emits_case_sum)
  subgoal for x w err
    by (intro emits_if emits_return) (auto simp: unmeasured_def)
  subgoal for x w p
    apply (rule emits_bind_via [OF measure_pod_emits [OF assms]])
    unfolding release_pod_def delete_synthetic_pod_def deleteKarpenterNodePool_def
    apply (rule emits_bind, rule emits_bind, rule emits_perform, rule emits_if)
    subgoal
      by (rule emits_bind, rule emits_bind, rule emits_perform, rule emits_return, rule emits_return, rule emits_return)
         (auto simp: released_def intro!: disjI2 exI [of _ p])
    subgoal
      by (rule emits_return, rule emits_return)
         (auto simp: released_def intro!: disjI2 exI [of _ p])
    done
  done

lemma check_pods_emits:
  assumes "poll_law env" "dial_law env"
  shows "emits (check_pods env c ts) (\<lambda>outcome es s'. rt.more s' = rt.more s \<and>
     (conclusive outcome \<or> EnableNodeProvisioningTest (psConfig c)) \<and> pods_run c ts outcome es) s"
  unfolding check_pods_def list_synthetic_pods_def syntheticPodLabels_def fst_conv snd_conv
  apply (rule emits_bind, rule emits_perform, rule emits_case_sum)
  subgoal by (rule emits_return) (auto simp: pods_run_def unmeasured_def)
  subgoal for x w items
    apply (rule emits_if)
    subgoal by (rule emits_return) (auto simp: pods_run_def unmeasured_def)
    subgoal
      apply (rule emits_bind_via [OF provision_emits], rule emits_case_option)
      subgoal for r es s1
        apply (rule emits_mono [OF create_and_measure_emits [OF assms]])
        apply (elim conjE disjE exE)
        subgoal for outcome es2 s2
          using unmeasured_more [of c outcome es2] by (simp add: pods_run_def subset_insertI2)
        subgoal for outcome es2 s2 p
          using pods_runI [of items c es ts p outcome es2] by simp
        done
      subgoal for r es s1 outcome
        using unmeasured_more [of c outcome es] by (intro emits_return) (simp add: pods_run_def subset_insertI)
      done
    done
  done

text \<open>A whole run after the garbage collection: it reads, then creates all volumes of the run or stops,
  then handles the pod, and releases the volumes.\<close>

definition startup_run :: "PodStartupChecker \<Rightarrow> go_error + Result \<Rightarrow> ps_event list \<Rightarrow> bool" where
  "startup_run c outcome es \<longleftrightarrow>
     (\<exists>look vols. es = look @ vols \<and> list_all reads_only look \<and> list_all is_create_pvc vols \<and> unmeasured c outcome es) \<or>
     (\<exists>ts look vols body rest. es = look @ vols @ body @ rest \<and> list_all reads_only look \<and>
        volumes_created c ts vols \<and> pods_run c ts outcome body \<and> volumes_released c ts rest)"

definition collection_run :: "PodStartupChecker \<Rightarrow> ps_event list \<Rightarrow> bool" where
  "collection_run c es \<longleftrightarrow>
     (\<exists>e1 e2 e3. es = e1 @ e2 @ e3 \<and> pods_collected c e1 \<and> pools_collected c e2 \<and> pvcs_collected c e3)"

lemma startup_run_full:
  "list_all reads_only look \<Longrightarrow> volumes_created c ts vols \<Longrightarrow> pods_run c ts outcome body \<Longrightarrow>
   volumes_released c ts rest \<Longrightarrow> startup_run c outcome (look @ vols @ body @ rest)"
  unfolding startup_run_def by blast

lemma startup_run_stop:
  "list_all reads_only look \<Longrightarrow> list_all is_create_pvc vols \<Longrightarrow> unmeasured c outcome (look @ vols) \<Longrightarrow>
   startup_run c outcome (look @ vols)"
  unfolding startup_run_def by blast

text \<open>After the garbage collection: a clock reading and the stages of the run.\<close>

lemma staged_run_emits:
  assumes "poll_law env" "dial_law env"
  shows "emits (do {
     v \<leftarrow> validateStorageClasses env (csi_list (psConfig c));
     case v of
       Some err \<Rightarrow>
         if is_not_found err then return (Inr (Unhealthy ErrCodeStorageClassNotFound (err_text err)))
         else return (Inl err)
     | None \<Rightarrow> do {
         l \<leftarrow> checkCSIResourceLimit env c;
         case l of
           Some err \<Rightarrow> return (Inl (Wrap ''CSI resource limit check failed: '' err))
         | None \<Rightarrow> do {
             r \<leftarrow> createCSIResources env c ts (csi_list (psConfig c));
             case r of
               Some err \<Rightarrow> return (Inl (Wrap ''failed to create CSI test resources: '' err))
             | None \<Rightarrow> do {
                 outcome \<leftarrow> check_pods env c ts;
                 _ \<leftarrow> deleteCSIResources env c ts (csi_list (psConfig c));
                 return outcome } } } })
     (\<lambda>outcome es s'. rt.more s' = rt.more s \<and>
        (conclusive outcome \<or> EnableNodeProvisioningTest (psConfig c)) \<and> startup_run c outcome (Clock now # es)) s"
  apply (rule emits_bind_via [OF validateStorageClasses_emits], rule emits_case_option)
  subgoal for v es2 s2
    apply (rule emits_bind_via [OF checkCSIResourceLimit_emits], rule emits_case_option)
    subgoal for l es3 s3
      apply (rule emits_bind_via [OF createCSIResources_emits], rule emits_case_option)
      subgoal for r es4 s4
        apply (rule emits_bind_via [OF check_pods_emits [OF assms]])
        apply (rule emits_bind_via [OF volumes_released_emits], blast)
        subgoal for outcome es5 s5 d es6 s6
          using startup_run_full [of "Clock now # es2 @ es3" c ts es4 outcome es5 es6]
          by (intro emits_return) (simp add: volumes_created_def claims_def)
        done
      subgoal for r es4 s4 err
        using startup_run_stop [of "Clock now # es2 @ es3" es4 c "Inl (Wrap ''failed to create CSI test resources: '' err)"]
        by (intro emits_return) (simp add: unmeasured_def)
      done
    subgoal for l es3 s3 err
      using startup_run_stop [of "Clock now # es2 @ es3" "[]" c "Inl (Wrap ''CSI resource limit check failed: '' err)"]
      by (intro emits_return) (simp add: unmeasured_def)
    done
  subgoal for v es2 s2 err
    apply (rule emits_if; rule emits_return)
    subgoal
      using startup_run_stop [of "Clock now # es2" "[]" c "Inr (Unhealthy ErrCodeStorageClassNotFound (err_text err))"]
      by (auto simp: unmeasured_def)
    subgoal
      using startup_run_stop [of "Clock now # es2" "[]" c "Inl err"] by (simp add: unmeasured_def)
    done
  done

lemma check_startup_emits:
  assumes "poll_law env" "dial_law env"
  shows "emits (check_startup env c) (\<lambda>outcome es s'. rt.more s' = rt.more s \<and>
     (conclusive outcome \<or> EnableNodeProvisioningTest (psConfig c)) \<and>
     (\<exists>gc run. es = gc @ run \<and> collection_run c gc \<and> startup_run c outcome run)) s"
  unfolding check_startup_def Let_def ps_clock_def
  apply (rule emits_bind_via [OF garbageCollect_ps_emits])
  apply (rule emits_bind, rule emits_perform)
  subgoal for r gc s1 now w
    apply (rule emits_mono [OF staged_run_emits [OF assms, where now = now]])
    apply (elim conjE)
    subgoal for outcome es s2
      apply (intro conjI)
      subgoal by simp
      subgoal by simp
      subgoal by (rule exI [of _ gc], rule exI [of _ "Clock now # es"]) (simp add: collection_run_def)
      done
    done
  done

section \<open>Properties\<close>

text \<open>C33: a run of the pod startup check first asks to delete only its own leftovers older than the timeout
  (and the labelled node pools), then creates its volumes and at most one pod, only below its limit. For
  a pod the server has created it asks for the deletion after nothing but reads, whatever these say, then for
  that of its node pool, and after it for that of the volumes, up to the first that fails. Whether the server
  grants a deletion is not in the program's hands; what stays is the matter of a later collection.\<close>

theorem created_pod_deletion_requested:
  assumes "poll_law env" and "dial_law env"
  shows "emits (check_startup env c) (\<lambda>outcome es s'.
     \<exists>gc run. es = gc @ run \<and> collection_run c gc \<and> startup_run c outcome run) s"
  by (rule emits_mono [OF check_startup_emits [OF assms]]) simp

text \<open>Loops that run their function once.\<close>

definition poll_once :: "duration \<Rightarrow> ('w, duration option) ps_prog \<Rightarrow> ('w, go_error + duration) ps_prog" where
  "poll_once d m = do {
     a \<leftarrow> m;
     case a of
       None \<Rightarrow> return (Inl (Sentinel DeadlineExceeded))
     | Some x \<Rightarrow> return (Inr x) }"

definition try_once :: "nat \<Rightarrow> duration \<Rightarrow> (nat \<Rightarrow> ('w, go_error option) ps_prog) \<Rightarrow> ('w, go_error option) ps_prog" where
  "try_once n d f = do {
     a \<leftarrow> f 1;
     case a of
       None \<Rightarrow> return None
     | Some e \<Rightarrow> return (Some (RetryErrors ''All attempts fail'' [e])) }"

lemma repeats_once: "run_state (f i) s = (a, s') \<Longrightarrow> repeats f i s [a] s'"
  by (rule repeats.call [OF refl refl]) (auto intro: repeats.stop)

lemma poll_once_law: "ps_poll env = poll_once \<Longrightarrow> poll_law env"
  unfolding poll_law_def
proof (intro allI)
  fix d and m :: "('a, duration option) ps_prog" and s :: "('a, ps_event) chk_rt"
  assume env: "ps_poll env = poll_once"
  obtain a s' where r: "run_state m s = (a, s')" by (cases "run_state m s")
  show "\<exists>as. repeats (\<lambda>_. m) 0 s as (snd (run_state (ps_poll env d m) s)) \<and>
        (case fst (run_state (ps_poll env d m) s) of
           Inr x \<Rightarrow> as \<noteq> [] \<and> last as = Some x \<and> list_all (\<lambda>a. a = None) (butlast as)
         | Inl _ \<Rightarrow> list_all (\<lambda>a. a = None) as)"
    using repeats_once [of "\<lambda>_. m" 0, OF r]
    by (intro exI [of _ "[a]"]) (auto simp: env poll_once_def r split: option.splits)
qed

lemma try_once_law: "ps_retry env = try_once \<Longrightarrow> dial_law env"
  unfolding dial_law_def
proof (intro allI)
  fix n d and f :: "nat \<Rightarrow> ('a, go_error option) ps_prog" and s :: "('a, ps_event) chk_rt"
  assume env: "ps_retry env = try_once"
  obtain a s' where r: "run_state (f 1) s = (a, s')" by (cases "run_state (f 1) s")
  show "\<exists>as. repeats f 1 s as (snd (run_state (ps_retry env n d f) s)) \<and>
        (case fst (run_state (ps_retry env n d f) s) of
           None \<Rightarrow> as \<noteq> [] \<and> last as = None \<and> list_all (\<lambda>a. a \<noteq> None) (butlast as)
         | Some e \<Rightarrow> list_all (\<lambda>a. a \<noteq> None) as \<and> (as = [] \<or> (\<exists>t more. e = RetryErrors t (map the as @ more))))"
    using repeats_once [of f 1, OF r] r
    by (intro exI [of _ "[a]"]) (auto simp: env try_once_def split: option.splits)
qed

text \<open>A cluster in which a pod runs three seconds after its creation, and answers.\<close>

definition demo_pod :: Pod where
  "demo_pod = ObjectMeta.extend (meta ''startup-synthetic-0'')
     \<lparr>podSpec = empty_pod_spec, podStatus = empty_pod_status
        \<lparr>PodIP := ''10.1.0.4'', ContainerStatuses := [\<lparr>Running = Some (zero_time + 3000000000), Terminated = None\<rparr>]\<rparr>\<rparr>"

definition demo_ps_env :: "unit ps_env" where
  "demo_ps_env = \<lparr>ps_in_cluster = None, ps_new_dynamic = None, ps_now = \<lambda>w. (0, w), ps_list_pods = \<lambda>_ _ _ w. (Inr [], w),
     ps_create_pod = \<lambda>_ _ w. (Inr demo_pod, w), ps_get_pod = \<lambda>_ _ w. (Inr demo_pod, w), ps_delete_pod = \<lambda>_ _ w. (None, w),
     ps_list_pvcs = \<lambda>_ _ _ w. (Inr [], w), ps_create_pvc = \<lambda>_ _ w. (None, w), ps_delete_pvc = \<lambda>_ _ w. (None, w),
     ps_get_storage_class = \<lambda>_ w. (None, w), ps_get_crd = \<lambda>_ w. (None, w), ps_convert = \<lambda>_. None,
     ps_create_node_pool = \<lambda>_ w. (None, w), ps_delete_node_pool = \<lambda>_ w. (None, w), ps_list_node_pools = \<lambda>_ w. (Inr [], w),
     ps_list_events = \<lambda>_ _ w. (Inr [''image already present on machine''], w), ps_dial = \<lambda>_ w. (None, w),
     ps_poll = poll_once, ps_retry = try_once\<rparr>"

definition demo_checker :: PodStartupChecker where
  "demo_checker = \<lparr>psName = ''startup'', psConfig = demo_startup second 2 second, psTimeout = 60 * second\<rparr>"

definition demo_state :: "(unit, ps_event) chk_rt" where
  "demo_state = \<lparr>world = (), log = [], CheckerResultCounter = \<lambda>_. 0, PodHealthResultCounter = \<lambda>_. 0\<rparr>"

lemma demo_laws: "poll_law demo_ps_env" "dial_law demo_ps_env"
  by (rule poll_once_law, simp add: demo_ps_env_def) (rule try_once_law, simp add: demo_ps_env_def)

text \<open>The run on this cluster: nothing to collect, one pod, seen running after three seconds and reached,
  then the request to delete it.\<close>

abbreviation demo_run :: "(go_error + Result) \<times> (unit, ps_event) chk_rt" where
  "demo_run \<equiv> run_state (check_startup demo_ps_env demo_checker) demo_state"

definition demo_log :: "ps_event list" where
  "demo_log = [listed_pods demo_checker (Inr []), listed_pvcs demo_checker (Inr []), Clock 0,
     listed_pods demo_checker (Inr []),
     CreateSyntheticPod ''ns'' (generateSyntheticPod demo_checker (show_int 0)) (Inr demo_pod),
     GetSyntheticPod ''ns'' ''startup-synthetic-0'' (Inr demo_pod),
     ListPulledEvents ''ns'' ''startup-synthetic-0'' (Inr [''image already present on machine'']),
     GetSyntheticPod ''ns'' ''startup-synthetic-0'' (Inr demo_pod), Dial ''10.1.0.4:80'' None,
     DeleteSyntheticPod ''ns'' ''startup-synthetic-0'' None]"

lemma demo_ps_calls:
  "ps_now demo_ps_env w = (0, w)" "ps_list_pods demo_ps_env a k v w = (Inr [], w)"
  "ps_create_pod demo_ps_env a p w = (Inr demo_pod, w)" "ps_get_pod demo_ps_env a n w = (Inr demo_pod, w)"
  "ps_delete_pod demo_ps_env a n w = (None, w)" "ps_list_pvcs demo_ps_env a k v w = (Inr [], w)"
  "ps_list_events demo_ps_env a n w = (Inr [''image already present on machine''], w)"
  "ps_dial demo_ps_env a w = (None, w)" "ps_poll demo_ps_env = poll_once" "ps_retry demo_ps_env = try_once"
  by (simp_all add: demo_ps_env_def)

lemma demo_checker_fields:
  "ps_namespace demo_checker = ''ns''" "EnableNodeProvisioningTest (psConfig demo_checker) = False"
  "csi_list (psConfig demo_checker) = []" "MaxSyntheticPods (psConfig demo_checker) = 3"
  "SyntheticPodStartupTimeout (psConfig demo_checker) = 5 * second"
  by (simp_all add: demo_checker_def demo_startup_def csi_list_def)

lemma demo_pod_fields:
  "Name demo_pod = ''startup-synthetic-0''" "PodIP (podStatus demo_pod) = ''10.1.0.4''"
  "ContainerStatuses (podStatus demo_pod) \<noteq> []" "startup_duration demo_pod = Some (3 * second)"
  by (simp_all add: demo_pod_def startup_duration_def ObjectMeta.defs meta_def time_units time_sub_def
      max_duration_def min_duration_def)

lemma demo_pull: "pull_duration_of n [''image already present on machine''] = Inr 0"
proof -
  have "\<not> contains ''Successfully pulled image'' ''image already present on machine''"
    "contains ''already present on machine'' ''image already present on machine''" by code_simp+
  then show ?thesis by simp
qed

lemma demo_startup_time: "sint (startup_time (3 * second) 0) < sint (5 * second)"
  by code_simp

lemma demo_measured: "run_state (measure_pod demo_ps_env demo_checker ''startup-synthetic-0'') s = (Inr Healthy, s\<lparr>world := (), log := log s @
     [GetSyntheticPod ''ns'' ''startup-synthetic-0'' (Inr demo_pod),
      ListPulledEvents ''ns'' ''startup-synthetic-0'' (Inr [''image already present on machine'']),
      GetSyntheticPod ''ns'' ''startup-synthetic-0'' (Inr demo_pod), Dial ''10.1.0.4:80'' None]\<rparr>)"
  using demo_startup_time
  by (simp add: measure_pod_def pollPodCreationToContainerRunningDuration_def poll_once_def poll_condition_def ps_calls
      getImagePullDuration_def check_connectivity_def getSyntheticPodIP_def createTCPConnectionWithRetry_def try_once_def
      tcp_attempt_def createTCPConnection_def demo_ps_calls demo_checker_fields demo_pod_fields demo_pull show_port
      Let_def del: pull_duration_of.simps)

lemma demo_run_eq: "fst demo_run = Inr Healthy" "log (snd demo_run) = demo_log"
  by (simp_all add: demo_state_def demo_log_def check_startup_def garbageCollect_ps_def syntheticPodGarbageCollection_def
      persistentVolumeClaimGarbageCollection_def checkCSIResourceLimit_def check_pods_def provision_def
      create_and_measure_def release_pod_def ps_calls list_pvcs_def demo_ps_calls demo_checker_fields demo_pod_fields
      demo_measured syntheticPodLabels_def Let_def)

theorem created_pod_deletion_requested_witness:
  "CreateSyntheticPod ''ns'' (generateSyntheticPod demo_checker (show_int 0)) (Inr demo_pod) \<in> set demo_log \<and>
   log (snd demo_run) = demo_log \<and>
   (\<exists>gc run. demo_log = gc @ run \<and> collection_run demo_checker gc \<and> startup_run demo_checker (Inr Healthy) run)"
proof (intro conjI)
  show "log (snd demo_run) = demo_log" by (rule demo_run_eq)
  then show "\<exists>gc run. demo_log = gc @ run \<and> collection_run demo_checker gc \<and> startup_run demo_checker (Inr Healthy) run"
    using created_pod_deletion_requested [OF demo_laws, of demo_checker demo_state] demo_run_eq(1)
    by (simp add: emits_def demo_state_def)
qed (simp add: demo_log_def)

text \<open>What a verdict rests on: the calls between the creation of the pod and its deletion.\<close>

definition between :: "PodStartupChecker \<Rightarrow> Pod \<Rightarrow> ps_event list \<Rightarrow> ps_event list \<Rightarrow> bool" where
  "between c p mid es \<longleftrightarrow>
     (\<exists>pre ts r post. es = pre @ CreateSyntheticPod (ps_namespace c) (generateSyntheticPod c ts) (Inr p) # mid @
        DeleteSyntheticPod (ps_namespace c) (Name p) r # post)"

definition verdict_evidence :: "PodStartupChecker \<Rightarrow> go_error + Result \<Rightarrow> ps_event list \<Rightarrow> bool" where
  "verdict_evidence c outcome es \<longleftrightarrow>
     (case outcome of
        Inl _ \<Rightarrow> True
      | Inr r \<Rightarrow>
          (r = Healthy \<and> (\<exists>p mid. between c p mid es \<and> started_and_reachable c (Name p) mid)) \<or>
          (r \<noteq> Healthy \<and> ((\<exists>p mid. between c p mid es \<and> measured c (Name p) outcome mid) \<or> unmeasured c outcome es)))"

lemma released_evidence:
  assumes "released c ts p outcome tail"
  shows "verdict_evidence c outcome (pre @ tail @ post)"
proof (cases outcome)
  case (Inr r)
  obtain mid d rest where tail: "tail = CreateSyntheticPod (ps_namespace c) (generateSyntheticPod c ts) (Inr p) # mid @
      DeleteSyntheticPod (ps_namespace c) (Name p) d # rest" and m: "measured c (Name p) outcome mid"
    using assms unfolding released_def by blast
  have "between c p mid (pre @ tail @ post)"
    unfolding between_def by (intro exI [of _ pre] exI [of _ ts] exI [of _ d] exI [of _ "rest @ post"]) (simp add: tail)
  moreover have "started_and_reachable c (Name p) mid" if "r = Healthy" using m that Inr by (auto simp: measured_def)
  ultimately show ?thesis using m Inr unfolding verdict_evidence_def by auto
qed (simp add: verdict_evidence_def)

lemma unmeasured_evidence: "unmeasured c outcome es \<Longrightarrow> verdict_evidence c outcome es"
  by (cases outcome) (auto simp: unmeasured_def verdict_evidence_def)

lemma startup_run_evidence:
  assumes "startup_run c outcome run"
  shows "verdict_evidence c outcome (gc @ run)"
  using assms unfolding startup_run_def
proof (elim disjE exE conjE)
  assume "unmeasured c outcome run"
  then show ?thesis by (intro unmeasured_evidence) (rule unmeasured_more, auto)
next
  fix ts look vols body rest
  assume run: "run = look @ vols @ body @ rest" and body: "pods_run c ts outcome body"
  from body show ?thesis unfolding pods_run_def
  proof (elim disjE exE conjE)
    assume "unmeasured c outcome body"
    then show ?thesis using run by (intro unmeasured_evidence) (rule unmeasured_more, auto)
  next
    fix items prov p tail
    assume "body = listed_pods c (Inr items) # prov @ tail" "released c ts p outcome tail"
    then show ?thesis using run released_evidence [of c ts p outcome tail "gc @ look @ vols @ listed_pods c (Inr items) # prov" rest] by simp
  qed
qed

text \<open>C34: the verdict of the pod startup check rests on what the calls showed: Healthy on a pod that ran
  within the limit (image pull excluded) and answered on its address; a late start, unreachability,
  a refused creation, a missing storage class and a missing CRD each on the calls that showed them.\<close>

theorem startup_verdict_has_evidence:
  assumes "poll_law env" and "dial_law env"
  shows "emits (check_startup env c) (\<lambda>outcome es s'. verdict_evidence c outcome es) s"
  by (rule emits_mono [OF check_startup_emits [OF assms]]) (auto intro: startup_run_evidence)

theorem startup_verdict_has_evidence_witness:
  "fst demo_run = Inr Healthy \<and> verdict_evidence demo_checker (Inr Healthy) demo_log"
  using startup_verdict_has_evidence [OF demo_laws, of demo_checker demo_state] demo_run_eq
  by (auto simp: emits_def demo_state_def)

section \<open>The time for connections\<close>

text \<open>What the validation of the configuration promises for the TCP attempts. \<open>retry.Do\<close> calls its function at
  most as often as \<open>Attempts\<close> says (no limit if that is zero). A dial lasts at most \<open>TCPTimeout\<close>, which
  the builder gives to the dialer, and the pause between two attempts is \<open>TCPRetryInterval\<close>.\<close>

definition attempts_law :: "'w ps_env \<Rightarrow> bool" where
  "attempts_law env \<longleftrightarrow>
     (\<forall>n d f s. 0 < n \<longrightarrow> (\<exists>as. length as \<le> n \<and> repeats f 1 s as (snd (run_state (ps_retry env n d f) s))))"

fun is_dial :: "ps_event \<Rightarrow> bool" where
  "is_dial (Dial a r) = True"
| "is_dial _ = False"

definition connection_time :: "PodStartupConfig \<Rightarrow> nat \<Rightarrow> int" where
  "connection_time cfg n = int n * sint (TCPTimeout cfg) + int (n - 1) * sint (TCPRetryInterval cfg)"

lemma dial_rounds: "rounds (dialled ip) i as es \<Longrightarrow> length es = length as \<and> list_all is_dial es"
  by (induction "dialled ip" i as es rule: rounds.induct) (fastforce simp: dialled_def dial_event_def)+

lemma unat_attempts:
  assumes "0 \<le> sint (w :: 64 word)" "sint w + 1 < 2 ^ 63"
  shows "int (unat (w + 1)) = sint w + 1"
proof -
  have "w + 1 = word_of_int (sint w + 1)" by simp
  then have "uint (w + 1) = uint (word_of_int (sint w + 1) :: 64 word)" by metis
  also have "\<dots> = (sint w + 1) mod 2 ^ 64" by (subst uint_word_of_int) simp
  also have "\<dots> = sint w + 1" using assms by (intro mod_pos_pos_trivial) auto
  finally show ?thesis by simp
qed

lemma connection_time_budget:
  assumes "pod_startup_ok v cfg t" "int n \<le> sint (TCPMaxRetries cfg) + 1"
  shows "connection_time cfg n \<le> exact_budget cfg"
proof -
  have nn: "0 \<le> sint (TCPMaxRetries cfg)" "0 \<le> sint (TCPTimeout cfg)" "0 \<le> sint (TCPRetryInterval cfg)"
    using assms(1) by (auto simp: pod_startup_ok_def)
  have "int n * sint (TCPTimeout cfg) \<le> (sint (TCPMaxRetries cfg) + 1) * sint (TCPTimeout cfg)"
    using assms(2) nn by (intro mult_right_mono) auto
  moreover have "int (n - 1) * sint (TCPRetryInterval cfg) \<le> sint (TCPMaxRetries cfg) * sint (TCPRetryInterval cfg)"
    using assms(2) nn by (intro mult_right_mono) auto
  ultimately show ?thesis by (simp add: connection_time_def exact_budget_def)
qed

lemma retries_small:
  assumes "pod_startup_ok v cfg t" "sint (SyntheticPodStartupTimeout cfg) + exact_budget cfg < 2 ^ 63"
  shows "0 \<le> sint (TCPMaxRetries cfg)" "sint (TCPMaxRetries cfg) + 1 < 2 ^ 63"
proof -
  have nn: "0 \<le> sint (TCPMaxRetries cfg)" "1 \<le> sint (TCPTimeout cfg)" "0 \<le> sint (TCPRetryInterval cfg)"
    "0 < sint (SyntheticPodStartupTimeout cfg)"
    using assms(1) by (auto simp: pod_startup_ok_def)
  then have "(sint (TCPMaxRetries cfg) + 1) * 1 \<le> (sint (TCPMaxRetries cfg) + 1) * sint (TCPTimeout cfg)"
    by (intro mult_left_mono) auto
  moreover have "0 \<le> sint (TCPMaxRetries cfg) * sint (TCPRetryInterval cfg)" using nn by simp
  ultimately show "sint (TCPMaxRetries cfg) + 1 < 2 ^ 63" using assms(2) nn(4) by (simp add: exact_budget_def)
qed (use assms(1) in \<open>auto simp: pod_startup_ok_def\<close>)

text \<open>C27: what the validated budget is for. Under an accepted configuration whose startup timeout and exact budget
  do not overflow, one series of connection attempts makes no other calls than dials, at most one more than the
  configured retries; and counting every dial at the TCP timeout, the pauses between them, and the startup
  timeout, the sum is below the checker's timeout.\<close>

theorem connection_attempts_fit_timeout:
  assumes "attempts_law env" "PodStartupConfig_validate v (Some (psConfig c)) (psTimeout c) = []"
    and "sint (SyntheticPodStartupTimeout (psConfig c)) + exact_budget (psConfig c) < 2 ^ 63"
  shows "emits (createTCPConnectionWithRetry env c ip) (\<lambda>r es s'. list_all is_dial es \<and>
     int (length es) \<le> sint (TCPMaxRetries (psConfig c)) + 1 \<and>
     sint (SyntheticPodStartupTimeout (psConfig c)) + connection_time (psConfig c) (length es) < sint (psTimeout c)) s"
proof -
  let ?cfg = "psConfig c"
  let ?n = "unat (TCPMaxRetries ?cfg + 1)"
  have ok: "pod_startup_ok v ?cfg (psTimeout c)" using assms(2) by (simp add: PodStartupConfig_validate_Nil)
  have n: "int ?n = sint (TCPMaxRetries ?cfg) + 1" "0 \<le> sint (TCPMaxRetries ?cfg)"
    using unat_attempts retries_small [OF ok assms(3)] by auto
  then have "0 < ?n" by linarith
  then obtain as where as: "length as \<le> ?n"
    "repeats (tcp_attempt env ip) 1 s as (snd (run_state (createTCPConnectionWithRetry env c ip) s))"
    using assms(1) unfolding attempts_law_def createTCPConnectionWithRetry_def Let_def by blast
  from repeats_rounds [OF as(2) tcp_attempt_emits] obtain es where
    es: "log (snd (run_state (createTCPConnectionWithRetry env c ip) s)) = log s @ es" "rounds (dialled ip) 1 as es"
    by blast
  have len: "list_all is_dial es" "int (length es) \<le> sint (TCPMaxRetries ?cfg) + 1"
    using dial_rounds [OF es(2)] as(1) n(1) of_nat_mono [of "length as" ?n, where 'a = int] by simp_all
  have "sint (SyntheticPodStartupTimeout ?cfg) + exact_budget ?cfg < sint (psTimeout c)"
    by (rule accepted_budget_fits_timeout [OF assms(2,3)])
  with connection_time_budget [OF ok len(2)] len es(1) show ?thesis by (auto simp: emits_def)
qed

text \<open>A loop that tries as often as it may, and a pod that refuses every connection.\<close>

fun try_from :: "nat \<Rightarrow> nat \<Rightarrow> (nat \<Rightarrow> ('w, go_error option) ps_prog) \<Rightarrow> ('w, go_error option) ps_prog" where
  "try_from i 0 f = return (Some (RetryErrors ''All attempts fail'' []))"
| "try_from i (Suc n) f = do {
     a \<leftarrow> f i;
     case a of
       None \<Rightarrow> return None
     | Some e \<Rightarrow> try_from (Suc i) n f }"

definition refusing_env :: "unit ps_env" where
  "refusing_env = demo_ps_env\<lparr>ps_dial := \<lambda>_ w. (Some (Msg ''refused''), w), ps_retry := \<lambda>n _ f. try_from 1 n f\<rparr>"

lemma try_from_repeats: "\<exists>as. length as \<le> n \<and> repeats f i s as (snd (run_state (try_from i n f) s))"
proof (induction n arbitrary: i s)
  case 0
  show ?case by (intro exI [of _ "[]"]) (auto intro: repeats.stop)
next
  case (Suc n)
  obtain a s1 where r: "run_state (f i) s = (a, s1)" by (cases "run_state (f i) s")
  show ?case
  proof (cases a)
    case None
    then show ?thesis using repeats_once [of f i, OF r] r by (intro exI [of _ "[None]"]) simp
  next
    case (Some e)
    obtain as where "length as \<le> n" "repeats f (Suc i) s1 as (snd (run_state (try_from (Suc i) n f) s1))"
      using Suc.IH by blast
    then show ?thesis using repeats.call [of s s f i, OF refl refl r] Some r by (intro exI [of _ "a # as"]) simp
  qed
qed

lemma refusing_law: "attempts_law refusing_env"
  using try_from_repeats by (auto simp: attempts_law_def refusing_env_def)

lemma demo_accepted: "PodStartupConfig_validate lenient (Some (psConfig demo_checker)) (psTimeout demo_checker) = []"
  by (simp add: PodStartupConfig_validate_def demo_checker_def demo_startup_def lenient_def tcpConnectivityBudget_def check_def
      csi_list_def time_units)

lemma refused_log:
  "log (snd (run_state (createTCPConnectionWithRetry refusing_env demo_checker ''10.1.0.4'') demo_state)) =
     replicate 3 (Dial ''10.1.0.4:80'' (Some (Msg ''refused'')))"
proof -
  have "unat (TCPMaxRetries (psConfig demo_checker) + 1) = 3" by (simp add: demo_checker_def demo_startup_def)
  then show ?thesis
    by (simp add: createTCPConnectionWithRetry_def refusing_env_def numeral_3_eq_3 tcp_attempt_def
        createTCPConnection_def show_port demo_state_def)
qed

theorem connection_attempts_fit_timeout_witness:
  "length (log (snd (run_state (createTCPConnectionWithRetry refusing_env demo_checker ''10.1.0.4'') demo_state))) = 3 \<and>
   sint (SyntheticPodStartupTimeout (psConfig demo_checker)) + connection_time (psConfig demo_checker) 3 < sint (psTimeout demo_checker)"
proof
  show n: "length (log (snd (run_state (createTCPConnectionWithRetry refusing_env demo_checker ''10.1.0.4'') demo_state))) = 3"
    by (simp add: refused_log)
  have "sint (SyntheticPodStartupTimeout (psConfig demo_checker)) + exact_budget (psConfig demo_checker) < 2 ^ 63"
    by (simp add: demo_checker_def demo_startup_def exact_budget_def time_units)
  from connection_attempts_fit_timeout [OF refusing_law demo_accepted this, of "''10.1.0.4''" demo_state] n
  show "sint (SyntheticPodStartupTimeout (psConfig demo_checker)) + connection_time (psConfig demo_checker) 3 < sint (psTimeout demo_checker)"
    by (auto simp: emits_def demo_state_def)
qed

end
