(* ===== verification/ApiServer.thy ===== *)
theory ApiServer
  imports CheckerGC
begin

text \<open>
  \<open>pkg/checker/apiserver\<close>: creates, reads and deletes an empty ConfigMap. A ConfigMap is its metadata.
  A call made under a deadline of its own carries that deadline. The deferred deletion runs on every
  path after the creation.
\<close>

definition ErrCodeAPIServerCreateError :: string where "ErrCodeAPIServerCreateError = ''APIServerCreateError''"
definition ErrCodeAPIServerCreateTimeout :: string where "ErrCodeAPIServerCreateTimeout = ''APIServerCreateTimeout''"
definition ErrCodeAPIServerGetError :: string where "ErrCodeAPIServerGetError = ''APIServerGetError''"
definition ErrCodeAPIServerGetTimeout :: string where "ErrCodeAPIServerGetTimeout = ''APIServerGetTimeout''"
definition ErrCodeAPIServerDeleteError :: string where "ErrCodeAPIServerDeleteError = ''APIServerDeleteError''"
definition ErrCodeAPIServerDeleteTimeout :: string where "ErrCodeAPIServerDeleteTimeout = ''APIServerDeleteTimeout''"

lemmas api_codes = ErrCodeAPIServerCreateError_def ErrCodeAPIServerCreateTimeout_def
  ErrCodeAPIServerGetError_def ErrCodeAPIServerGetTimeout_def ErrCodeAPIServerDeleteError_def
  ErrCodeAPIServerDeleteTimeout_def

type_synonym ConfigMap = ObjectMeta

record APIServerChecker =
  asName :: string
  asConfig :: APIServerConfig
  asTimeout :: duration

record 'w as_env =
  as_now :: "'w \<Rightarrow> time \<times> 'w"
  as_list :: "string \<Rightarrow> string \<Rightarrow> string \<Rightarrow> 'w \<Rightarrow> (go_error + ConfigMap list) \<times> 'w"
  as_create :: "duration \<Rightarrow> ConfigMap \<Rightarrow> 'w \<Rightarrow> (go_error + ConfigMap) \<times> 'w"
  as_get :: "duration \<Rightarrow> string \<Rightarrow> string \<Rightarrow> 'w \<Rightarrow> go_error option \<times> 'w"
  as_delete :: "duration option \<Rightarrow> string \<Rightarrow> string \<Rightarrow> 'w \<Rightarrow> go_error option \<times> 'w"

datatype as_event =
    ReadClock time
  | ListConfigMaps string string string "go_error + ConfigMap list"
  | CreateConfigMap duration ConfigMap "go_error + ConfigMap"
  | GetConfigMap duration string string "go_error option"
  | DeleteConfigMap "duration option" string string "go_error option"

type_synonym ('w, 'a) as_prog = "(('w, as_event) chk_rt, 'a) state"

definition as_clock :: "'w as_env \<Rightarrow> ('w, time) as_prog" where
  "as_clock env = perform ReadClock (as_now env)"

definition list_config_maps :: "'w as_env \<Rightarrow> string \<Rightarrow> string \<Rightarrow> string \<Rightarrow> ('w, go_error + ConfigMap list) as_prog" where
  "list_config_maps env ns k v = perform (ListConfigMaps ns k v) (as_list env ns k v)"

definition delete_config_map :: "'w as_env \<Rightarrow> duration option \<Rightarrow> string \<Rightarrow> string \<Rightarrow> ('w, go_error option) as_prog" where
  "delete_config_map env t ns n = perform (DeleteConfigMap t ns n) (as_delete env t ns n)"

section \<open>Operations\<close>

definition buildAPIServerChecker :: "APIServerChecker builder" where
  "buildAPIServerChecker cfg =
     (case chkAPIServerConfig cfg of
        None \<Rightarrow> None
      | Some c \<Rightarrow> Some (Inr \<lparr>asName = chkName cfg, asConfig = c, asTimeout = chkTimeout cfg\<rparr>))"

text \<open>\<open>configMapLabels\<close> is the single label \<open>(key, value)\<close>; as a selector it selects on exactly it.\<close>

definition configMapLabels :: "APIServerChecker \<Rightarrow> string \<times> string" where
  "configMapLabels c = (LabelKey (asConfig c), asName c)"

definition list_own :: "'w as_env \<Rightarrow> APIServerChecker \<Rightarrow> ('w, go_error + ConfigMap list) as_prog" where
  "list_own env c = list_config_maps env (apiNamespace (asConfig c)) (fst (configMapLabels c)) (snd (configMapLabels c))"

definition generateConfigMap :: "APIServerChecker \<Rightarrow> time \<Rightarrow> ConfigMap" where
  "generateConfigMap c now =
     (meta (to_lower (asName c) @ ''-empty-configmap-'' @ show_int now))
       \<lparr>Namespace := apiNamespace (asConfig c), Labels := [fst (configMapLabels c) \<mapsto> snd (configMapLabels c)]\<rparr>"

definition garbageCollect_cm :: "'w as_env \<Rightarrow> APIServerChecker \<Rightarrow> ('w, go_error option) as_prog" where
  "garbageCollect_cm env c = do {
     configMapList \<leftarrow> list_own env c;
     case configMapList of
       Inl err \<Rightarrow> return (Some (Wrap ''failed to list ConfigMaps for garbage collection: '' err))
     | Inr items \<Rightarrow> do {
         errs \<leftarrow> gc_loop (as_clock env) (\<lambda>cm. delete_config_map env None (Namespace cm) (Name cm)) CreationTimestamp
           (asTimeout c) (\<lambda>cm. ''failed to delete old empty ConfigMap '' @ Name cm @ '': '') items;
         return (errors_join errs) } }"

definition timeout_or :: "go_error \<Rightarrow> string \<Rightarrow> string \<Rightarrow> string \<Rightarrow> string \<Rightarrow> go_error + Result" where
  "timeout_or err timeout_code timeout_msg error_code error_msg =
     (if errors_is DeadlineExceeded err then Inr (Unhealthy timeout_code timeout_msg)
      else Inr (Unhealthy error_code (error_msg @ err_text err)))"

text \<open>The body after the creation; the deferred deletion follows it in \<open>check_api\<close>.\<close>

definition read_and_delete :: "'w as_env \<Rightarrow> APIServerChecker \<Rightarrow> ConfigMap \<Rightarrow> ('w, go_error + Result) as_prog" where
  "read_and_delete env c cm = do {
     r \<leftarrow> perform (GetConfigMap (ReadTimeout (asConfig c)) (apiNamespace (asConfig c)) (Name cm))
            (as_get env (ReadTimeout (asConfig c)) (apiNamespace (asConfig c)) (Name cm));
     case r of
       Some err \<Rightarrow> return (timeout_or err ErrCodeAPIServerGetTimeout ''timed out while getting ConfigMap''
                            ErrCodeAPIServerGetError ''failed to get ConfigMap: '')
     | None \<Rightarrow> do {
         d \<leftarrow> delete_config_map env (Some (MutateTimeout (asConfig c))) (apiNamespace (asConfig c)) (Name cm);
         case d of
           Some err \<Rightarrow> return (timeout_or err ErrCodeAPIServerDeleteTimeout ''timed out while deleting ConfigMap''
                                ErrCodeAPIServerDeleteError ''failed to delete ConfigMap: '')
         | None \<Rightarrow> return (Inr Healthy) } }"

definition create_and_check :: "'w as_env \<Rightarrow> APIServerChecker \<Rightarrow> ('w, go_error + Result) as_prog" where
  "create_and_check env c = do {
     now \<leftarrow> as_clock env;
     created \<leftarrow> perform (CreateConfigMap (MutateTimeout (asConfig c)) (generateConfigMap c now))
                  (as_create env (MutateTimeout (asConfig c)) (generateConfigMap c now));
     case created of
       Inl err \<Rightarrow> return (timeout_or err ErrCodeAPIServerCreateTimeout ''timed out while creating ConfigMap''
                           ErrCodeAPIServerCreateError ''failed to create ConfigMap: '')
     | Inr createdConfigMap \<Rightarrow> do {
         outcome \<leftarrow> read_and_delete env c createdConfigMap;
         _ \<leftarrow> delete_config_map env None (apiNamespace (asConfig c)) (Name createdConfigMap);
         return outcome } }"

definition check_api :: "'w as_env \<Rightarrow> APIServerChecker \<Rightarrow> ('w, go_error + Result) as_prog" where
  "check_api env c = do {
     _ \<leftarrow> garbageCollect_cm env c;
     configMapList \<leftarrow> list_own env c;
     case configMapList of
       Inl err \<Rightarrow> return (Inl (Wrap ''failed to list ConfigMaps: '' err))
     | Inr items \<Rightarrow>
         if sint (MaxObjects (asConfig c)) \<le> int (length items)
         then return (Inl (Msg (''maximum number of ConfigMaps reached, current: '' @ show_nat (length items) @
                '', max allowed: '' @ show_int (sint (MaxObjects (asConfig c))) @
                '', delete some ConfigMaps before running the checker again'')))
         else create_and_check env c }"

definition api_id :: "APIServerChecker \<Rightarrow> chk_id" where
  "api_id c = \<lparr>idName = asName c, idType = CheckTypeAPIServer\<rparr>"

definition Run_api :: "'w as_env \<Rightarrow> APIServerChecker \<Rightarrow> ('w, unit) as_prog" where
  "Run_api env c = do { outcome \<leftarrow> check_api env c; RecordResult (api_id c) outcome }"

section \<open>Garbage collection\<close>

interpretation cm_gc: age_gc "as_clock env :: ('w, time) as_prog" "\<lambda>cm. delete_config_map env None (Namespace cm) (Name cm)"
    ReadClock "\<lambda>cm. DeleteConfigMap None (Namespace cm) (Name cm)" for env
  by unfold_locales (auto simp: as_clock_def delete_config_map_def intro!: emits_intro)

abbreviation own_list :: "APIServerChecker \<Rightarrow> go_error + ConfigMap list \<Rightarrow> as_event" where
  "own_list c \<equiv> ListConfigMaps (apiNamespace (asConfig c)) (LabelKey (asConfig c)) (asName c)"

text \<open>\<open>collected c es\<close>: a listing of the checker's own ConfigMaps, and the deletion of those listed that
  were older than the checker's timeout.\<close>

definition collected :: "APIServerChecker \<Rightarrow> as_event list \<Rightarrow> bool" where
  "collected c es \<longleftrightarrow>
     (\<exists>err. es = [own_list c (Inl err)]) \<or>
     (\<exists>items ds. es = own_list c (Inr items) # ds \<and>
        gc_explained ReadClock (\<lambda>cm. DeleteConfigMap None (Namespace cm) (Name cm)) CreationTimestamp (asTimeout c) items ds)"

lemma list_own_emits:
  "emits (list_own env c) (\<lambda>r es s'. es = [own_list c r] \<and> rt.more s' = rt.more s) s"
  unfolding list_own_def list_config_maps_def configMapLabels_def by (auto intro!: emits_intro)

lemma garbageCollect_cm_emits:
  "emits (garbageCollect_cm env c) (\<lambda>r es s'. collected c es \<and> rt.more s' = rt.more s) s"
  unfolding garbageCollect_cm_def
  apply (rule emits_bind_via [OF list_own_emits], rule emits_case_sum)
  subgoal by (auto intro!: emits_intro simp: collected_def)
  subgoal by (rule emits_bind_via [OF cm_gc.gc_loop_emits]) (auto intro!: emits_intro simp: collected_def)
  done

section \<open>A run\<close>

lemma api_codes_nonempty [simp]:
  "ErrCodeAPIServerCreateError \<noteq> ''''" "ErrCodeAPIServerCreateTimeout \<noteq> ''''" "ErrCodeAPIServerGetError \<noteq> ''''"
  "ErrCodeAPIServerGetTimeout \<noteq> ''''" "ErrCodeAPIServerDeleteError \<noteq> ''''" "ErrCodeAPIServerDeleteTimeout \<noteq> ''''"
  by (simp_all add: api_codes)

lemma timeout_or_unhealthy [simp]:
  "timeout_or err tc tm ec em \<noteq> Inr Healthy" "timeout_or err tc tm ec em \<noteq> Inl e"
  "tc \<noteq> '''' \<Longrightarrow> ec \<noteq> '''' \<Longrightarrow> conclusive (timeout_or err tc tm ec em)"
  by (simp_all add: timeout_or_def)

text \<open>The two ways a run ends after garbage collection: it creates nothing, or it sends one ConfigMap of its own,
  below the limit. If that is created it is read, deleted if it could be read, and deleted once more by the
  deferred call; the run makes no other call. \<open>failed_with err tc ec outcome\<close>: the outcome is Unhealthy with the code
  \<open>tc\<close> if the error \<open>err\<close> of a call is a deadline, and \<open>ec\<close> otherwise.\<close>

definition failed_with :: "go_error \<Rightarrow> string \<Rightarrow> string \<Rightarrow> go_error + Result \<Rightarrow> bool" where
  "failed_with err tc ec outcome \<longleftrightarrow> (\<exists>res. outcome = Inr res \<and> Status res = StatusUnhealthy \<and>
     Code (resDetail res) = (if errors_is DeadlineExceeded err then tc else ec))"

lemma timeout_or_failed [simp]: "failed_with err tc ec (timeout_or err tc tm ec em)"
  by (simp add: failed_with_def timeout_or_def Unhealthy_def)

lemma failed_not_healthy: "failed_with err tc ec outcome \<Longrightarrow> outcome \<noteq> Inr Healthy"
  by (auto simp: failed_with_def Healthy_def StatusHealthy_def StatusUnhealthy_def)

abbreviation cm_reads :: "APIServerChecker \<Rightarrow> ConfigMap \<Rightarrow> go_error option \<Rightarrow> as_event" where
  "cm_reads c cm \<equiv> GetConfigMap (ReadTimeout (asConfig c)) (apiNamespace (asConfig c)) (Name cm)"

abbreviation cm_deletes :: "APIServerChecker \<Rightarrow> ConfigMap \<Rightarrow> duration option \<Rightarrow> go_error option \<Rightarrow> as_event" where
  "cm_deletes c cm t \<equiv> DeleteConfigMap t (apiNamespace (asConfig c)) (Name cm)"

definition ran_without_create :: "APIServerChecker \<Rightarrow> go_error + Result \<Rightarrow> as_event list \<Rightarrow> bool" where
  "ran_without_create c outcome es \<longleftrightarrow>
     (\<exists>e. outcome = Inl e) \<and>
     ((\<exists>err. es = [own_list c (Inl err)]) \<or>
      (\<exists>items. es = [own_list c (Inr items)] \<and> sint (MaxObjects (asConfig c)) \<le> int (length items)))"

definition read_deleted :: "APIServerChecker \<Rightarrow> ConfigMap \<Rightarrow> go_error + Result \<Rightarrow> as_event list \<Rightarrow> bool" where
  "read_deleted c cm outcome es \<longleftrightarrow>
     (\<exists>err. es = [cm_reads c cm (Some err)] \<and> failed_with err ErrCodeAPIServerGetTimeout ErrCodeAPIServerGetError outcome) \<or>
     (\<exists>err. es = [cm_reads c cm None, cm_deletes c cm (Some (MutateTimeout (asConfig c))) (Some err)] \<and>
        failed_with err ErrCodeAPIServerDeleteTimeout ErrCodeAPIServerDeleteError outcome) \<or>
     es = [cm_reads c cm None, cm_deletes c cm (Some (MutateTimeout (asConfig c))) None] \<and> outcome = Inr Healthy"

definition ran_with_create :: "APIServerChecker \<Rightarrow> go_error + Result \<Rightarrow> as_event list \<Rightarrow> bool" where
  "ran_with_create c outcome es \<longleftrightarrow>
     (\<exists>items now q created rest. int (length items) < sint (MaxObjects (asConfig c)) \<and>
        es = [own_list c (Inr items), ReadClock now, CreateConfigMap (MutateTimeout (asConfig c)) q created] @ rest \<and>
        Namespace q = apiNamespace (asConfig c) \<and> Labels q = [LabelKey (asConfig c) \<mapsto> asName c] \<and>
        q = generateConfigMap c now \<and>
        (case created of
           Inl err \<Rightarrow> rest = [] \<and> failed_with err ErrCodeAPIServerCreateTimeout ErrCodeAPIServerCreateError outcome
         | Inr cm \<Rightarrow> \<exists>checked r. rest = checked @ [cm_deletes c cm None r] \<and> read_deleted c cm outcome checked))"

lemma generated_own:
  "Namespace (generateConfigMap c now) = apiNamespace (asConfig c)"
  "Labels (generateConfigMap c now) = [LabelKey (asConfig c) \<mapsto> asName c]"
  by (simp_all add: generateConfigMap_def configMapLabels_def)

lemma read_and_delete_emits:
  "emits (read_and_delete env c cm) (\<lambda>outcome es s'. rt.more s' = rt.more s \<and> conclusive outcome \<and>
     read_deleted c cm outcome es) s"
  unfolding read_and_delete_def delete_config_map_def
  apply (rule emits_bind, rule emits_perform, rule emits_case_option)
  subgoal
    apply (rule emits_bind, rule emits_perform, rule emits_case_option)
    subgoal by (auto intro!: emits_intro simp: read_deleted_def)
    subgoal by (auto intro!: emits_intro simp: read_deleted_def)
    done
  subgoal by (auto intro!: emits_intro simp: read_deleted_def)
  done

lemma create_and_check_emits:
  assumes "int (length items) < sint (MaxObjects (asConfig c))"
  shows "emits (create_and_check env c) (\<lambda>outcome es s'. rt.more s' = rt.more s \<and> conclusive outcome \<and>
     ran_with_create c outcome (own_list c (Inr items) # es)) s"
  unfolding create_and_check_def as_clock_def
  apply (rule emits_bind, rule emits_perform, rule emits_bind, rule emits_perform, rule emits_case_sum)
  subgoal for now w x w' err
    using assms by (auto intro!: emits_return simp: ran_with_create_def generated_own)
  subgoal for now w x w' cm
    apply (rule emits_bind_via [OF read_and_delete_emits])
    unfolding delete_config_map_def
    apply (rule emits_bind, rule emits_perform, rule emits_return)
    using assms by (auto simp: ran_with_create_def generated_own)
  done

lemma check_api_emits:
  "emits (check_api env c) (\<lambda>outcome es s'. rt.more s' = rt.more s \<and> conclusive outcome \<and>
     (\<exists>gc run. es = gc @ run \<and> collected c gc \<and> (ran_without_create c outcome run \<or> ran_with_create c outcome run))) s"
  unfolding check_api_def
  apply (rule emits_bind_via [OF garbageCollect_cm_emits])
  apply (rule emits_bind_via [OF list_own_emits], rule emits_case_sum)
  subgoal by (rule emits_return) (auto simp: ran_without_create_def)
  subgoal for _ gc s1 r es s2 items
    apply (rule emits_if)
    subgoal by (rule emits_return) (auto simp: ran_without_create_def)
    subgoal
      by (rule emits_mono [OF create_and_check_emits [of items]]) auto
    done
  done

interpretation api_server: conclusive_checker "check_api env c" for env c
  by (rule conclusive_checkerI, rule emits_mono [OF check_api_emits]) auto

text \<open>C35: the calls of a run of the API server check, exactly: it lists its own ConfigMaps and asks to delete those
  that outlived the timeout; it lists again and stops with an error at the limit; below it, it sends one ConfigMap with
  its own label; and if that is created, it reads it, asks to delete it within the mutation timeout if the read
  succeeded, and asks to delete it once more at the end, whatever happened. The verdict is Healthy when creation, read and
  deletion succeeded, and otherwise names the call that failed and whether it met its deadline.\<close>

theorem created_config_map_deletion_requested:
  "emits (check_api env c) (\<lambda>outcome es s'. \<exists>gc run. es = gc @ run \<and> collected c gc \<and>
     (ran_without_create c outcome run \<or> ran_with_create c outcome run)) s"
  by (rule emits_mono [OF check_api_emits]) blast

end
