(* ===== verification/MetricsCheck.thy ===== *)
theory MetricsCheck
  imports CheckerCore
begin

text \<open>
  \<open>pkg/checker/metricsserver\<close>: one list call to the metrics API. The in-cluster configuration, the
  client constructor and the call are parameters.
\<close>

definition ErrCodeMetricsServerUnavailable :: string where
  "ErrCodeMetricsServerUnavailable = ''MetricsServerUnavailable''"
definition ErrCodeMetricsServerTimeout :: string where
  "ErrCodeMetricsServerTimeout = ''MetricsServerTimeout''"

record MetricsServerChecker =
  msName :: string
  msTimeout :: duration

record ('w, 'cfg) ms_env =
  ms_in_cluster :: "go_error + 'cfg"
  ms_new_client :: "'cfg \<Rightarrow> go_error option"
  ms_list_nodes :: "'w \<Rightarrow> go_error option \<times> 'w"

datatype ms_event = ListNodeMetrics "go_error option"

definition BuildMetricsServerChecker :: "('w, 'cfg) ms_env \<Rightarrow> MetricsServerChecker builder" where
  "BuildMetricsServerChecker env cfg =
     (case ms_in_cluster env of
        Inl err \<Rightarrow> Some (Inl (Wrap ''failed to get in-cluster config: '' err))
      | Inr k8sConfig \<Rightarrow>
          (case ms_new_client env k8sConfig of
             Some err \<Rightarrow> Some (Inl (Wrap ''failed to create metrics client: '' err))
           | None \<Rightarrow> Some (Inr \<lparr>msName = chkName cfg, msTimeout = chkTimeout cfg\<rparr>)))"

definition checkMetricsServerAPI :: "('w, 'cfg) ms_env \<Rightarrow> (('w, ms_event) chk_rt, go_error option) state" where
  "checkMetricsServerAPI env = do {
     r \<leftarrow> perform ListNodeMetrics (ms_list_nodes env);
     case r of
       Some err \<Rightarrow> return (Some (Wrap ''metrics server API call failed: '' err))
     | None \<Rightarrow> return None }"

definition check_metrics :: "('w, 'cfg) ms_env \<Rightarrow> MetricsServerChecker \<Rightarrow> (('w, ms_event) chk_rt, go_error + Result) state" where
  "check_metrics env c = do {
     r \<leftarrow> checkMetricsServerAPI env;
     case r of
       Some err \<Rightarrow>
         if errors_is DeadlineExceeded err
         then return (Inr (Unhealthy ErrCodeMetricsServerTimeout ''timed out while calling metrics server API''))
         else return (Inr (Unhealthy ErrCodeMetricsServerUnavailable (''metrics server API unavailable: '' @ err_text err)))
     | None \<Rightarrow> return (Inr Healthy) }"

definition metrics_id :: "MetricsServerChecker \<Rightarrow> chk_id" where
  "metrics_id c = \<lparr>idName = msName c, idType = CheckTypeMetricsServer\<rparr>"

definition Run_metrics :: "('w, 'cfg) ms_env \<Rightarrow> MetricsServerChecker \<Rightarrow> (('w, ms_event) chk_rt, unit) state" where
  "Run_metrics env c = do { outcome \<leftarrow> check_metrics env c; RecordResult (metrics_id c) outcome }"

lemma check_metrics_emits:
  "emits (check_metrics env c) (\<lambda>outcome es s'. conclusive outcome \<and> rt.more s' = rt.more s \<and>
     (\<exists>r. es = [ListNodeMetrics r] \<and> (outcome = Inr Healthy \<longleftrightarrow> r = None))) s"
  unfolding check_metrics_def checkMetricsServerAPI_def
  by (intro emits_bind emits_perform emits_case_option emits_if emits_return)
     (auto simp: ErrCodeMetricsServerTimeout_def ErrCodeMetricsServerUnavailable_def)

interpretation metrics_server: conclusive_checker "check_metrics env c" for env c
  by (rule conclusive_checkerI, rule emits_mono [OF check_metrics_emits]) auto

end
