(* ===== verification/AzurePolicy.thy ===== *)
theory AzurePolicy
  imports CheckerCore
begin

text \<open>
  \<open>pkg/checker/azurepolicy\<close>: the dry-run creation of a pod that violates the default policies. A
  response is an error or none, with the warning headers the client hands to the warning handler.
\<close>

definition ErrCodeAzurePolicyEnforcementMissing :: string where
  "ErrCodeAzurePolicyEnforcementMissing = ''AzurePolicyEnforcementMissing''"

section \<open>The warning handler\<close>

record warningCapturingHandler =
  warnings :: "string list"

definition HandleWarningHeader :: "string \<Rightarrow> warningCapturingHandler \<Rightarrow> warningCapturingHandler" where
  "HandleWarningHeader text w = w\<lparr>warnings := warnings w @ [text]\<rparr>"

definition GetWarnings :: "warningCapturingHandler \<Rightarrow> string list" where
  "GetWarnings w = warnings w"

definition new_handler :: warningCapturingHandler where
  "new_handler = \<lparr>warnings = []\<rparr>"

lemma captured: "GetWarnings (fold HandleWarningHeader ws w) = GetWarnings w @ ws"
  by (induction ws arbitrary: w) (auto simp: GetWarnings_def HandleWarningHeader_def)

section \<open>The checker\<close>

record AzurePolicyChecker =
  apName :: string
  apTimeout :: duration

record 'w ap_env =
  ap_in_cluster :: "go_error option"
  ap_new_client :: "'w \<Rightarrow> go_error option \<times> 'w"
  ap_now :: "'w \<Rightarrow> time \<times> 'w"
  ap_dry_run :: "duration \<Rightarrow> Pod \<Rightarrow> 'w \<Rightarrow> (go_error option \<times> string list) \<times> 'w"

datatype ap_event =
    NewClient "go_error option"
  | DryRunCreate duration Pod "go_error option \<times> string list"

type_synonym ('w, 'a) ap_prog = "(('w, ap_event) chk_rt, 'a) state"

definition buildAzurePolicyChecker :: "'w ap_env \<Rightarrow> AzurePolicyChecker builder" where
  "buildAzurePolicyChecker env cfg =
     (case ap_in_cluster env of
        Some err \<Rightarrow> Some (Inl (Wrap ''failed to get in-cluster config: '' err))
      | None \<Rightarrow> Some (Inr \<lparr>apName = chkName cfg, apTimeout = chkTimeout cfg\<rparr>))"

text \<open>A client and its handler, or the client's error.\<close>

definition CreateClientWithWarningCapture :: "'w ap_env \<Rightarrow> ('w, go_error + warningCapturingHandler) ap_prog" where
  "CreateClientWithWarningCapture env = do {
     r \<leftarrow> perform NewClient (ap_new_client env);
     case r of
       Some err \<Rightarrow> return (Inl err)
     | None \<Rightarrow> return (Inr new_handler) }"

definition createTestPod :: "AzurePolicyChecker \<Rightarrow> time \<Rightarrow> Pod" where
  "createTestPod c now = ObjectMeta.extend
     ((meta (to_lower (apName c) @ ''-test-pod-'' @ show_int (now div 1000000000)))
        \<lparr>Namespace := ''default'', Labels := [''kubernetes.azure.com'' \<mapsto> ''restricted'']\<rparr>)
     \<lparr>podSpec = empty_pod_spec
        \<lparr>RestartPolicy := ''Never'',
         Containers := [\<lparr>ctName = ''synthetic'',
           ctImage = ''mcr.microsoft.com/azurelinux/base/nginx:1.25.4-4-azl3.0.20250702'',
           ctCommand = [], ctArgs = [], ctPorts = [], ctVolumeMounts = []\<rparr>]\<rparr>,
      podStatus = empty_pod_status\<rparr>"

definition hasAzurePolicyViolation :: "string \<Rightarrow> bool" where
  "hasAzurePolicyViolation message = contains ''azurepolicy-k8sazurev'' message"

definition judge_response :: "go_error option \<Rightarrow> string list \<Rightarrow> go_error + Result" where
  "judge_response r ws =
     (let by_warnings = (if list_ex hasAzurePolicyViolation ws then Inr Healthy
            else Inr (Unhealthy ErrCodeAzurePolicyEnforcementMissing ''no Azure Policy violations detected''))
      in case r of
           Some err \<Rightarrow>
             if errors_is DeadlineExceeded err then Inl (Wrap ''dry run request to create pod timed out: '' err)
             else if hasAzurePolicyViolation (err_text err) then Inr Healthy
             else by_warnings
         | None \<Rightarrow> by_warnings)"

definition check_policy :: "'w ap_env \<Rightarrow> AzurePolicyChecker \<Rightarrow> ('w, go_error + Result) ap_prog" where
  "check_policy env c = do {
     client \<leftarrow> CreateClientWithWarningCapture env;
     case client of
       Inl err \<Rightarrow> return (Inl (Wrap ''failed to create Kubernetes client: '' err))
     | Inr handler \<Rightarrow> do {
         now \<leftarrow> observe (ap_now env);
         response \<leftarrow> perform (DryRunCreate (apTimeout c) (createTestPod c now)) (ap_dry_run env (apTimeout c) (createTestPod c now));
         return (judge_response (fst response) (GetWarnings (fold HandleWarningHeader (snd response) handler))) } }"

definition policy_id :: "AzurePolicyChecker \<Rightarrow> chk_id" where
  "policy_id c = \<lparr>idName = apName c, idType = CheckTypeAzurePolicy\<rparr>"

definition Run_policy :: "'w ap_env \<Rightarrow> AzurePolicyChecker \<Rightarrow> ('w, unit) ap_prog" where
  "Run_policy env c = do { outcome \<leftarrow> check_policy env c; RecordResult (policy_id c) outcome }"

section \<open>The verdict\<close>

text \<open>A response shows enforcement when it is not a timeout and its error or one of its warnings carries
  the marker of an Azure policy.\<close>

definition marker :: string where "marker = ''azurepolicy-k8sazurev''"

definition marked :: "string \<Rightarrow> bool" where
  "marked text \<longleftrightarrow> (\<exists>u v. text = u @ marker @ v)"

definition shows_enforcement :: "go_error option \<times> string list \<Rightarrow> bool" where
  "shows_enforcement response \<longleftrightarrow>
     (case response of
        (Some err, ws) \<Rightarrow> \<not> errors_is DeadlineExceeded err \<and> (marked (err_text err) \<or> (\<exists>w \<in> set ws. marked w))
      | (None, ws) \<Rightarrow> (\<exists>w \<in> set ws. marked w))"

definition policy_explained :: "AzurePolicyChecker \<Rightarrow> go_error + Result \<Rightarrow> ap_event list \<Rightarrow> bool" where
  "policy_explained c outcome es \<longleftrightarrow>
     (\<exists>e. es = [NewClient (Some e)] \<and> outcome = Inl (Wrap ''failed to create Kubernetes client: '' e)) \<or>
     (\<exists>now r ws. es = [NewClient None, DryRunCreate (apTimeout c) (createTestPod c now) (r, ws)] \<and>
        (outcome = Inr Healthy \<longleftrightarrow> shows_enforcement (r, ws)) \<and>
        (case outcome of
           Inl _ \<Rightarrow> (case r of None \<Rightarrow> False | Some err \<Rightarrow> errors_is DeadlineExceeded err)
         | Inr res \<Rightarrow> res = Healthy \<or> Status res = StatusUnhealthy \<and>
             Code (resDetail res) = ErrCodeAzurePolicyEnforcementMissing))"

lemma hasAzurePolicyViolation_iff: "hasAzurePolicyViolation text \<longleftrightarrow> marked text"
  unfolding hasAzurePolicyViolation_def marked_def marker_def by (rule contains_iff)

lemma list_ex_violation: "list_ex hasAzurePolicyViolation ws \<longleftrightarrow> (\<exists>w \<in> set ws. marked w)"
  by (auto simp: list_ex_iff hasAzurePolicyViolation_iff)

lemma judge_response_verdict:
  "conclusive (judge_response r ws)"
  "judge_response r ws = Inr Healthy \<longleftrightarrow> shows_enforcement (r, ws)"
  "case judge_response r ws of
     Inl _ \<Rightarrow> (case r of None \<Rightarrow> False | Some err \<Rightarrow> errors_is DeadlineExceeded err)
   | Inr res \<Rightarrow> res = Healthy \<or> Status res = StatusUnhealthy \<and> Code (resDetail res) = ErrCodeAzurePolicyEnforcementMissing"
  by (auto simp: judge_response_def shows_enforcement_def Let_def list_ex_violation hasAzurePolicyViolation_iff
      ErrCodeAzurePolicyEnforcementMissing_def split: option.splits)

lemma captured_all: "GetWarnings (fold HandleWarningHeader ws new_handler) = ws"
  by (simp add: captured) (simp add: new_handler_def GetWarnings_def)

lemma policy_explained_answer:
  "es = [NewClient None, DryRunCreate (apTimeout c) (createTestPod c now) resp] \<Longrightarrow>
   outcome = judge_response (fst resp) (snd resp) \<Longrightarrow> policy_explained c outcome es"
  unfolding policy_explained_def
  using judge_response_verdict(2,3) [of "fst resp" "snd resp"]
  by (intro disjI2 exI [of _ now] exI [of _ "fst resp"] exI [of _ "snd resp"]) simp

lemma check_policy_emits:
  "emits (check_policy env c) (\<lambda>outcome es s'. conclusive outcome \<and> rt.more s' = rt.more s \<and> policy_explained c outcome es) s"
  unfolding check_policy_def CreateClientWithWarningCapture_def
  apply (rule emits_bind, rule emits_bind, rule emits_perform, rule emits_case_option)
  subgoal for r w
    apply (rule emits_return, simp only: sum.case)
    apply (rule emits_bind, rule emits_observe, rule emits_bind, rule emits_perform, rule emits_return)
    subgoal premises prems for now w1 resp w2
      unfolding captured_all
      using judge_response_verdict [of "fst resp" "snd resp"] prems
      by (auto intro!: policy_explained_answer [of _ _ now])
    done
  subgoal by (rule emits_return) (auto intro!: emits_return simp: policy_explained_def)
  done

interpretation azure_policy: conclusive_checker "check_policy env c" for env c
  by (rule conclusive_checkerI, rule emits_mono [OF check_policy_emits]) auto

text \<open>C36: the Azure Policy check is Healthy exactly when the dry run was answered in time with an error
  or a warning that carries a policy's marker; it errs exactly without a client or on a timeout; a
  refusal for any other reason counts as missing enforcement.\<close>

theorem policy_verdict_explained:
  "emits (check_policy env c) (\<lambda>outcome es s'. policy_explained c outcome es) s"
  by (rule emits_mono [OF check_policy_emits]) simp

end
