(* ===== verification/Scheduler.thy ===== *)
theory Scheduler
  imports CheckerCore
begin

text \<open>
  \<open>pkg/scheduler\<close>: one goroutine per checker, which loops on a \<open>time.Ticker\<close> and the context. The
  goroutines and the tickers are one labelled transition system: a ticker has a buffer of one tick
  and drops a tick that finds it full; the \<open>select\<close> may take any case that is ready. Time advances
  between the ticks, never past one. The runs of a checker are the steps \<open>StartRun\<close> and \<open>EndRun\<close>;
  what it does in between is the subject of the checkers' theories.
\<close>

section \<open>The system\<close>

record 'c CheckerSchedule =
  schInterval :: duration
  schTimeout :: duration
  schChecker :: 'c

text \<open>A goroutine waits in its \<open>select\<close>, runs the checker under a deadline, or has returned.\<close>

datatype phase = Waiting | InRun time | Returned

record worker =
  buffered :: bool
  next_tick :: time
  phase :: phase

record system =
  clock_at :: time
  cancelled :: bool
  worker :: "nat \<Rightarrow> worker"

datatype label = Advance int | Tick nat | StartRun nat | EndRun nat | Cancel | Stop nat

definition set_worker :: "nat \<Rightarrow> (worker \<Rightarrow> worker) \<Rightarrow> system \<Rightarrow> system" where
  "set_worker i f s = s\<lparr>worker := (worker s)(i := f (worker s i))\<rparr>"

text \<open>\<open>Start\<close>: \<open>time.NewTicker\<close> panics (\<open>None\<close>) for an interval that is not positive.\<close>

definition Start_scheduler :: "'c CheckerSchedule list \<Rightarrow> time \<Rightarrow> system option" where
  "Start_scheduler sch t0 =
     (if list_all (\<lambda>j. 0 < sint (schInterval j)) sch
      then Some \<lparr>clock_at = t0, cancelled = False,
        worker = \<lambda>i. \<lparr>buffered = False, next_tick = t0 + sint (schInterval (sch ! i)), phase = Waiting\<rparr>\<rparr>
      else None)"

inductive scheduleChecker :: "'c CheckerSchedule list \<Rightarrow> system \<Rightarrow> label \<Rightarrow> system \<Rightarrow> bool" for sch where
  advance: "0 \<le> d \<Longrightarrow> (\<And>i. i < length sch \<Longrightarrow> phase (worker s i) \<noteq> Returned \<Longrightarrow> clock_at s + d \<le> next_tick (worker s i)) \<Longrightarrow>
    scheduleChecker sch s (Advance d) (s\<lparr>clock_at := clock_at s + d\<rparr>)"
| tick: "i < length sch \<Longrightarrow> phase (worker s i) \<noteq> Returned \<Longrightarrow> clock_at s = next_tick (worker s i) \<Longrightarrow>
    scheduleChecker sch s (Tick i)
      (set_worker i (\<lambda>w. w\<lparr>buffered := True, next_tick := next_tick w + sint (schInterval (sch ! i))\<rparr>) s)"
| start_run: "i < length sch \<Longrightarrow> phase (worker s i) = Waiting \<Longrightarrow> buffered (worker s i) \<Longrightarrow>
    scheduleChecker sch s (StartRun i)
      (set_worker i (\<lambda>w. w\<lparr>buffered := False, phase := InRun (time_add (clock_at s) (schTimeout (sch ! i)))\<rparr>) s)"
| end_run: "i < length sch \<Longrightarrow> phase (worker s i) = InRun d \<Longrightarrow>
    scheduleChecker sch s (EndRun i) (set_worker i (\<lambda>w. w\<lparr>phase := Waiting\<rparr>) s)"
| cancel: "scheduleChecker sch s Cancel (s\<lparr>cancelled := True\<rparr>)"
| stop: "i < length sch \<Longrightarrow> phase (worker s i) = Waiting \<Longrightarrow> cancelled s \<Longrightarrow>
    scheduleChecker sch s (Stop i) (set_worker i (\<lambda>w. w\<lparr>phase := Returned\<rparr>) s)"

inductive_cases AdvanceE: "scheduleChecker sch s (Advance d) s'"
inductive_cases TickE: "scheduleChecker sch s (Tick i) s'"
inductive_cases StartRunE: "scheduleChecker sch s (StartRun i) s'"
inductive_cases EndRunE: "scheduleChecker sch s (EndRun i) s'"
inductive_cases CancelE: "scheduleChecker sch s Cancel s'"
inductive_cases StopE: "scheduleChecker sch s (Stop i) s'"

lemmas stepE = AdvanceE TickE StartRunE EndRunE CancelE StopE

inductive executes :: "'c CheckerSchedule list \<Rightarrow> system \<Rightarrow> label list \<Rightarrow> system \<Rightarrow> bool" for sch s0 where
  none: "executes sch s0 [] s0"
| snoc: "executes sch s0 tr s \<Longrightarrow> scheduleChecker sch s l s' \<Longrightarrow> executes sch s0 (tr @ [l]) s'"

text \<open>\<open>g.Wait()\<close>: once every goroutine has returned, the first error, which is \<open>ctx.Err()\<close>.\<close>

definition wait_result :: "'c CheckerSchedule list \<Rightarrow> system \<Rightarrow> go_error option option" where
  "wait_result sch s =
     (if \<forall>i \<in> {..<length sch}. phase (worker s i) = Returned
      then Some (if sch = [] then None else Some (Sentinel Canceled)) else None)"

section \<open>Invariant\<close>

definition running :: "system \<Rightarrow> nat \<Rightarrow> bool" where
  "running s i \<longleftrightarrow> (\<exists>d. phase (worker s i) = InRun d)"

text \<open>Counting a trace: ticks, starts and ends of a checker.\<close>

definition occurrences :: "label \<Rightarrow> label list \<Rightarrow> nat" where
  "occurrences l tr = count_list tr l"

lemma occurrences_snoc [simp]:
  "occurrences l [] = 0" "occurrences l (tr @ [l']) = occurrences l tr + (if l' = l then 1 else 0)"
  by (simp_all add: occurrences_def)

definition in_step :: "'c CheckerSchedule list \<Rightarrow> time \<Rightarrow> label list \<Rightarrow> system \<Rightarrow> nat \<Rightarrow> bool" where
  "in_step sch t0 tr s i \<longleftrightarrow>
     occurrences (StartRun i) tr + (if buffered (worker s i) then 1 else 0) \<le> occurrences (Tick i) tr \<and>
     occurrences (StartRun i) tr = occurrences (EndRun i) tr + (if running s i then 1 else 0) \<and>
     next_tick (worker s i) = t0 + (int (occurrences (Tick i) tr) + 1) * sint (schInterval (sch ! i)) \<and>
     t0 + int (occurrences (Tick i) tr) * sint (schInterval (sch ! i)) \<le> clock_at s \<and>
     (phase (worker s i) = Returned \<longrightarrow> cancelled s)"

lemma in_step_preserved:
  assumes "scheduleChecker sch s l s'" "in_step sch t0 tr s i" "i < length sch"
  shows "in_step sch t0 (tr @ [l]) s' i"
  using assms
  by (cases rule: scheduleChecker.cases)
     (auto simp: in_step_def running_def set_worker_def algebra_simps)

lemma in_step_reachable:
  assumes "executes sch s0 tr s" "Start_scheduler sch t0 = Some s0" "i < length sch"
  shows "in_step sch t0 tr s i"
  using assms(1)
proof (induction rule: executes.induct)
  case none
  then show ?case using assms(2,3)
    by (auto simp: Start_scheduler_def in_step_def running_def split: if_splits)
next
  case (snoc tr s l s')
  then show ?case using in_step_preserved assms(3) by blast
qed

text \<open>The time that has passed in a trace, and the deadline of a run: \<open>d\<close> is the configured timeout after the
  instant of the last start in the trace, whose run has not ended since.\<close>

definition elapsed :: "label list \<Rightarrow> int" where
  "elapsed tr = sum_list (map (\<lambda>l. case l of Advance d \<Rightarrow> d | _ \<Rightarrow> 0) tr)"

lemma elapsed_snoc [simp]:
  "elapsed [] = 0" "elapsed (tr @ [l]) = elapsed tr + (case l of Advance d \<Rightarrow> d | _ \<Rightarrow> 0)"
  by (simp_all add: elapsed_def)

definition started_under :: "'c CheckerSchedule list \<Rightarrow> time \<Rightarrow> label list \<Rightarrow> nat \<Rightarrow> time \<Rightarrow> bool" where
  "started_under sch t0 tr i d \<longleftrightarrow> (\<exists>tr1 tr2. tr = tr1 @ StartRun i # tr2 \<and>
     StartRun i \<notin> set tr2 \<and> EndRun i \<notin> set tr2 \<and> d = t0 + elapsed tr1 + sint (schTimeout (sch ! i)))"

lemma started_under_snoc:
  "started_under sch t0 tr i d \<Longrightarrow> l \<noteq> StartRun i \<Longrightarrow> l \<noteq> EndRun i \<Longrightarrow> started_under sch t0 (tr @ [l]) i d"
  unfolding started_under_def by (elim exE conjE, rename_tac tr1 tr2, rule_tac x = tr1 in exI, rule_tac x = "tr2 @ [l]" in exI) auto

lemma started_under_now:
  "d = t0 + elapsed tr + sint (schTimeout (sch ! i)) \<Longrightarrow> started_under sch t0 (tr @ [StartRun i]) i d"
  unfolding started_under_def by (intro exI [of _ tr] exI [of _ "[]"]) simp

definition on_time :: "'c CheckerSchedule list \<Rightarrow> time \<Rightarrow> label list \<Rightarrow> system \<Rightarrow> bool" where
  "on_time sch t0 tr s \<longleftrightarrow> clock_at s = t0 + elapsed tr \<and>
     (\<forall>i d. phase (worker s i) = InRun d \<longrightarrow> started_under sch t0 tr i d)"

lemma on_time_preserved:
  assumes "scheduleChecker sch s l s'" "on_time sch t0 tr s"
  shows "on_time sch t0 (tr @ [l]) s'"
  using assms
  by (cases rule: scheduleChecker.cases)
     (auto simp: on_time_def set_worker_def time_add_def intro: started_under_snoc started_under_now)

lemma on_time_reachable:
  assumes "executes sch s0 tr s" "Start_scheduler sch t0 = Some s0"
  shows "on_time sch t0 tr s"
  using assms(1)
proof (induction rule: executes.induct)
  case none
  then show ?case using assms(2) by (auto simp: Start_scheduler_def on_time_def split: if_splits)
next
  case (snoc tr s l s')
  then show ?case using on_time_preserved by blast
qed

section \<open>Properties\<close>

text \<open>C37: whatever the interleaving, the runs of one checker never overlap, each consumes a tick of its own,
  so that there is at most one per elapsed interval; a run has as its deadline the instant of its start plus
  the timeout of the checker; a goroutine returns only after cancellation, and the scheduler then reports the
  context's error.\<close>

theorem runs_are_paced_and_exclusive:
  assumes "Start_scheduler sch t0 = Some s0" and "executes sch s0 tr s" and "i < length sch"
  shows "occurrences (StartRun i) tr = occurrences (EndRun i) tr + (if running s i then 1 else 0) \<and>
     occurrences (StartRun i) tr \<le> occurrences (Tick i) tr \<and>
     int (occurrences (StartRun i) tr) * sint (schInterval (sch ! i)) \<le> clock_at s - t0 \<and>
     (case phase (worker s i) of InRun d \<Rightarrow> started_under sch t0 tr i d | _ \<Rightarrow> True) \<and>
     (case wait_result sch s of None \<Rightarrow> True | Some r \<Rightarrow> cancelled s \<and> r = Some (Sentinel Canceled))"
proof -
  have inv: "in_step sch t0 tr s i" using in_step_reachable [OF assms(2,1,3)] .
  have pos: "0 < sint (schInterval (sch ! i))"
    using assms(1,3) by (auto simp: Start_scheduler_def list_all_length split: if_splits)
  have "occurrences (StartRun i) tr \<le> occurrences (Tick i) tr" using inv by (auto simp: in_step_def split: if_splits)
  then have "int (occurrences (StartRun i) tr) * sint (schInterval (sch ! i)) \<le>
      int (occurrences (Tick i) tr) * sint (schInterval (sch ! i))"
    using pos by (intro mult_right_mono) auto
  moreover have "cancelled s \<and> sch \<noteq> []" if "wait_result sch s = Some r" for r
    using that inv assms(3) by (auto simp: wait_result_def in_step_def split: if_splits)
  moreover have "case phase (worker s i) of InRun d \<Rightarrow> started_under sch t0 tr i d | _ \<Rightarrow> True"
    using on_time_reachable [OF assms(2,1)] by (auto simp: on_time_def split: phase.splits)
  ultimately show ?thesis
    using inv \<open>occurrences (StartRun i) tr \<le> _\<close> by (auto simp: in_step_def wait_result_def split: option.splits if_splits)
qed

text \<open>Shutdown: a cancelled goroutine gets from any point to its return by itself, in at most two steps.\<close>

lemma executes_one: "executes sch s0 tr s \<Longrightarrow> scheduleChecker sch s l s' \<Longrightarrow> executes sch s0 (tr @ [l]) s'"
  by (rule executes.snoc)

lemma executes_more: "executes sch s tr' s' \<Longrightarrow> executes sch s0 tr s \<Longrightarrow> executes sch s0 (tr @ tr') s'"
proof (induction rule: executes.induct)
  case (snoc tr' s1 l s2)
  then show ?case using executes.snoc [of sch s0 "tr @ tr'" s1 l s2] by simp
qed simp

definition winds_down :: "'c CheckerSchedule list \<Rightarrow> nat \<Rightarrow> system \<Rightarrow> system \<Rightarrow> bool" where
  "winds_down sch k s s' \<longleftrightarrow> (\<exists>tr. executes sch s tr s' \<and> length tr \<le> 2 * k \<and> (\<forall>i. StartRun i \<notin> set tr) \<and>
     cancelled s' \<and> (\<forall>i < k. phase (worker s' i) = Returned))"

lemma worker_winds_down:
  assumes "cancelled s" "i < length sch"
  obtains tr s' where "executes sch s tr s'" "length tr \<le> 2" "\<forall>j. StartRun j \<notin> set tr" "cancelled s'"
    "phase (worker s' i) = Returned" "\<forall>j. j \<noteq> i \<longrightarrow> worker s' j = worker s j"
proof (cases "phase (worker s i)")
  case Waiting
  have run: "executes sch s [Stop i] (set_worker i (\<lambda>w. w\<lparr>phase := Returned\<rparr>) s)"
    using executes_one [OF executes.none scheduleChecker.stop [OF assms(2) Waiting assms(1)]] by simp
  show ?thesis by (rule that [OF run]) (use assms(1) in \<open>auto simp: set_worker_def\<close>)
next
  case (InRun d)
  let ?s1 = "set_worker i (\<lambda>w. w\<lparr>phase := Waiting\<rparr>) s"
  have "executes sch s [EndRun i] ?s1"
    using executes_one [OF executes.none scheduleChecker.end_run [OF assms(2) InRun]] by simp
  moreover have "scheduleChecker sch ?s1 (Stop i) (set_worker i (\<lambda>w. w\<lparr>phase := Returned\<rparr>) ?s1)"
    using assms by (intro scheduleChecker.stop) (auto simp: set_worker_def)
  ultimately have run: "executes sch s [EndRun i, Stop i] (set_worker i (\<lambda>w. w\<lparr>phase := Returned\<rparr>) ?s1)"
    using executes_one by fastforce
  show ?thesis by (rule that [OF run]) (use assms(1) in \<open>auto simp: set_worker_def\<close>)
next
  case Returned
  show ?thesis by (rule that [OF executes.none]) (use assms(1) Returned in auto)
qed

lemma all_wind_down: "cancelled s \<Longrightarrow> k \<le> length sch \<Longrightarrow> \<exists>s'. winds_down sch k s s'"
proof (induction k)
  case 0
  then show ?case using executes.none [of sch s] by (auto simp: winds_down_def)
next
  case (Suc k)
  then obtain s1 tr where 1: "executes sch s tr s1" "length tr \<le> 2 * k" "\<forall>i. StartRun i \<notin> set tr" "cancelled s1"
    "\<forall>i < k. phase (worker s1 i) = Returned" by (auto simp: winds_down_def)
  obtain tr' s' where 2: "executes sch s1 tr' s'" "length tr' \<le> 2" "\<forall>j. StartRun j \<notin> set tr'" "cancelled s'"
    "phase (worker s' k) = Returned" "\<forall>j. j \<noteq> k \<longrightarrow> worker s' j = worker s1 j"
    using worker_winds_down [OF 1(4), of k sch] Suc.prems(2) by auto
  have "executes sch s (tr @ tr') s'" using executes_more [OF 2(1) 1(1)] .
  moreover have "phase (worker s' i) = Returned" if "i < Suc k" for i
    using that 1(5) 2(5,6) by (cases "i = k") auto
  ultimately show ?case using 1 2 unfolding winds_down_def by (intro exI [of _ s'] exI [of _ "tr @ tr'"]) auto
qed

lemma shutdown_reachable:
  assumes "executes sch s0 tr s"
  shows "\<exists>tr' s'. executes sch s0 (tr @ Cancel # tr') s' \<and> length tr' \<le> 2 * length sch \<and>
    (\<forall>i. StartRun i \<notin> set tr') \<and> wait_result sch s' = Some (if sch = [] then None else Some (Sentinel Canceled))"
proof -
  obtain s' tr' where d: "executes sch (s\<lparr>cancelled := True\<rparr>) tr' s'" "length tr' \<le> 2 * length sch"
    "\<forall>i. StartRun i \<notin> set tr'" "\<forall>i < length sch. phase (worker s' i) = Returned"
    using all_wind_down [of "s\<lparr>cancelled := True\<rparr>" "length sch" sch] by (auto simp: winds_down_def)
  have "executes sch s0 (tr @ [Cancel]) (s\<lparr>cancelled := True\<rparr>)"
    using executes_one [OF assms scheduleChecker.cancel] .
  from executes_more [OF d(1) this] have "executes sch s0 (tr @ Cancel # tr') s'" by simp
  then show ?thesis using d by (auto simp: wait_result_def)
qed

text \<open>C38: the scheduler can always be shut down: from every reachable state a cancellation and at most two steps
  of each goroutine, none of which begins a run, bring \<open>Start\<close> to its return.\<close>

theorem shutdown_always_reachable:
  assumes "Start_scheduler sch t0 = Some s0" and "executes sch s0 tr s"
  shows "\<exists>tr' s'. executes sch s0 (tr @ Cancel # tr') s' \<and> length tr' \<le> 2 * length sch \<and>
    (\<forall>i. StartRun i \<notin> set tr') \<and> wait_result sch s' = Some (if sch = [] then None else Some (Sentinel Canceled))"
  by (rule shutdown_reachable [OF assms(2)])

definition demo_schedule :: "unit CheckerSchedule list" where
  "demo_schedule = [\<lparr>schInterval = second, schTimeout = 5 * second, schChecker = ()\<rparr>]"

definition demo_trace :: "label list" where
  "demo_trace = [Advance 1000000000, Tick 0, StartRun 0, Cancel, EndRun 0, Stop 0]"

definition demo_system :: "bool \<Rightarrow> time \<Rightarrow> bool \<Rightarrow> time \<Rightarrow> phase \<Rightarrow> system" where
  "demo_system done now b n p = \<lparr>clock_at = now, cancelled = done,
     worker = (\<lambda>i. \<lparr>buffered = False, next_tick = sint (schInterval (demo_schedule ! i)), phase = Waiting\<rparr>)
       (0 := \<lparr>buffered = b, next_tick = n, phase = p\<rparr>)\<rparr>"

lemma demo_start: "Start_scheduler demo_schedule 0 = Some (demo_system False 0 False 1000000000 Waiting)"
  by (simp add: Start_scheduler_def demo_schedule_def demo_system_def fun_eq_iff)

definition demo_started :: "label list" where
  "demo_started = [Advance 1000000000, Tick 0, StartRun 0]"

lemma demo_lengths: "length demo_schedule = 1" "schInterval (demo_schedule ! 0) = second" "schTimeout (demo_schedule ! 0) = 5 * second"
  by (simp_all add: demo_schedule_def)

lemma demo_starts:
  "executes demo_schedule (demo_system False 0 False 1000000000 Waiting) demo_started
     (demo_system False 1000000000 False 2000000000 (InRun 6000000000))"
proof -
  let ?x = "executes demo_schedule (demo_system False 0 False 1000000000 Waiting)"
  note l = demo_lengths
  have "?x [] (demo_system False 0 False 1000000000 Waiting)" by (rule executes.none)
  from executes.snoc [OF this scheduleChecker.advance [of 1000000000]]
  have "?x [Advance 1000000000] (demo_system False 1000000000 False 1000000000 Waiting)"
    by (simp add: l demo_system_def)
  from executes.snoc [OF this scheduleChecker.tick [of 0]]
  have "?x [Advance 1000000000, Tick 0] (demo_system False 1000000000 True 2000000000 Waiting)"
    by (simp add: l demo_system_def set_worker_def)
  from executes.snoc [OF this scheduleChecker.start_run [of 0]]
  show ?thesis by (simp add: l demo_system_def set_worker_def time_add_def time_units demo_started_def)
qed

lemma demo_executes:
  "executes demo_schedule (demo_system False 0 False 1000000000 Waiting) demo_trace
     (demo_system True 1000000000 False 2000000000 Returned)"
proof -
  let ?x = "executes demo_schedule (demo_system False 0 False 1000000000 Waiting)"
  note l = demo_lengths
  from executes.snoc [OF demo_starts scheduleChecker.cancel]
  have "?x (demo_started @ [Cancel]) (demo_system True 1000000000 False 2000000000 (InRun 6000000000))"
    by (simp add: demo_system_def)
  from executes.snoc [OF this scheduleChecker.end_run [of 0]]
  have "?x (demo_started @ [Cancel, EndRun 0]) (demo_system True 1000000000 False 2000000000 Waiting)"
    by (simp add: l demo_system_def set_worker_def)
  from executes.snoc [OF this scheduleChecker.stop [of 0]]
  show ?thesis by (simp add: l demo_system_def set_worker_def demo_trace_def demo_started_def)
qed

theorem runs_are_paced_and_exclusive_witness:
  "occurrences (StartRun 0) demo_trace = 1 \<and>
   int (occurrences (StartRun 0) demo_trace) * sint (schInterval (demo_schedule ! 0)) \<le> 1000000000 \<and>
   (case wait_result demo_schedule (demo_system True 1000000000 False 2000000000 Returned) of
      None \<Rightarrow> False | Some r \<Rightarrow> r = Some (Sentinel Canceled)) \<and>
   running (demo_system False 1000000000 False 2000000000 (InRun 6000000000)) 0 \<and>
   started_under demo_schedule 0 demo_started 0 6000000000"
proof -
  note ended = runs_are_paced_and_exclusive [OF demo_start demo_executes, of 0]
  note started = runs_are_paced_and_exclusive [OF demo_start demo_starts, of 0]
  have "started_under demo_schedule 0 demo_started 0 6000000000"
    using started by (simp add: demo_lengths demo_system_def)
  then show ?thesis using ended
    by (auto simp: demo_schedule_def demo_trace_def demo_system_def occurrences_def wait_result_def lessThan_Suc running_def)
qed

theorem shutdown_always_reachable_witness:
  "\<exists>tr' s'. executes demo_schedule (demo_system False 0 False 1000000000 Waiting) (demo_trace @ Cancel # tr') s' \<and>
     length tr' \<le> 2 \<and> (\<forall>i. StartRun i \<notin> set tr') \<and> wait_result demo_schedule s' = Some (Some (Sentinel Canceled))"
  using shutdown_always_reachable [OF demo_start demo_executes] by (simp add: demo_schedule_def)

end
