(* ===== verification/MetricsServer.thy ===== *)
theory MetricsServer
  imports CheckerCore
begin

text \<open>
  \<open>pkg/metrics/server.go\<close>: the server that exposes the counters. The Prometheus registry is a
  parameter, \<open>register\<close>, which may refuse a collector next to those it has; listening and the graceful
  shutdown of \<open>net/http\<close> are the events that wake \<open>Run\<close>.
\<close>

definition CheckerResultCounterName :: string where
  "CheckerResultCounterName = ''cluster_health_monitor_checker_result_total''"
definition PodHealthResultCounterName :: string where
  "PodHealthResultCounterName = ''cluster_health_monitor_pod_health_result_total''"

record Server =
  registry :: "string list"
  server_port :: int

definition NewServer :: "(string list \<Rightarrow> string \<Rightarrow> go_error option) \<Rightarrow> int \<Rightarrow> go_error + Server" where
  "NewServer register port =
     (case register [] CheckerResultCounterName of
        Some err \<Rightarrow> Inl err
      | None \<Rightarrow>
          (case register [CheckerResultCounterName] PodHealthResultCounterName of
             Some err \<Rightarrow> Inl err
           | None \<Rightarrow> Inr \<lparr>registry = [CheckerResultCounterName, PodHealthResultCounterName], server_port = port\<rparr>))"

definition server_addr :: "Server \<Rightarrow> string" where
  "server_addr m = ''0.0.0.0:'' @ show_int (server_port m)"

text \<open>The \<open>select\<close> of \<open>Run\<close>: the context is done, with the result of the shutdown, or \<open>ListenAndServe\<close> returned.\<close>

datatype server_wakeup = ContextDone "go_error option" | ServeReturned "go_error option"

definition Run_server :: "server_wakeup \<Rightarrow> go_error option" where
  "Run_server w =
     (case w of
        ContextDone shutdownErr \<Rightarrow>
          (case shutdownErr of
             Some err \<Rightarrow> Some err
           | None \<Rightarrow> Some (Sentinel Canceled))
      | ServeReturned err \<Rightarrow> err)"

text \<open>Both counters are served or the program does not start, and \<open>Run\<close> never returns without an error
  unless \<open>ListenAndServe\<close> does.\<close>

lemma NewServer_serves_both:
  "NewServer register port = Inr m \<Longrightarrow>
     CheckerResultCounterName \<in> set (registry m) \<and> PodHealthResultCounterName \<in> set (registry m) \<and> server_port m = port"
  by (auto simp: NewServer_def split: option.splits)

lemma Run_server_errs: "Run_server w = None \<longleftrightarrow> w = ServeReturned None"
  by (auto simp: Run_server_def split: server_wakeup.splits option.splits)

end
