(* ===== verification/Monitor.thy ===== *)
theory Monitor
  imports DnsCheck StartupSafety ApiServer MetricsCheck AzurePolicy Scheduler MetricsServer
begin

text \<open>
  \<open>cmd/clusterhealthmonitor/main.go\<close>: the registration of the checkers, the schedule built from the
  configuration, and the start-up sequence of the program with its exits. The environments of the
  five checker packages are those of their theories.
\<close>

section \<open>Every checker\<close>

datatype any_checker =
    DNSC DNSChecker
  | PodStartupC PodStartupChecker
  | APIServerC APIServerChecker
  | MetricsServerC MetricsServerChecker
  | AzurePolicyC AzurePolicyChecker

fun checker_id :: "any_checker \<Rightarrow> chk_id" where
  "checker_id (DNSC c) = dns_id c"
| "checker_id (PodStartupC c) = startup_id c"
| "checker_id (APIServerC c) = api_id c"
| "checker_id (MetricsServerC c) = metrics_id c"
| "checker_id (AzurePolicyC c) = policy_id c"

record ('d, 's, 'm, 'cfg, 'p) app_env =
  app_dns :: "'d dns_env"
  app_startup :: "'s ps_env"
  app_metrics :: "('m, 'cfg) ms_env"
  app_policy :: "'p ap_env"

definition as_any :: "('c \<Rightarrow> any_checker) \<Rightarrow> 'c builder \<Rightarrow> any_checker builder" where
  "as_any f b cfg = map_option (map_sum id f) (b cfg)"

definition registerCheckers :: "('d, 's, 'm, 'cfg, 'p) app_env \<Rightarrow> string \<rightharpoonup> any_checker builder" where
  "registerCheckers env =
     RegisterChecker CheckTypeAzurePolicy (as_any AzurePolicyC (buildAzurePolicyChecker (app_policy env)))
    (RegisterChecker CheckTypeMetricsServer (as_any MetricsServerC (BuildMetricsServerChecker (app_metrics env)))
    (RegisterChecker CheckTypeAPIServer (as_any APIServerC buildAPIServerChecker)
    (RegisterChecker CheckTypePodStartup (as_any PodStartupC (BuildPodStartupChecker (app_startup env)))
    (RegisterChecker CheckTypeDNS (as_any DNSC (BuildDNSChecker (app_dns env))) Map.empty))))"

section \<open>The schedule\<close>

definition schedule_of :: "CheckerConfig \<Rightarrow> any_checker \<Rightarrow> any_checker CheckerSchedule" where
  "schedule_of cfg chk = \<lparr>schInterval = chkInterval cfg, schTimeout = chkTimeout cfg, schChecker = chk\<rparr>"

fun buildCheckerSchedule ::
  "('d, 's, 'm, 'cfg, 'p) app_env \<Rightarrow> CheckerConfig list \<Rightarrow> (go_error + any_checker CheckerSchedule list) option" where
  "buildCheckerSchedule env [] = Some (Inr [])"
| "buildCheckerSchedule env (chkCfg # chkCfgs) =
     (case Build (registerCheckers env) chkCfg False of
        None \<Rightarrow> None
      | Some (Inl err) \<Rightarrow>
          if errors_is ErrSkipChecker err then buildCheckerSchedule env chkCfgs
          else Some (Inl (Wrap (''failed to build checker '' @ quoted (chkName chkCfg) @ '': '') err))
      | Some (Inr chk) \<Rightarrow> map_option (map_sum id ((#) (schedule_of chkCfg chk))) (buildCheckerSchedule env chkCfgs))"

text \<open>\<open>main\<close>, up to the running scheduler: the program exits with code 1 and a message, panics, or runs.
  \<open>failed what r\<close> is the exit after a step that returned an error.\<close>

datatype program = ExitsWith string | Panics | Runs system

definition monitor_main ::
  "('d, 's, 'm, 'cfg, 'p) app_env \<Rightarrow> (string list \<Rightarrow> string \<Rightarrow> go_error option) \<Rightarrow> (string \<Rightarrow> string + 'b) \<Rightarrow> ('b \<Rightarrow> string + Config) \<Rightarrow> validators \<Rightarrow>
   bool \<Rightarrow> bool \<Rightarrow> string \<Rightarrow> time \<Rightarrow> program" where
  "monitor_main env register readFile unmarshal v in_cluster client_ok configPath t0 =
     (case NewServer register 9800 of Inl _ \<Rightarrow> ExitsWith ''Failed to create metrics server''
      | Inr m \<Rightarrow> case ParseFromFile readFile unmarshal v configPath of
        Inl _ \<Rightarrow> ExitsWith ''Failed to parse config''
      | Inr cfg \<Rightarrow>
          if \<not> in_cluster then ExitsWith ''Failed to get in-cluster config''
          else if \<not> client_ok then ExitsWith ''Failed to create Kubernetes client''
          else case buildCheckerSchedule env (Checkers cfg) of
            None \<Rightarrow> Panics
          | Some (Inl _) \<Rightarrow> ExitsWith ''Failed to build checker schedule''
          | Some (Inr cs) \<Rightarrow>
              (case Start_scheduler cs t0 of
                 None \<Rightarrow> Panics
               | Some s \<Rightarrow> Runs s))"

section \<open>Exits\<close>

text \<open>Once it runs, the program ends with the first of: \<open>main\<close> returning when the context is done, and the exits
  with code 1 of the scheduler's and the metrics server's goroutine. A \<open>ContextDone\<close> needs the cancellation.\<close>

inductive may_exit :: "'c CheckerSchedule list \<Rightarrow> system \<Rightarrow> server_wakeup option \<Rightarrow> nat \<Rightarrow> bool" for cs s where
  main_returns: "cancelled s \<Longrightarrow> may_exit cs s w 0"
| scheduler_failed: "wait_result cs s = Some (Some e) \<Longrightarrow> may_exit cs s w 1"
| server_done: "cancelled s \<Longrightarrow> Run_server (ContextDone r) = Some e \<Longrightarrow> may_exit cs s (Some (ContextDone r)) 1"
| server_failed: "Run_server (ServeReturned r) = Some e \<Longrightarrow> may_exit cs s (Some (ServeReturned r)) 1"

text \<open>Only a signal or the failure of the metrics listener ends the program.\<close>

lemma exits_explained:
  assumes "may_exit cs s w code" "Start_scheduler cs t0 = Some s0" "executes cs s0 tr s"
  shows "cancelled s \<or> (\<exists>e. w = Some (ServeReturned (Some e)))"
  using assms(1)
proof cases
  case (scheduler_failed e)
  then have "cs \<noteq> []" "\<forall>i < length cs. phase (worker s i) = Returned"
    by (auto simp: wait_result_def split: if_splits)
  moreover have "in_step cs t0 tr s 0" using in_step_reachable [OF assms(3,2)] \<open>cs \<noteq> []\<close> by simp
  ultimately show ?thesis by (auto simp: in_step_def)
qed (auto simp: Run_server_def)

text \<open>A graceful shutdown may end with code 0 or 1: both goroutines report the cancellation as an error.\<close>

lemma graceful_shutdown_may_exit_1:
  assumes "executes cs s0 tr s"
  shows "\<exists>tr' s'. executes cs s0 (tr @ Cancel # tr') s' \<and> may_exit cs s' (Some (ContextDone None)) 0 \<and>
    may_exit cs s' (Some (ContextDone None)) 1"
proof -
  have "executes cs s0 (tr @ [Cancel]) (s\<lparr>cancelled := True\<rparr>)" using executes_one [OF assms scheduleChecker.cancel] .
  moreover have "may_exit cs (s\<lparr>cancelled := True\<rparr>) (Some (ContextDone None)) 0" by (rule main_returns) simp
  moreover have "may_exit cs (s\<lparr>cancelled := True\<rparr>) (Some (ContextDone None)) 1"
    by (rule server_done [of _ _ "Sentinel Canceled"]) (simp_all add: Run_server_def)
  ultimately show ?thesis by blast
qed

section \<open>Building accepted configurations\<close>

lemma registered [simp]:
  "registerCheckers env CheckTypeDNS = Some (as_any DNSC (BuildDNSChecker (app_dns env)))"
  "registerCheckers env CheckTypePodStartup = Some (as_any PodStartupC (BuildPodStartupChecker (app_startup env)))"
  "registerCheckers env CheckTypeAPIServer = Some (as_any APIServerC buildAPIServerChecker)"
  "registerCheckers env CheckTypeMetricsServer = Some (as_any MetricsServerC (BuildMetricsServerChecker (app_metrics env)))"
  "registerCheckers env CheckTypeAzurePolicy = Some (as_any AzurePolicyC (buildAzurePolicyChecker (app_policy env)))"
  by (simp_all add: registerCheckers_def RegisterChecker_def check_types)

lemma build_accepted:
  assumes "checker_ok v cfg"
  shows "\<exists>r. Build (registerCheckers env) cfg False = Some r \<and>
    (case r of Inl _ \<Rightarrow> True | Inr chk \<Rightarrow> checker_id chk = \<lparr>idName = chkName cfg, idType = chkType cfg\<rparr>)"
proof -
  consider (dns) d where "chkType cfg = CheckTypeDNS" "chkDNSConfig cfg = Some d"
    | (startup) p where "chkType cfg = CheckTypePodStartup" "chkPodStartupConfig cfg = Some p"
    | (api) a where "chkType cfg = CheckTypeAPIServer" "chkAPIServerConfig cfg = Some a"
    | (policy) "chkType cfg = CheckTypeAzurePolicy" | (metrics) "chkType cfg = CheckTypeMetricsServer"
    using assms by (auto simp: checker_ok_def)
  then show ?thesis
  proof cases
    case dns
    then show ?thesis
      by (auto simp: Build_def as_any_def BuildDNSChecker_def Let_def dns_id_def split: sum.splits)
  next
    case startup
    then show ?thesis
      by (auto simp: Build_def as_any_def BuildPodStartupChecker_def startup_id_def split: option.splits)
  next
    case api
    then show ?thesis by (auto simp: Build_def as_any_def buildAPIServerChecker_def api_id_def)
  next
    case policy
    then show ?thesis
      by (auto simp: Build_def as_any_def buildAzurePolicyChecker_def policy_id_def split: option.splits)
  next
    case metrics
    then show ?thesis
      by (auto simp: Build_def as_any_def BuildMetricsServerChecker_def metrics_id_def split: option.splits sum.splits)
  qed
qed

text \<open>A configured checker is left out exactly when its builder says so.\<close>

definition left_out :: "('d, 's, 'm, 'cfg, 'p) app_env \<Rightarrow> CheckerConfig \<Rightarrow> bool" where
  "left_out env cfg \<longleftrightarrow>
     (\<exists>err. Build (registerCheckers env) cfg False = Some (Inl err) \<and> errors_is ErrSkipChecker err)"

text \<open>\<open>scheduled env cfgs cs\<close>: the schedule has, in order, one entry per configured checker that is not
  left out, with its name, type, interval and timeout.\<close>

definition scheduled :: "('d, 's, 'm, 'cfg, 'p) app_env \<Rightarrow> CheckerConfig list \<Rightarrow> any_checker CheckerSchedule list \<Rightarrow> bool" where
  "scheduled env cfgs cs \<longleftrightarrow>
     map (\<lambda>j. (checker_id (schChecker j), schInterval j, schTimeout j)) cs =
     map (\<lambda>c. (\<lparr>idName = chkName c, idType = chkType c\<rparr>, chkInterval c, chkTimeout c)) (filter (\<lambda>c. \<not> left_out env c) cfgs)"

lemma build_schedule_accepted:
  assumes "list_all (checker_ok v) cfgs"
  shows "\<exists>r. buildCheckerSchedule env cfgs = Some r \<and>
    (case r of
       Inl _ \<Rightarrow> (\<exists>c \<in> set cfgs. \<not> left_out env c \<and> (\<exists>err. Build (registerCheckers env) c False = Some (Inl err)))
     | Inr cs \<Rightarrow> scheduled env cfgs cs)"
  using assms
proof (induction cfgs)
  case Nil
  show ?case by (simp add: scheduled_def)
next
  case (Cons c cfgs)
  obtain r where r: "Build (registerCheckers env) c False = Some r"
    "case r of Inl _ \<Rightarrow> True | Inr chk \<Rightarrow> checker_id chk = \<lparr>idName = chkName c, idType = chkType c\<rparr>"
    using build_accepted [of v c env] Cons.prems by auto
  obtain rest where rest: "buildCheckerSchedule env cfgs = Some rest"
    "case rest of
       Inl _ \<Rightarrow> (\<exists>c \<in> set cfgs. \<not> left_out env c \<and> (\<exists>err. Build (registerCheckers env) c False = Some (Inl err)))
     | Inr cs \<Rightarrow> scheduled env cfgs cs"
    using Cons.IH Cons.prems by auto
  show ?case
  proof (cases r)
    case (Inl err)
    then show ?thesis using r rest
      by (cases "errors_is ErrSkipChecker err") (auto simp: left_out_def scheduled_def split: sum.splits)
  next
    case (Inr chk)
    then show ?thesis using r rest
      by (cases rest) (auto simp: left_out_def scheduled_def schedule_of_def)
  qed
qed

text \<open>C39: a configuration that parses can be run: building its schedule never panics, fails only when some
  checker that is not left out cannot be built, and otherwise gives one entry per remaining checker,
  in order, which the scheduler accepts.\<close>

theorem parsed_config_can_be_scheduled:
  assumes "ParseFromYAML unmarshal v data = Inr cfg"
  shows "\<exists>r. buildCheckerSchedule env (Checkers cfg) = Some r \<and>
    (case r of
       Inl _ \<Rightarrow> (\<exists>c \<in> set (Checkers cfg). \<not> left_out env c \<and> (\<exists>err. Build (registerCheckers env) c False = Some (Inl err)))
     | Inr cs \<Rightarrow> scheduled env (Checkers cfg) cs \<and> Start_scheduler cs t0 \<noteq> None)"
proof -
  have ok: "list_all (checker_ok v) (Checkers cfg)"
    using assms by (auto simp: ParseFromYAML_def Let_def Config_validate_Nil split: sum.splits if_splits)
  have "Start_scheduler cs t0 \<noteq> None" if "scheduled env (Checkers cfg) cs" for cs
  proof -
    have "map schInterval cs = map chkInterval (filter (\<lambda>c. \<not> left_out env c) (Checkers cfg))"
      using arg_cong [OF that [unfolded scheduled_def], of "map (fst o snd)"] by (simp add: comp_def)
    then have "list_all (\<lambda>i. 0 < sint i) (map schInterval cs)"
      using ok by (auto simp: list_all_iff checker_ok_def)
    then show ?thesis by (simp add: Start_scheduler_def list_all_iff)
  qed
  then show ?thesis using build_schedule_accepted [OF ok, of env] by (fastforce split: sum.splits)
qed

definition demo_config :: Config where
  "demo_config = \<lparr>Checkers = [\<lparr>chkName = ''startup'', chkType = CheckTypePodStartup, chkInterval = 60 * second,
     chkTimeout = 11 * second, chkDNSConfig = None, chkPodStartupConfig = Some (demo_startup second 2 second),
     chkAPIServerConfig = None\<rparr>]\<rparr>"

definition demo_app_env :: "(unit, unit, unit, unit, unit) app_env" where
  "demo_app_env = \<lparr>
     app_dns = \<lparr>dns_lookup = \<lambda>_ _ _ w. (None, w), dns_get_service = \<lambda>_ _ w. (Inr ''10.0.0.10'', w),
       dns_list_slices = \<lambda>_ _ w. (Inr [], w), dns_resolv_conf = \<lambda>_. Inr [''168.63.129.16'']\<rparr>,
     app_startup = demo_ps_env,
     app_metrics = \<lparr>ms_in_cluster = Inr (), ms_new_client = \<lambda>_. None, ms_list_nodes = \<lambda>w. (None, w)\<rparr>,
     app_policy = \<lparr>ap_in_cluster = None, ap_new_client = \<lambda>w. (None, w), ap_now = \<lambda>w. (0, w), ap_dry_run = \<lambda>_ _ w. ((None, []), w)\<rparr>\<rparr>"

lemma demo_config_parses: "ParseFromYAML (\<lambda>_. Inr demo_config) lenient () = Inr demo_config"
proof -
  have "sint (SyntheticPodStartupTimeout c + tcpConnectivityBudget c) < sint (11 * second)"
    if "c = demo_startup second 2 second" for c
    by (simp add: that demo_startup_def tcpConnectivityBudget_def time_units)
  then have "checker_ok lenient (hd (Checkers demo_config))"
    by (simp add: demo_config_def checker_ok_def pod_startup_ok_def check_types)
       (simp add: demo_startup_def lenient_def csi_list_def time_units)
  then show ?thesis
    by (simp add: ParseFromYAML_def Config_validate_Nil) (simp add: demo_config_def)
qed

theorem parsed_config_can_be_scheduled_witness:
  "\<exists>r. buildCheckerSchedule demo_app_env (Checkers demo_config) = Some r \<and>
    (case r of
       Inl _ \<Rightarrow> (\<exists>c \<in> set (Checkers demo_config). \<not> left_out demo_app_env c \<and>
         (\<exists>err. Build (registerCheckers demo_app_env) c False = Some (Inl err)))
     | Inr cs \<Rightarrow> scheduled demo_app_env (Checkers demo_config) cs \<and> Start_scheduler cs 0 \<noteq> None)"
  by (rule parsed_config_can_be_scheduled [OF demo_config_parses])

section \<open>Recording\<close>

definition counted_once :: "chk_id \<Rightarrow> ('w, 'e) chk_rt \<Rightarrow> ('w, 'e) chk_rt \<Rightarrow> bool" where
  "counted_once chk s s' \<longleftrightarrow>
     (\<exists>ls. declared ls \<and> CheckerResultCounter s' = inc ([idType chk, idName chk] @ ls) (CheckerResultCounter s)) \<and>
     PodHealthResultCounter s' = PodHealthResultCounter s"

lemma recorded:
  assumes "conclusive_checker prog"
  shows "counted_once chk s (snd (run_state (do { outcome \<leftarrow> prog; RecordResult chk outcome }) s))"
  using conclusive_checker.records_once [OF assms, of chk s] by (auto simp: counted_once_def)

text \<open>C40: every run of the API server, metrics server, Azure Policy, CoreDNS and LocalDNS checks adds one to
  exactly one series of the result counter, under the checker's type and name, with one of the three
  declared statuses and a code that is not empty.\<close>

theorem each_run_is_counted_once:
  "counted_once (api_id a) s (snd (run_state (Run_api env_a a) s)) \<and>
   counted_once (metrics_id m) s' (snd (run_state (Run_metrics env_m m) s')) \<and>
   counted_once (policy_id p) s'' (snd (run_state (Run_policy env_p p) s'')) \<and>
   counted_once \<lparr>idName = n, idType = CheckTypeDNS\<rparr> s3 (snd (run_state (Run_dns env_d
     \<lparr>dnsName = n, dnsConfig = cfg\<lparr>Target := DNSCheckTargetCoreDNS\<rparr>\<rparr>) s3)) \<and>
   counted_once \<lparr>idName = n, idType = CheckTypeDNS\<rparr> s3 (snd (run_state (Run_dns env_d
     \<lparr>dnsName = n, dnsConfig = cfg\<lparr>Target := DNSCheckTargetLocalDNS\<rparr>\<rparr>) s3))"
proof (intro conjI)
  show "counted_once (api_id a) s (snd (run_state (Run_api env_a a) s))"
    unfolding Run_api_def by (rule recorded) (rule api_server.conclusive_checker_axioms)
  show "counted_once (metrics_id m) s' (snd (run_state (Run_metrics env_m m) s'))"
    unfolding Run_metrics_def by (rule recorded) (rule metrics_server.conclusive_checker_axioms)
  show "counted_once (policy_id p) s'' (snd (run_state (Run_policy env_p p) s''))"
    unfolding Run_policy_def by (rule recorded) (rule azure_policy.conclusive_checker_axioms)
  let ?c = "\<lambda>t. \<lparr>dnsName = n, dnsConfig = cfg\<lparr>Target := t\<rparr>\<rparr>"
  have "Run_dns env_d (?c DNSCheckTargetCoreDNS) =
    do { outcome \<leftarrow> checkCoreDNS env_d (?c DNSCheckTargetCoreDNS); RecordResult \<lparr>idName = n, idType = CheckTypeDNS\<rparr> outcome }"
    by (simp add: Run_dns_def dns_id_def)
  then show "counted_once \<lparr>idName = n, idType = CheckTypeDNS\<rparr> s3 (snd (run_state (Run_dns env_d (?c DNSCheckTargetCoreDNS)) s3))"
    by (simp only: recorded [OF core_dns.conclusive_checker_axioms])
  have "Run_dns env_d (?c DNSCheckTargetLocalDNS) =
    do { outcome \<leftarrow> checkLocalDNS env_d (?c DNSCheckTargetLocalDNS); RecordResult \<lparr>idName = n, idType = CheckTypeDNS\<rparr> outcome }"
    by (simp add: Run_dns_def dns_id_def DNSCheckTargetLocalDNS_def DNSCheckTargetCoreDNS_def)
  then show "counted_once \<lparr>idName = n, idType = CheckTypeDNS\<rparr> s3 (snd (run_state (Run_dns env_d (?c DNSCheckTargetLocalDNS)) s3))"
    by (simp only: recorded [OF local_dns.conclusive_checker_axioms])
qed

text \<open>The pod startup check keeps that contract unless the provisioning test is enabled: a skipped run
  is counted in a series with empty labels.\<close>

lemma startup_run_counted_once:
  assumes "poll_law env" "dial_law env" "\<not> EnableNodeProvisioningTest (psConfig c)"
  shows "counted_once (startup_id c) s (snd (run_state (Run_startup env c) s))"
proof -
  have "conclusive (fst (run_state (check_startup env c) s))" "rt.more (snd (run_state (check_startup env c) s)) = rt.more s"
    using check_startup_emits [OF assms(1,2), of c s] assms(3) by (auto simp: emits_def)
  then obtain outcome s' where r: "run_state (check_startup env c) s = (outcome, s')" "conclusive outcome"
    "CheckerResultCounter s' = CheckerResultCounter s" "PodHealthResultCounter s' = PodHealthResultCounter s"
    using more_counters by (cases "run_state (check_startup env c) s") auto
  then show ?thesis
    using status_labels_declared [OF r(2)] by (auto simp: counted_once_def Run_startup_def)
qed

lemma skipped_run_has_empty_labels: "status_labels (Inr (Skipped m)) = ['''', ''''] \<and> \<not> declared (status_labels (Inr (Skipped m)))"
  by (simp add: status_labels_def declared_def)

end
