(* ===== verification/CheckLifecycle.thy ===== *)
theory CheckLifecycle
  imports CnhLimits NodeCheckerRunner "HOL-Library.Sublist"
begin

text \<open>
  The life of one CheckNodeHealth, with everybody who writes its status at work at the same time: any number
  of reconciliations (a second controller during a change of leader included) and any number of node checkers,
  interleaved call by call, each of which may stop at any point. The API server keeps one object under
  optimistic concurrency; reads may come from a cache and be arbitrarily old, a write whose answer is lost may
  or may not have been stored. The abstract specification is a machine of four transitions of the status; the
  theorem is that the stored object only ever makes these.
\<close>

section \<open>The specification\<close>

definition verdict_condition :: "CheckResult list \<Rightarrow> string \<Rightarrow> time \<Rightarrow> Condition" where
  "verdict_condition rs msg now = \<lparr>condType = ConditionTypeHealthy, condStatus = fst (condition_of (verdict rs)),
     condReason = snd (condition_of (verdict rs)), condMessage = msg, condTransition = now\<rparr>"

text \<open>A check is started once, reports the startup of its pod while it runs, and completes once, with the verdict
  of the results it has then; the node checker may append a result at any time.\<close>

inductive lifecycle :: "CheckNodeHealthStatus \<Rightarrow> CheckNodeHealthStatus \<Rightarrow> bool" for s where
  start: "StartedAt s = None \<Longrightarrow> FinishedAt s = None \<Longrightarrow>
    lifecycle s (s\<lparr>StartedAt := Some now, Conditions := [\<lparr>condType = ConditionTypeHealthy, condStatus = ConditionUnknown,
      condReason = ReasonCheckStarted, condMessage = '''', condTransition = now\<rparr>]\<rparr>)"
| report: "StartedAt s \<noteq> None \<Longrightarrow> FinishedAt s = None \<Longrightarrow> crName res = ''PodStartup'' \<Longrightarrow>
    lifecycle s (s\<lparr>Results := upsert_result res (Results s)\<rparr>)"
| complete: "StartedAt s \<noteq> None \<Longrightarrow> FinishedAt s = None \<Longrightarrow>
    lifecycle s (s\<lparr>FinishedAt := Some now, Conditions := [verdict_condition (Results s) msg now]\<rparr>)"
| append: "crName res = ''PodNetwork'' \<Longrightarrow> lifecycle s (s\<lparr>Results := Results s @ [res]\<rparr>)"

inductive_cases lifecycleE: "lifecycle s s'"

text \<open>A status as it is stored: instants lose precision (\<open>metav1.Time\<close> is written in seconds), by \<open>tr\<close>.\<close>

definition on_wire :: "(time \<Rightarrow> time) \<Rightarrow> CheckNodeHealthStatus \<Rightarrow> CheckNodeHealthStatus" where
  "on_wire tr s = s\<lparr>StartedAt := map_option tr (StartedAt s), FinishedAt := map_option tr (FinishedAt s),
     Conditions := map (\<lambda>c. c\<lparr>condTransition := tr (condTransition c)\<rparr>) (Conditions s)\<rparr>"

definition evolves :: "(time \<Rightarrow> time) \<Rightarrow> CheckNodeHealthStatus \<Rightarrow> CheckNodeHealthStatus \<Rightarrow> bool" where
  "evolves tr s s' \<longleftrightarrow> s' = s \<or> (\<exists>q. lifecycle s q \<and> s' = on_wire tr q)"

section \<open>The calls on the object\<close>

text \<open>The calls of either program on the resource itself, with their answers. \<open>CrStatus c (Some None)\<close> was accepted, and
  the caller does not look at the answer.\<close>

datatype cr_call =
    CrRead "CheckNodeHealth option"
  | CrUpdate CheckNodeHealth "CheckNodeHealth option"
  | CrStatus CheckNodeHealth "CheckNodeHealth option option"
  | CrDelete CheckNodeHealth

definition accepted :: "'e + 'a \<Rightarrow> 'a option" where
  "accepted x = (case x of Inl _ \<Rightarrow> None | Inr c \<Rightarrow> Some c)"

lemma accepted_simps [simp]: "accepted (Inl e) = None" "accepted (Inr c) = Some c"
  by (simp_all add: accepted_def)

fun controller_call :: "cnh_event \<Rightarrow> cr_call list" where
  "controller_call (GetCNH n x) = [CrRead (accepted x)]"
| "controller_call (UpdateCNH c x) = [CrUpdate c (accepted x)]"
| "controller_call (StatusUpdateCNH c x) = [CrStatus c (map_option Some (accepted x))]"
| "controller_call (DeleteCNH c x) = [CrDelete c]"
| "controller_call _ = []"

fun checker_call :: "rn_event \<Rightarrow> cr_call list" where
  "checker_call (ReadCR n x) = [CrRead (accepted x)]"
| "checker_call (WriteCRStatus c x) = [CrStatus c (case x of None \<Rightarrow> Some None | Some e \<Rightarrow> None)]"
| "checker_call (Probe e) = []"

definition controller_calls :: "cnh_event list \<Rightarrow> cr_call list" where
  "controller_calls es = concat (map controller_call es)"

definition checker_calls :: "rn_event list \<Rightarrow> cr_call list" where
  "checker_calls es = concat (map checker_call es)"

lemma calls_simps [simp]:
  "controller_calls [] = []" "controller_calls (e # es) = controller_call e @ controller_calls es"
  "controller_calls (es @ fs) = controller_calls es @ controller_calls fs"
  "checker_calls [] = []" "checker_calls (d # ds) = checker_call d @ checker_calls ds"
  "checker_calls (ds @ ds') = checker_calls ds @ checker_calls ds'"
  by (simp_all add: controller_calls_def checker_calls_def)

lemma probes_only [simp]: "checker_calls (map Probe es) = []"
  by (induction es) auto

section \<open>Each write is a transition of what was last read\<close>

text \<open>The object a program holds after a call; a write is computed from it and carries its version.\<close>

fun hold :: "CheckNodeHealth option \<Rightarrow> cr_call \<Rightarrow> CheckNodeHealth option" where
  "hold b (CrRead (Some c)) = Some c"
| "hold b (CrUpdate d (Some c)) = Some c"
| "hold b (CrStatus d (Some (Some c))) = Some c"
| "hold b _ = b"

fun echo :: "(time \<Rightarrow> time) \<Rightarrow> cr_call \<Rightarrow> bool" where
  "echo tr (CrStatus d (Some (Some c))) \<longleftrightarrow> cnhStatus c = on_wire tr (cnhStatus d)"
| "echo tr _ \<longleftrightarrow> True"

text \<open>\<open>derived tr b cs\<close>: as long as the answers echo the status, each status write in \<open>cs\<close> is a transition of the
  object held at that point, from \<open>b\<close> on.\<close>

fun derived :: "(time \<Rightarrow> time) \<Rightarrow> CheckNodeHealth option \<Rightarrow> cr_call list \<Rightarrow> bool" where
  "derived tr b [] = True"
| "derived tr b (c # cs) =
     ((case c of CrStatus d x \<Rightarrow> (\<exists>b0. b = Some b0 \<and> lifecycle (cnhStatus b0) (cnhStatus d)) | _ \<Rightarrow> True) \<and>
      (echo tr c \<longrightarrow> derived tr (hold b c) cs))"

lemma derived_append: "derived tr b (cs @ ds) \<Longrightarrow> derived tr b cs"
  by (induction cs arbitrary: b) auto

lemma derived_last:
  "derived tr b (cs @ [CrStatus d x]) \<Longrightarrow> list_all (echo tr) cs \<Longrightarrow>
     \<exists>b0. foldl hold b cs = Some b0 \<and> lifecycle (cnhStatus b0) (cnhStatus d)"
  by (induction cs arbitrary: b) auto

lemma on_wire_fields [simp]:
  "StartedAt (on_wire tr s) = map_option tr (StartedAt s)" "FinishedAt (on_wire tr s) = map_option tr (FinishedAt s)"
  "Results (on_wire tr s) = Results s"
  "Conditions (on_wire tr s) = map (\<lambda>c. c\<lparr>condTransition := tr (condTransition c)\<rparr>) (Conditions s)"
  by (simp_all add: on_wire_def)

lemma start_step:
  "StartedAt (cnhStatus c) = None \<Longrightarrow> FinishedAt (cnhStatus c) = None \<Longrightarrow> lifecycle (cnhStatus c) (cnhStatus (started c now))"
  by (auto simp: started_def intro: lifecycle.start)

lemma report_step:
  "StartedAt (cnhStatus c) \<noteq> None \<Longrightarrow> FinishedAt (cnhStatus c) = None \<Longrightarrow>
     lifecycle (cnhStatus c) (cnhStatus (updateCheckResult c (startup_result st msg)))"
  by (auto simp: updateCheckResult_def startup_result_def intro!: lifecycle.report)

lemma complete_step:
  assumes "StartedAt (cnhStatus c) \<noteq> None" "FinishedAt (cnhStatus c) = None"
  shows "lifecycle (cnhStatus c) (cnhStatus (completed c now))"
proof -
  have "cnhStatus (completed c now) = (cnhStatus c)\<lparr>FinishedAt := Some now,
    Conditions := [verdict_condition (Results (cnhStatus c)) (formatResultsMessage (c\<lparr>cnhStatus := (cnhStatus c)\<lparr>FinishedAt := Some now\<rparr>\<rparr>)) now]\<rparr>"
    by (simp add: completed_def determineHealthyCondition_verdict verdict_condition_def Let_def)
  then show ?thesis using lifecycle.complete [OF assms] by simp
qed

lemma pod_calls: "ensured env r cnh es res \<Longrightarrow> controller_calls es = []"
  by (auto elim!: ensuredE)

lemma node_calls: "node_reported cnh es \<Longrightarrow> controller_calls es = []"
  by (auto elim!: node_reportedE)

lemma cleanup_calls: "list_all cleanup_call es \<Longrightarrow> controller_calls es = []"
proof (induction es)
  case (Cons e es)
  then show ?case by (cases e) auto
qed simp

lemma cleanup_tried_none: "cleanup_tried r cnh es res \<Longrightarrow> controller_calls es = []"
  by (rule cleanup_calls [OF cleanup_tried_calls])

lemma status_written_calls:
  "status_written env d p es (e, c') \<Longrightarrow>
     (\<exists>err. e = Some err \<and> controller_calls es = [CrStatus d None]) \<or>
     (e = None \<and> controller_calls es = [CrStatus d (Some (Some c'))])"
  by (auto elim: status_writtenE)

definition in_progress :: "CheckNodeHealth \<Rightarrow> bool" where
  "in_progress c \<longleftrightarrow> StartedAt (cnhStatus c) \<noteq> None \<and> FinishedAt (cnhStatus c) = None"

lemma finished_derived:
  assumes "finished env r c es res" "in_progress c"
  shows "derived tr (Some c) (controller_calls es)"
proof -
  have step: "lifecycle (cnhStatus c) (cnhStatus (completed c now))" for now
    using assms(2) complete_step by (simp add: in_progress_def)
  from assms(1) show ?thesis
  proof (cases rule: finished.cases)
    case (verdict_lost now e c')
    then show ?thesis using status_written_calls [OF verdict_lost(2)] step by auto
  next
    case (verdict_kept now es' c' ns ds err)
    then show ?thesis using status_written_calls [OF verdict_kept(3)] step node_calls cleanup_tried_none by auto
  qed
qed

lemma reported_derived:
  assumes "startup_reported env c pod es (e, c')" "in_progress c" "e = None \<Longrightarrow> in_progress c' \<Longrightarrow> derived tr (Some c') cs" "e \<noteq> None \<Longrightarrow> cs = []"
  shows "derived tr (Some c) (controller_calls es @ cs)"
proof -
  have step: "lifecycle (cnhStatus c) (cnhStatus (updateCheckResult c (startup_result st msg)))" for st msg
    using assms(2) report_step by (simp add: in_progress_def)
  have written: "derived tr (Some c) (controller_calls es @ cs)"
    if w: "status_written env (updateCheckResult c (startup_result st msg)) p es (e, c')" for st msg p
  proof (cases e)
    case (Some err)
    then show ?thesis using status_written_calls [OF w] step assms(4) by auto
  next
    case None
    have "in_progress c'" if "cnhStatus c' = on_wire tr (cnhStatus (updateCheckResult c (startup_result st msg)))"
      using assms(2) that by (simp add: in_progress_def updateCheckResult_def)
    then show ?thesis using status_written_calls [OF w] step assms(3) None by auto
  qed
  from assms(1) show ?thesis
  proof (cases rule: startup_reported.cases)
    case all_started
    then show ?thesis using written by blast
  next
    case (stuck now)
    then show ?thesis using written by blast
  qed (use assms(2,3) in auto)
qed

lemma determined_derived:
  "determined env r c pod es res \<Longrightarrow> in_progress c \<Longrightarrow> derived tr (Some c) (controller_calls es)"
  by (auto elim!: determinedE intro: finished_derived)

lemma started_derived:
  assumes "marked_started env c es (e, c')" "\<not> isCompleted c" "e = None \<Longrightarrow> in_progress c' \<Longrightarrow> derived tr (Some c') cs" "e \<noteq> None \<Longrightarrow> cs = []"
  shows "derived tr (Some c) (controller_calls es @ cs)"
  using assms(1)
proof (cases rule: marked_started.cases)
  case already
  then show ?thesis using assms(2,3) by (simp add: in_progress_def isCompleted_def)
next
  case (starting now)
  note s = starting(1) and w = starting(2)
  have step: "lifecycle (cnhStatus c) (cnhStatus (started c now))"
    using start_step s assms(2) by (simp add: isCompleted_def)
  show ?thesis
  proof (cases e)
    case (Some err)
    then show ?thesis using status_written_calls [OF w] step assms(4) by auto
  next
    case None
    have "in_progress c'" if "cnhStatus c' = on_wire tr (cnhStatus (started c now))"
      using assms(2) that by (simp add: in_progress_def started_def isCompleted_def)
    then show ?thesis using status_written_calls [OF w] step assms(3) None by auto
  qed
qed

lemma checked_derived:
  assumes "checked env r c es res" "\<not> isCompleted c"
  shows "derived tr (Some c) (controller_calls es)"
  using assms(1)
proof (cases rule: checked.cases)
  case (no_pod e)
  then show ?thesis using pod_calls [OF no_pod(2)] by simp
next
  case (start_failed es0 pod es1 e c1)
  then show ?thesis using pod_calls [of env r c es0] started_derived [OF start_failed(4) assms(2), of tr "[]"] by simp
next
  case (report_failed es0 pod es1 c1 es2 e c2)
  have "derived tr (Some c) (controller_calls es1 @ controller_calls es2 @ [])"
    by (rule started_derived [OF report_failed(4) assms(2)], rule reported_derived [OF report_failed(5)]) auto
  then show ?thesis using report_failed pod_calls [of env r c es0] by simp
next
  case (observed es0 pod es1 c1 es2 c2 es3)
  have "derived tr (Some c) (controller_calls es1 @ controller_calls es2 @ controller_calls es3)"
    by (rule started_derived [OF observed(3) assms(2)], rule reported_derived [OF observed(4)])
       (auto intro: determined_derived [OF observed(5)])
  then show ?thesis using observed pod_calls [of env r c es0] by simp
qed

text \<open>Every run of the reconciler, and every run of the node checker, computes its writes this way.\<close>

lemma reconciled_derived:
  assumes "reconciled env r req es res"
  shows "derived tr None (controller_calls es)"
proof -
  have fin: "derived tr (Some cnh) (controller_calls fs @ cs)"
    if "finalizer_ensured env cnh fs x" "\<And>c1. x = Inr c1 \<Longrightarrow> derived tr (Some c1) cs" "\<And>e. x = Inl e \<Longrightarrow> cs = []" for cnh fs x cs
    using that by (cases x) (auto elim!: finalizer_ensuredE)
  from assms show ?thesis
  proof (cases rule: reconciled.cases)
    case (finalizer_failed cnh now es' e)
    then show ?thesis using fin [OF finalizer_failed(5), of "[]"] by simp
  next
    case (completed_before cnh now es' c1 es1 err)
    then show ?thesis using fin [OF completed_before(5), of "[]"] cleanup_tried_none by simp
  next
    case (running cnh now es' c1 es1)
    then show ?thesis using fin [OF running(4), of "controller_calls es1"] checked_derived [OF running(6,5)] by simp
  next
    case (released cnh es' x)
    then show ?thesis using cleanup_calls [OF cleaned_calls] by simp
  qed (auto dest: cleanup_tried_none)
qed

lemma written_derived: "written cr a res es \<Longrightarrow> derived tr b (checker_calls es)"
  by (auto simp: written_def reported_def intro!: lifecycle.append split: option.splits)

lemma nodechecker_derived:
  assumes "retry_law rn"
  shows "emits (nodechecker_main rn fails name) (\<lambda>res es s'. derived tr None (checker_calls es)) s"
proof -
  have run: "emits (Run_runner rn (NewRunner rn node cr)) (\<lambda>res es s'. derived tr b (checker_calls es)) s" for node cr s b
    by (rule emits_mono [OF runner_writes [OF assms]]) (auto intro: written_derived)
  show ?thesis
    unfolding nodechecker_main_def readNodeName_def Let_def
    by (auto intro!: emits_intro emits_bind_via [OF run])
qed

section \<open>The API server and its clients\<close>

text \<open>The versions of the object, oldest first; the version each run holds; whether the object is gone; and the calls
  each run has made. A run is a reconciliation or a node checker, numbered.\<close>

record cluster =
  history :: "CheckNodeHealth list"
  held :: "nat \<rightharpoonup> nat"
  gone :: bool
  calls :: "nat \<Rightarrow> cr_call list"

abbreviation current :: "cluster \<Rightarrow> CheckNodeHealth" where
  "current s \<equiv> last (history s)"

text \<open>A write is stored only for the holder of the latest version of an object that is still there.\<close>

definition up_to_date :: "cluster \<Rightarrow> nat \<Rightarrow> bool" where
  "up_to_date s i \<longleftrightarrow> \<not> gone s \<and> held s i = Some (length (history s) - 1)"

definition stored :: "(time \<Rightarrow> time) \<Rightarrow> cluster \<Rightarrow> CheckNodeHealth \<Rightarrow> CheckNodeHealth" where
  "stored tr s c = (current s)\<lparr>cnhStatus := on_wire tr (cnhStatus c)\<rparr>"

text \<open>How the server answers a call of run \<open>i\<close>. The status is a subresource: a status write changes only the status, and
  no other write changes it. A read may return any version there ever was. An object that is gone stays gone: one
  created later under its name is another object. Whether a write that was answered with an error has been stored
  is open, except that it never is with an outdated version.\<close>

inductive serve :: "(time \<Rightarrow> time) \<Rightarrow> nat \<Rightarrow> cr_call \<Rightarrow> cluster \<Rightarrow> cluster \<Rightarrow> bool" for tr i where
  read: "v < length (history s) \<Longrightarrow> serve tr i (CrRead (Some (history s ! v))) s (s\<lparr>held := (held s)(i \<mapsto> v)\<rparr>)"
| not_read: "serve tr i (CrRead None) s s"
| status_stored: "up_to_date s i \<Longrightarrow> serve tr i (CrStatus c (Some (Some (stored tr s c)))) s
    (s\<lparr>history := history s @ [stored tr s c], held := (held s)(i \<mapsto> length (history s))\<rparr>)"
| status_accepted: "up_to_date s i \<Longrightarrow> serve tr i (CrStatus c (Some None)) s (s\<lparr>history := history s @ [stored tr s c]\<rparr>)"
| status_unanswered: "up_to_date s i \<Longrightarrow> serve tr i (CrStatus c None) s (s\<lparr>history := history s @ [stored tr s c]\<rparr>)"
| status_refused: "serve tr i (CrStatus c None) s s"
| update_stored: "up_to_date s i \<Longrightarrow> cnhStatus c' = cnhStatus (current s) \<Longrightarrow> serve tr i (CrUpdate c (Some c')) s
    (s\<lparr>history := history s @ [c'], held := (held s)(i \<mapsto> length (history s))\<rparr>)"
| update_unanswered: "up_to_date s i \<Longrightarrow> cnhStatus c' = cnhStatus (current s) \<Longrightarrow>
    serve tr i (CrUpdate c None) s (s\<lparr>history := history s @ [c'], gone := g\<rparr>)"
| update_refused: "serve tr i (CrUpdate c None) s s"
| deletion_marked: "cnhStatus c' = cnhStatus (current s) \<Longrightarrow> serve tr i (CrDelete c) s (s\<lparr>history := history s @ [c'], gone := g\<rparr>)"
| deletion_refused: "serve tr i (CrDelete c) s s"

text \<open>The calls a run can make: those of a run of the reconciler for this object, or of a node checker for it, up to
  some point, with whatever answers.\<close>

definition controller_run :: "'w cnh_env \<Rightarrow> CheckNodeHealthReconciler \<Rightarrow> string \<Rightarrow> cr_call list \<Rightarrow> bool" where
  "controller_run env r name cs \<longleftrightarrow> (\<exists>s. log s = [] \<and> cs = controller_calls (log (snd (run_state (Reconcile_cnh env r name) s))))"

definition checker_run :: "'v rn_env \<Rightarrow> string \<Rightarrow> cr_call list \<Rightarrow> bool" where
  "checker_run rn name cs \<longleftrightarrow> (\<exists>s fails. log s = [] \<and> cs = checker_calls (log (snd (run_state (nodechecker_main rn fails name) s))))"

definition makes :: "'w cnh_env \<Rightarrow> CheckNodeHealthReconciler \<Rightarrow> 'v rn_env \<Rightarrow> string \<Rightarrow> cr_call list \<Rightarrow> bool" where
  "makes env r rn name cs \<longleftrightarrow> (\<exists>cs'. (controller_run env r name (cs @ cs') \<or> checker_run rn name (cs @ cs')))"

text \<open>The states a cluster can reach: the object is created without a status, runs make calls, and anybody may edit
  the rest of the object.\<close>

inductive reaches ::
  "'w cnh_env \<Rightarrow> CheckNodeHealthReconciler \<Rightarrow> 'v rn_env \<Rightarrow> string \<Rightarrow> (time \<Rightarrow> time) \<Rightarrow> cluster \<Rightarrow> bool"
  for env r rn name tr where
  created: "cnhStatus c = empty_status \<Longrightarrow>
    reaches env r rn name tr \<lparr>history = [c], held = Map.empty, gone = False, calls = (\<lambda>_. [])\<rparr>"
| called: "reaches env r rn name tr s \<Longrightarrow> makes env r rn name (calls s i @ [c]) \<Longrightarrow> serve tr i c s s' \<Longrightarrow>
    reaches env r rn name tr (s'\<lparr>calls := (calls s)(i := calls s i @ [c])\<rparr>)"
| edited: "reaches env r rn name tr s \<Longrightarrow> cnhStatus c = cnhStatus (current s) \<Longrightarrow>
    reaches env r rn name tr (s\<lparr>history := history s @ [c]\<rparr>)"

lemma makes_derived:
  fixes env :: "'w cnh_env"
  assumes "retry_law rn" "makes env r rn name cs"
  shows "derived tr None cs"
proof -
  obtain cs' where "controller_run env r name (cs @ cs') \<or> checker_run rn name (cs @ cs')"
    using assms(2) by (auto simp: makes_def)
  then have "derived tr None (cs @ cs')"
  proof
    assume "controller_run env r name (cs @ cs')"
    then obtain s :: "'w cnh_rt" where "log s = []" "cs @ cs' = controller_calls (log (snd (run_state (Reconcile_cnh env r name) s)))"
      by (auto simp: controller_run_def)
    then show ?thesis using Reconcile_protocol [of env r name s] by (auto simp: emits_def dest!: reconciled_derived)
  next
    assume "checker_run rn name (cs @ cs')"
    then obtain s fails where "log s = []" "cs @ cs' = checker_calls (log (snd (run_state (nodechecker_main rn fails name) s)))"
      by (auto simp: checker_run_def)
    then show ?thesis using nodechecker_derived [OF assms(1), of fails name tr s] by (auto simp: emits_def)
  qed
  then show ?thesis by (rule derived_append)
qed

section \<open>Refinement\<close>

definition status_at :: "cluster \<Rightarrow> nat \<Rightarrow> CheckNodeHealthStatus" where
  "status_at s v = cnhStatus (history s ! v)"

text \<open>The invariant of the simulation: what each run holds is the version it is said to hold, its answers echoed
  its writes, and the versions so far are steps of the specification.\<close>

definition consistent :: "(time \<Rightarrow> time) \<Rightarrow> cluster \<Rightarrow> bool" where
  "consistent tr s \<longleftrightarrow> history s \<noteq> [] \<and> cnhStatus (hd (history s)) = empty_status \<and>
     (\<forall>i v. held s i = Some v \<longrightarrow> v < length (history s) \<and> foldl hold None (calls s i) = Some (history s ! v)) \<and>
     (\<forall>i. held s i = None \<longrightarrow> foldl hold None (calls s i) = None) \<and>
     (\<forall>i. list_all (echo tr) (calls s i)) \<and>
     (\<forall>v. Suc v < length (history s) \<longrightarrow> evolves tr (status_at s v) (status_at s (Suc v)))"

lemma evolves_same [simp]: "evolves tr s s"
  by (simp add: evolves_def)

text \<open>A new version: the chain of versions grows by one step, nothing else of the invariant is concerned.\<close>

lemma chain_append:
  assumes "h \<noteq> []" "\<forall>v. Suc v < length h \<longrightarrow> evolves tr (cnhStatus (h ! v)) (cnhStatus (h ! Suc v))"
    "evolves tr (cnhStatus (last h)) (cnhStatus c)" "Suc v < length (h @ [c])"
  shows "evolves tr (cnhStatus ((h @ [c]) ! v)) (cnhStatus ((h @ [c]) ! Suc v))"
proof (cases "Suc v < length h")
  case True
  then show ?thesis using assms(2) by (simp add: nth_append)
next
  case False
  then have "v = length h - 1" "Suc v = length h" using assms(4) by auto
  then show ?thesis using assms(1,3) by (simp add: nth_append last_conv_nth)
qed

lemma consistent_push:
  assumes "consistent tr s" "evolves tr (cnhStatus (current s)) (cnhStatus c)"
  shows "consistent tr (s\<lparr>history := history s @ [c]\<rparr>)"
  using assms chain_append [of "history s" tr c] by (auto simp: consistent_def status_at_def nth_append intro: less_SucI)

lemma consistent_gone: "consistent tr (s\<lparr>gone := g\<rparr>) \<longleftrightarrow> consistent tr s"
  by (simp add: consistent_def status_at_def)

lemma consistent_call:
  assumes "consistent tr s" "echo tr c" "v < length (history s)" "hold (foldl hold None (calls s i)) c = Some (history s ! v)"
  shows "consistent tr (s\<lparr>held := (held s)(i \<mapsto> v), calls := (calls s)(i := calls s i @ [c])\<rparr>)"
  using assms by (auto simp: consistent_def status_at_def)

lemma consistent_quiet:
  assumes "consistent tr s" "echo tr c" "\<And>b. hold b c = b"
  shows "consistent tr (s\<lparr>calls := (calls s)(i := calls s i @ [c])\<rparr>)"
  using assms by (auto simp: consistent_def status_at_def)

lemma stored_step:
  assumes "consistent tr s" "up_to_date s i" "derived tr None (calls s i @ [CrStatus c x])"
  shows "evolves tr (cnhStatus (current s)) (cnhStatus (stored tr s c))"
proof -
  have "foldl hold None (calls s i) = Some (current s)" "list_all (echo tr) (calls s i)"
    using assms(1,2) by (auto simp: consistent_def up_to_date_def last_conv_nth)
  then show ?thesis using derived_last [OF assms(3)] by (auto simp: evolves_def stored_def)
qed

lemma serve_consistent:
  assumes "consistent tr s" "derived tr None (calls s i @ [c])" "serve tr i c s s'"
  shows "consistent tr (s'\<lparr>calls := (calls s)(i := calls s i @ [c])\<rparr>)"
  using assms(3)
proof (cases rule: serve.cases)
  case (read v)
  then show ?thesis using consistent_call [OF assms(1), of c v i] by simp
next
  case (status_stored d)
  have e: "evolves tr (cnhStatus (current s)) (cnhStatus (stored tr s d))"
    using stored_step assms(1,2) status_stored by blast
  show ?thesis
    using consistent_call [OF consistent_push [OF assms(1) e], of c "length (history s)" i] status_stored
    by (simp add: stored_def)
next
  case (update_stored c' d)
  then show ?thesis
    using consistent_call [OF consistent_push [OF assms(1), of c'], of c "length (history s)" i] by simp
next
  case (status_accepted d)
  then show ?thesis using consistent_quiet [OF consistent_push [OF assms(1)], of "stored tr s d" c i] stored_step assms(1,2) by simp
next
  case (status_unanswered d)
  then show ?thesis using consistent_quiet [OF consistent_push [OF assms(1)], of "stored tr s d" c i] stored_step assms(1,2) by simp
next
  case (update_unanswered c' d g)
  then show ?thesis using consistent_quiet [OF consistent_push [OF assms(1), of c'], of c i]
    by (simp add: consistent_def status_at_def)
next
  case (deletion_marked c' g d)
  then show ?thesis using consistent_quiet [OF consistent_push [OF assms(1), of c'], of c i]
    by (simp add: consistent_def status_at_def)
qed (use consistent_quiet [OF assms(1), of c i] in auto)

lemma reaches_consistent:
  assumes "retry_law rn" "reaches env r rn name tr s"
  shows "consistent tr s"
  using assms(2)
proof (induction rule: reaches.induct)
  case (created c)
  then show ?case by (simp add: consistent_def)
next
  case (called s i c s')
  then show ?case using serve_consistent makes_derived [OF assms(1)] by blast
next
  case (edited s c)
  then show ?case using consistent_push by simp
qed

text \<open>C1: Whoever writes, in whatever order, the stored status of a resource follows the lifecycle. From one
  version to the next it either stays as it is or makes one transition: start, report of the pod, completion with
  the verdict of the results stored at that moment, or one more result of the node checker. This holds for any
  number of reconciliations and node checkers, interleaved at their calls, with stale reads, lost answers and
  crashes, and for any edits of the rest of the object.\<close>

theorem stored_status_refines_lifecycle:
  assumes "retry_law rn" "reaches env r rn name tr s" "Suc v < length (history s)"
  shows "status_at s (Suc v) = status_at s v \<or>
    (\<exists>q. lifecycle (status_at s v) q \<and> status_at s (Suc v) = on_wire tr q)"
  using reaches_consistent [OF assms(1,2)] assms(3) by (auto simp: consistent_def evolves_def)

section \<open>What a reader can rely on\<close>

definition network_results :: "CheckNodeHealthStatus \<Rightarrow> CheckResult list" where
  "network_results s = filter (\<lambda>r. crName r \<noteq> ''PodStartup'') (Results s)"

text \<open>\<open>later a b\<close>: what a reader of the status \<open>a\<close> may rely on in a later version \<open>b\<close>.\<close>

definition later :: "CheckNodeHealthStatus \<Rightarrow> CheckNodeHealthStatus \<Rightarrow> bool" where
  "later a b \<longleftrightarrow> (StartedAt a \<noteq> None \<longrightarrow> StartedAt b = StartedAt a) \<and>
     (FinishedAt a \<noteq> None \<longrightarrow> FinishedAt b = FinishedAt a \<and> Conditions b = Conditions a \<and> prefix (Results a) (Results b)) \<and>
     prefix (network_results a) (network_results b)"

lemma later_refl [simp]: "later a a"
  by (simp add: later_def)

lemma later_trans: "later a b \<Longrightarrow> later b c \<Longrightarrow> later a c"
  unfolding later_def by (metis prefix_order.trans)

definition rounded :: "(time \<Rightarrow> time) \<Rightarrow> CheckNodeHealthStatus \<Rightarrow> bool" where
  "rounded tr s \<longleftrightarrow> on_wire tr s = s"

lemma rounded_fields:
  "rounded tr s \<Longrightarrow> map_option tr (StartedAt s) = StartedAt s"
  "rounded tr s \<Longrightarrow> map_option tr (FinishedAt s) = FinishedAt s"
  "rounded tr s \<Longrightarrow> map (\<lambda>c. c\<lparr>condTransition := tr (condTransition c)\<rparr>) (Conditions s) = Conditions s"
  by (metis rounded_def on_wire_fields)+

lemma rounded_started: "rounded tr s \<Longrightarrow> StartedAt s = Some t \<Longrightarrow> tr t = t"
  using rounded_fields(1) by fastforce

lemma rounded_on_wire: "(\<And>t. tr (tr t) = tr t) \<Longrightarrow> rounded tr (on_wire tr s)"
  by (simp add: rounded_def on_wire_def option.map_comp comp_def)

lemma filter_upsert: "crName r = ''PodStartup'' \<Longrightarrow>
   filter (\<lambda>r. crName r \<noteq> ''PodStartup'') (upsert_result r rs) = filter (\<lambda>r. crName r \<noteq> ''PodStartup'') rs"
  by (induction rs) auto

lemma lifecycle_later: "lifecycle s q \<Longrightarrow> rounded tr s \<Longrightarrow> later s (on_wire tr q)"
  by (erule lifecycleE) (auto simp: later_def network_results_def rounded_fields rounded_started filter_upsert)

lemma evolves_later: "evolves tr s s' \<Longrightarrow> rounded tr s \<Longrightarrow> later s s'"
  by (auto simp: evolves_def lifecycle_later)

lemma evolves_rounded: "evolves tr s s' \<Longrightarrow> rounded tr s \<Longrightarrow> (\<And>t. tr (tr t) = tr t) \<Longrightarrow> rounded tr s'"
  by (auto simp: evolves_def intro: rounded_on_wire)

lemma rounded_empty [simp]: "rounded tr empty_status"
  by (simp add: rounded_def on_wire_def empty_status_def)

lemma status_at_0: "consistent tr s \<Longrightarrow> status_at s 0 = empty_status"
  by (auto simp: consistent_def status_at_def simp flip: hd_conv_nth)

lemma history_rounded:
  assumes "consistent tr s" "\<And>t. tr (tr t) = tr t"
  shows "v < length (history s) \<Longrightarrow> rounded tr (status_at s v)"
proof (induction v)
  case 0
  then show ?case using status_at_0 [OF assms(1)] by simp
next
  case (Suc v)
  then show ?case using evolves_rounded [OF _ _ assms(2)] assms(1) by (auto simp: consistent_def)
qed

lemma history_later:
  assumes "consistent tr s" "\<And>t. tr (tr t) = tr t"
  shows "v \<le> w \<Longrightarrow> w < length (history s) \<Longrightarrow> later (status_at s v) (status_at s w)"
proof (induction w)
  case (Suc w)
  have step: "later (status_at s w) (status_at s (Suc w))"
    using Suc.prems(2) assms(1) history_rounded [OF assms, of w] by (intro evolves_later [where tr = tr]) (auto simp: consistent_def)
  show ?case
  proof (cases "v = Suc w")
    case False
    then show ?thesis using Suc step later_trans by auto
  qed simp
qed simp

text \<open>\<open>completed_at s v\<close>: version \<open>v\<close> is the first that has finished; its condition is the verdict of its results.\<close>

definition completed_at :: "cluster \<Rightarrow> nat \<Rightarrow> bool" where
  "completed_at s v \<longleftrightarrow> v < length (history s) \<and> (\<forall>u < v. FinishedAt (status_at s u) = None) \<and>
     StartedAt (status_at s v) \<noteq> None \<and>
     (\<exists>msg now. FinishedAt (status_at s v) = Some now \<and>
        Conditions (status_at s v) = [verdict_condition (Results (status_at s v)) msg now])"

lemma completing_step:
  assumes "evolves tr a b" "FinishedAt a = None" "FinishedAt b \<noteq> None"
  shows "StartedAt b \<noteq> None \<and> (\<exists>msg now. FinishedAt b = Some now \<and> Conditions b = [verdict_condition (Results b) msg now])"
proof -
  obtain q where q: "lifecycle a q" "b = on_wire tr q" using assms by (auto simp: evolves_def)
  from q(1) show ?thesis
    by (rule lifecycleE) (use assms(2,3) q(2) in \<open>auto simp: verdict_condition_def\<close>)
qed

lemma completed_once:
  assumes "consistent tr s"
  shows "v < length (history s) \<Longrightarrow> FinishedAt (status_at s v) \<noteq> None \<Longrightarrow> \<exists>u \<le> v. completed_at s u"
proof (induction v rule: less_induct)
  case (less v)
  show ?case
  proof (cases "\<exists>u < v. FinishedAt (status_at s u) \<noteq> None")
    case True
    then obtain u where "u < v" "FinishedAt (status_at s u) \<noteq> None" by blast
    then show ?thesis using less by (meson order.strict_implies_order order.trans order.strict_trans)
  next
    case False
    obtain u where v: "v = Suc u" using less.prems(2) status_at_0 [OF assms] by (cases v) (auto simp: empty_status_def)
    have "evolves tr (status_at s u) (status_at s v)" using assms less.prems(1) v by (auto simp: consistent_def)
    then have "completed_at s v"
      using completing_step [of tr "status_at s u" "status_at s v"] False less.prems v by (auto simp: completed_at_def)
    then show ?thesis by blast
  qed
qed

text \<open>C2: What a reader of a resource may rely on, whatever the programs do at the same time. A start or finish time
  once seen never changes, nor does the condition of a finished check, and results of the node checker are never
  lost. A finished check was completed in one version, the first that had finished, where it got the verdict of
  exactly the results stored there; only results may be appended after it.\<close>

theorem verdicts_are_final:
  assumes "retry_law rn" "\<And>t. tr (tr t) = tr t" "reaches env r rn name tr s" "v \<le> w" "w < length (history s)"
  shows "later (status_at s v) (status_at s w) \<and>
    (FinishedAt (status_at s w) \<noteq> None \<longrightarrow> (\<exists>u \<le> w. completed_at s u \<and> later (status_at s u) (status_at s w)))"
proof -
  have c: "consistent tr s" by (rule reaches_consistent [OF assms(1,3)])
  show ?thesis
    using completed_once [OF c assms(5)] history_later [OF c assms(2) _ assms(5)] assms(4) by blast
qed

section \<open>A late result\<close>

text \<open>A reconciliation finds its pod succeeded before the node checker has written: it starts and completes the check
  without results. The node checker then appends its result to the finished resource.\<close>

definition once_started :: CheckNodeHealth where "once_started = started demo_cnh 2"

definition once_completed :: CheckNodeHealth where "once_completed = completed once_started 2"

definition late_result :: CheckResult where
  "late_result = \<lparr>crName = ''PodNetwork'', crStatus = CheckStatusUnknown,
     crMessage = ''No CoreDNS pods available for pod-to-pod network checking'', crErrorCode = ''''\<rparr>"

definition late_checker :: "unit rn_env" where
  "late_checker = demo_rn_env\<lparr>rn_get := \<lambda>_ w. (Inr once_completed, w)\<rparr>"

abbreviation late_env :: "unit cnh_env" where
  "late_env \<equiv> still_env demo_cnh [demo_pod PodSucceeded] 2"

definition quiet_reconciler :: CheckNodeHealthReconciler where
  "quiet_reconciler = demo_reconciler\<lparr>EnableNodeCondition := False\<rparr>"

lemma run_markCompleted_any:
  "run_state (markCompleted (still_env c0 pods 2) c) s =
     (((fst (determineHealthyCondition (c\<lparr>cnhStatus := (cnhStatus c)\<lparr>FinishedAt := Some 2\<rparr>\<rparr>)), None), completed c 2),
      s\<lparr>log := log s @ [StatusUpdateCNH (completed c 2) (Inr (completed c 2))]\<rparr>)"
  by (simp add: markCompleted_def call_defs Let_def)

lemma demo_fresh:
  "DeletionTimestamp demo_cnh = None" "CreationTimestamp demo_cnh = 0" "Finalizers demo_cnh = [CheckNodeHealthFinalizer]"
  "cnhStatus demo_cnh = empty_status" "StartedAt empty_status = None" "FinishedAt empty_status = None"
  by (simp_all add: demo_cnh_def ObjectMeta.defs empty_status_def meta_def)

definition early_calls :: "cr_call list" where
  "early_calls = [CrRead (Some demo_cnh), CrStatus once_started (Some (Some once_started)),
     CrStatus once_completed (Some (Some once_completed))]"

definition late_calls :: "cr_call list" where
  "late_calls = [CrRead (Some once_completed), CrRead (Some once_completed),
     CrStatus (append_results [late_result] once_completed) (Some None)]"

lemma early_run: "controller_run late_env quiet_reconciler ''a'' early_calls"
  unfolding controller_run_def
  by (intro exI [of _ "still_start demo_breaker"])
   (simp add: Reconcile_cnh_def call_defs isExpired_def expired_at_def ensure_finalizer_def isCompleted_def
      run_check_def ensureHealthCheckPod_def markStarted_def updatePodstartCheckerResult_def early_calls_def
      determineCheckResult_def finish_def run_markCompleted_any cleanupPod_def demo_fresh demo_succeeded quiet_reconciler_def
      demo_reconciler_def still_start_def time_sub_def max_duration_def min_duration_def CRTTL_def time_units
      once_started_def once_completed_def)

lemma once_completed_node: "refName (NodeRef (cnhSpec once_completed)) = ''n''"
  by (simp add: once_completed_def once_started_def completed_def started_def demo_cnh_def Let_def ObjectMeta.defs split: prod.splits)

lemma late_run: "checker_run late_checker ''a'' late_calls"
  unfolding checker_run_def
  by (intro exI [of _ "\<lparr>world = (), log = []\<rparr>"] exI [of _ "\<lambda>_. None"])
   (simp add: nodechecker_main_def createClients_def readNodeName_def late_checker_def demo_rn_env_def Let_def Run_runner_def runCheckers_def
    NewRunner_def initializeCheckers_def run_checker_def embed_def Run_pod_network_def getEligibleCoreDNSPods_def demo_pn_env_def
    maxRetryAttempts_def numeral_3_eq_3 once_completed_node updateCheckNodeHealthStatus_def put_result_def check_result_def
    late_result_def late_calls_def convertStatus_def pn_name_def Unknown_def no_detail_def go_const
    StatusUnhealthy_def StatusHealthy_def StatusUnknown_def)

definition script :: "nat \<Rightarrow> cr_call list" where
  "script i = (if i = 0 then early_calls else if i = 1 then late_calls else [])"

definition demo_cluster :: "CheckNodeHealth list \<Rightarrow> (nat \<rightharpoonup> nat) \<Rightarrow> (nat \<Rightarrow> nat) \<Rightarrow> cluster" where
  "demo_cluster h v n = \<lparr>history = h, held = v, gone = False, calls = (\<lambda>i. take (n i) (script i))\<rparr>"

lemma demo_cluster_simps [simp]:
  "history (demo_cluster h v n) = h" "held (demo_cluster h v n) = v" "gone (demo_cluster h v n) = False"
  "calls (demo_cluster h v n) = (\<lambda>i. take (n i) (script i))"
  "(demo_cluster h v n)\<lparr>history := h'\<rparr> = demo_cluster h' v n" "(demo_cluster h v n)\<lparr>held := v'\<rparr> = demo_cluster h v' n"
  by (simp_all add: demo_cluster_def)

lemma on_wire_id [simp]: "on_wire (\<lambda>t. t) s = s"
  by (simp add: on_wire_def option.map_ident)

lemma makes_prefix:
  assumes "i < 2"
  shows "makes late_env quiet_reconciler late_checker ''a'' (take k (script i))"
proof -
  have "controller_run late_env quiet_reconciler ''a'' (script i) \<or> checker_run late_checker ''a'' (script i)"
    using assms early_run late_run by (auto simp: script_def)
  then show ?thesis unfolding makes_def by (intro exI [of _ "drop k (script i)"]) simp
qed

abbreviation late_reaches :: "cluster \<Rightarrow> bool" where
  "late_reaches \<equiv> reaches late_env quiet_reconciler late_checker ''a'' (\<lambda>t. t)"

lemma demo_call:
  assumes "late_reaches (demo_cluster h v n)" "i < 2" "n i < length (script i)"
    "serve (\<lambda>t. t) i (script i ! n i) (demo_cluster h v n) (demo_cluster h' v' n)"
  shows "late_reaches (demo_cluster h' v' (n(i := Suc (n i))))"
proof -
  have t: "take (n i) (script i) @ [script i ! n i] = take (Suc (n i)) (script i)"
    using assms(3) by (simp add: take_Suc_conv_app_nth)
  have "late_reaches ((demo_cluster h' v' n)\<lparr>calls := (calls (demo_cluster h v n))(i := calls (demo_cluster h v n) i @ [script i ! n i])\<rparr>)"
    by (rule reaches.called [OF assms(1) _ assms(4)]) (simp add: t makes_prefix assms(2))
  moreover have "(demo_cluster h' v' n)\<lparr>calls := (calls (demo_cluster h v n))(i := calls (demo_cluster h v n) i @ [script i ! n i])\<rparr> =
      demo_cluster h' v' (n(i := Suc (n i)))"
    by (auto simp: demo_cluster_def t)
  ultimately show ?thesis by simp
qed

lemma demo_read: "late_reaches (demo_cluster h v n) \<Longrightarrow> i < 2 \<Longrightarrow> n i < length (script i) \<Longrightarrow>
    script i ! n i = CrRead (Some (h ! w)) \<Longrightarrow> w < length h \<Longrightarrow> late_reaches (demo_cluster h (v(i \<mapsto> w)) (n(i := Suc (n i))))"
  using serve.read [of w "demo_cluster h v n"] by (auto intro: demo_call)

lemma demo_write:
  assumes "late_reaches (demo_cluster h v n)" "i < 2" "n i < length (script i)" "v i = Some (length h - 1)"
    "(last h)\<lparr>cnhStatus := cnhStatus c\<rparr> = c" "script i ! n i = CrStatus c (Some (Some c))"
  shows "late_reaches (demo_cluster (h @ [c]) (v(i \<mapsto> length h)) (n(i := Suc (n i))))"
  using serve.status_stored [of "demo_cluster h v n" i "\<lambda>t. t" c] assms
  by (auto simp: up_to_date_def stored_def intro: demo_call)

lemma demo_append:
  assumes "late_reaches (demo_cluster h v n)" "i < 2" "n i < length (script i)" "v i = Some (length h - 1)"
    "(last h)\<lparr>cnhStatus := cnhStatus c\<rparr> = c" "script i ! n i = CrStatus c (Some None)"
  shows "late_reaches (demo_cluster (h @ [c]) v (n(i := Suc (n i))))"
  using serve.status_accepted [of "demo_cluster h v n" i "\<lambda>t. t" c] assms
  by (auto simp: up_to_date_def stored_def intro: demo_call)

definition late_history :: "CheckNodeHealth list" where
  "late_history = [demo_cnh, once_started, once_completed, append_results [late_result] once_completed]"

lemma only_the_status:
  "demo_cnh\<lparr>cnhStatus := cnhStatus once_started\<rparr> = once_started"
  "once_started\<lparr>cnhStatus := cnhStatus once_completed\<rparr> = once_completed"
  "once_completed\<lparr>cnhStatus := cnhStatus (append_results rs once_completed)\<rparr> = append_results rs once_completed"
  by (simp_all add: once_started_def once_completed_def started_def completed_def append_results_def Let_def split: prod.splits)

lemma late_reached: "\<exists>v n. late_reaches (demo_cluster late_history v n)"
proof -
  have "late_reaches (demo_cluster [demo_cnh] Map.empty (\<lambda>_. 0))"
    using reaches.created [of demo_cnh] by (simp add: demo_cluster_def demo_fresh)
  from demo_read [OF this, of 0 0] have "late_reaches (demo_cluster [demo_cnh] [0 \<mapsto> 0] ((\<lambda>_. 0)(0 := 1)))"
    by (simp add: script_def early_calls_def)
  from demo_write [OF this, of 0 once_started]
  have "late_reaches (demo_cluster [demo_cnh, once_started] [0 \<mapsto> 1] ((\<lambda>_. 0)(0 := 2)))"
    by (simp add: script_def early_calls_def only_the_status numeral_2_eq_2)
  from demo_write [OF this, of 0 once_completed]
  have "late_reaches (demo_cluster [demo_cnh, once_started, once_completed] [0 \<mapsto> 2] ((\<lambda>_. 0)(0 := 3)))"
    by (simp add: script_def early_calls_def only_the_status numeral_2_eq_2 numeral_3_eq_3)
  from demo_read [OF this, of 1 2]
  have "late_reaches (demo_cluster [demo_cnh, once_started, once_completed] [0 \<mapsto> 2, 1 \<mapsto> 2] ((\<lambda>_. 0)(0 := 3, 1 := 1)))"
    by (simp add: script_def late_calls_def)
  from demo_read [OF this, of 1 2]
  have "late_reaches (demo_cluster [demo_cnh, once_started, once_completed] [0 \<mapsto> 2, 1 \<mapsto> 2] ((\<lambda>_. 0)(0 := 3, 1 := 2)))"
    by (simp add: script_def late_calls_def numeral_2_eq_2)
  from demo_append [OF this, of 1 "append_results [late_result] once_completed"]
  show ?thesis by (auto simp: script_def late_calls_def only_the_status late_history_def numeral_2_eq_2)
qed

lemma late_retry_law: "retry_law late_checker"
  by (simp add: retry_law_def late_checker_def demo_rn_env_def tries_retry_at_once)

theorem stored_status_refines_lifecycle_witness:
  "\<exists>s. late_reaches s \<and> history s = late_history \<and>
     (status_at s 3 = status_at s 2 \<or> (\<exists>q. lifecycle (status_at s 2) q \<and> status_at s 3 = on_wire (\<lambda>t. t) q))"
proof -
  obtain v n where r: "late_reaches (demo_cluster late_history v n)" using late_reached by blast
  have "Suc 2 < length (history (demo_cluster late_history v n))" by (simp add: late_history_def)
  from stored_status_refines_lifecycle [OF late_retry_law r this] r show ?thesis
    by (metis demo_cluster_simps(1) numeral_3_eq_3 numeral_2_eq_2)
qed

theorem verdicts_are_final_witness:
  "\<exists>s. late_reaches s \<and> history s = late_history \<and> FinishedAt (status_at s 2) = Some 2 \<and> later (status_at s 2) (status_at s 3) \<and>
     Results (status_at s 2) = [] \<and> Results (status_at s 3) = [late_result] \<and> (\<exists>u \<le> 3. completed_at s u \<and> later (status_at s u) (status_at s 3))"
proof -
  obtain v n where r: "late_reaches (demo_cluster late_history v n)" using late_reached by blast
  let ?s = "demo_cluster late_history v n"
  have f: "FinishedAt (status_at ?s 2) = Some 2" "FinishedAt (status_at ?s 3) = Some 2" "Results (status_at ?s 2) = []"
    "Results (status_at ?s 3) = [late_result]"
    by (simp_all add: status_at_def late_history_def once_completed_def once_started_def completed_def started_def append_results_def
        demo_fresh empty_status_def Let_def split: prod.splits)
  have l: "2 \<le> (3 :: nat)" "3 < length (history ?s)" by (simp_all add: late_history_def)
  from verdicts_are_final [OF late_retry_law _ r l] f show ?thesis using r by (intro exI [of _ ?s]) simp
qed

end
