(* ===== verification/SignalVerdicts.thy ===== *)
theory SignalVerdicts
  imports CheckLifecycle HcrController
begin

text \<open>
  The two ends of a requested check: the \<open>HealthSignal\<close> that a request asked for, and the resource all the programs
  write. A reconciliation of the request may see any version of the resource; what it puts into the signal is
  nevertheless the one verdict the check ever gets.
\<close>

definition settled_verdict :: "cluster \<Rightarrow> Condition list \<Rightarrow> bool" where
  "settled_verdict s cs \<longleftrightarrow> cs = Conditions (cnhStatus (current s)) \<and>
     (\<exists>u msg now. completed_at s u \<and> cs = [verdict_condition (Results (status_at s u)) msg now])"

lemma later_conditions: "later a b \<Longrightarrow> FinishedAt a \<noteq> None \<Longrightarrow> Conditions b = Conditions a"
  by (simp add: later_def)

lemma finished_version_settles:
  assumes "consistent tr s" "\<And>t. tr (tr t) = tr t" "c \<in> set (history s)" "FinishedAt (cnhStatus c) \<noteq> None"
  shows "settled_verdict s (Conditions (cnhStatus c))"
proof -
  obtain v where v: "v < length (history s)" "status_at s v = cnhStatus c" using assms(3) by (auto simp: in_set_conv_nth status_at_def)
  let ?n = "length (history s) - 1"
  have "history s \<noteq> []" using v(1) by auto
  then have n: "v \<le> ?n" "?n < length (history s)" "status_at s ?n = cnhStatus (current s)"
    using v(1) by (simp_all add: status_at_def last_conv_nth)
  obtain u where u: "u \<le> v" "completed_at s u" using completed_once [OF assms(1) v(1)] assms(4) v(2) by auto
  then obtain msg now where c: "FinishedAt (status_at s u) \<noteq> None" "Conditions (status_at s u) = [verdict_condition (Results (status_at s u)) msg now]"
    by (auto simp: completed_at_def)
  have "Conditions (status_at s v) = Conditions (status_at s u)"
    using later_conditions [OF history_later [OF assms(1,2) u(1) v(1)]] c(1) by simp
  moreover have "Conditions (status_at s ?n) = Conditions (status_at s v)"
    using later_conditions [OF history_later [OF assms(1,2) n(1,2)]] assms(4) v(2) by simp
  ultimately show ?thesis unfolding settled_verdict_def using u(2) c(2) n(3) v(2) by auto
qed

text \<open>C3: The verdict a requester reads is the verdict of the check. Whatever version of the resource a reconciliation
  of a request is served, stale or not, the conditions it writes to the signal are those of the version in which the
  check was completed: the verdict of the results stored there, which is also what the resource says now and what
  every other such write says. The hypothesis on the answers is that the check the run found is a version of the
  resource.\<close>

theorem signals_carry_the_final_verdict:
  assumes "retry_law rn" "\<And>t. tr (tr t) = tr t" "reaches env r rn name tr s"
  shows "emits (Reconcile_hcr henv req) (\<lambda>res es s'.
    (\<forall>hs c. run_check_of es hs c \<longrightarrow> c \<in> set (history s)) \<longrightarrow>
    (\<forall>h \<in> set (signal_writes es). settled_verdict s (hsConditions h))) t"
proof (rule emits_mono [OF Reconcile_hcr_protocol], drule hcr_reconciled_mirrors, intro impI ballI)
  fix res es h
  assume m: "mirrors_check es res" and served: "\<forall>hs c. run_check_of es hs c \<longrightarrow> c \<in> set (history s)" and h: "h \<in> set (signal_writes es)"
  have c: "consistent tr s" by (rule reaches_consistent [OF assms(1,3)])
  obtain hs d where d: "run_check_of es hs d" "FinishedAt (cnhStatus d) \<noteq> None" "h = hs\<lparr>hsConditions := Conditions (cnhStatus d)\<rparr>"
    using m h by (cases "signal_writes es") (auto simp: mirrors_check_def)
  then have "d \<in> set (history s)" using served by blast
  from finished_version_settles [OF c assms(2) this d(2)] show "settled_verdict s (hsConditions h)" by (simp add: d(3))
qed

text \<open>The late history: the signal gets the verdict of the completed version, not of the result that came after.\<close>

definition requester_env :: "unit hcr_env" where
  "requester_env = (still_hcr_env demo_signal)\<lparr>henv_list_signals := \<lambda>u w. (Inr [demo_signal], w),
     henv_list_checks := \<lambda>u w. (Inr [once_completed], w)\<rparr>"

abbreviation requester_log :: "hcr_event list" where
  "requester_log \<equiv> log (snd (run_state (Reconcile_hcr requester_env ''Req'') \<lparr>world = (), log = []\<rparr>))"

lemma once_completed_finished: "FinishedAt (cnhStatus once_completed) = Some 2"
  by (simp add: once_completed_def completed_def Let_def split: prod.splits)

lemma requester_log_eq:
  "requester_log = [RequestGet ''Req'' (Inr demo_hcr), SignalList ''u1'' (Inr [demo_signal]), CheckList (UID demo_signal) (Inr [once_completed]),
     SignalStatusUpdate (demo_signal\<lparr>hsConditions := Conditions (cnhStatus once_completed)\<rparr>)
       (Inr (demo_signal\<lparr>hsConditions := Conditions (cnhStatus once_completed)\<rparr>))]"
proof -
  have "DeletionTimestamp demo_hcr = None" "UID demo_hcr = ''u1''" by (simp_all add: demo_hcr_def ObjectMeta.defs meta_def)
  then show ?thesis
    by (simp add: Reconcile_hcr_def ensureHealthSignal_def ensureCheckNodeHealth_def hcr_call_defs syncHealthSignalStatus_def
        requester_env_def still_hcr_env_def once_completed_finished)
qed

theorem signals_carry_the_final_verdict_witness:
  "\<exists>s. late_reaches s \<and> history s = late_history \<and> length (signal_writes requester_log) = 1 \<and>
     (\<forall>h \<in> set (signal_writes requester_log). settled_verdict s (hsConditions h))"
proof -
  obtain v n where r: "late_reaches (demo_cluster late_history v n)" using late_reached by blast
  have "once_completed \<in> set late_history" by (simp add: late_history_def)
  then have seen: "\<forall>hs c. run_check_of requester_log hs c \<longrightarrow> c \<in> set (history (demo_cluster late_history v n))"
    by (auto simp: requester_log_eq run_check_of_def)
  have one: "length (signal_writes requester_log) = 1" by (simp add: requester_log_eq)
  from signals_carry_the_final_verdict [OF late_retry_law _ r, of requester_env "''Req''" "\<lparr>world = (), log = []\<rparr>"] seen
  have "\<forall>h \<in> set (signal_writes requester_log). settled_verdict (demo_cluster late_history v n) (hsConditions h)"
    by (simp add: emits_def)
  then show ?thesis using r one by (intro exI [of _ "demo_cluster late_history v n"]) simp
qed

end
