(* ===== verification/NodePatches.thy ===== *)
theory NodePatches
  imports NodeSafety CnhLimits
begin

text \<open>
  What the patches of node objects do to a node that somebody else has changed since it was read. Both
  reconcilers patch with \<open>client.MergeFrom\<close>, without an optimistic lock: the client sends the difference of the
  node it read and the node it wants as a JSON merge patch (RFC 7386), in which an entry of a map is set on its
  own, and a list that differs is sent whole. The server applies it to the node it has by then.
\<close>

section \<open>Merge patches\<close>

text \<open>\<open>patched base n cur\<close>: the current node \<open>cur\<close> after the patch from \<open>base\<close> to \<open>n\<close>, for the two kinds of change the
  code makes. No change is an empty patch.\<close>

definition merge_law :: "(Node \<Rightarrow> Node \<Rightarrow> Node \<Rightarrow> Node) \<Rightarrow> bool" where
  "merge_law patched \<longleftrightarrow>
     (\<forall>base cur. patched base base cur = cur) \<and>
     (\<forall>base cs cur. cs \<noteq> NodeConditions base \<longrightarrow>
        patched base (base\<lparr>NodeConditions := cs\<rparr>) cur = cur\<lparr>NodeConditions := cs\<rparr>) \<and>
     (\<forall>base k v cur. Annotations base k \<noteq> Some v \<longrightarrow>
        patched base (base\<lparr>Annotations := (Annotations base)(k \<mapsto> v)\<rparr>) cur = cur\<lparr>Annotations := (Annotations cur)(k \<mapsto> v)\<rparr>)"

definition json_merge :: "Node \<Rightarrow> Node \<Rightarrow> Node \<Rightarrow> Node" where
  "json_merge base n cur =
     cur\<lparr>NodeConditions := (if NodeConditions n = NodeConditions base then NodeConditions cur else NodeConditions n),
         Annotations := (\<lambda>k. if Annotations n k = Annotations base k then Annotations cur k else Annotations n k)\<rparr>"

lemma json_merge_law: "merge_law json_merge"
  unfolding merge_law_def json_merge_def by (auto simp: fun_eq_iff intro!: Node.equality)

section \<open>The two kinds of write\<close>

text \<open>Only the annotation of the boot is set, and it is set to the boot of the node that was read.\<close>

definition sets_boot_only :: "string \<Rightarrow> Node \<Rightarrow> Node \<Rightarrow> bool" where
  "sets_boot_only boot cur cur' \<longleftrightarrow> cur' = cur\<lparr>Annotations := (Annotations cur)(AnnotationLastBootID \<mapsto> boot)\<rparr>"

text \<open>Only the conditions change, but those of other types become what they were when the node was read.\<close>

definition restores_conditions :: "Node \<Rightarrow> Node \<Rightarrow> Node \<Rightarrow> bool" where
  "restores_conditions base cur cur' \<longleftrightarrow> cur' = cur\<lparr>NodeConditions := NodeConditions cur'\<rparr> \<and>
     other_conditions (NodeConditions cur') = other_conditions (NodeConditions base)"

lemma boot_patch_local:
  assumes "merge_law patched" "boot_record_justified env es" "(base, n) \<in> set (seen meta_patch es)"
  shows "sets_boot_only (BootID base) cur (patched base n cur)"
proof -
  obtain node pre x where es: "es = pre @ [NodePatch node (with_boot node (BootID node)) x]" "seen meta_patch pre = []"
      "last_boot node \<noteq> BootID node" "BootID node \<noteq> ''''"
    using assms(2,3) by (auto simp: boot_record_justified_def)
  then have n: "base = node" "n = with_boot node (BootID node)" using assms(3) by auto
  have "Annotations node AnnotationLastBootID \<noteq> Some (BootID node)"
    using es(3) by (auto simp: last_boot_def read_key_def)
  then show ?thesis using assms(1) by (simp add: merge_law_def n with_boot_def sets_boot_only_def)
qed

lemma condition_patch_restores:
  assumes "merge_law patched" "n = base\<lparr>NodeConditions := NodeConditions n\<rparr>"
    "other_conditions (NodeConditions n) = other_conditions (NodeConditions base)"
  shows "patched base n cur = cur \<or> restores_conditions base cur (patched base n cur)"
proof (cases "NodeConditions n = NodeConditions base")
  case True
  then have "n = base" using assms(2) by simp
  then show ?thesis using assms(1) by (simp add: merge_law_def)
next
  case False
  then have "patched base (base\<lparr>NodeConditions := NodeConditions n\<rparr>) cur = cur\<lparr>NodeConditions := NodeConditions n\<rparr>"
    using assms(1) by (simp add: merge_law_def)
  then have "patched base n cur = cur\<lparr>NodeConditions := NodeConditions n\<rparr>" using assms(2) by metis
  then show ?thesis using assms(3) by (simp add: restores_conditions_def)
qed

lemma stale_patch_restores:
  assumes "merge_law patched" "only_stale_removed env req es" "(base, n) \<in> set (seen node_status_patches es)"
  shows "restores_conditions base cur (patched base n cur)"
proof -
  obtain xs c ys where n: "n = base\<lparr>NodeConditions := xs @ ys\<rparr>" "first_health base xs c ys"
    using assms(2,3) by (auto simp: only_stale_removed_def)
  then have "xs @ ys \<noteq> NodeConditions base"
    "other_conditions (xs @ ys) = other_conditions (NodeConditions base)"
    by (auto simp: first_health_def other_conditions_def)
  then show ?thesis using assms(1) by (simp add: merge_law_def n(1) restores_conditions_def)
qed

lemma verdict_patch_restores:
  assumes "merge_law patched" "node_patches_justified r es" "PatchNodeStatus base n x \<in> set es"
  shows "patched base n cur = cur \<or> restores_conditions base cur (patched base n cur)"
proof -
  obtain pre post where "es = pre @ PatchNodeStatus base n x # post" using assms(3) by (meson split_list)
  then obtain c where "mirrors_verdict c base n" using assms(2) unfolding node_patches_justified_def by blast
  then show ?thesis using condition_patch_restores [OF assms(1)] by (simp add: mirrors_verdict_def)
qed

text \<open>C21: What the reconcilers write to a node that has changed since they read it. Recording a boot is safe: whatever
  the node has become, the annotation is set and nothing else is touched. The writes of conditions are not: they
  leave the rest of the node alone, but every condition of another type, such as the kubelet's Ready, goes back to
  what it was when the node was read.\<close>

theorem node_patches_and_concurrent_changes:
  assumes "merge_law patched" "echoes cenv"
  shows "emits (Reconcile_node env req) (\<lambda>res es s'.
      (\<forall>(base, n) \<in> set (seen meta_patch es). \<forall>cur. sets_boot_only (BootID base) cur (patched base n cur)) \<and>
      (\<forall>(base, n) \<in> set (seen node_status_patches es). \<forall>cur. restores_conditions base cur (patched base n cur))) s \<and>
    emits (Reconcile_cnh cenv r name) (\<lambda>res es s'. \<forall>base n x cur. PatchNodeStatus base n x \<in> set es \<longrightarrow>
      patched base n cur = cur \<or> restores_conditions base cur (patched base n cur)) t"
proof
  show "emits (Reconcile_node env req) (\<lambda>res es s'.
      (\<forall>(base, n) \<in> set (seen meta_patch es). \<forall>cur. sets_boot_only (BootID base) cur (patched base n cur)) \<and>
      (\<forall>(base, n) \<in> set (seen node_status_patches es). \<forall>cur. restores_conditions base cur (patched base n cur))) s"
    by (rule emits_mono [OF Reconcile_node_protocol])
       (use boot_patch_local [OF assms(1) node_reconciled_justified] stale_patch_restores [OF assms(1) node_reconciled_stale] in auto)
  show "emits (Reconcile_cnh cenv r name) (\<lambda>res es s'. \<forall>base n x cur. PatchNodeStatus base n x \<in> set es \<longrightarrow>
      patched base n cur = cur \<or> restores_conditions base cur (patched base n cur)) t"
    by (rule emits_mono [OF Reconcile_protocol])
       (use verdict_patch_restores [OF assms(1) reconciled_patches [OF assms(2)]] in blast)
qed

text \<open>A node that was ready when it was read, has a stale health condition, and stops being ready before the patch: the
  patch makes it ready again.\<close>

definition demo_condition :: "string \<Rightarrow> string \<Rightarrow> NodeCondition" where
  "demo_condition ty st = \<lparr>ncType = ty, ncStatus = st, ncReason = '''', ncMessage = '''', ncTransition = 0, ncHeartbeat = 0\<rparr>"

definition read_demo :: Node where
  "read_demo = ObjectMeta.extend (meta ''n'') \<lparr>BootID = '''',
     NodeConditions = [demo_condition NodeReady ConditionTrue, demo_condition NodeConditionNodeHealthy ConditionFalse]\<rparr>"

definition failed_demo :: Node where
  "failed_demo = read_demo\<lparr>NodeConditions :=
     [demo_condition NodeReady ConditionFalse, demo_condition NodeConditionNodeHealthy ConditionFalse]\<rparr>"

definition late_clock_env :: "unit node_env" where
  "late_clock_env = still_node_env\<lparr>nenv_now := \<lambda>w. (6 * six_minutes, w), nenv_get_node := \<lambda>n w. (Inr read_demo, w)\<rparr>"

abbreviation stale_log :: "node_event list" where
  "stale_log \<equiv> log (snd (run_state (Reconcile_node late_clock_env ''n'') \<lparr>world = (), log = []\<rparr>))"

lemma demo_types: "NodeReady \<noteq> NodeConditionNodeHealthy"
  by (simp add: NodeReady_def NodeConditionNodeHealthy_def)

lemma stale_log_eq:
  "stale_log = [NodeGet ''n'' (Inr read_demo), NodeStatusPatch read_demo (without_health read_demo) (Inr (without_health read_demo))]"
proof -
  have "health_condition read_demo = Some (demo_condition NodeConditionNodeHealthy ConditionFalse)"
    using demo_types by (simp add: health_condition_def read_demo_def demo_condition_def ObjectMeta.defs)
  moreover have "ncTransition (demo_condition ty st) = 0" for ty st by (simp add: demo_condition_def)
  moreover have "BootID (without_health read_demo) = ''''" by (simp add: without_health_def read_demo_def ObjectMeta.defs)
  ultimately show ?thesis
    by (simp add: Reconcile_node_def node_call_defs removeStaleNodeCondition_def late_clock_env_def still_node_env_def
        six_minutes_def time_sub_def max_duration_def min_duration_def NodeConditionTTL_def time_units Let_def)
qed

theorem node_patches_and_concurrent_changes_witness:
  "seen node_status_patches stale_log = [(read_demo, without_health read_demo)] \<and> \<not> isNodeReady failed_demo \<and>
   restores_conditions read_demo failed_demo (json_merge read_demo (without_health read_demo) failed_demo) \<and>
   isNodeReady (json_merge read_demo (without_health read_demo) failed_demo)"
proof (intro conjI)
  show patch: "seen node_status_patches stale_log = [(read_demo, without_health read_demo)]"
    by (simp add: stale_log_eq)
  show "\<not> isNodeReady failed_demo"
    by (simp add: isNodeReady_def ready_condition_def failed_demo_def demo_condition_def go_const)
  show "restores_conditions read_demo failed_demo (json_merge read_demo (without_health read_demo) failed_demo)"
    using conjunct1 [OF node_patches_and_concurrent_changes [OF json_merge_law still_echoes, of late_clock_env "''n''" "\<lparr>world = (), log = []\<rparr>"]]
      patch unfolding emits_def by auto
  show "isNodeReady (json_merge read_demo (without_health read_demo) failed_demo)"
    using demo_types
    by (simp add: json_merge_def without_health_def read_demo_def ObjectMeta.defs isNodeReady_def ready_condition_def
        demo_condition_def)
qed

end
