(* ===== verification/GoHeap.thy ===== *)
theory GoHeap
  imports GoRuntime
begin

text \<open>
  Go memory, for the code whose subject is sharing: a heap maps addresses to cells, allocation takes the
  next free address, pointers and slices are values that hold addresses. The rest of the development
  treats objects as values; the locale \<open>deep_copier\<close> is what that rests on: a copy denotes the same value
  and shares no memory with anything that existed before.
\<close>

section \<open>Heaps\<close>

type_synonym addr = nat

record 'c heap =
  cells :: "addr \<rightharpoonup> 'c"
  next_addr :: addr

type_synonym ('c, 'a) heap_prog = "('c heap, 'a) state"

definition wf_heap :: "'c heap \<Rightarrow> bool" where
  "wf_heap h \<longleftrightarrow> (\<forall>a \<in> dom (cells h). a < next_addr h)"

definition extends :: "'c heap \<Rightarrow> 'c heap \<Rightarrow> bool" where
  "extends h h' \<longleftrightarrow> (\<forall>a \<in> dom (cells h). cells h' a = cells h a)"

text \<open>\<open>new(T)\<close> and \<open>make\<close>; \<open>*a = c\<close>; \<open>*a\<close>.\<close>

definition alloc :: "'c \<Rightarrow> ('c, addr) heap_prog" where
  "alloc c = State (\<lambda>h. (next_addr h, h\<lparr>cells := (cells h)(next_addr h \<mapsto> c), next_addr := next_addr h + 1\<rparr>))"

definition store :: "addr \<Rightarrow> 'c \<Rightarrow> ('c, unit) heap_prog" where
  "store a c = State (\<lambda>h. ((), h\<lparr>cells := (cells h)(a \<mapsto> c)\<rparr>))"

definition load :: "addr \<Rightarrow> ('c, 'c option) heap_prog" where
  "load a = State (\<lambda>h. (cells h a, h))"

lemma run_heap [simp]:
  "run_state (alloc c) h = (next_addr h, h\<lparr>cells := (cells h)(next_addr h \<mapsto> c), next_addr := next_addr h + 1\<rparr>)"
  "run_state (store a c) h = ((), h\<lparr>cells := (cells h)(a \<mapsto> c)\<rparr>)"
  "run_state (load a) h = (cells h a, h)"
  by (simp_all add: alloc_def store_def load_def)

lemma extends_refl [simp]: "extends h h"
  by (simp add: extends_def)

lemma extends_trans: "extends h1 h2 \<Longrightarrow> extends h2 h3 \<Longrightarrow> extends h1 h3"
  unfolding extends_def by (metis domIff)

lemma extends_dom: "extends h h' \<Longrightarrow> dom (cells h) \<subseteq> dom (cells h')"
  by (auto simp: extends_def) (metis domI domIff option.exhaust)

lemma wf_fresh: "wf_heap h \<Longrightarrow> next_addr h \<notin> dom (cells h)"
  by (auto simp: wf_heap_def)

lemma wf_alloc: "wf_heap h \<Longrightarrow> wf_heap (h\<lparr>cells := (cells h)(next_addr h \<mapsto> c), next_addr := next_addr h + 1\<rparr>)"
  unfolding wf_heap_def by (auto intro: less_SucI)

lemma wf_store: "wf_heap h \<Longrightarrow> a \<in> dom (cells h) \<Longrightarrow> wf_heap (h\<lparr>cells := (cells h)(a \<mapsto> c)\<rparr>)"
  by (auto simp: wf_heap_def)

lemma extends_alloc:
  "wf_heap h \<Longrightarrow> extends h (h\<lparr>cells := (cells h)(next_addr h \<mapsto> c), next_addr := next_addr h + 1\<rparr>)"
  by (auto simp: extends_def wf_heap_def)

section \<open>The contract of a deep copy\<close>

text \<open>\<open>val h x\<close> is what \<open>x\<close> denotes in \<open>h\<close>, \<open>reach h x\<close> the cells this depends on, \<open>ok h x\<close> that all of them
  are there and hold values of the right type.\<close>

locale deep_copier =
  fixes val :: "'c heap \<Rightarrow> 'a \<Rightarrow> 'v"
    and reach :: "'c heap \<Rightarrow> 'a \<Rightarrow> addr set"
    and ok :: "'c heap \<Rightarrow> 'a \<Rightarrow> bool"
    and copy :: "'a \<Rightarrow> ('c, 'a) heap_prog"
  assumes reach_allocated: "ok h x \<Longrightarrow> reach h x \<subseteq> dom (cells h)"
    and frame: "ok h x \<Longrightarrow> (\<And>a. a \<in> reach h x \<Longrightarrow> cells h' a = cells h a) \<Longrightarrow>
      ok h' x \<and> val h' x = val h x \<and> reach h' x = reach h x"
    and copied: "wf_heap h \<Longrightarrow> ok h x \<Longrightarrow> run_state (copy x) h = (y, h') \<Longrightarrow>
      wf_heap h' \<and> extends h h' \<and> ok h' y \<and> val h' y = val h x \<and> reach h' y \<inter> dom (cells h) = {}"
begin

lemma extended:
  assumes "ok h x" "extends h h'"
  shows "ok h' x \<and> val h' x = val h x \<and> reach h' x = reach h x"
proof (rule frame [OF assms(1)])
  fix a assume "a \<in> reach h x"
  then show "cells h' a = cells h a" using reach_allocated [OF assms(1)] assms(2) by (auto simp: extends_def)
qed

text \<open>Whatever is written to the memory that was there before the copy, the copy stays; whatever is written
  to memory that was not, the original does.\<close>

lemma copy_independent:
  assumes "wf_heap h" "ok h x" "run_state (copy x) h = (y, h')" "\<And>a. a \<notin> dom (cells h) \<Longrightarrow> cells h2 a = cells h' a"
  shows "ok h2 y \<and> val h2 y = val h x"
proof -
  have c: "ok h' y" "val h' y = val h x" "reach h' y \<inter> dom (cells h) = {}" using copied [OF assms(1-3)] by auto
  have "ok h2 y \<and> val h2 y = val h' y \<and> reach h2 y = reach h' y"
  proof (rule frame [OF c(1)])
    fix a assume "a \<in> reach h' y"
    then show "cells h2 a = cells h' a" using c(3) by (intro assms(4)) blast
  qed
  then show ?thesis using c(2) by simp
qed

lemma original_independent:
  assumes "wf_heap h" "ok h x" "run_state (copy x) h = (y, h')" "\<And>a. a \<in> dom (cells h) \<Longrightarrow> cells h2 a = cells h' a"
  shows "ok h2 x \<and> val h2 x = val h x"
proof -
  have "extends h h'" using copied [OF assms(1-3)] by simp
  then have "extends h h2" using assms(4) unfolding extends_def by metis
  then show ?thesis using extended [OF assms(2)] by blast
qed

text \<open>What holds of a copy made while others are: \<open>h0\<close> is the heap before the first of them.\<close>

definition copy_of :: "'c heap \<Rightarrow> 'a \<Rightarrow> 'c heap \<Rightarrow> 'a \<Rightarrow> bool" where
  "copy_of h0 x h y \<longleftrightarrow> ok h y \<and> val h y = val h0 x \<and> reach h y \<inter> dom (cells h0) = {}"

lemma copy_of_frame:
  assumes "copy_of h0 x h y" "\<And>a. a \<in> reach h y \<Longrightarrow> cells h' a = cells h a"
  shows "copy_of h0 x h' y \<and> reach h' y = reach h y"
proof -
  have "ok h' y \<and> val h' y = val h y \<and> reach h' y = reach h y"
    by (rule frame) (use assms in \<open>auto simp: copy_of_def\<close>)
  then show ?thesis using assms(1) by (simp add: copy_of_def)
qed

lemma copy_of_extended:
  assumes "copy_of h0 x h y" "extends h h'"
  shows "copy_of h0 x h' y \<and> reach h' y = reach h y"
  using assms extended [of h y h'] by (simp add: copy_of_def)

lemma copied_from:
  assumes "wf_heap h" "extends h0 h" "ok h0 x" "run_state (copy x) h = (y, h')"
  shows "wf_heap h' \<and> extends h h' \<and> extends h0 h' \<and> copy_of h0 x h' y \<and> reach h' y \<inter> dom (cells h) = {}"
proof -
  have x: "ok h x" "val h x = val h0 x" using extended [OF assms(3,2)] by auto
  have c: "wf_heap h'" "extends h h'" "ok h' y" "val h' y = val h x" "reach h' y \<inter> dom (cells h) = {}"
    using copied [OF assms(1) x(1) assms(4)] by auto
  moreover have "reach h' y \<inter> dom (cells h0) = {}" using c(5) extends_dom [OF assms(2)] by blast
  ultimately show ?thesis using x extends_trans [OF assms(2) c(2)] by (simp add: copy_of_def)
qed

end

section \<open>Pointers\<close>

definition deref :: "('c \<Rightarrow> 't option) \<Rightarrow> 'c heap \<Rightarrow> addr \<Rightarrow> 't option" where
  "deref dest h a = (case cells h a of None \<Rightarrow> None | Some c \<Rightarrow> dest c)"

text \<open>A pointer to a \<open>T\<close>, and the method \<open>DeepCopy\<close> of a type with \<open>DeepCopyInto\<close>: nil for nil, else \<open>new(T)\<close>,
  filled from the receiver.\<close>

definition new_copy :: "('t \<Rightarrow> 'c) \<Rightarrow> ('c \<Rightarrow> 't option) \<Rightarrow> 't \<Rightarrow> ('t \<Rightarrow> ('c, 't) heap_prog) \<Rightarrow> addr option \<Rightarrow> ('c, addr option) heap_prog" where
  "new_copy mk dest zero copyInto receiver =
     (case receiver of
        None \<Rightarrow> return None
      | Some a \<Rightarrow> do {
          out \<leftarrow> alloc (mk zero);
          c \<leftarrow> load a;
          t \<leftarrow> copyInto (case c of None \<Rightarrow> zero | Some c' \<Rightarrow> (case dest c' of None \<Rightarrow> zero | Some t \<Rightarrow> t));
          store out (mk t);
          return (Some out) })"

fun ptr_val :: "('c \<Rightarrow> 't option) \<Rightarrow> ('c heap \<Rightarrow> 't \<Rightarrow> 'v) \<Rightarrow> 'c heap \<Rightarrow> addr option \<Rightarrow> 'v option" where
  "ptr_val dest v h None = None"
| "ptr_val dest v h (Some a) = map_option (v h) (deref dest h a)"

fun ptr_reach :: "('c \<Rightarrow> 't option) \<Rightarrow> ('c heap \<Rightarrow> 't \<Rightarrow> addr set) \<Rightarrow> 'c heap \<Rightarrow> addr option \<Rightarrow> addr set" where
  "ptr_reach dest r h None = {}"
| "ptr_reach dest r h (Some a) = insert a (case deref dest h a of None \<Rightarrow> {} | Some t \<Rightarrow> r h t)"

fun ptr_ok :: "('c \<Rightarrow> 't option) \<Rightarrow> ('c heap \<Rightarrow> 't \<Rightarrow> bool) \<Rightarrow> 'c heap \<Rightarrow> addr option \<Rightarrow> bool" where
  "ptr_ok dest q h None = True"
| "ptr_ok dest q h (Some a) = (case deref dest h a of None \<Rightarrow> False | Some t \<Rightarrow> q h t)"

locale pointer_copier = deep_copier val reach ok copy
  for val :: "'c heap \<Rightarrow> 'a \<Rightarrow> 'v" and reach ok copy +
  fixes mk :: "'a \<Rightarrow> 'c" and dest :: "'c \<Rightarrow> 'a option" and zero :: 'a
  assumes dest_mk: "dest (mk t) = Some t"
begin

lemma new_copy_Some:
  assumes "wf_heap h" "deref dest h a = Some t" "ok h t" "run_state (new_copy mk dest zero copy (Some a)) h = (p, h')"
  shows "\<exists>b y. p = Some b \<and> wf_heap h' \<and> extends h h' \<and> b \<notin> dom (cells h) \<and> deref dest h' b = Some y \<and> copy_of h t h' y"
proof -
  let ?b = "next_addr h" let ?h1 = "h\<lparr>cells := (cells h)(?b \<mapsto> mk zero), next_addr := ?b + 1\<rparr>"
  obtain c where c: "cells h a = Some c" "dest c = Some t" using assms(2) by (auto simp: deref_def split: option.splits)
  have fresh: "?b \<notin> dom (cells h)" using wf_fresh [OF assms(1)] .
  have "cells ?h1 a = Some c" using c fresh by auto
  obtain y h2 where r: "run_state (copy t) ?h1 = (y, h2)" by (cases "run_state (copy t) ?h1")
  have h': "p = Some ?b" "h' = h2\<lparr>cells := (cells h2)(?b \<mapsto> mk y)\<rparr>"
    using assms(4) \<open>cells ?h1 a = Some c\<close> c r by (auto simp: new_copy_def)
  have k: "wf_heap h2" "extends ?h1 h2" "extends h h2" "copy_of h t h2 y" "reach h2 y \<inter> dom (cells ?h1) = {}"
    using copied_from [OF wf_alloc [OF assms(1)] extends_alloc [OF assms(1)] assms(3) r] by auto
  have "?b \<in> dom (cells h2)" using extends_dom [OF k(2)] by auto
  moreover have "extends h h'" using k(3) fresh h'(2) by (auto simp: extends_def)
  moreover have "copy_of h t h' y \<and> reach h' y = reach h2 y"
    by (rule copy_of_frame [OF k(4)]) (use k(5) h'(2) in auto)
  ultimately show ?thesis using h' fresh k(1) by (auto simp: deref_def dest_mk wf_store)
qed

sublocale pointer: deep_copier "ptr_val dest val" "ptr_reach dest reach" "ptr_ok dest ok" "new_copy mk dest zero copy"
proof
  fix h h' :: "'c heap" and x assume x: "ptr_ok dest ok h x"
  show "ptr_reach dest reach h x \<subseteq> dom (cells h)"
    using x reach_allocated by (cases x) (auto simp: deref_def split: option.splits)
  assume same: "\<And>a. a \<in> ptr_reach dest reach h x \<Longrightarrow> cells h' a = cells h a"
  show "ptr_ok dest ok h' x \<and> ptr_val dest val h' x = ptr_val dest val h x \<and> ptr_reach dest reach h' x = ptr_reach dest reach h x"
  proof (cases x)
    case (Some a)
    then obtain t where t: "deref dest h a = Some t" "ok h t" using x by (auto split: option.splits)
    have "cells h' a = cells h a" using same Some by simp
    then have "deref dest h' a = Some t" using t by (simp add: deref_def)
    moreover have "ok h' t \<and> val h' t = val h t \<and> reach h' t = reach h t"
      by (rule frame [OF t(2)]) (use same Some t in auto)
    ultimately show ?thesis using Some t by simp
  qed simp
next
  fix h h' :: "'c heap" and x p assume a: "wf_heap h" "ptr_ok dest ok h x" "run_state (new_copy mk dest zero copy x) h = (p, h')"
  show "wf_heap h' \<and> extends h h' \<and> ptr_ok dest ok h' p \<and> ptr_val dest val h' p = ptr_val dest val h x \<and>
    ptr_reach dest reach h' p \<inter> dom (cells h) = {}"
  proof (cases x)
    case None
    then show ?thesis using a by (auto simp: new_copy_def)
  next
    case (Some b)
    then obtain t where t: "deref dest h b = Some t" "ok h t" using a(2) by (auto split: option.splits)
    obtain c y where "p = Some c" "wf_heap h'" "extends h h'" "c \<notin> dom (cells h)" "deref dest h' c = Some y" "copy_of h t h' y"
      using new_copy_Some [OF a(1) t] a(3) Some by blast
    then show ?thesis using Some t by (simp add: copy_of_def)
  qed
qed

lemma pointer_deep_copier: "deep_copier (ptr_val dest val) (ptr_reach dest reach) (ptr_ok dest ok) (new_copy mk dest zero copy)"
  by (rule pointer.deep_copier_axioms)

end

section \<open>Values that may be nil\<close>

text \<open>\<open>if in.X != nil { out.X = copy(in.X) }\<close>.\<close>

definition opt_copy :: "('a \<Rightarrow> ('c, 'a) heap_prog) \<Rightarrow> 'a option \<Rightarrow> ('c, 'a option) heap_prog" where
  "opt_copy copy x = (case x of None \<Rightarrow> return None | Some a \<Rightarrow> do { b \<leftarrow> copy a; return (Some b) })"

definition opt_val :: "('c heap \<Rightarrow> 'a \<Rightarrow> 'v) \<Rightarrow> 'c heap \<Rightarrow> 'a option \<Rightarrow> 'v option" where
  "opt_val v h x = map_option (v h) x"

definition opt_reach :: "('c heap \<Rightarrow> 'a \<Rightarrow> addr set) \<Rightarrow> 'c heap \<Rightarrow> 'a option \<Rightarrow> addr set" where
  "opt_reach r h x = (case x of None \<Rightarrow> {} | Some a \<Rightarrow> r h a)"

definition opt_ok :: "('c heap \<Rightarrow> 'a \<Rightarrow> bool) \<Rightarrow> 'c heap \<Rightarrow> 'a option \<Rightarrow> bool" where
  "opt_ok q h x = (case x of None \<Rightarrow> True | Some a \<Rightarrow> q h a)"

lemmas opt_defs = opt_copy_def opt_val_def opt_reach_def opt_ok_def

context deep_copier
begin

lemma optional_deep_copier: "deep_copier (opt_val val) (opt_reach reach) (opt_ok ok) (opt_copy copy)"
proof
  fix h h' :: "'c heap" and x assume x: "opt_ok ok h x"
  show "opt_reach reach h x \<subseteq> dom (cells h)" using x reach_allocated by (cases x) (auto simp: opt_defs)
  assume "\<And>a. a \<in> opt_reach reach h x \<Longrightarrow> cells h' a = cells h a"
  then show "opt_ok ok h' x \<and> opt_val val h' x = opt_val val h x \<and> opt_reach reach h' x = opt_reach reach h x"
    using x frame [of h _ h'] by (cases x) (auto simp: opt_defs)
next
  fix h h' :: "'c heap" and x y assume a: "wf_heap h" "opt_ok ok h x" "run_state (opt_copy copy x) h = (y, h')"
  show "wf_heap h' \<and> extends h h' \<and> opt_ok ok h' y \<and> opt_val val h' y = opt_val val h x \<and> opt_reach reach h' y \<inter> dom (cells h) = {}"
  proof (cases x)
    case None
    then show ?thesis using a by (auto simp: opt_defs)
  next
    case (Some b)
    then obtain c where "run_state (copy b) h = (c, h')" "y = Some c" using a(3) by (auto simp: opt_defs split: prod.splits)
    then show ?thesis using copied [OF a(1), of b c h'] a(2) Some by (simp add: opt_defs)
  qed
qed

end

section \<open>Flat values\<close>

text \<open>A struct of scalars and strings: assignment copies all of it.\<close>

definition flat_copy :: "'a \<Rightarrow> ('c, 'a) heap_prog" where
  "flat_copy x = return x"

interpretation flat: deep_copier "\<lambda>h x. x" "\<lambda>h x. {}" "\<lambda>h x. True" "flat_copy :: 'a \<Rightarrow> ('c, 'a) heap_prog"
  by unfold_locales (auto simp: flat_copy_def)

section \<open>Slices\<close>

text \<open>A slice is nil, or a window of an array: its address, where the window starts and its length.\<close>

datatype slice = NilSlice | Slice addr nat nat

definition window :: "('c \<Rightarrow> 't list option) \<Rightarrow> 'c heap \<Rightarrow> addr \<Rightarrow> nat \<Rightarrow> nat \<Rightarrow> 't list option" where
  "window arr h a i n = (case deref arr h a of None \<Rightarrow> None
     | Some xs \<Rightarrow> if i + n \<le> length xs then Some (take n (drop i xs)) else None)"

text \<open>A slice denotes its elements, and nil is not the empty slice.\<close>

fun slice_val :: "('c \<Rightarrow> 't list option) \<Rightarrow> ('c heap \<Rightarrow> 't \<Rightarrow> 'v) \<Rightarrow> 'c heap \<Rightarrow> slice \<Rightarrow> 'v list option" where
  "slice_val arr v h NilSlice = None"
| "slice_val arr v h (Slice a i n) = map_option (map (v h)) (window arr h a i n)"

fun slice_reach :: "('c \<Rightarrow> 't list option) \<Rightarrow> ('c heap \<Rightarrow> 't \<Rightarrow> addr set) \<Rightarrow> 'c heap \<Rightarrow> slice \<Rightarrow> addr set" where
  "slice_reach arr r h NilSlice = {}"
| "slice_reach arr r h (Slice a i n) = insert a (case window arr h a i n of None \<Rightarrow> {} | Some xs \<Rightarrow> (\<Union>x \<in> set xs. r h x))"

fun slice_ok :: "('c \<Rightarrow> 't list option) \<Rightarrow> ('c heap \<Rightarrow> 't \<Rightarrow> bool) \<Rightarrow> 'c heap \<Rightarrow> slice \<Rightarrow> bool" where
  "slice_ok arr q h NilSlice = True"
| "slice_ok arr q h (Slice a i n) = (case window arr h a i n of None \<Rightarrow> False | Some xs \<Rightarrow> list_all (q h) xs)"

text \<open>\<open>out[k]\<close> read and assigned; outside the array the sources never go.\<close>

definition load_at :: "('c \<Rightarrow> 't list option) \<Rightarrow> addr \<Rightarrow> nat \<Rightarrow> 't \<Rightarrow> ('c, 't) heap_prog" where
  "load_at arr a k zero = State (\<lambda>h. (case deref arr h a of None \<Rightarrow> zero | Some xs \<Rightarrow> if k < length xs then xs ! k else zero, h))"

definition store_at :: "('t list \<Rightarrow> 'c) \<Rightarrow> ('c \<Rightarrow> 't list option) \<Rightarrow> addr \<Rightarrow> nat \<Rightarrow> 't \<Rightarrow> ('c, unit) heap_prog" where
  "store_at mk arr a k t = State (\<lambda>h. ((), case deref arr h a of None \<Rightarrow> h | Some xs \<Rightarrow> h\<lparr>cells := (cells h)(a \<mapsto> mk (xs[k := t]))\<rparr>))"

lemma run_at [simp]:
  "run_state (load_at arr a k z) h = (case deref arr h a of None \<Rightarrow> z | Some xs \<Rightarrow> if k < length xs then xs ! k else z, h)"
  "run_state (store_at mk arr a k t) h =
     ((), case deref arr h a of None \<Rightarrow> h | Some xs \<Rightarrow> h\<lparr>cells := (cells h)(a \<mapsto> mk (xs[k := t]))\<rparr>)"
  by (simp_all add: load_at_def store_at_def)

text \<open>\<open>for i := range *in { (*in)[i].DeepCopyInto(&(*out)[i]) }\<close>, from index \<open>k\<close> on, \<open>n\<close> elements left; and the
  slice made and filled this way, when it is not nil.\<close>

fun copy_elems :: "('t list \<Rightarrow> 'c) \<Rightarrow> ('c \<Rightarrow> 't list option) \<Rightarrow> 't \<Rightarrow> ('t \<Rightarrow> ('c, 't) heap_prog) \<Rightarrow> addr \<Rightarrow> nat \<Rightarrow> addr \<Rightarrow> nat \<Rightarrow> nat \<Rightarrow> ('c, unit) heap_prog" where
  "copy_elems mk arr zero copyInto a i out k 0 = return ()"
| "copy_elems mk arr zero copyInto a i out k (Suc n) = do {
     x \<leftarrow> load_at arr a (i + k) zero;
     y \<leftarrow> copyInto x;
     store_at mk arr out k y;
     copy_elems mk arr zero copyInto a i out (Suc k) n }"

fun copy_slice :: "('t list \<Rightarrow> 'c) \<Rightarrow> ('c \<Rightarrow> 't list option) \<Rightarrow> 't \<Rightarrow> ('t \<Rightarrow> ('c, 't) heap_prog) \<Rightarrow> slice \<Rightarrow> ('c, slice) heap_prog" where
  "copy_slice mk arr zero copyInto NilSlice = return NilSlice"
| "copy_slice mk arr zero copyInto (Slice a i n) = do {
     out \<leftarrow> alloc (mk (replicate n zero));
     copy_elems mk arr zero copyInto a i out 0 n;
     return (Slice out 0 n) }"

text \<open>The built-in \<open>copy(*out, *in)\<close> into a slice of the same length: the elements at once, by
  assignment.\<close>

fun clone_slice :: "('t list \<Rightarrow> 'c) \<Rightarrow> ('c \<Rightarrow> 't list option) \<Rightarrow> 't \<Rightarrow> slice \<Rightarrow> ('c, slice) heap_prog" where
  "clone_slice mk arr zero NilSlice = return NilSlice"
| "clone_slice mk arr zero (Slice a i n) = do {
     out \<leftarrow> alloc (mk (replicate n zero));
     xs \<leftarrow> State (\<lambda>h. (window arr h a i n, h));
     store out (mk (case xs of None \<Rightarrow> replicate n zero | Some xs' \<Rightarrow> xs'));
     return (Slice out 0 n) }"

locale array_copier = deep_copier val reach ok copy
  for val :: "'c heap \<Rightarrow> 'a \<Rightarrow> 'v" and reach ok copy +
  fixes mk :: "'a list \<Rightarrow> 'c" and arr :: "'c \<Rightarrow> 'a list option" and zero :: 'a
  assumes arr_mk: "arr (mk xs) = Some xs"
begin

lemma copy_elems_loop:
  assumes "wf_heap h" "extends h0 h" "window arr h0 a i m = Some xs" "list_all (ok h0) xs" "out \<notin> dom (cells h0)"
    "deref arr h out = Some ys" "length ys = m" "k + n = m" "\<forall>j < k. copy_of h0 (xs ! j) h (ys ! j) \<and> out \<notin> reach h (ys ! j)"
    "run_state (copy_elems mk arr zero copy a i out k n) h = (u, h')"
  shows "\<exists>ys'. wf_heap h' \<and> extends h0 h' \<and> deref arr h' out = Some ys' \<and> length ys' = m \<and> (\<forall>j < m. copy_of h0 (xs ! j) h' (ys' ! j))"
  using assms(1,2,6-10)
proof (induction n arbitrary: k h ys)
  case 0
  then show ?case by auto
next
  case (Suc n)
  obtain zs where zs: "deref arr h0 a = Some zs" "i + m \<le> length zs" "xs = take m (drop i zs)"
    using assms(3) by (auto simp: window_def split: option.splits if_splits)
  then have k: "k < m" "zs ! (i + k) = xs ! k" "i + k < length zs" "k < length xs" using Suc.prems(5) by auto
  have "a \<in> dom (cells h0)" using zs(1) by (auto simp: deref_def split: option.splits)
  then have "deref arr h a = Some zs" using Suc.prems(2) zs(1) by (simp add: deref_def extends_def)
  moreover obtain y h1 where r: "run_state (copy (xs ! k)) h = (y, h1)" by (cases "run_state (copy (xs ! k)) h")
  moreover have "ok h0 (xs ! k)" using assms(4) k(4) by (simp add: list_all_length)
  note c = copied_from [OF Suc.prems(1,2) this r]
  have out: "out \<in> dom (cells h)" using Suc.prems(3) by (auto simp: deref_def split: option.splits)
  have d: "deref arr h1 out = Some ys" using c out Suc.prems(3) by (simp add: deref_def extends_def)
  let ?h2 = "h1\<lparr>cells := (cells h1)(out \<mapsto> mk (ys[k := y]))\<rparr>"
  have w: "wf_heap ?h2" using c out extends_dom [of h h1] by (intro wf_store) auto
  have e: "extends h0 ?h2" using c assms(5) by (auto simp: extends_def)
  have "copy_of h0 (xs ! j) ?h2 (ys[k := y] ! j) \<and> out \<notin> reach ?h2 (ys[k := y] ! j)" if "j < Suc k" for j
  proof (cases "j = k")
    case True
    have "copy_of h0 (xs ! k) ?h2 y \<and> reach ?h2 y = reach h1 y" by (rule copy_of_frame) (use c out in auto)
    then show ?thesis using True k(1) Suc.prems(4) c out by auto
  next
    case False
    then have j: "copy_of h0 (xs ! j) h (ys ! j)" "out \<notin> reach h (ys ! j)" using that Suc.prems(6) by auto
    have j': "copy_of h0 (xs ! j) h1 (ys ! j)" "reach h1 (ys ! j) = reach h (ys ! j)"
      using copy_of_extended [OF j(1)] c by blast+
    have "copy_of h0 (xs ! j) ?h2 (ys ! j) \<and> reach ?h2 (ys ! j) = reach h1 (ys ! j)"
      by (rule copy_of_frame) (use j j' in auto)
    then show ?thesis using False j j' by simp
  qed
  moreover have "run_state (copy_elems mk arr zero copy a i out (Suc k) n) ?h2 = (u, h')"
    using Suc.prems(7) calculation(1) r d k by simp
  ultimately show ?case using Suc.IH [of ?h2 "ys[k := y]" "Suc k"] w e Suc.prems(4,5) by (simp add: deref_def arr_mk)
qed

lemma copy_slice_window:
  assumes "wf_heap h" "window arr h a i n = Some xs" "list_all (ok h) xs"
    "run_state (copy_slice mk arr zero copy (Slice a i n)) h = (s, h')"
  shows "\<exists>out ys. s = Slice out 0 n \<and> wf_heap h' \<and> extends h h' \<and> out \<notin> dom (cells h) \<and>
    window arr h' out 0 n = Some ys \<and> length ys = n \<and> (\<forall>j < n. copy_of h (xs ! j) h' (ys ! j))"
proof -
  let ?o = "next_addr h" and ?z = "replicate n zero"
  let ?h1 = "h\<lparr>cells := (cells h)(?o \<mapsto> mk ?z), next_addr := ?o + 1\<rparr>"
  have s: "run_state (copy_elems mk arr zero copy a i ?o 0 n) ?h1 = ((), h')" "s = Slice ?o 0 n"
    using assms(4) by (auto split: prod.splits)
  have d: "deref arr ?h1 ?o = Some ?z" by (simp add: deref_def arr_mk)
  obtain ys where ys: "wf_heap h'" "extends h h'" "deref arr h' ?o = Some ys" "length ys = n"
      "\<forall>j < n. copy_of h (xs ! j) h' (ys ! j)"
    using copy_elems_loop [OF wf_alloc [OF assms(1)] extends_alloc [OF assms(1)] assms(2,3) wf_fresh [OF assms(1)]
      d length_replicate add_0 _ s(1)] by blast
  then have "window arr h' ?o 0 n = Some ys" by (simp add: window_def)
  then show ?thesis using s ys wf_fresh [OF assms(1)] by blast
qed

sublocale array: deep_copier "slice_val arr val" "slice_reach arr reach" "slice_ok arr ok" "copy_slice mk arr zero copy"
proof
  fix h h' :: "'c heap" and x assume x: "slice_ok arr ok h x"
  show "slice_reach arr reach h x \<subseteq> dom (cells h)"
    using x reach_allocated by (cases x) (fastforce simp: window_def deref_def list_all_iff split: option.splits if_splits)+
  assume same: "\<And>a. a \<in> slice_reach arr reach h x \<Longrightarrow> cells h' a = cells h a"
  show "slice_ok arr ok h' x \<and> slice_val arr val h' x = slice_val arr val h x \<and> slice_reach arr reach h' x = slice_reach arr reach h x"
  proof (cases x)
    case (Slice a i n)
    then obtain xs where xs: "window arr h a i n = Some xs" "list_all (ok h) xs" using x by (auto split: option.splits)
    have "cells h' a = cells h a" using same Slice by simp
    then have "window arr h' a i n = Some xs" using xs by (simp add: window_def deref_def)
    moreover have "ok h' t \<and> val h' t = val h t \<and> reach h' t = reach h t" if "t \<in> set xs" for t
      by (rule frame) (use that same Slice xs in \<open>auto simp: list_all_iff\<close>)
    ultimately show ?thesis using Slice xs by (simp add: list_all_iff)
  qed simp
next
  fix h h' :: "'c heap" and x s assume a: "wf_heap h" "slice_ok arr ok h x" "run_state (copy_slice mk arr zero copy x) h = (s, h')"
  show "wf_heap h' \<and> extends h h' \<and> slice_ok arr ok h' s \<and> slice_val arr val h' s = slice_val arr val h x \<and>
    slice_reach arr reach h' s \<inter> dom (cells h) = {}"
  proof (cases x)
    case NilSlice
    then show ?thesis using a by auto
  next
    case (Slice b i n)
    then obtain xs where xs: "window arr h b i n = Some xs" "list_all (ok h) xs" using a(2) by (auto split: option.splits)
    then have l: "length xs = n" by (auto simp: window_def split: option.splits if_splits)
    obtain out ys where o: "s = Slice out 0 n" "wf_heap h'" "extends h h'" "out \<notin> dom (cells h)"
      "window arr h' out 0 n = Some ys" "length ys = n" and c: "\<And>j. j < n \<Longrightarrow> copy_of h (xs ! j) h' (ys ! j)"
      using copy_slice_window [OF a(1) xs] a(3) Slice by blast
    have "map (val h') ys = map (val h) xs" by (rule nth_equalityI) (use c l o in \<open>auto simp: copy_of_def\<close>)
    moreover have "list_all (ok h') ys" "(\<Union>y \<in> set ys. reach h' y) \<inter> dom (cells h) = {}"
      using c o(6) by (auto simp: list_all_length copy_of_def in_set_conv_nth) blast
    ultimately show ?thesis using Slice xs o by simp
  qed
qed

lemma array_deep_copier: "deep_copier (slice_val arr val) (slice_reach arr reach) (slice_ok arr ok) (copy_slice mk arr zero copy)"
  by (rule array.deep_copier_axioms)

end

text \<open>The built-in \<open>copy\<close> is a deep copy of arrays of flat structs.\<close>

lemma clone_slice_copier:
  fixes mk :: "'t list \<Rightarrow> 'c"
  assumes "\<And>xs. arr (mk xs) = Some xs"
  shows "deep_copier (slice_val arr (\<lambda>h x. x)) (slice_reach arr (\<lambda>h x. {})) (slice_ok arr (\<lambda>h x. True)) (clone_slice mk arr zero)"
proof -
  have ac: "array_copier (\<lambda>h x. x) (\<lambda>h x. {}) (\<lambda>h x. True) flat_copy mk arr"
    by (intro array_copier.intro array_copier_axioms.intro flat.deep_copier_axioms assms)
  note laws = deep_copier.reach_allocated [OF array_copier.array_deep_copier [OF ac]]
    deep_copier.frame [OF array_copier.array_deep_copier [OF ac]]
  show ?thesis
  proof
    fix h h' :: "'c heap" and x assume x: "slice_ok arr (\<lambda>h x. True) h x"
    show "slice_reach arr (\<lambda>h x. {}) h x \<subseteq> dom (cells h)" by (rule laws(1) [OF x])
    assume "\<And>a. a \<in> slice_reach arr (\<lambda>h x. {}) h x \<Longrightarrow> cells h' a = cells h a"
    then show "slice_ok arr (\<lambda>h x. True) h' x \<and> slice_val arr (\<lambda>h x. x) h' x = slice_val arr (\<lambda>h x. x) h x \<and>
      slice_reach arr (\<lambda>h x. {}) h' x = slice_reach arr (\<lambda>h x. {}) h x" by (rule laws(2) [OF x])
  next
    fix h h' :: "'c heap" and x s
    assume a: "wf_heap h" "slice_ok arr (\<lambda>h x. True) h x" "run_state (clone_slice mk arr zero x) h = (s, h')"
    show "wf_heap h' \<and> extends h h' \<and> slice_ok arr (\<lambda>h x. True) h' s \<and>
      slice_val arr (\<lambda>h x. x) h' s = slice_val arr (\<lambda>h x. x) h x \<and> slice_reach arr (\<lambda>h x. {}) h' s \<inter> dom (cells h) = {}"
    proof (cases x)
      case NilSlice
      then show ?thesis using a by auto
    next
      case (Slice b i n)
      then obtain xs where xs: "window arr h b i n = Some xs" using a(2) by (auto split: option.splits)
      then have l: "length xs = n" by (auto simp: window_def split: option.splits if_splits)
      let ?o = "next_addr h" let ?h1 = "h\<lparr>cells := (cells h)(?o \<mapsto> mk (replicate n zero)), next_addr := ?o + 1\<rparr>"
      have "b \<noteq> ?o" using xs wf_fresh [OF a(1)] by (auto simp: window_def deref_def split: option.splits)
      then have "window arr ?h1 b i n = Some xs" using xs by (simp add: window_def deref_def)
      then have h': "h' = ?h1\<lparr>cells := (cells ?h1)(?o \<mapsto> mk xs)\<rparr>" "s = Slice ?o 0 n" using a(3) Slice by auto
      have "extends h h'" using h'(1) wf_fresh [OF a(1)] by (auto simp: extends_def)
      moreover have "wf_heap h'" unfolding h'(1) by (intro wf_store wf_alloc a(1)) simp
      moreover have "window arr h' ?o 0 n = Some xs" using h'(1) l assms by (simp add: window_def deref_def)
      ultimately show ?thesis using Slice xs h' wf_fresh [OF a(1)] by (simp add: list_all_iff)
    qed
  qed
qed

text \<open>It does what the loop over the elements would do.\<close>

lemma copy_elems_flat:
  assumes "\<And>xs. arr (mk xs) = Some xs" "deref arr h a = Some xs" "a \<noteq> out"
  shows "cells h out = Some (mk ys) \<Longrightarrow> i + k + n \<le> length xs \<Longrightarrow> k + n = length ys \<Longrightarrow>
    run_state (copy_elems mk arr zero flat_copy a i out k n) h =
      ((), h\<lparr>cells := (cells h)(out \<mapsto> mk (take k ys @ take n (drop (i + k) xs)))\<rparr>)"
  using assms(2)
proof (induction n arbitrary: k ys h)
  case 0
  then show ?case by (simp add: fun_upd_idem)
next
  case (Suc n)
  have k: "i + k < length xs" "k < length ys" using Suc.prems by auto
  let ?h = "h\<lparr>cells := (cells h)(out \<mapsto> mk (ys[k := xs ! (i + k)]))\<rparr>"
  have "deref arr h out = Some ys" using Suc.prems(1) assms(1) by (simp add: deref_def)
  then have "run_state (copy_elems mk arr zero flat_copy a i out k (Suc n)) h =
      run_state (copy_elems mk arr zero flat_copy a i out (Suc k) n) ?h"
    using Suc.prems(4) k by (simp add: flat_copy_def)
  also have "\<dots> = ((), ?h\<lparr>cells := (cells ?h)(out \<mapsto> mk (take (Suc k) (ys[k := xs ! (i + k)]) @ take n (drop (i + Suc k) xs)))\<rparr>)"
    by (rule Suc.IH) (use Suc.prems assms(3) in \<open>auto simp: deref_def\<close>)
  also have "take (Suc k) (ys[k := xs ! (i + k)]) @ take n (drop (i + Suc k) xs) = take k ys @ take (Suc n) (drop (i + k) xs)"
    using k by (simp add: take_Suc_conv_app_nth Cons_nth_drop_Suc [symmetric])
  also have "?h\<lparr>cells := (cells ?h)(out \<mapsto> mk (take k ys @ take (Suc n) (drop (i + k) xs)))\<rparr> =
      h\<lparr>cells := (cells h)(out \<mapsto> mk (take k ys @ take (Suc n) (drop (i + k) xs)))\<rparr>" by simp
  finally show ?case .
qed

lemma clone_slice_loop:
  assumes "\<And>xs. arr (mk xs) = Some xs" "wf_heap h" "slice_ok arr (\<lambda>h x. True) h s"
  shows "run_state (clone_slice mk arr zero s) h = run_state (copy_slice mk arr zero flat_copy s) h"
proof (cases s)
  case (Slice a i n)
  then obtain ws where ws: "window arr h a i n = Some ws" using assms(3) by (auto split: option.splits)
  then obtain xs where xs: "deref arr h a = Some xs" "i + n \<le> length xs" "ws = take n (drop i xs)"
    by (auto simp: window_def split: option.splits if_splits)
  let ?o = "next_addr h" let ?h = "h\<lparr>cells := (cells h)(?o \<mapsto> mk (replicate n zero)), next_addr := ?o + 1\<rparr>"
  have a: "a \<noteq> ?o" using xs(1) wf_fresh [OF assms(2)] by (auto simp: deref_def split: option.splits)
  then have d: "deref arr ?h a = Some xs" "window arr ?h a i n = Some ws" using xs ws by (simp_all add: deref_def window_def)
  have "run_state (copy_elems mk arr zero flat_copy a i ?o 0 n) ?h =
      ((), ?h\<lparr>cells := (cells ?h)(?o \<mapsto> mk (take 0 (replicate n zero) @ take n (drop (i + 0) xs)))\<rparr>)"
    by (rule copy_elems_flat [OF assms(1) d(1) a]) (use xs in auto)
  then show ?thesis using Slice d(2) xs(3) by simp
qed simp

section \<open>Structs of copied fields\<close>

text \<open>Two fields copied one after the other are copied, and so is a struct that is its fields.\<close>

lemma pair_deep_copier:
  fixes k1 :: "'c heap \<Rightarrow> 'a \<Rightarrow> bool"
  assumes "deep_copier v1 r1 k1 c1" "deep_copier v2 r2 k2 c2"
  shows "deep_copier (\<lambda>h x. (v1 h (fst x), v2 h (snd x))) (\<lambda>h x. r1 h (fst x) \<union> r2 h (snd x))
    (\<lambda>h x. k1 h (fst x) \<and> k2 h (snd x)) (\<lambda>x. do { y \<leftarrow> c1 (fst x); z \<leftarrow> c2 (snd x); return (y, z) })"
proof
  fix h h' :: "'c heap" and x assume x: "k1 h (fst x) \<and> k2 h (snd x)"
  show "r1 h (fst x) \<union> r2 h (snd x) \<subseteq> dom (cells h)"
    using x deep_copier.reach_allocated [OF assms(1), of h "fst x"] deep_copier.reach_allocated [OF assms(2), of h "snd x"] by blast
  assume same: "\<And>a. a \<in> r1 h (fst x) \<union> r2 h (snd x) \<Longrightarrow> cells h' a = cells h a"
  have "k1 h' (fst x) \<and> v1 h' (fst x) = v1 h (fst x) \<and> r1 h' (fst x) = r1 h (fst x)"
    by (rule deep_copier.frame [OF assms(1)]) (use x same in auto)
  moreover have "k2 h' (snd x) \<and> v2 h' (snd x) = v2 h (snd x) \<and> r2 h' (snd x) = r2 h (snd x)"
    by (rule deep_copier.frame [OF assms(2)]) (use x same in auto)
  ultimately show "(k1 h' (fst x) \<and> k2 h' (snd x)) \<and> (v1 h' (fst x), v2 h' (snd x)) = (v1 h (fst x), v2 h (snd x)) \<and>
    r1 h' (fst x) \<union> r2 h' (snd x) = r1 h (fst x) \<union> r2 h (snd x)" by simp
next
  fix h h' :: "'c heap" and x w
  assume a: "wf_heap h" "k1 h (fst x) \<and> k2 h (snd x)"
    and r: "run_state (do { y \<leftarrow> c1 (fst x); z \<leftarrow> c2 (snd x); return (y, z) }) h = (w, h')"
  obtain y h1 z where c: "run_state (c1 (fst x)) h = (y, h1)" "run_state (c2 (snd x)) h1 = (z, h')" "w = (y, z)"
    using r by (auto split: prod.splits)
  note one = deep_copier.copied [OF assms(1) a(1) conjunct1 [OF a(2)] c(1)]
  then have h1: "wf_heap h1" "extends h h1" by blast+
  note two = deep_copier.copied_from [OF assms(2) h1 conjunct2 [OF a(2)] c(2)]
  have "k1 h' y \<and> v1 h' y = v1 h1 y \<and> r1 h' y = r1 h1 y"
    by (rule deep_copier.extended [OF assms(1)]) (use one two in auto)
  then show "wf_heap h' \<and> extends h h' \<and> (k1 h' (fst w) \<and> k2 h' (snd w)) \<and>
      (v1 h' (fst w), v2 h' (snd w)) = (v1 h (fst x), v2 h (snd x)) \<and> (r1 h' (fst w) \<union> r2 h' (snd w)) \<inter> dom (cells h) = {}"
    using one two c(3) by (simp add: deep_copier.copy_of_def [OF assms(2)] Int_Un_distrib2)
qed

lemma struct_deep_copier:
  fixes k :: "'c heap \<Rightarrow> 'f \<Rightarrow> bool"
  assumes "deep_copier v r k c" "\<And>t. flds (mks t) = t"
  shows "deep_copier (\<lambda>h x. view (v h (flds x))) (\<lambda>h x. r h (flds x)) (\<lambda>h x. k h (flds x))
    (\<lambda>x. do { t \<leftarrow> c (flds x); return (mks t) })"
proof
  fix h h' :: "'c heap" and x assume x: "k h (flds x)"
  show "r h (flds x) \<subseteq> dom (cells h)" by (rule deep_copier.reach_allocated [OF assms(1) x])
  assume "\<And>a. a \<in> r h (flds x) \<Longrightarrow> cells h' a = cells h a"
  from deep_copier.frame [OF assms(1) x this]
  show "k h' (flds x) \<and> view (v h' (flds x)) = view (v h (flds x)) \<and> r h' (flds x) = r h (flds x)" by simp
next
  fix h h' :: "'c heap" and x y
  assume a: "wf_heap h" "k h (flds x)" and r: "run_state (do { t \<leftarrow> c (flds x); return (mks t) }) h = (y, h')"
  obtain t where t: "run_state (c (flds x)) h = (t, h')" "y = mks t" using r by (auto split: prod.splits)
  from deep_copier.copied [OF assms(1) a t(1)]
  show "wf_heap h' \<and> extends h h' \<and> k h' (flds y) \<and> view (v h' (flds y)) = view (v h (flds x)) \<and> r h' (flds y) \<inter> dom (cells h) = {}"
    by (simp add: t(2) assms(2))
qed

end
