(* ===== verification/DeepCopy.thy ===== *)
theory DeepCopy
  imports GoHeap KubeObjects
begin

text \<open>
  \<open>apis/chm/v1alpha1/zz_generated.deepcopy.go\<close> and \<open>register.go\<close>: the deep copies of the resource types, over
  the memory of theory GoHeap, and the registration of the types. The client returns objects of its cache
  through these methods, which is why the other theories may treat objects as values that no other goroutine
  writes. A \<open>DeepCopyInto\<close> is modelled by the struct it leaves in \<open>*out\<close>, as \<open>*out\<close> is always fresh memory here.
  The copies of \<open>metav1\<close> types are the library's: parameters, with \<open>library_laws\<close> as what the code relies on.
\<close>

section \<open>The structs in memory\<close>

text \<open>\<open>'o\<close>, \<open>'l\<close>, \<open>'d\<close> are the structs \<open>ObjectMeta\<close>, \<open>ListMeta\<close> and \<open>Condition\<close>, \<open>'x\<close> the cells the library's types
  use. \<open>TypeMeta\<close> is a pair of strings.\<close>

type_synonym TypeMeta = "string \<times> string"

record status_mem =
  memStartedAt :: "addr option"
  memFinishedAt :: "addr option"
  memConditions :: slice
  memResults :: slice

record 'o cnh_mem =
  memType :: TypeMeta
  memMeta :: 'o
  memSpec :: CheckNodeHealthSpec
  memStatus :: status_mem

record 'l list_mem =
  memListType :: TypeMeta
  memListMeta :: 'l
  memItems :: slice

datatype ('o, 'l, 'd, 'x) api_cell =
    is_CnhCell: CnhCell (un_CnhCell: "'o cnh_mem")
  | is_ListCell: ListCell (un_ListCell: "'l list_mem")
  | is_SpecCell: SpecCell (un_SpecCell: CheckNodeHealthSpec)
  | is_StatusCell: StatusCell (un_StatusCell: status_mem)
  | is_ResultCell: ResultCell (un_ResultCell: CheckResult)
  | is_RefCell: RefCell (un_RefCell: NodeReference)
  | is_ItemArray: ItemArray (un_ItemArray: "'o cnh_mem list")
  | is_ConditionArray: ConditionArray (un_ConditionArray: "'d list")
  | is_ResultArray: ResultArray (un_ResultArray: "CheckResult list")
  | LibCell 'x

type_synonym ('o, 'l, 'd, 'x) api_heap = "('o, 'l, 'd, 'x) api_cell heap"

definition as_cell :: "('c \<Rightarrow> bool) \<Rightarrow> ('c \<Rightarrow> 't) \<Rightarrow> 'c \<Rightarrow> 't option" where
  "as_cell is un c = (if is c then Some (un c) else None)"

abbreviation "as_cnh \<equiv> as_cell is_CnhCell un_CnhCell"
abbreviation "as_list \<equiv> as_cell is_ListCell un_ListCell"
abbreviation "as_spec \<equiv> as_cell is_SpecCell un_SpecCell"
abbreviation "as_status \<equiv> as_cell is_StatusCell un_StatusCell"
abbreviation "as_result \<equiv> as_cell is_ResultCell un_ResultCell"
abbreviation "as_ref \<equiv> as_cell is_RefCell un_RefCell"
abbreviation "as_items \<equiv> as_cell is_ItemArray un_ItemArray"
abbreviation "as_conditions \<equiv> as_cell is_ConditionArray un_ConditionArray"
abbreviation "as_results \<equiv> as_cell is_ResultArray un_ResultArray"

lemma as_cell_mk [simp]:
  "as_cnh (CnhCell x) = Some x" "as_list (ListCell l) = Some l" "as_spec (SpecCell s) = Some s"
  "as_status (StatusCell t) = Some t" "as_result (ResultCell r) = Some r" "as_ref (RefCell n) = Some n"
  "as_items (ItemArray xs) = Some xs" "as_conditions (ConditionArray ds) = Some ds" "as_results (ResultArray rs) = Some rs"
  by (simp_all add: as_cell_def)

text \<open>Zero values, which \<open>new\<close> and \<open>make\<close> leave.\<close>

definition zero_ref :: NodeReference where "zero_ref = \<lparr>refName = ''''\<rparr>"

definition zero_spec :: CheckNodeHealthSpec where "zero_spec = \<lparr>NodeRef = zero_ref\<rparr>"

definition zero_result :: CheckResult where
  "zero_result = \<lparr>crName = '''', crStatus = '''', crMessage = '''', crErrorCode = ''''\<rparr>"

definition zero_status :: status_mem where
  "zero_status = \<lparr>memStartedAt = None, memFinishedAt = None, memConditions = NilSlice, memResults = NilSlice\<rparr>"

section \<open>The library's part\<close>

text \<open>\<open>(*metav1.Time).DeepCopy\<close> takes a pointer that is not nil and returns one, the other three fill a struct.\<close>

record ('o, 'l, 'd, 'x) meta_lib =
  Time_DeepCopy :: "addr \<Rightarrow> (('o, 'l, 'd, 'x) api_cell, addr) heap_prog"
  Condition_DeepCopyInto :: "'d \<Rightarrow> (('o, 'l, 'd, 'x) api_cell, 'd) heap_prog"
  ObjectMeta_DeepCopyInto :: "'o \<Rightarrow> (('o, 'l, 'd, 'x) api_cell, 'o) heap_prog"
  ListMeta_DeepCopyInto :: "'l \<Rightarrow> (('o, 'l, 'd, 'x) api_cell, 'l) heap_prog"
  zeroCondition :: 'd
  zeroObjectMeta :: 'o
  zeroListMeta :: 'l

text \<open>How a type is read off the memory: what a value denotes, the cells this depends on, and that they are
  there. \<open>'lv\<close> is what a \<open>ListMeta\<close> denotes.\<close>

record ('c, 'a, 'v) reading =
  reads :: "'c heap \<Rightarrow> 'a \<Rightarrow> 'v"
  uses :: "'c heap \<Rightarrow> 'a \<Rightarrow> addr set"
  present :: "'c heap \<Rightarrow> 'a \<Rightarrow> bool"

record ('o, 'l, 'd, 'x, 'lv) meta_view =
  time_reading :: "(('o, 'l, 'd, 'x) api_cell, addr, time) reading"
  condition_reading :: "(('o, 'l, 'd, 'x) api_cell, 'd, Condition) reading"
  meta_reading :: "(('o, 'l, 'd, 'x) api_cell, 'o, ObjectMeta) reading"
  list_meta_reading :: "(('o, 'l, 'd, 'x) api_cell, 'l, 'lv) reading"

definition is_deep_copy :: "('c, 'a, 'v) reading \<Rightarrow> ('a \<Rightarrow> ('c, 'a) heap_prog) \<Rightarrow> bool" where
  "is_deep_copy r copy \<longleftrightarrow> deep_copier (reads r) (uses r) (present r) copy"

definition library_laws :: "('o, 'l, 'd, 'x) meta_lib \<Rightarrow> ('o, 'l, 'd, 'x, 'lv) meta_view \<Rightarrow> bool" where
  "library_laws L V \<longleftrightarrow>
     is_deep_copy (time_reading V) (Time_DeepCopy L) \<and>
     is_deep_copy (condition_reading V) (Condition_DeepCopyInto L) \<and>
     is_deep_copy (meta_reading V) (ObjectMeta_DeepCopyInto L) \<and>
     is_deep_copy (list_meta_reading V) (ListMeta_DeepCopyInto L)"

section \<open>The generated methods\<close>

definition NodeReference_DeepCopyInto :: "NodeReference \<Rightarrow> (('o, 'l, 'd, 'x) api_cell, NodeReference) heap_prog" where
  "NodeReference_DeepCopyInto x = return x"

definition NodeReference_DeepCopy :: "addr option \<Rightarrow> (('o, 'l, 'd, 'x) api_cell, addr option) heap_prog" where
  "NodeReference_DeepCopy = new_copy RefCell as_ref zero_ref NodeReference_DeepCopyInto"

definition CheckResult_DeepCopyInto :: "CheckResult \<Rightarrow> (('o, 'l, 'd, 'x) api_cell, CheckResult) heap_prog" where
  "CheckResult_DeepCopyInto x = return x"

definition CheckResult_DeepCopy :: "addr option \<Rightarrow> (('o, 'l, 'd, 'x) api_cell, addr option) heap_prog" where
  "CheckResult_DeepCopy = new_copy ResultCell as_result zero_result CheckResult_DeepCopyInto"

definition CheckNodeHealthSpec_DeepCopyInto :: "CheckNodeHealthSpec \<Rightarrow> (('o, 'l, 'd, 'x) api_cell, CheckNodeHealthSpec) heap_prog" where
  "CheckNodeHealthSpec_DeepCopyInto x = (let out = x in return (out\<lparr>NodeRef := NodeRef x\<rparr>))"

definition CheckNodeHealthSpec_DeepCopy :: "addr option \<Rightarrow> (('o, 'l, 'd, 'x) api_cell, addr option) heap_prog" where
  "CheckNodeHealthSpec_DeepCopy = new_copy SpecCell as_spec zero_spec CheckNodeHealthSpec_DeepCopyInto"

text \<open>The four nil tests are those of \<open>opt_copy\<close>, \<open>copy_slice\<close> and \<open>clone_slice\<close>.\<close>

definition CheckNodeHealthStatus_DeepCopyInto ::
  "('o, 'l, 'd, 'x) meta_lib \<Rightarrow> status_mem \<Rightarrow> (('o, 'l, 'd, 'x) api_cell, status_mem) heap_prog" where
  "CheckNodeHealthStatus_DeepCopyInto L x = do {
     let out = x;
     started \<leftarrow> opt_copy (Time_DeepCopy L) (memStartedAt x);
     finished \<leftarrow> opt_copy (Time_DeepCopy L) (memFinishedAt x);
     conditions \<leftarrow> copy_slice ConditionArray as_conditions (zeroCondition L) (Condition_DeepCopyInto L) (memConditions x);
     results \<leftarrow> clone_slice ResultArray as_results zero_result (memResults x);
     return (out\<lparr>memStartedAt := started, memFinishedAt := finished, memConditions := conditions, memResults := results\<rparr>) }"

definition CheckNodeHealthStatus_DeepCopy ::
  "('o, 'l, 'd, 'x) meta_lib \<Rightarrow> addr option \<Rightarrow> (('o, 'l, 'd, 'x) api_cell, addr option) heap_prog" where
  "CheckNodeHealthStatus_DeepCopy L = new_copy StatusCell as_status zero_status (CheckNodeHealthStatus_DeepCopyInto L)"

definition CheckNodeHealth_DeepCopyInto ::
  "('o, 'l, 'd, 'x) meta_lib \<Rightarrow> 'o cnh_mem \<Rightarrow> (('o, 'l, 'd, 'x) api_cell, 'o cnh_mem) heap_prog" where
  "CheckNodeHealth_DeepCopyInto L x = do {
     let out = x;
     m \<leftarrow> ObjectMeta_DeepCopyInto L (memMeta x);
     s \<leftarrow> CheckNodeHealthStatus_DeepCopyInto L (memStatus x);
     return (out\<lparr>memType := memType x, memMeta := m, memSpec := memSpec x, memStatus := s\<rparr>) }"

definition zero_cnh :: "('o, 'l, 'd, 'x) meta_lib \<Rightarrow> 'o cnh_mem" where
  "zero_cnh L = \<lparr>memType = ('''', ''''), memMeta = zeroObjectMeta L, memSpec = zero_spec, memStatus = zero_status\<rparr>"

definition CheckNodeHealth_DeepCopy ::
  "('o, 'l, 'd, 'x) meta_lib \<Rightarrow> addr option \<Rightarrow> (('o, 'l, 'd, 'x) api_cell, addr option) heap_prog" where
  "CheckNodeHealth_DeepCopy L = new_copy CnhCell as_cnh (zero_cnh L) (CheckNodeHealth_DeepCopyInto L)"

definition CheckNodeHealthList_DeepCopyInto ::
  "('o, 'l, 'd, 'x) meta_lib \<Rightarrow> 'l list_mem \<Rightarrow> (('o, 'l, 'd, 'x) api_cell, 'l list_mem) heap_prog" where
  "CheckNodeHealthList_DeepCopyInto L x = do {
     let out = x;
     m \<leftarrow> ListMeta_DeepCopyInto L (memListMeta x);
     items \<leftarrow> copy_slice ItemArray as_items (zero_cnh L) (CheckNodeHealth_DeepCopyInto L) (memItems x);
     return (out\<lparr>memListType := memListType x, memListMeta := m, memItems := items\<rparr>) }"

definition zero_list :: "('o, 'l, 'd, 'x) meta_lib \<Rightarrow> 'l list_mem" where
  "zero_list L = \<lparr>memListType = ('''', ''''), memListMeta = zeroListMeta L, memItems = NilSlice\<rparr>"

definition CheckNodeHealthList_DeepCopy ::
  "('o, 'l, 'd, 'x) meta_lib \<Rightarrow> addr option \<Rightarrow> (('o, 'l, 'd, 'x) api_cell, addr option) heap_prog" where
  "CheckNodeHealthList_DeepCopy L = new_copy ListCell as_list (zero_list L) (CheckNodeHealthList_DeepCopyInto L)"

text \<open>\<open>runtime.Object\<close>: a non-nil interface value holds a pointer of one of the two types, which may be nil;
  \<open>None\<close> is the nil interface. Calling the method on an interface value runs that of its type.\<close>

datatype runtime_object = CnhObject "addr option" | ListObject "addr option"

definition CheckNodeHealth_DeepCopyObject ::
  "('o, 'l, 'd, 'x) meta_lib \<Rightarrow> addr option \<Rightarrow> (('o, 'l, 'd, 'x) api_cell, runtime_object option) heap_prog" where
  "CheckNodeHealth_DeepCopyObject L p = do {
     c \<leftarrow> CheckNodeHealth_DeepCopy L p;
     return (if c \<noteq> None then Some (CnhObject c) else None) }"

definition CheckNodeHealthList_DeepCopyObject ::
  "('o, 'l, 'd, 'x) meta_lib \<Rightarrow> addr option \<Rightarrow> (('o, 'l, 'd, 'x) api_cell, runtime_object option) heap_prog" where
  "CheckNodeHealthList_DeepCopyObject L p = do {
     c \<leftarrow> CheckNodeHealthList_DeepCopy L p;
     return (if c \<noteq> None then Some (ListObject c) else None) }"

fun DeepCopyObject ::
  "('o, 'l, 'd, 'x) meta_lib \<Rightarrow> runtime_object \<Rightarrow> (('o, 'l, 'd, 'x) api_cell, runtime_object option) heap_prog" where
  "DeepCopyObject L (CnhObject p) = CheckNodeHealth_DeepCopyObject L p"
| "DeepCopyObject L (ListObject p) = CheckNodeHealthList_DeepCopyObject L p"

section \<open>What the structs denote\<close>

record status_view =
  viewStartedAt :: "time option"
  viewFinishedAt :: "time option"
  viewConditions :: "Condition list option"
  viewResults :: "CheckResult list option"

record cnh_view =
  viewType :: TypeMeta
  viewMeta :: ObjectMeta
  viewSpec :: CheckNodeHealthSpec
  viewStatus :: status_view

text \<open>The value the rest of the development works with: there nil slices are empty lists.\<close>

definition status_of_view :: "status_view \<Rightarrow> CheckNodeHealthStatus" where
  "status_of_view v = \<lparr>StartedAt = viewStartedAt v, FinishedAt = viewFinishedAt v,
     Conditions = (case viewConditions v of None \<Rightarrow> [] | Some cs \<Rightarrow> cs),
     Results = (case viewResults v of None \<Rightarrow> [] | Some rs \<Rightarrow> rs)\<rparr>"

definition status_reading :: "('o, 'l, 'd, 'x, 'lv) meta_view \<Rightarrow> (('o, 'l, 'd, 'x) api_cell, status_mem, status_view) reading" where
  "status_reading V =
     \<lparr>reads = (\<lambda>h x. \<lparr>viewStartedAt = opt_val (reads (time_reading V)) h (memStartedAt x),
                viewFinishedAt = opt_val (reads (time_reading V)) h (memFinishedAt x),
                viewConditions = slice_val as_conditions (reads (condition_reading V)) h (memConditions x),
                viewResults = slice_val as_results (\<lambda>h r. r) h (memResults x)\<rparr>),
      uses = (\<lambda>h x. opt_reach (uses (time_reading V)) h (memStartedAt x) \<union>
                opt_reach (uses (time_reading V)) h (memFinishedAt x) \<union>
                slice_reach as_conditions (uses (condition_reading V)) h (memConditions x) \<union>
                slice_reach as_results (\<lambda>h r. {}) h (memResults x)),
      present = (\<lambda>h x. opt_ok (present (time_reading V)) h (memStartedAt x) \<and>
                opt_ok (present (time_reading V)) h (memFinishedAt x) \<and>
                slice_ok as_conditions (present (condition_reading V)) h (memConditions x) \<and>
                slice_ok as_results (\<lambda>h r. True) h (memResults x))\<rparr>"

definition cnh_reading :: "('o, 'l, 'd, 'x, 'lv) meta_view \<Rightarrow> (('o, 'l, 'd, 'x) api_cell, 'o cnh_mem, cnh_view) reading" where
  "cnh_reading V =
     \<lparr>reads = (\<lambda>h x. \<lparr>viewType = memType x, viewMeta = reads (meta_reading V) h (memMeta x), viewSpec = memSpec x,
                viewStatus = reads (status_reading V) h (memStatus x)\<rparr>),
      uses = (\<lambda>h x. uses (meta_reading V) h (memMeta x) \<union> uses (status_reading V) h (memStatus x)),
      present = (\<lambda>h x. present (meta_reading V) h (memMeta x) \<and> present (status_reading V) h (memStatus x))\<rparr>"

definition list_reading :: "('o, 'l, 'd, 'x, 'lv) meta_view \<Rightarrow> (('o, 'l, 'd, 'x) api_cell, 'l list_mem, TypeMeta \<times> 'lv \<times> cnh_view list option) reading" where
  "list_reading V =
     \<lparr>reads = (\<lambda>h x. (memListType x, reads (list_meta_reading V) h (memListMeta x), slice_val as_items (reads (cnh_reading V)) h (memItems x))),
      uses = (\<lambda>h x. uses (list_meta_reading V) h (memListMeta x) \<union> slice_reach as_items (uses (cnh_reading V)) h (memItems x)),
      present = (\<lambda>h x. present (list_meta_reading V) h (memListMeta x) \<and> slice_ok as_items (present (cnh_reading V)) h (memItems x))\<rparr>"

section \<open>Each method is a deep copy\<close>

lemma all_fields:
  fixes x :: status_mem and c :: "'o cnh_mem" and l :: "'l list_mem"
  shows "x\<lparr>memStartedAt := s, memFinishedAt := f, memConditions := cs, memResults := rs\<rparr> =
      \<lparr>memStartedAt = s, memFinishedAt = f, memConditions = cs, memResults = rs\<rparr>"
    and "c\<lparr>memType := ty, memMeta := m, memSpec := sp, memStatus := st\<rparr> = \<lparr>memType = ty, memMeta = m, memSpec = sp, memStatus = st\<rparr>"
    and "l\<lparr>memListType := ty, memListMeta := lm, memItems := it\<rparr> = \<lparr>memListType = ty, memListMeta = lm, memItems = it\<rparr>"
  by simp_all

lemma status_copier:
  assumes "library_laws L V"
  shows "is_deep_copy (status_reading V) (CheckNodeHealthStatus_DeepCopyInto L)"
proof -
  have t: "deep_copier (reads (time_reading V)) (uses (time_reading V)) (present (time_reading V)) (Time_DeepCopy L)"
    and c: "deep_copier (reads (condition_reading V)) (uses (condition_reading V)) (present (condition_reading V)) (Condition_DeepCopyInto L)"
    using assms by (auto simp: library_laws_def is_deep_copy_def)
  note times = pair_deep_copier [OF deep_copier.optional_deep_copier [OF t] deep_copier.optional_deep_copier [OF t]]
  have "array_copier (reads (condition_reading V)) (uses (condition_reading V)) (present (condition_reading V)) (Condition_DeepCopyInto L)
      ConditionArray as_conditions"
    by (intro array_copier.intro array_copier_axioms.intro c) simp
  note slices = pair_deep_copier [OF array_copier.array_deep_copier [OF this, where zero = "zeroCondition L"]
    clone_slice_copier [where mk = ResultArray and arr = as_results and zero = zero_result]]
  note all = struct_deep_copier [OF pair_deep_copier [OF times slices],
    where flds = "\<lambda>x. ((memStartedAt x, memFinishedAt x), (memConditions x, memResults x))"
      and mks = "\<lambda>t. \<lparr>memStartedAt = fst (fst t), memFinishedAt = snd (fst t), memConditions = fst (snd t), memResults = snd (snd t)\<rparr>"
      and view = "\<lambda>t. \<lparr>viewStartedAt = fst (fst t), viewFinishedAt = snd (fst t), viewConditions = fst (snd t), viewResults = snd (snd t)\<rparr>"]
  show ?thesis
    unfolding is_deep_copy_def status_reading_def CheckNodeHealthStatus_DeepCopyInto_def
    using all by (simp add: Un_assoc conj_assoc all_fields)
qed

lemma cnh_copier:
  assumes "library_laws L V"
  shows "is_deep_copy (cnh_reading V) (CheckNodeHealth_DeepCopyInto L)"
proof -
  have m: "deep_copier (reads (meta_reading V)) (uses (meta_reading V)) (present (meta_reading V)) (ObjectMeta_DeepCopyInto L)"
    using assms by (simp add: library_laws_def is_deep_copy_def)
  note all = struct_deep_copier [OF pair_deep_copier [OF flat.deep_copier_axioms pair_deep_copier [OF m status_copier [OF assms, unfolded is_deep_copy_def]]],
    where flds = "\<lambda>x. ((memType x, memSpec x), (memMeta x, memStatus x))"
      and mks = "\<lambda>t. \<lparr>memType = fst (fst t), memMeta = fst (snd t), memSpec = snd (fst t), memStatus = snd (snd t)\<rparr>"
      and view = "\<lambda>t. \<lparr>viewType = fst (fst t), viewMeta = fst (snd t), viewSpec = snd (fst t), viewStatus = snd (snd t)\<rparr>"]
  show ?thesis
    unfolding is_deep_copy_def cnh_reading_def CheckNodeHealth_DeepCopyInto_def
    using all by (simp add: all_fields flat_copy_def)
qed

lemma list_copier:
  assumes "library_laws L V"
  shows "is_deep_copy (list_reading V) (CheckNodeHealthList_DeepCopyInto L)"
proof -
  have m: "deep_copier (reads (list_meta_reading V)) (uses (list_meta_reading V)) (present (list_meta_reading V)) (ListMeta_DeepCopyInto L)"
    using assms by (simp add: library_laws_def is_deep_copy_def)
  have "array_copier (reads (cnh_reading V)) (uses (cnh_reading V)) (present (cnh_reading V)) (CheckNodeHealth_DeepCopyInto L) ItemArray as_items"
    by (intro array_copier.intro array_copier_axioms.intro cnh_copier [OF assms, unfolded is_deep_copy_def]) simp
  note all = struct_deep_copier [OF pair_deep_copier [OF flat.deep_copier_axioms
      pair_deep_copier [OF m array_copier.array_deep_copier [OF this, where zero = "zero_cnh L"]]],
    where flds = "\<lambda>x. (memListType x, (memListMeta x, memItems x))"
      and mks = "\<lambda>t. \<lparr>memListType = fst t, memListMeta = fst (snd t), memItems = snd (snd t)\<rparr>" and view = "\<lambda>t. t"]
  show ?thesis
    unfolding is_deep_copy_def list_reading_def CheckNodeHealthList_DeepCopyInto_def
    using all by (simp add: all_fields flat_copy_def)
qed

interpretation reference: pointer_copier "\<lambda>h x. x" "\<lambda>h x. {}" "\<lambda>h x. True" NodeReference_DeepCopyInto RefCell as_ref zero_ref
  by unfold_locales (auto simp: NodeReference_DeepCopyInto_def)

interpretation check_result: pointer_copier "\<lambda>h x. x" "\<lambda>h x. {}" "\<lambda>h x. True" CheckResult_DeepCopyInto ResultCell as_result zero_result
  by unfold_locales (auto simp: CheckResult_DeepCopyInto_def)

interpretation spec: pointer_copier "\<lambda>h x. x" "\<lambda>h x. {}" "\<lambda>h x. True" CheckNodeHealthSpec_DeepCopyInto SpecCell as_spec zero_spec
  by unfold_locales (auto simp: CheckNodeHealthSpec_DeepCopyInto_def)

interpretation result_array: array_copier "\<lambda>h x. x" "\<lambda>h x. {}" "\<lambda>h x. True" CheckResult_DeepCopyInto ResultArray as_results zero_result
  by unfold_locales simp

text \<open>For the results the generator chose the built-in \<open>copy\<close>; the loop it writes elsewhere would do the same.\<close>

lemma check_result_flat: "CheckResult_DeepCopyInto = flat_copy"
  by (rule ext) (simp add: CheckResult_DeepCopyInto_def flat_copy_def)

lemma results_copied_as_by_loop:
  assumes "wf_heap h" "slice_ok as_results (\<lambda>h r. True) h s"
  shows "run_state (clone_slice ResultArray as_results zero_result s) h =
    run_state (copy_slice ResultArray as_results zero_result CheckResult_DeepCopyInto s) h"
  using clone_slice_loop [OF as_cell_mk(9) assms] by (simp add: check_result_flat)

lemma small_pointers:
  "deep_copier (ptr_val as_ref (\<lambda>h x. x)) (ptr_reach as_ref (\<lambda>h x. {})) (ptr_ok as_ref (\<lambda>h x. True)) NodeReference_DeepCopy"
  "deep_copier (ptr_val as_result (\<lambda>h x. x)) (ptr_reach as_result (\<lambda>h x. {})) (ptr_ok as_result (\<lambda>h x. True)) CheckResult_DeepCopy"
  "deep_copier (ptr_val as_spec (\<lambda>h x. x)) (ptr_reach as_spec (\<lambda>h x. {})) (ptr_ok as_spec (\<lambda>h x. True)) CheckNodeHealthSpec_DeepCopy"
  unfolding NodeReference_DeepCopy_def CheckResult_DeepCopy_def CheckNodeHealthSpec_DeepCopy_def
  by (rule reference.pointer_deep_copier check_result.pointer_deep_copier spec.pointer_deep_copier)+

lemma status_pointer:
  assumes "library_laws L V"
  shows "deep_copier (ptr_val as_status (reads (status_reading V))) (ptr_reach as_status (uses (status_reading V)))
    (ptr_ok as_status (present (status_reading V))) (CheckNodeHealthStatus_DeepCopy L)"
  unfolding CheckNodeHealthStatus_DeepCopy_def
  by (intro pointer_copier.pointer_deep_copier pointer_copier.intro pointer_copier_axioms.intro
      status_copier [OF assms, unfolded is_deep_copy_def]) simp

lemma cnh_pointer:
  assumes "library_laws L V"
  shows "deep_copier (ptr_val as_cnh (reads (cnh_reading V))) (ptr_reach as_cnh (uses (cnh_reading V)))
    (ptr_ok as_cnh (present (cnh_reading V))) (CheckNodeHealth_DeepCopy L)"
  unfolding CheckNodeHealth_DeepCopy_def
  by (intro pointer_copier.pointer_deep_copier pointer_copier.intro pointer_copier_axioms.intro
      cnh_copier [OF assms, unfolded is_deep_copy_def]) simp

lemma list_pointer:
  assumes "library_laws L V"
  shows "deep_copier (ptr_val as_list (reads (list_reading V))) (ptr_reach as_list (uses (list_reading V)))
    (ptr_ok as_list (present (list_reading V))) (CheckNodeHealthList_DeepCopy L)"
  unfolding CheckNodeHealthList_DeepCopy_def
  by (intro pointer_copier.pointer_deep_copier pointer_copier.intro pointer_copier_axioms.intro
      list_copier [OF assms, unfolded is_deep_copy_def]) simp

section \<open>Objects\<close>

datatype 'lv object_view = CnhView cnh_view | ListView "TypeMeta \<times> 'lv \<times> cnh_view list option"

fun object_val :: "('o, 'l, 'd, 'x, 'lv) meta_view \<Rightarrow> ('o, 'l, 'd, 'x) api_heap \<Rightarrow> runtime_object \<Rightarrow> 'lv object_view option" where
  "object_val V h (CnhObject p) = map_option CnhView (ptr_val as_cnh (reads (cnh_reading V)) h p)"
| "object_val V h (ListObject p) = map_option ListView (ptr_val as_list (reads (list_reading V)) h p)"

fun object_present :: "('o, 'l, 'd, 'x, 'lv) meta_view \<Rightarrow> ('o, 'l, 'd, 'x) api_heap \<Rightarrow> runtime_object \<Rightarrow> bool" where
  "object_present V h (CnhObject p) \<longleftrightarrow> p \<noteq> None \<and> ptr_ok as_cnh (present (cnh_reading V)) h p"
| "object_present V h (ListObject p) \<longleftrightarrow> p \<noteq> None \<and> ptr_ok as_list (present (list_reading V)) h p"

lemma nil_stays_nil:
  "run_state (DeepCopyObject L (CnhObject None)) h = (None, h)"
  "run_state (DeepCopyObject L (ListObject None)) h = (None, h)"
  by (simp_all add: CheckNodeHealth_DeepCopyObject_def CheckNodeHealthList_DeepCopyObject_def CheckNodeHealth_DeepCopy_def
      CheckNodeHealthList_DeepCopy_def new_copy_def)

lemma ptr_ok_val: "ptr_ok dest q h p \<Longrightarrow> p \<noteq> None \<Longrightarrow> ptr_val dest v h p \<noteq> None"
  by (cases p) (auto split: option.splits)

lemma ptr_val_Some: "ptr_val dest v h p \<noteq> None \<Longrightarrow> p \<noteq> None"
  by (cases p) auto

lemmas object_method_defs = CheckNodeHealth_DeepCopyObject_def CheckNodeHealthList_DeepCopyObject_def

text \<open>C28: A deep copy of an object shares no memory with it. The method returns an object of the same type that
  denotes the same value, nil slices and nil times included; whatever is afterwards written to memory that
  existed before the copy, the copy keeps that value, and whatever is written to the copy's memory, the original
  keeps its own. Hypotheses: the copies of the library's types are deep copies, and the object is all there.\<close>

theorem deep_copy_shares_nothing:
  assumes "library_laws L V" "wf_heap h" "object_present V h obj" "run_state (DeepCopyObject L obj) h = (r, h')"
  shows "\<exists>obj'. r = Some obj' \<and> object_val V h' obj' = object_val V h obj \<and> object_val V h obj \<noteq> None \<and>
    (\<forall>h2. (\<forall>a. a \<notin> dom (cells h) \<longrightarrow> cells h2 a = cells h' a) \<longrightarrow> object_val V h2 obj' = object_val V h obj) \<and>
    (\<forall>h2. (\<forall>a \<in> dom (cells h). cells h2 a = cells h' a) \<longrightarrow> object_val V h2 obj = object_val V h obj)"
proof (cases obj)
  case (CnhObject p)
  note copier = cnh_pointer [OF assms(1)]
  obtain q where q: "run_state (CheckNodeHealth_DeepCopy L p) h = (q, h')" "r = (if q \<noteq> None then Some (CnhObject q) else None)"
    using assms(4) CnhObject by (auto simp: object_method_defs split: prod.splits)
  have p: "ptr_ok as_cnh (present (cnh_reading V)) h p" "p \<noteq> None" using assms(3) CnhObject by auto
  note c = deep_copier.copied [OF copier assms(2) p(1) q(1)] ptr_ok_val [OF p, of "reads (cnh_reading V)"]
  then have "q \<noteq> None" using ptr_val_Some by metis
  then show ?thesis
    using c q(2) CnhObject deep_copier.copy_independent [OF copier assms(2) p(1) q(1)]
      deep_copier.original_independent [OF copier assms(2) p(1) q(1)] by auto
next
  case (ListObject p)
  note copier = list_pointer [OF assms(1)]
  obtain q where q: "run_state (CheckNodeHealthList_DeepCopy L p) h = (q, h')" "r = (if q \<noteq> None then Some (ListObject q) else None)"
    using assms(4) ListObject by (auto simp: object_method_defs split: prod.splits)
  have p: "ptr_ok as_list (present (list_reading V)) h p" "p \<noteq> None" using assms(3) ListObject by auto
  note c = deep_copier.copied [OF copier assms(2) p(1) q(1)] ptr_ok_val [OF p, of "reads (list_reading V)"]
  then have "q \<noteq> None" using ptr_val_Some by metis
  then show ?thesis
    using c q(2) ListObject deep_copier.copy_independent [OF copier assms(2) p(1) q(1)]
      deep_copier.original_independent [OF copier assms(2) p(1) q(1)] by auto
qed

text \<open>A library that keeps the laws, with times and metadata in cells of their own, and a resource in memory.\<close>

definition boxed :: "('o, 'l, 'd, 'x) api_cell option \<Rightarrow> 'x option" where
  "boxed c = (case c of Some (LibCell y) \<Rightarrow> Some y | _ \<Rightarrow> None)"

definition box_copy :: "'x \<Rightarrow> addr \<Rightarrow> (('o, 'l, 'd, 'x) api_cell, addr) heap_prog" where
  "box_copy z a = do { c \<leftarrow> load a; alloc (LibCell (case boxed c of None \<Rightarrow> z | Some y \<Rightarrow> y)) }"

definition box_reading :: "('x \<Rightarrow> 'v) \<Rightarrow> 'x \<Rightarrow> (('o, 'l, 'd, 'x) api_cell, addr, 'v) reading" where
  "box_reading f z = \<lparr>reads = (\<lambda>h a. f (case boxed (cells h a) of None \<Rightarrow> z | Some y \<Rightarrow> y)),
     uses = (\<lambda>h a. {a}), present = (\<lambda>h a. boxed (cells h a) \<noteq> None)\<rparr>"

lemma box_deep_copy:
  fixes f :: "'x \<Rightarrow> 'v"
  shows "is_deep_copy (box_reading f z :: (('o, 'l, 'd, 'x) api_cell, addr, 'v) reading) (box_copy z)"
  unfolding is_deep_copy_def
proof
  fix h h' :: "('o, 'l, 'd, 'x) api_heap" and x y
  assume a: "wf_heap h" "present (box_reading f z) h x" "run_state (box_copy z x) h = (y, h')"
  obtain b where "boxed (cells h x) = Some b" using a(2) by (auto simp: box_reading_def)
  then show "wf_heap h' \<and> extends h h' \<and> present (box_reading f z) h' y \<and>
      reads (box_reading f z) h' y = reads (box_reading f z) h x \<and> uses (box_reading f z) h' y \<inter> dom (cells h) = {}"
    using a(1,3) wf_alloc [OF a(1)] extends_alloc [OF a(1)] wf_fresh [OF a(1)]
    by (auto simp: box_copy_def box_reading_def boxed_def)
qed (auto simp: box_reading_def boxed_def split: option.splits api_cell.splits)

definition example_lib :: "(addr, string, Condition, ObjectMeta + time) meta_lib" where
  "example_lib = \<lparr>Time_DeepCopy = box_copy (Inr zero_time), Condition_DeepCopyInto = flat_copy,
     ObjectMeta_DeepCopyInto = box_copy (Inr zero_time), ListMeta_DeepCopyInto = flat_copy,
     zeroCondition = \<lparr>condType = '''', condStatus = '''', condReason = '''', condMessage = '''', condTransition = zero_time\<rparr>,
     zeroObjectMeta = 0, zeroListMeta = ''''\<rparr>"

definition flat_reading :: "('c, 'a, 'a) reading" where
  "flat_reading = \<lparr>reads = (\<lambda>h x. x), uses = (\<lambda>h x. {}), present = (\<lambda>h x. True)\<rparr>"

definition example_view :: "(addr, string, Condition, ObjectMeta + time, string) meta_view" where
  "example_view = \<lparr>time_reading = box_reading (\<lambda>y. case y of Inl m \<Rightarrow> zero_time | Inr t \<Rightarrow> t) (Inr zero_time),
     condition_reading = flat_reading,
     meta_reading = box_reading (\<lambda>y. case y of Inl m \<Rightarrow> m | Inr t \<Rightarrow> meta ''none'') (Inr zero_time),
     list_meta_reading = flat_reading\<rparr>"

lemma example_laws: "library_laws example_lib example_view"
  by (simp add: library_laws_def example_lib_def example_view_def box_deep_copy flat_reading_def is_deep_copy_def
      flat.deep_copier_axioms box_deep_copy [unfolded is_deep_copy_def])

definition example_heap :: "(addr, string, Condition, ObjectMeta + time) api_heap" where
  "example_heap = \<lparr>cells =
     [0 \<mapsto> CnhCell \<lparr>memType = (''CheckNodeHealth'', ''v1alpha1''), memMeta = 1, memSpec = \<lparr>NodeRef = \<lparr>refName = ''n1''\<rparr>\<rparr>,
        memStatus = \<lparr>memStartedAt = Some 2, memFinishedAt = None, memConditions = NilSlice, memResults = Slice 3 1 1\<rparr>\<rparr>,
      1 \<mapsto> LibCell (Inl (meta ''c'')), 2 \<mapsto> LibCell (Inr 5),
      3 \<mapsto> ResultArray [zero_result, zero_result\<lparr>crName := ''PodNetwork''\<rparr>]], next_addr = 4\<rparr>"

lemma deep_copy_shares_nothing_witness:
  "\<exists>obj'. fst (run_state (DeepCopyObject example_lib (CnhObject (Some 0))) example_heap) = Some obj' \<and>
     object_val example_view (snd (run_state (DeepCopyObject example_lib (CnhObject (Some 0))) example_heap)) obj' =
       Some (CnhView \<lparr>viewType = (''CheckNodeHealth'', ''v1alpha1''), viewMeta = meta ''c'', viewSpec = \<lparr>NodeRef = \<lparr>refName = ''n1''\<rparr>\<rparr>,
         viewStatus = \<lparr>viewStartedAt = Some 5, viewFinishedAt = None, viewConditions = None,
           viewResults = Some [zero_result\<lparr>crName := ''PodNetwork''\<rparr>]\<rparr>\<rparr>)"
proof -
  note defs = example_heap_def example_view_def cnh_reading_def status_reading_def box_reading_def flat_reading_def
    deref_def as_cell_def opt_defs window_def boxed_def
  have "wf_heap example_heap" by (auto simp: wf_heap_def example_heap_def)
  moreover have "object_present example_view example_heap (CnhObject (Some 0))" by (simp add: defs)
  moreover have "object_val example_view example_heap (CnhObject (Some 0)) =
       Some (CnhView \<lparr>viewType = (''CheckNodeHealth'', ''v1alpha1''), viewMeta = meta ''c'', viewSpec = \<lparr>NodeRef = \<lparr>refName = ''n1''\<rparr>\<rparr>,
         viewStatus = \<lparr>viewStartedAt = Some 5, viewFinishedAt = None, viewConditions = None,
           viewResults = Some [zero_result\<lparr>crName := ''PodNetwork''\<rparr>]\<rparr>\<rparr>)" by (simp add: defs)
  ultimately show ?thesis
    using deep_copy_shares_nothing [OF example_laws, of example_heap "CnhObject (Some 0)"] by (metis prod.collapse)
qed

section \<open>Registration\<close>

text \<open>\<open>register.go\<close>. A scheme is the library's; what it does to one is a parameter.\<close>

record GroupVersion =
  gvGroup :: string
  gvVersion :: string

definition GroupName :: string where "GroupName = ''clusterhealthmonitor.azure.com''"
definition Version :: string where "Version = ''v1alpha1''"

definition SchemeGroupVersion :: GroupVersion where
  "SchemeGroupVersion = \<lparr>gvGroup = GroupName, gvVersion = Version\<rparr>"

text \<open>\<open>WithResource(r).GroupResource()\<close>: the group and the resource.\<close>

definition Resource :: "string \<Rightarrow> string \<times> string" where
  "Resource r = (gvGroup SchemeGroupVersion, r)"

definition addKnownTypes ::
  "('s \<Rightarrow> GroupVersion \<Rightarrow> runtime_object list \<Rightarrow> 's) \<Rightarrow> ('s \<Rightarrow> GroupVersion \<Rightarrow> 's) \<Rightarrow> runtime_object * runtime_object \<Rightarrow> 's \<Rightarrow> 's \<times> go_error option" where
  "addKnownTypes AddKnownTypes AddToGroupVersion fresh scheme =
     (let s = AddKnownTypes scheme SchemeGroupVersion [fst fresh, snd fresh] in (AddToGroupVersion s SchemeGroupVersion, None))"

end
