(* ===== verification/Spec2Isabelle.thy ===== *)
theory Spec2Isabelle
  imports ControllerProgram Monitor SignalVerdicts NodePatches DeepCopy
begin

text \<open>
  The cluster health monitor: a verification library of its Go sources.

  \<^bold>\<open>The system.\<close> Three programs. The \<^emph>\<open>cluster health monitor\<close> (\<open>cmd/clusterhealthmonitor\<close>) parses a
  configuration (\<open>pkg/config\<close>), builds one checker per entry from a registry (\<open>pkg/checker\<close>), and runs
  them on a schedule (\<open>pkg/scheduler\<close>); each run ends in a verdict that is counted in Prometheus
  counters (\<open>pkg/metrics\<close>). The \<^emph>\<open>controller\<close> (\<open>cmd/controller/checknodehealth\<close>) reconciles
  \<open>CheckNodeHealth\<close> resources: it runs a pod on the node, collects the results of the checks, declares
  a verdict and mirrors it to a node condition behind a circuit breaker; two more reconcilers create such
  resources, one for rebooted nodes and one for \<open>HealthCheckRequest\<close> objects. The \<^emph>\<open>node checker\<close>
  (\<open>cmd/nodechecker\<close>) is what that pod runs: it probes the pod network and appends its result to the
  resource. The programs meet in the status of \<open>CheckNodeHealth\<close>, whose schema the server enforces.

  \<^bold>\<open>How it is modelled.\<close> Pure functions are HOL functions; data are records with the fields the sources
  read or write; \<open>int\<close> and \<open>time.Duration\<close> are 64-bit words where they are computed with; instants are
  unbounded integers of nanoseconds with Go's saturating subtraction; Go strings are lists of
  characters. A function with effects is a program of a state monad (theory GoRuntime) over an
  arbitrary outside world and the log of its calls; the API clients, the clock, the dialer, the resolver,
  \<open>retry.Do\<close> and \<open>wait.PollUntilContextCancel\<close> are fields of an environment record per component,
  arbitrary functions on that world. \<open>emits m Q s\<close> says that the run of \<open>m\<close> from \<open>s\<close> appends calls \<open>es\<close> to
  the log such that \<open>Q\<close> holds of the result, \<open>es\<close> and the final state: a property of this form holds
  against every server, clock and interleaving of the outside world. What a property needs of a library
  beyond that is a named law (\<open>echoes\<close>, \<open>finalizer_laws\<close>, \<open>controller_law\<close>, \<open>owner_law\<close>, \<open>retry_law\<close>,
  \<open>poll_law\<close>, \<open>dial_law\<close>, \<open>attempts_law\<close>, \<open>signal_server\<close>, \<open>wake_law\<close>, \<open>merge_law\<close>, \<open>library_laws\<close>), with a concrete environment that keeps it. Errors are values of \<open>go_error\<close>
  (sentinels, API statuses, wrapping, joins), a nil dereference is \<open>None\<close>.

  \<^bold>\<open>Theories.\<close>
  \<^item> Prelude, GoRuntime: the parts of the standard library, errors, the monad, the calculus of \<open>emits\<close>;
    GoDuration: \<open>time.ParseDuration\<close> and \<open>Round\<close>; GoLoops: loops run by a library.
  \<^item> KubeObjects: the objects (\<open>apis/chm/v1alpha1/types.go\<close> and the fields used of the Kubernetes types).
  \<^item> CircuitBreaker (\<open>circuit_breaker.go\<close>): refinement of a specification that never forgets an event,
    cooldown, tripping and recovery, and that it may stay open for good.
  \<^item> CheckResults, CnhApi, CnhPod, CnhController (\<open>pkg/controller/checknodehealth\<close>): the model. CnhTraces:
    the protocol of the reconciler as inductive relations, and that every run keeps it. CnhSafety,
    CnhLimits: verdicts, finality, finalizer, node condition, pod creation, outcomes, breaker, names.
  \<^item> Sha256, NodeController, NodeSafety (\<open>pkg/controller/node\<close>): reboot detection, and when a boot is
    recorded, checked, retried; NodePatches: what the patches do to a node changed meanwhile.
  \<^item> HcrController (\<open>pkg/controller/healthcheckrequest\<close>): signals mirror finished checks, objects are
    found again, events of created checks wake their request.
  \<^item> CheckLifecycle: controllers and node checkers at work on one resource at the same time, against an API
    server with optimistic concurrency, stale reads and lost answers; the stored status refines a lifecycle
    of four transitions, and verdicts are final. SignalVerdicts: so are those of the signals.
  \<^item> CrdTypes (the markers of \<open>types.go\<close>): what the writers of the status send against the
    schema: the controller keeps it, the node checker exactly when the check was marked as started before.
    ControllerProgram (\<open>cmd/controller/checknodehealth/main.go\<close> and the three \<open>SetupWithManager\<close>): flags,
    cache rules, watches and reconcilers fit.
  \<^item> GoHeap, DeepCopy (\<open>zz_generated.deepcopy.go\<close>, \<open>register.go\<close>): an explicit memory of pointers and slices,
    and that the generated copies share none of it, which is what lets the other theories use values.
  \<^item> Config (\<open>pkg/config\<close>): what is accepted, and where that departs from the documented rules; every error is
    reported; the time budget (what it is for is in StartupSafety).
  \<^item> CheckerCore (\<open>pkg/checker\<close>): results, registry, recording, and the locale \<open>conclusive_checker\<close> that
    the checkers interpret; CheckerGC: the garbage collection loop they share (locale \<open>age_gc\<close>).
  \<^item> DnsCheck, PodStartup, StartupSafety, ApiServer, MetricsCheck, AzurePolicy, PodNetwork (the packages
    under \<open>pkg/checker\<close>): the checks, why each verdict is given, and that the deletion of what
    is created is asked for.
  \<^item> NodeCheckerRunner (\<open>pkg/nodecheckerrunner\<close>, \<open>cmd/nodechecker\<close>): the last attempt is what is reported.
  \<^item> Scheduler (\<open>pkg/scheduler\<close>): goroutines and tickers as a labelled transition system; pacing,
    exclusion, deadlines, shutdown. MetricsServer (\<open>pkg/metrics/server.go\<close>). Monitor (\<open>cmd/clusterhealthmonitor\<close>):
    a configuration that parses can be scheduled, every run is counted once, how the program ends.

  \<^bold>\<open>Interfaces.\<close> \<open>keyed_upsert\<close> (tables updated by key), \<open>node_breaker\<close> (what a client of the breaker may
  rely on), \<open>conclusive_checker\<close> (a check that can be recorded), \<open>age_gc\<close> (deletion by age) and
  \<open>deep_copier\<close> (a copy without sharing, extended by \<open>pointer_copier\<close> and \<open>array_copier\<close>) are locales, each
  interpreted on the definitions of the code.

  \<^bold>\<open>Bounds and fuel.\<close> The only fuel is that of \<open>parse_components\<close>: one unit per character, which is enough
  because every component consumes one (\<open>parse_components_fuel\<close>). The retry loops end by their count; the
  schema property assumes at most 120 results, for which the summary fits the bound of 32768 characters.

  \<^bold>\<open>Not modelled.\<close> Log output; what a scheme does with the registered types, and what controller-runtime does
  with a watch beyond the requests it makes; serving HTTP; the lookups of
  \<open>net.Resolver\<close> and the YAML decoder, which are parameters; contexts, except for the deadline errors a
  call may return and the cancellation of the scheduler; the mutexes of the breaker and of the warning
  handler, whose methods are atomic steps. Tests, charts and manifests have no model.
\<close>

end
